(* ===== verification/CRC_Prelude.thy ===== *)
theory CRC_Prelude
  imports Main
begin

text \<open>
  Shared vocabulary of the development: Go error values, the collections of
  simplification rules the component theories extend, and the few facts about
  lists and strings that several components need.

  A Go function that returns only an \<open>error\<close> is modelled as returning
  \<open>go_error option\<close>, with \<open>None\<close> for \<open>nil\<close>. The sentinel errors the code
  compares with \<open>==\<close> are constructors of their own; every other error value is
  \<open>GoErr\<close> of its message.
\<close>

named_theorems go_simps \<open>unfolding rules for the small accessors of the model\<close>
named_theorems inv_intros \<open>preservation of the invariants of a component\<close>

datatype go_error =
    ErrDeploymentNotFound
  | ErrDeploymentNotHealthy
  | ReleaseNotFound
  | PluginStateNotFound
  | GoErr string

fun err_msg :: "go_error \<Rightarrow> string" where
  "err_msg ErrDeploymentNotFound = ''deployment_not_found''"
| "err_msg ErrDeploymentNotHealthy = ''deployment_not_healthy''"
| "err_msg ReleaseNotFound = ''release not found''"
| "err_msg PluginStateNotFound = ''plugin state not found''"
| "err_msg (GoErr s) = s"

text \<open>\<open>fmt.Errorf("...: %s", err)\<close>: a new error whose message ends in the old one's.\<close>

definition wrap_err :: "string \<Rightarrow> go_error \<Rightarrow> go_error" where
  "wrap_err msg e = GoErr (msg @ err_msg e)"

lemma wrap_err_not_sentinel [simp]:
  "wrap_err m e \<noteq> ErrDeploymentNotFound"
  "wrap_err m e \<noteq> ErrDeploymentNotHealthy"
  "wrap_err m e \<noteq> ReleaseNotFound"
  "wrap_err m e \<noteq> PluginStateNotFound"
  by (simp_all add: wrap_err_def)

text \<open>
  The result of a method that returns only an error but may also panic: the Go
  runtime unwinds the goroutine at a nil dereference, a write to a nil map or a
  failed type assertion.
\<close>

datatype ret = Ok | Err go_error | Panic

fun ret_of :: "go_error option \<Rightarrow> ret" where
  "ret_of None = Ok"
| "ret_of (Some e) = Err e"

lemma ret_of_eq [simp]:
  "ret_of x = Ok \<longleftrightarrow> x = None"
  "ret_of x = Err e \<longleftrightarrow> x = Some e"
  "ret_of x \<noteq> Panic"
  by (cases x; simp)+

text \<open>One call after another, stopped at the first that does not return \<open>nil\<close>.\<close>

definition and_then :: "('w \<Rightarrow> ret \<times> 'w) \<Rightarrow> ('w \<Rightarrow> ret \<times> 'w) \<Rightarrow> 'w \<Rightarrow> ret \<times> 'w" where
  "and_then f g w = (case f w of (Ok, w1) \<Rightarrow> g w1 | (r, w1) \<Rightarrow> (r, w1))"

lemma and_then_ok: "and_then f g w = (Ok, w2) \<longleftrightarrow> (\<exists>w1. f w = (Ok, w1) \<and> g w1 = (Ok, w2))"
  by (auto simp: and_then_def split: prod.splits ret.splits)

text \<open>
  The same for a function with results: it returns them or panics. \<open>bind_res\<close> goes on
  with the results and the world.
\<close>

datatype 'a res = Returned 'a | Panicked

definition bind_res :: "'a res \<times> 'w \<Rightarrow> ('a \<Rightarrow> 'w \<Rightarrow> 'b res \<times> 'w) \<Rightarrow> 'b res \<times> 'w" where
  "bind_res rw k = (case rw of (Returned a, w) \<Rightarrow> k a w | (Panicked, w) \<Rightarrow> (Panicked, w))"

lemma bind_res_simps [simp]:
  "bind_res (Returned a, w) k = k a w" "bind_res (Panicked, w) k = (Panicked, w)"
  by (simp_all add: bind_res_def)

lemma bind_res_returned:
  "bind_res rw k = (Returned b, w2) \<longleftrightarrow> (\<exists>a w1. rw = (Returned a, w1) \<and> k a w1 = (Returned b, w2))"
  by (cases rw; cases "fst rw") auto

subsection \<open>Strings as Go uses them\<close>

definition has_prefix :: "string \<Rightarrow> string \<Rightarrow> bool" where
  "has_prefix s p \<longleftrightarrow> take (length p) s = p"

definition has_suffix :: "string \<Rightarrow> string \<Rightarrow> bool" where
  "has_suffix s p \<longleftrightarrow> length p \<le> length s \<and> drop (length s - length p) s = p"

fun str_contains :: "string \<Rightarrow> string \<Rightarrow> bool" where
  "str_contains [] sub = (sub = [])"
| "str_contains (c # s) sub = (has_prefix (c # s) sub \<or> str_contains s sub)"

lemma has_prefix_iff: "has_prefix s p \<longleftrightarrow> (\<exists>t. s = p @ t)"
  by (auto simp: has_prefix_def) (metis append_take_drop_id)

lemma has_prefix_append [simp]: "has_prefix (p @ t) p"
  by (simp add: has_prefix_def)

lemma has_prefix_cancel [simp]: "has_prefix (p @ s) (p @ t) \<longleftrightarrow> has_prefix s t"
  by (simp add: has_prefix_def)

lemma has_suffix_iff: "has_suffix s p \<longleftrightarrow> (\<exists>t. s = t @ p)"
  by (auto simp: has_suffix_def) (metis append_take_drop_id)

lemma has_suffix_append [simp]: "has_suffix (t @ p) p"
  by (simp add: has_suffix_def)

lemma has_suffix_same_length:
  assumes "length p = length q"
  shows "has_suffix (t @ p) q \<longleftrightarrow> p = q"
  using assms by (auto simp: has_suffix_iff)

text \<open>The selector convention of the runtimes: a missing \<open>$\<close> is added at the end.\<close>

definition anchor_end :: "string \<Rightarrow> string" where
  "anchor_end s = (if has_suffix s ''$'' then s else s @ ''$'')"

lemma anchor_end_suffix [simp]: "has_suffix (anchor_end s) ''$''"
  by (simp add: anchor_end_def)

lemma anchor_end_idem [simp]: "anchor_end (anchor_end s) = anchor_end s"
  unfolding anchor_end_def [of "anchor_end s"] by simp

subsection \<open>The tail of a list, as the slice \<open>xs[len(xs)-n:]\<close>\<close>

definition keep_last :: "nat \<Rightarrow> 'a list \<Rightarrow> 'a list" where
  "keep_last n xs = drop (length xs - n) xs"

lemma length_keep_last [simp]: "length (keep_last n xs) = min n (length xs)"
  by (simp add: keep_last_def)

lemma keep_last_id: "length xs \<le> n \<Longrightarrow> keep_last n xs = xs"
  by (simp add: keep_last_def)

lemma keep_last_nonempty: "xs \<noteq> [] \<Longrightarrow> 0 < n \<Longrightarrow> keep_last n xs \<noteq> []"
  by (cases xs) (auto simp: keep_last_def)

lemma last_keep_last: "xs \<noteq> [] \<Longrightarrow> 0 < n \<Longrightarrow> last (keep_last n xs) = last xs"
  by (cases xs) (auto simp: keep_last_def last_drop)

lemma set_keep_last: "set (keep_last n xs) \<subseteq> set xs"
  by (simp add: keep_last_def set_drop_subset)

subsection \<open>Replacing one element of a pool\<close>

lemma set_list_update_cases: "x \<in> set (xs[i := y]) \<Longrightarrow> x = y \<or> x \<in> set xs"
  using set_update_subset_insert by fastforce

text \<open>Where the code removes element \<open>i\<close> of a slice, order kept.\<close>

definition remove_nth :: "nat \<Rightarrow> 'a list \<Rightarrow> 'a list" where
  "remove_nth i xs = take i xs @ drop (Suc i) xs"

lemma set_remove_nth: "set (remove_nth i xs) \<subseteq> set xs"
  by (auto simp: remove_nth_def dest: in_set_takeD in_set_dropD)

subsection \<open>Decimal numerals\<close>

text \<open>\<open>fmt.Sprintf\<close> with \<open>%d\<close> of an unsigned integer.\<close>

fun decimal :: "nat \<Rightarrow> string" where
  "decimal n =
     (if n < 10 then [''0123456789'' ! n] else decimal (n div 10) @ [''0123456789'' ! (n mod 10)])"

declare decimal.simps [simp del]

lemma decimal_nonempty [simp]: "decimal n \<noteq> []"
  by (subst decimal.simps) simp

lemma decimal_length: "n < 10 ^ Suc k \<Longrightarrow> length (decimal n) \<le> Suc k"
proof (induction k arbitrary: n)
  case 0
  then show ?case by (subst decimal.simps) simp
next
  case (Suc k)
  then have "n div 10 < 10 ^ Suc k" by (simp add: less_mult_imp_div_less)
  with Suc.IH show ?case by (subst decimal.simps) auto
qed

subsection \<open>Texts\<close>

definition text_lines :: "string list \<Rightarrow> string" where
  "text_lines ls = concat (map (\<lambda>l. l @ [CHR 0x0A]) ls)"

end
