(* ===== verification/Json.thy ===== *)
theory Json
  imports CRC_Prelude
begin

text \<open>
  The part of \<open>encoding/json\<close> the controller relies on. A byte slice is
  represented by what the decoder sees in it: nothing, text that is not JSON, or a
  syntax tree. Decoding into a struct follows the decoder of the standard library:
  the members of an object are visited in order, each is matched to a field (an exact
  name first, then a case-insensitive one), unknown members are skipped, \<open>null\<close>
  leaves a field alone, and a member of the wrong type is reported at the end while
  the other members are still stored.

  \<open>JNum\<close> is a number token with neither fraction nor exponent, \<open>JFrac\<close> any other
  number token. \<open>JTime\<close> is a string token that reads as an RFC 3339 instant, the
  form \<open>time.Time\<close> is encoded in; the string fields of the model are not given such
  tokens.
\<close>

datatype json =
    JNull
  | JBool bool
  | JNum int
  | JFrac string
  | JStr string
  | JTime int
  | JArr "json list"
  | JObj "(string \<times> json) list"

datatype bytes = Empty | Malformed | Text json

text \<open>A decoder of one member: the new struct, and whether the type was wrong.\<close>

type_synonym 'a member_dec = "json \<Rightarrow> 'a \<Rightarrow> 'a \<times> bool"

subsection \<open>Matching members to fields\<close>

definition lower_char :: "char \<Rightarrow> char" where
  "lower_char c = (let n = (of_char c :: nat) in if 65 \<le> n \<and> n \<le> 90 then char_of (n + 32) else c)"

definition equal_fold :: "string \<Rightarrow> string \<Rightarrow> bool" where
  "equal_fold s t \<longleftrightarrow> map lower_char s = map lower_char t"

definition find_field :: "(string \<times> 'f) list \<Rightarrow> string \<Rightarrow> 'f option" where
  "find_field fs k =
     (case map_of fs k of
        Some f \<Rightarrow> Some f
      | None \<Rightarrow> map_option snd (find (\<lambda>(n, _). equal_fold n k) fs))"

fun dec_members :: "(string \<times> 'a member_dec) list \<Rightarrow> (string \<times> json) list \<Rightarrow> 'a \<Rightarrow> 'a \<times> bool" where
  "dec_members fs [] a = (a, False)"
| "dec_members fs ((k, v) # ms) a =
     (case find_field fs k of
        None \<Rightarrow> dec_members fs ms a
      | Some d \<Rightarrow>
          (case d v a of (a1, bad1) \<Rightarrow>
            (case dec_members fs ms a1 of (a2, bad2) \<Rightarrow> (a2, bad1 \<or> bad2))))"

definition dec_object :: "(string \<times> 'a member_dec) list \<Rightarrow> json \<Rightarrow> 'a \<Rightarrow> 'a \<times> bool" where
  "dec_object fs j a =
     (case j of JObj ms \<Rightarrow> dec_members fs ms a | JNull \<Rightarrow> (a, False) | _ \<Rightarrow> (a, True))"

text \<open>\<open>json.Unmarshal(data, \&a)\<close>.\<close>

definition unmarshal :: "(string \<times> 'a member_dec) list \<Rightarrow> bytes \<Rightarrow> 'a \<Rightarrow> 'a \<times> go_error option" where
  "unmarshal fs d a =
     (case d of
        Empty \<Rightarrow> (a, Some (GoErr ''unexpected end of JSON input''))
      | Malformed \<Rightarrow> (a, Some (GoErr ''invalid character''))
      | Text j \<Rightarrow>
          (case dec_object fs j a of (a1, bad) \<Rightarrow>
            (a1, if bad then Some (GoErr ''json: cannot unmarshal'') else None)))"

subsection \<open>Decoders for the field types in use\<close>

definition int64 :: "int \<Rightarrow> bool" where
  "int64 n \<longleftrightarrow> - (2 ^ 63) \<le> n \<and> n < 2 ^ 63"

fun fld_int :: "(int \<Rightarrow> 'a \<Rightarrow> 'a) \<Rightarrow> 'a member_dec" where
  "fld_int u JNull a = (a, False)"
| "fld_int u (JNum n) a = (if int64 n then (u n a, False) else (a, True))"
| "fld_int u _ a = (a, True)"

fun fld_int_ptr :: "(int option \<Rightarrow> 'a \<Rightarrow> 'a) \<Rightarrow> 'a member_dec" where
  "fld_int_ptr u JNull a = (u None a, False)"
| "fld_int_ptr u (JNum n) a = (if int64 n then (u (Some n) a, False) else (u (Some 0) a, True))"
| "fld_int_ptr u _ a = (u (Some 0) a, True)"

fun fld_str :: "(string \<Rightarrow> 'a \<Rightarrow> 'a) \<Rightarrow> 'a member_dec" where
  "fld_str u JNull a = (a, False)"
| "fld_str u (JStr s) a = (u s a, False)"
| "fld_str u _ a = (a, True)"

fun fld_bool :: "(bool \<Rightarrow> 'a \<Rightarrow> 'a) \<Rightarrow> 'a member_dec" where
  "fld_bool u JNull a = (a, False)"
| "fld_bool u (JBool b) a = (u b a, False)"
| "fld_bool u _ a = (a, True)"

fun fld_time :: "(int \<Rightarrow> 'a \<Rightarrow> 'a) \<Rightarrow> 'a member_dec" where
  "fld_time u JNull a = (a, False)"
| "fld_time u (JTime t) a = (u t a, False)"
| "fld_time u _ a = (a, True)"

text \<open>\<open>json.RawMessage\<close> takes the text of any member, \<open>null\<close> included.\<close>

definition fld_raw :: "(bytes \<Rightarrow> 'a \<Rightarrow> 'a) \<Rightarrow> 'a member_dec" where
  "fld_raw u j a = (u (Text j) a, False)"

text \<open>A pointer to a struct: \<open>null\<close> is nil, an object is decoded into a new struct.\<close>

fun fld_ptr :: "(json \<Rightarrow> 'b \<Rightarrow> 'b \<times> bool) \<Rightarrow> 'b \<Rightarrow> ('b option \<Rightarrow> 'a \<Rightarrow> 'a) \<Rightarrow> 'a member_dec" where
  "fld_ptr d z u JNull a = (u None a, False)"
| "fld_ptr d z u j a = (case d j z of (b, bad) \<Rightarrow> (u (Some b) a, bad))"

text \<open>A slice: \<open>null\<close> is the nil slice, an array is decoded element by element.\<close>

fun dec_elems :: "(json \<Rightarrow> 'b \<times> bool) \<Rightarrow> json list \<Rightarrow> 'b list \<times> bool" where
  "dec_elems d [] = ([], False)"
| "dec_elems d (j # js) =
     (case d j of (b, bad1) \<Rightarrow> (case dec_elems d js of (bs, bad2) \<Rightarrow> (b # bs, bad1 \<or> bad2)))"

fun fld_slice :: "(json \<Rightarrow> 'b \<times> bool) \<Rightarrow> ('b list \<Rightarrow> 'a \<Rightarrow> 'a) \<Rightarrow> 'a member_dec" where
  "fld_slice d u JNull a = (u [] a, False)"
| "fld_slice d u (JArr js) a = (case dec_elems d js of (bs, bad) \<Rightarrow> (u bs a, bad))"
| "fld_slice d u _ a = (a, True)"

fun elem_ptr :: "(json \<Rightarrow> 'b \<Rightarrow> 'b \<times> bool) \<Rightarrow> 'b \<Rightarrow> json \<Rightarrow> 'b option \<times> bool" where
  "elem_ptr d z JNull = (None, False)"
| "elem_ptr d z j = (case d j z of (b, bad) \<Rightarrow> (Some b, bad))"

fun elem_str :: "json \<Rightarrow> string \<times> bool" where
  "elem_str (JStr s) = (s, False)"
| "elem_str JNull = ('''', False)"
| "elem_str _ = ('''', True)"

subsection \<open>Encoding\<close>

text \<open>A member with \<open>omitempty\<close> is left out when its value is the zero value.\<close>

definition omit_int :: "string \<Rightarrow> int \<Rightarrow> (string \<times> json) list" where
  "omit_int k n = (if n = 0 then [] else [(k, JNum n)])"

definition omit_str :: "string \<Rightarrow> string \<Rightarrow> (string \<times> json) list" where
  "omit_str k s = (if s = '''' then [] else [(k, JStr s)])"

definition omit_bool :: "string \<Rightarrow> bool \<Rightarrow> (string \<times> json) list" where
  "omit_bool k b = (if b then [(k, JBool b)] else [])"

text \<open>\<open>json.Marshal\<close> of a raw message: the nil message is \<open>null\<close>, text that is not JSON is an error.\<close>

fun enc_raw :: "bytes \<Rightarrow> json option" where
  "enc_raw Empty = Some JNull"
| "enc_raw Malformed = None"
| "enc_raw (Text j) = Some j"

fun enc_all :: "('b \<Rightarrow> json option) \<Rightarrow> 'b list \<Rightarrow> json list option" where
  "enc_all f [] = Some []"
| "enc_all f (x # xs) =
     (case f x of None \<Rightarrow> None
      | Some j \<Rightarrow> (case enc_all f xs of None \<Rightarrow> None | Some js \<Rightarrow> Some (j # js)))"

subsection \<open>Facts the components use\<close>

lemma find_field_exact [simp]: "map_of fs k = Some d \<Longrightarrow> find_field fs k = Some d"
  by (simp add: find_field_def)

lemma unmarshal_Empty [simp]: "unmarshal fs Empty a = (a, Some (GoErr ''unexpected end of JSON input''))"
  and unmarshal_Malformed [simp]: "unmarshal fs Malformed a = (a, Some (GoErr ''invalid character''))"
  by (simp_all add: unmarshal_def)

lemma unmarshal_members:
  "dec_members fs ms a = (b, False) \<Longrightarrow> unmarshal fs (Text (JObj ms)) a = (b, None)"
  by (simp add: unmarshal_def dec_object_def)

lemma dec_members_append:
  "dec_members fs (ms @ ns) a =
    (case dec_members fs ms a of (b, bad1) \<Rightarrow> (case dec_members fs ns b of (c, bad2) \<Rightarrow> (c, bad1 \<or> bad2)))"
  by (induction ms arbitrary: a) (auto split: option.splits prod.splits)

lemma unmarshal_not_object:
  "unmarshal fs (Text j) a = (b, e) \<Longrightarrow> (\<And>ms. j \<noteq> JObj ms) \<Longrightarrow> b = a"
  by (cases j) (auto simp: unmarshal_def dec_object_def)

lemma dec_elems_roundtrip:
  assumes "\<And>x j. x \<in> set xs \<Longrightarrow> f x = Some j \<Longrightarrow> d j = (x, False)"
    and "enc_all f xs = Some js"
  shows "dec_elems d js = (xs, False)"
  using assms
proof (induction xs arbitrary: js)
  case Nil
  then show ?case by simp
next
  case (Cons x xs)
  from Cons.prems(2) obtain j ks where "f x = Some j" "enc_all f xs = Some ks" "js = j # ks"
    by (auto split: option.splits)
  moreover from this Cons.prems(1) [of x] have "d j = (x, False)" by simp
  moreover have "dec_elems d ks = (xs, False)"
    using Cons.IH [of ks] Cons.prems(1) \<open>enc_all f xs = Some ks\<close> by simp
  ultimately show ?case by simp
qed

lemma enc_all_total: "(\<And>x. x \<in> set xs \<Longrightarrow> f x \<noteq> None) \<Longrightarrow> \<exists>js. enc_all f xs = Some js"
proof (induction xs)
  case Nil
  then show ?case by simp
next
  case (Cons x xs)
  have "\<exists>j. f x = Some j" using Cons.prems [of x] by auto
  moreover have "\<exists>js. enc_all f xs = Some js" using Cons by simp
  ultimately show ?case by auto
qed

end
