(* ===== verification/Models.thy ===== *)
theory Models
  imports Json
begin

text \<open>
  The release and its state history (\<open>pkg/models/release.go\<close>), and the names of the
  states and events of a release (\<open>pkg/plugins/interfaces/statemachine.go\<close>).

  The code keeps states as strings. The ten named ones are constructors here and any
  other string, the empty one included, is \<open>StateOther\<close>; \<open>parse_state\<close> reads a string
  into its canonical form and \<open>state_str\<close> gives the string back.
\<close>

subsection \<open>States and events\<close>

datatype sm_state =
    StateStart | StateConfigure | StateIdle | StateDeploy | StateMonitor | StateScale
  | StatePromote | StateRollback | StateFail | StateDestroy | StateOther string

datatype sm_event =
    EventDeploy | EventDeployed | EventConfigure | EventConfigured | EventHealthy
  | EventUnhealthy | EventScaled | EventPromoted | EventComplete | EventFail
  | EventDestroy | EventNull

fun state_str :: "sm_state \<Rightarrow> string" where
  "state_str StateStart = ''state_start''"
| "state_str StateConfigure = ''state_configure''"
| "state_str StateIdle = ''state_idle''"
| "state_str StateDeploy = ''state_deploy''"
| "state_str StateMonitor = ''state_monitor''"
| "state_str StateScale = ''state_scale''"
| "state_str StatePromote = ''state_promote''"
| "state_str StateRollback = ''state_rollback''"
| "state_str StateFail = ''state_fail''"
| "state_str StateDestroy = ''state_destroy''"
| "state_str (StateOther s) = s"

fun event_str :: "sm_event \<Rightarrow> string" where
  "event_str EventDeploy = ''event_deploy''"
| "event_str EventDeployed = ''event_deployed''"
| "event_str EventConfigure = ''event_configure''"
| "event_str EventConfigured = ''event_configured''"
| "event_str EventHealthy = ''event_healthy''"
| "event_str EventUnhealthy = ''event_unhealthy''"
| "event_str EventScaled = ''event_scaled''"
| "event_str EventPromoted = ''event_promoted''"
| "event_str EventComplete = ''event_complete''"
| "event_str EventFail = ''event_fail''"
| "event_str EventDestroy = ''event_destroy''"
| "event_str EventNull = ''event_null''"

definition named_states :: "sm_state list" where
  "named_states =
     [StateStart, StateConfigure, StateIdle, StateDeploy, StateMonitor, StateScale,
      StatePromote, StateRollback, StateFail, StateDestroy]"

definition parse_state :: "string \<Rightarrow> sm_state" where
  "parse_state s =
     (case find (\<lambda>st. state_str st = s) named_states of Some st \<Rightarrow> st | None \<Rightarrow> StateOther s)"

fun canonical_state :: "sm_state \<Rightarrow> bool" where
  "canonical_state (StateOther s) = (s \<notin> state_str ` set named_states)"
| "canonical_state _ = True"

lemma state_str_parse [simp]: "state_str (parse_state s) = s"
  by (auto simp: parse_state_def find_Some_iff split: option.splits)

lemma parse_state_str: "canonical_state st \<Longrightarrow> parse_state (state_str st) = st"
proof (cases st)
  case (StateOther s)
  assume "canonical_state st"
  with StateOther have "find (\<lambda>x. state_str x = s) named_states = None"
    by (auto simp: find_None_iff)
  with StateOther show ?thesis by (simp add: parse_state_def)
qed (simp_all add: parse_state_def named_states_def)

lemma canonical_parse [simp]: "canonical_state (parse_state s)"
proof (cases "find (\<lambda>st. state_str st = s) named_states")
  case None
  then have "s \<notin> state_str ` set named_states" by (auto simp: find_None_iff)
  with None show ?thesis by (simp add: parse_state_def)
next
  case (Some st)
  then have "st \<in> set named_states" by (auto simp: find_Some_iff)
  then have "canonical_state st" by (auto simp: named_states_def)
  with Some show ?thesis by (simp add: parse_state_def)
qed

subsection \<open>The release\<close>

record plugin_config =
  pc_name :: string
  pc_config :: bytes

record state_history =
  sh_time :: int
  sh_state :: sm_state

record release =
  r_name :: string
  r_namespace :: string
  r_version :: string
  r_created :: int
  r_last_updated :: int
  r_releaser :: "plugin_config option"
  r_runtime :: "plugin_config option"
  r_strategy :: "plugin_config option"
  r_monitor :: "plugin_config option"
  r_webhooks :: "plugin_config option list"
  r_post_test :: "plugin_config option"
  r_history :: "state_history list"

definition new_release :: release where
  "new_release =
     \<lparr>r_name = '''', r_namespace = '''', r_version = '''', r_created = 0, r_last_updated = 0,
      r_releaser = None, r_runtime = None, r_strategy = None, r_monitor = None,
      r_webhooks = [], r_post_test = None, r_history = []\<rparr>"

definition UpdateState :: "int \<Rightarrow> sm_state \<Rightarrow> release \<Rightarrow> release" where
  "UpdateState now st d =
     (let h = r_history d @ [\<lparr>sh_time = now, sh_state = st\<rparr>]
      in d\<lparr>r_history := (if length h > 50 then keep_last 50 h else h)\<rparr>)"

definition CurrentState :: "release \<Rightarrow> sm_state" where
  "CurrentState d = (if r_history d = [] then StateOther '''' else sh_state (last (r_history d)))"

definition StateHistory :: "release \<Rightarrow> state_history list" where
  "StateHistory d = r_history d"

lemma UpdateState_history:
  "r_history (UpdateState now st d) = keep_last 50 (r_history d @ [\<lparr>sh_time = now, sh_state = st\<rparr>])"
  by (simp add: UpdateState_def Let_def keep_last_id)

lemma UpdateState_frame [simp]:
  "r_name (UpdateState now st d) = r_name d"
  "r_namespace (UpdateState now st d) = r_namespace d"
  "r_version (UpdateState now st d) = r_version d"
  "r_runtime (UpdateState now st d) = r_runtime d"
  by (simp_all add: UpdateState_def Let_def)

lemma CurrentState_UpdateState [simp]: "CurrentState (UpdateState now st d) = st"
  by (simp add: CurrentState_def UpdateState_history keep_last_nonempty last_keep_last)

lemma UpdateState_length:
  "length (r_history (UpdateState now st d)) = min 50 (Suc (length (r_history d)))"
  by (simp add: UpdateState_history)

subsection \<open>JSON form\<close>

definition pc_zero :: plugin_config where
  "pc_zero = \<lparr>pc_name = '''', pc_config = Empty\<rparr>"

definition pc_fields :: "(string \<times> plugin_config member_dec) list" where
  "pc_fields =
     [(''plugin_name'', fld_str (\<lambda>s a. a\<lparr>pc_name := s\<rparr>)),
      (''config'', fld_raw (\<lambda>b a. a\<lparr>pc_config := b\<rparr>))]"

definition sh_fields :: "(string \<times> state_history member_dec) list" where
  "sh_fields =
     [(''time'', fld_time (\<lambda>t a. a\<lparr>sh_time := t\<rparr>)),
      (''state'', fld_str (\<lambda>s a. a\<lparr>sh_state := parse_state s\<rparr>))]"

definition sh_zero :: state_history where
  "sh_zero = \<lparr>sh_time = 0, sh_state = StateOther ''''\<rparr>"

definition release_fields :: "(string \<times> release member_dec) list" where
  "release_fields =
     [(''name'', fld_str (\<lambda>s a. a\<lparr>r_name := s\<rparr>)),
      (''namespace'', fld_str (\<lambda>s a. a\<lparr>r_namespace := s\<rparr>)),
      (''version'', fld_str (\<lambda>s a. a\<lparr>r_version := s\<rparr>)),
      (''created'', fld_time (\<lambda>t a. a\<lparr>r_created := t\<rparr>)),
      (''last_updated'', fld_time (\<lambda>t a. a\<lparr>r_last_updated := t\<rparr>)),
      (''releaser'', fld_ptr (dec_object pc_fields) pc_zero (\<lambda>p a. a\<lparr>r_releaser := p\<rparr>)),
      (''runtime'', fld_ptr (dec_object pc_fields) pc_zero (\<lambda>p a. a\<lparr>r_runtime := p\<rparr>)),
      (''strategy'', fld_ptr (dec_object pc_fields) pc_zero (\<lambda>p a. a\<lparr>r_strategy := p\<rparr>)),
      (''monitor'', fld_ptr (dec_object pc_fields) pc_zero (\<lambda>p a. a\<lparr>r_monitor := p\<rparr>)),
      (''webhooks'', fld_slice (elem_ptr (dec_object pc_fields) pc_zero) (\<lambda>ws a. a\<lparr>r_webhooks := ws\<rparr>)),
      (''post_deployment_test'', fld_ptr (dec_object pc_fields) pc_zero (\<lambda>p a. a\<lparr>r_post_test := p\<rparr>)),
      (''state_history'', fld_slice (\<lambda>j. dec_object sh_fields j sh_zero) (\<lambda>h a. a\<lparr>r_history := h\<rparr>))]"

text \<open>A body of \<open>None\<close> is the nil reader.\<close>

definition FromJsonBody :: "bytes option \<Rightarrow> release \<Rightarrow> release \<times> go_error option" where
  "FromJsonBody body d =
     (case body of
        None \<Rightarrow> (d, Some (GoErr ''no json body provided''))
      | Some b \<Rightarrow> unmarshal release_fields b d)"

definition enc_pc :: "plugin_config \<Rightarrow> json option" where
  "enc_pc p =
     map_option (\<lambda>c. JObj [(''plugin_name'', JStr (pc_name p)), (''config'', c)]) (enc_raw (pc_config p))"

fun enc_pc_ptr :: "plugin_config option \<Rightarrow> json option" where
  "enc_pc_ptr None = Some JNull"
| "enc_pc_ptr (Some p) = enc_pc p"

definition enc_sh :: "state_history \<Rightarrow> json" where
  "enc_sh h = JObj [(''time'', JTime (sh_time h)), (''state'', JStr (state_str (sh_state h)))]"

text \<open>\<open>json.Marshal(d)\<close>: \<open>None\<close> where a raw plugin configuration is not JSON.\<close>

definition marshal_release :: "release \<Rightarrow> json option" where
  "marshal_release d =
     (case (enc_pc_ptr (r_releaser d), enc_pc_ptr (r_runtime d), enc_pc_ptr (r_strategy d),
            enc_pc_ptr (r_monitor d), enc_all enc_pc_ptr (r_webhooks d), enc_pc_ptr (r_post_test d)) of
        (Some rl, Some rt, Some st, Some mo, Some wh, Some pt) \<Rightarrow>
          Some (JObj
            [(''name'', JStr (r_name d)), (''namespace'', JStr (r_namespace d)),
             (''version'', JStr (r_version d)), (''created'', JTime (r_created d)),
             (''last_updated'', JTime (r_last_updated d)), (''releaser'', rl), (''runtime'', rt),
             (''strategy'', st), (''monitor'', mo), (''webhooks'', JArr wh),
             (''post_deployment_test'', pt), (''state_history'', JArr (map enc_sh (r_history d)))])
      | _ \<Rightarrow> None)"

text \<open>\<open>ToJson\<close> panics, here \<open>None\<close>, where \<open>Marshal\<close> fails.\<close>

definition ToJson :: "release \<Rightarrow> bytes option" where
  "ToJson d = map_option Text (marshal_release d)"

text \<open>
  What a release read from JSON satisfies: each plugin configuration is JSON text and
  the states in the history are in canonical form.
\<close>

fun raw_json :: "bytes \<Rightarrow> bool" where
  "raw_json (Text j) = True"
| "raw_json _ = False"

fun pc_ptr_wf :: "plugin_config option \<Rightarrow> bool" where
  "pc_ptr_wf None = True"
| "pc_ptr_wf (Some p) = raw_json (pc_config p)"

definition release_wf :: "release \<Rightarrow> bool" where
  "release_wf d \<longleftrightarrow>
     pc_ptr_wf (r_releaser d) \<and> pc_ptr_wf (r_runtime d) \<and> pc_ptr_wf (r_strategy d) \<and>
     pc_ptr_wf (r_monitor d) \<and> list_all pc_ptr_wf (r_webhooks d) \<and> pc_ptr_wf (r_post_test d) \<and>
     list_all (\<lambda>h. canonical_state (sh_state h)) (r_history d)"

lemma pc_ptr_encodes: "pc_ptr_wf p \<Longrightarrow> \<exists>j. enc_pc_ptr p = Some j"
  by (cases p rule: pc_ptr_wf.cases; cases "pc_config (the p)") (auto simp: enc_pc_def)

lemma dec_enc_pc: "raw_json (pc_config p) \<Longrightarrow> enc_pc p = Some j \<Longrightarrow> dec_object pc_fields j pc_zero = (p, False)"
  by (cases "pc_config p") (auto simp: enc_pc_def dec_object_def pc_fields_def fld_raw_def pc_zero_def)

lemma enc_pc_object: "enc_pc p = Some j \<Longrightarrow> j \<noteq> JNull"
  by (auto simp: enc_pc_def)

lemma fld_ptr_enc:
  assumes "pc_ptr_wf p" and "enc_pc_ptr p = Some j"
  shows "fld_ptr (dec_object pc_fields) pc_zero u j a = (u p a, False)"
proof (cases p)
  case None
  with assms show ?thesis by simp
next
  case (Some q)
  with assms have "dec_object pc_fields j pc_zero = (q, False)" "j \<noteq> JNull"
    by (auto simp: dec_enc_pc dest: enc_pc_object)
  with Some show ?thesis by (cases j) simp_all
qed

lemma elem_ptr_enc:
  assumes "pc_ptr_wf p" and "enc_pc_ptr p = Some j"
  shows "elem_ptr (dec_object pc_fields) pc_zero j = (p, False)"
proof (cases p)
  case None
  with assms show ?thesis by simp
next
  case (Some q)
  with assms have "dec_object pc_fields j pc_zero = (q, False)" "j \<noteq> JNull"
    by (auto simp: dec_enc_pc dest: enc_pc_object)
  with Some show ?thesis by (cases j) simp_all
qed

lemma dec_enc_sh: "canonical_state (sh_state h) \<Longrightarrow> dec_object sh_fields (enc_sh h) sh_zero = (h, False)"
  by (simp add: dec_object_def enc_sh_def sh_fields_def sh_zero_def parse_state_str)

lemma dec_enc_history:
  "list_all (\<lambda>h. canonical_state (sh_state h)) hs \<Longrightarrow>
   dec_elems (\<lambda>j. dec_object sh_fields j sh_zero) (map enc_sh hs) = (hs, False)"
  by (induction hs) (simp_all add: dec_enc_sh)

lemma release_wf_UpdateState [inv_intros]:
  assumes "release_wf d" and "canonical_state st"
  shows "release_wf (UpdateState now st d)"
proof -
  have "list_all (\<lambda>h. canonical_state (sh_state h)) (r_history (UpdateState now st d))"
    unfolding UpdateState_history
    using assms set_keep_last [of 50 "r_history d @ [\<lparr>sh_time = now, sh_state = st\<rparr>]"]
    by (auto simp: release_wf_def list_all_iff)
  with assms show ?thesis by (simp add: release_wf_def UpdateState_def Let_def)
qed

lemma marshal_release_wf: "release_wf d \<Longrightarrow> \<exists>j. marshal_release d = Some j"
proof -
  assume wf: "release_wf d"
  have "\<exists>js. enc_all enc_pc_ptr (r_webhooks d) = Some js"
    using wf pc_ptr_encodes by (intro enc_all_total) (force simp: release_wf_def list_all_iff)
  with wf show ?thesis
    by (auto simp: release_wf_def marshal_release_def dest!: pc_ptr_encodes)
qed

lemma unmarshal_marshal_release:
  assumes wf: "release_wf d" and m: "marshal_release d = Some j"
  shows "unmarshal release_fields (Text j) new_release = (d, None)"
proof -
  from m obtain rl rt st mo wh pt where
    e: "enc_pc_ptr (r_releaser d) = Some rl" "enc_pc_ptr (r_runtime d) = Some rt"
       "enc_pc_ptr (r_strategy d) = Some st" "enc_pc_ptr (r_monitor d) = Some mo"
       "enc_all enc_pc_ptr (r_webhooks d) = Some wh" "enc_pc_ptr (r_post_test d) = Some pt"
    and j: "j = JObj
            [(''name'', JStr (r_name d)), (''namespace'', JStr (r_namespace d)),
             (''version'', JStr (r_version d)), (''created'', JTime (r_created d)),
             (''last_updated'', JTime (r_last_updated d)), (''releaser'', rl), (''runtime'', rt),
             (''strategy'', st), (''monitor'', mo), (''webhooks'', JArr wh),
             (''post_deployment_test'', pt), (''state_history'', JArr (map enc_sh (r_history d)))]"
    by (auto simp: marshal_release_def split: option.splits)
  have wh: "dec_elems (elem_ptr (dec_object pc_fields) pc_zero) wh = (r_webhooks d, False)"
    using wf e(5) by (intro dec_elems_roundtrip [where f = enc_pc_ptr])
      (auto simp: release_wf_def list_all_iff elem_ptr_enc)
  show ?thesis
    unfolding j
    using wf wh
    by (intro unmarshal_members)
      (simp add: release_fields_def release_wf_def fld_ptr_enc [OF _ e(1)] fld_ptr_enc [OF _ e(2)]
        fld_ptr_enc [OF _ e(3)] fld_ptr_enc [OF _ e(4)] fld_ptr_enc [OF _ e(6)] dec_enc_history
        new_release_def)
qed

subsection \<open>What a release read from JSON is\<close>

text \<open>
  Each plugin configuration is JSON text or missing, and the states of the history are in
  canonical form; every decoder of a member keeps this.
\<close>

fun pc_typed :: "plugin_config option \<Rightarrow> bool" where
  "pc_typed None = True"
| "pc_typed (Some p) = (pc_config p \<noteq> Malformed)"

definition release_typed :: "release \<Rightarrow> bool" where
  "release_typed d \<longleftrightarrow>
     pc_typed (r_releaser d) \<and> pc_typed (r_runtime d) \<and> pc_typed (r_strategy d) \<and> pc_typed (r_monitor d) \<and>
     list_all pc_typed (r_webhooks d) \<and> pc_typed (r_post_test d) \<and>
     list_all (\<lambda>h. canonical_state (sh_state h)) (r_history d)"

lemma find_field_in: "find_field fs k = Some f \<Longrightarrow> f \<in> snd ` set fs"
  by (force simp: find_field_def find_Some_iff image_iff in_set_conv_nth split: option.splits dest: map_of_SomeD)

lemma dec_object_keeps:
  assumes "\<And>f j a. f \<in> snd ` set fs \<Longrightarrow> I a \<Longrightarrow> I (fst (f j a))" and "I a"
  shows "I (fst (dec_object fs j a))"
proof -
  have "I (fst (dec_members fs ms a))" if "I a" for ms a
    using that
  proof (induction ms arbitrary: a)
    case Nil
    then show ?case by simp
  next
    case (Cons m ms)
    obtain k v where m: "m = (k, v)" by fastforce
    show ?case
    proof (cases "find_field fs k")
      case None
      with Cons m show ?thesis by simp
    next
      case (Some f)
      with Cons.prems assms(1) find_field_in have "I (fst (f v a))" by metis
      from Cons.IH [OF this] m Some show ?thesis by (simp add: split_beta)
    qed
  qed
  with assms(2) show ?thesis by (cases j) (simp_all add: dec_object_def)
qed

lemma pc_typed_decoded: "pc_typed (Some (fst (dec_object pc_fields j pc_zero)))"
proof -
  have "pc_config (fst (dec_object pc_fields j pc_zero)) \<noteq> Malformed"
  proof (rule dec_object_keeps [where I = "\<lambda>p. pc_config p \<noteq> Malformed"])
    fix f :: "plugin_config member_dec" and i and a :: plugin_config
    assume f: "f \<in> snd ` set pc_fields" and a: "pc_config a \<noteq> Malformed"
    from f consider "f = fld_str (\<lambda>s a. a\<lparr>pc_name := s\<rparr>)" | "f = fld_raw (\<lambda>b a. a\<lparr>pc_config := b\<rparr>)"
      by (auto simp: pc_fields_def)
    then show "pc_config (fst (f i a)) \<noteq> Malformed"
      using a by cases (cases i; simp add: fld_raw_def)+
  qed (simp add: pc_zero_def)
  then show ?thesis by simp
qed

lemma pc_typed_ptr:
  "(\<And>p. pc_typed p \<Longrightarrow> I (u p a)) \<Longrightarrow> I (fst (fld_ptr (dec_object pc_fields) pc_zero u j a))"
  using pc_typed_decoded [of j] by (cases j) (simp_all add: split_beta)

lemma pc_typed_elems: "list_all pc_typed (fst (dec_elems (elem_ptr (dec_object pc_fields) pc_zero) js))"
proof (induction js)
  case Nil
  then show ?case by simp
next
  case (Cons j js)
  have "pc_typed (fst (elem_ptr (dec_object pc_fields) pc_zero j))"
    using pc_typed_decoded [of j] by (cases j) (simp_all add: split_beta)
  with Cons show ?case by (simp add: split_beta)
qed

lemma canonical_decoded: "canonical_state (sh_state (fst (dec_object sh_fields j sh_zero)))"
proof (rule dec_object_keeps [where I = "\<lambda>h. canonical_state (sh_state h)"])
  fix f :: "state_history member_dec" and i and a :: state_history
  assume f: "f \<in> snd ` set sh_fields" and a: "canonical_state (sh_state a)"
  from f consider "f = fld_time (\<lambda>t a. a\<lparr>sh_time := t\<rparr>)" | "f = fld_str (\<lambda>s a. a\<lparr>sh_state := parse_state s\<rparr>)"
    by (auto simp: sh_fields_def)
  then show "canonical_state (sh_state (fst (f i a)))" using a by cases (cases i; simp)+
qed (simp add: sh_zero_def named_states_def)

lemma canonical_elems:
  "list_all (\<lambda>h. canonical_state (sh_state h)) (fst (dec_elems (\<lambda>j. dec_object sh_fields j sh_zero) js))"
proof (induction js)
  case Nil
  then show ?case by simp
next
  case (Cons j js)
  with canonical_decoded [of j] show ?case by (simp add: split_beta)
qed

definition keeps_typed :: "release member_dec \<Rightarrow> bool" where
  "keeps_typed f \<longleftrightarrow> (\<forall>j a. release_typed a \<longrightarrow> release_typed (fst (f j a)))"

lemma keeps_typed_str: "(\<And>s a. release_typed a \<Longrightarrow> release_typed (u s a)) \<Longrightarrow> keeps_typed (fld_str u)"
  unfolding keeps_typed_def by (intro allI) (case_tac j; simp)

lemma keeps_typed_time: "(\<And>t a. release_typed a \<Longrightarrow> release_typed (u t a)) \<Longrightarrow> keeps_typed (fld_time u)"
  unfolding keeps_typed_def by (intro allI) (case_tac j; simp)

lemma keeps_typed_ptr:
  "(\<And>p a. pc_typed p \<Longrightarrow> release_typed a \<Longrightarrow> release_typed (u p a)) \<Longrightarrow> keeps_typed (fld_ptr (dec_object pc_fields) pc_zero u)"
  unfolding keeps_typed_def by (blast intro: pc_typed_ptr)

lemma keeps_typed_webhooks:
  assumes "\<And>ps a. list_all pc_typed ps \<Longrightarrow> release_typed a \<Longrightarrow> release_typed (u ps a)"
  shows "keeps_typed (fld_slice (elem_ptr (dec_object pc_fields) pc_zero) u)"
  unfolding keeps_typed_def
proof (intro allI impI)
  fix j a assume "release_typed a"
  with assms pc_typed_elems show "release_typed (fst (fld_slice (elem_ptr (dec_object pc_fields) pc_zero) u j a))"
    by (cases j) (simp_all add: split_beta)
qed

lemma keeps_typed_history:
  assumes "\<And>hs a. list_all (\<lambda>h. canonical_state (sh_state h)) hs \<Longrightarrow> release_typed a \<Longrightarrow> release_typed (u hs a)"
  shows "keeps_typed (fld_slice (\<lambda>j. dec_object sh_fields j sh_zero) u)"
  unfolding keeps_typed_def
proof (intro allI impI)
  fix j a assume "release_typed a"
  with assms canonical_elems show "release_typed (fst (fld_slice (\<lambda>j. dec_object sh_fields j sh_zero) u j a))"
    by (cases j) (simp_all add: split_beta)
qed

lemma release_fields_keep_typed: "list_all (\<lambda>m. keeps_typed (snd m)) release_fields"
proof -
  have "list_all keeps_typed (map snd release_fields)"
    unfolding release_fields_def list.map snd_conv list.pred_inject
    by (intro conjI TrueI;
      (rule keeps_typed_str keeps_typed_time keeps_typed_ptr keeps_typed_webhooks keeps_typed_history,
        simp add: release_typed_def)?) simp_all
  then show ?thesis by (simp add: list.pred_map comp_def)
qed

lemma FromJsonBody_typed:
  assumes "release_typed d0" and "FromJsonBody body d0 = (d, e)"
  shows "release_typed d"
proof -
  have "keeps_typed f" if "f \<in> snd ` set release_fields" for f
    using release_fields_keep_typed that by (auto simp: list_all_iff)
  then have "release_typed (fst (dec_object release_fields j d0))" for j
    by (intro dec_object_keeps [where I = release_typed] assms(1)) (simp add: keeps_typed_def)
  moreover have "d = fst (dec_object release_fields j d0) \<or> d = d0" if "body = Some (Text j)" for j
    using assms(2) that by (simp add: FromJsonBody_def unmarshal_def split_beta)
  moreover have "d = d0" if "\<nexists>j. body = Some (Text j)"
    using assms(2) that by (cases body; cases "the body") (auto simp: FromJsonBody_def)
  ultimately show ?thesis using assms(1) by metis
qed

lemma enc_pc_typed: "pc_typed p \<Longrightarrow> enc_pc_ptr p \<noteq> None"
  by (cases p; cases "pc_config (the p)") (auto simp: enc_pc_def)

lemma marshal_release_typed: "release_typed d \<Longrightarrow> \<exists>j. marshal_release d = Some j"
proof -
  assume d: "release_typed d"
  have "\<exists>js. enc_all enc_pc_ptr (r_webhooks d) = Some js"
    using d enc_pc_typed by (intro enc_all_total) (auto simp: release_typed_def list_all_iff)
  moreover have "\<exists>j. enc_pc_ptr p = Some j" if "pc_typed p" for p using enc_pc_typed [OF that] by blast
  ultimately show ?thesis using d by (auto simp: release_typed_def marshal_release_def dest: enc_pc_typed split: option.splits)
qed

lemma new_release_typed: "release_typed new_release"
  by (simp add: release_typed_def new_release_def)

subsection \<open>Properties\<close>

text \<open>
  C30: Whatever body is posted, the release read from it is well-formed enough to be kept:
  no plugin configuration is broken text, the states of its history are in canonical form,
  also where they were posted with it, and encoding it for the store cannot fail. It stays
  so through the changes of state.
\<close>

theorem posted_release_encodes:
  assumes "FromJsonBody body new_release = (d, e)" and "canonical_state st"
  shows "release_typed d \<and> release_typed (UpdateState now st d) \<and> ToJson (UpdateState now st d) \<noteq> None"
proof -
  have d: "release_typed d" using new_release_typed assms(1) by (rule FromJsonBody_typed)
  moreover have u: "release_typed (UpdateState now st d)"
    using d assms(2) set_keep_last [of 50 "r_history d @ [\<lparr>sh_time = now, sh_state = st\<rparr>]"]
    by (auto simp: release_typed_def list_all_iff UpdateState_history) (simp_all add: UpdateState_def Let_def)
  ultimately show ?thesis using marshal_release_typed [OF u] by (auto simp: ToJson_def)
qed

theorem posted_release_encodes_witness:
  "ToJson (UpdateState 7 StateDeploy (fst (FromJsonBody (Some (Text (JObj [(''name'', JStr ''api''),
      (''webhooks'', JArr [JNull, JObj [(''plugin_name'', JStr ''slack'')]]), (''state_history'', JNum 3)]))) new_release))) \<noteq> None"
  using posted_release_encodes [OF prod.collapse [symmetric], of StateDeploy] by simp

end
