(* ===== verification/Interfaces.thy ===== *)
theory Interfaces
  imports Models
begin

text \<open>
  The plugin interfaces of \<open>pkg/plugins/interfaces\<close>: status values, messages and
  abstract deployments as data; a plugin a component calls as a record of functions over
  a world \<open>'w\<close> (each takes the world and returns its result with the new one); and
  the contracts the callers rely on as locales.

  The world is never looked into: it stands for everything outside the controller
  process, and what the callers need of it is stated in the contracts.
\<close>

subsection \<open>Status values\<close>

datatype check_result = CheckSuccess | CheckFailed | CheckNoMetrics | CheckError

datatype strategy_status =
  StrategyStatusSuccess | StrategyStatusFailing | StrategyStatusFailed | StrategyStatusComplete

fun strategy_status_str :: "strategy_status \<Rightarrow> string" where
  "strategy_status_str StrategyStatusSuccess = ''strategy_status_progressing''"
| "strategy_status_str StrategyStatusFailing = ''strategy_status_failing''"
| "strategy_status_str StrategyStatusFailed = ''strategy_status_failed''"
| "strategy_status_str StrategyStatusComplete = ''strategy_status_complete''"

datatype runtime_status =
    RuntimeDeploymentUpdate | RuntimeDeploymentNoAction
  | RuntimeDeploymentNotFound | RuntimeDeploymentInternalError

definition RuntimeDeploymentVersionLabel :: string where
  "RuntimeDeploymentVersionLabel = ''consul-release-controller-version''"

definition RuntimePlatformKubernetes :: string where
  "RuntimePlatformKubernetes = ''kubernetes''"

definition RuntimePlatformNomad :: string where
  "RuntimePlatformNomad = ''nomad''"

subsection \<open>Messages and abstract deployments\<close>

record webhook_message =
  wm_title :: string
  wm_name :: string
  wm_namespace :: string
  wm_state :: string
  wm_outcome :: string
  wm_primary_traffic :: int
  wm_candidate_traffic :: int
  wm_error :: string

text \<open>\<open>Meta\<close> is a Go map: \<open>None\<close> is the nil map.\<close>

record deployment =
  d_name :: string
  d_namespace :: string
  d_resource_version :: string
  d_meta :: "(string \<rightharpoonup> string) option"
  d_instances :: int

definition NewDeployment :: deployment where
  "NewDeployment =
     \<lparr>d_name = '''', d_namespace = '''', d_resource_version = '''', d_meta = Some Map.empty,
      d_instances = 0\<rparr>"

text \<open>Reading a map: a missing key, or a nil map, gives the empty string.\<close>

definition meta_get :: "(string \<rightharpoonup> string) option \<Rightarrow> string \<Rightarrow> string" where
  "meta_get m k = (case m of None \<Rightarrow> '''' | Some f \<Rightarrow> (case f k of None \<Rightarrow> '''' | Some v \<Rightarrow> v))"

record runtime_base_config =
  rc_selector :: string
  rc_namespace :: string

record runtime_base_state =
  rs_candidate :: string
  rs_primary :: string

record releaser_base_config =
  rb_service :: string
  rb_namespace :: string
  rb_partition :: string

subsection \<open>Interfaces as records of functions over the world\<close>

record 'w state_store =
  ss_upsert :: "bytes \<Rightarrow> 'w \<Rightarrow> go_error option \<times> 'w"
  ss_get :: "'w \<Rightarrow> (bytes \<times> go_error option) \<times> 'w"

record 'w release_store =
  rs_upsert_release :: "release \<Rightarrow> 'w \<Rightarrow> go_error option \<times> 'w"
  rs_list_releases :: "string option \<Rightarrow> 'w \<Rightarrow> (release list \<times> go_error option) \<times> 'w"
  rs_get_release :: "string \<Rightarrow> 'w \<Rightarrow> (release option \<times> go_error option) \<times> 'w"
  rs_delete_release :: "string \<Rightarrow> 'w \<Rightarrow> go_error option \<times> 'w"
  rs_plugin_store :: "release \<Rightarrow> string \<Rightarrow> 'w state_store"

text \<open>A call of the runtime client may panic, so its results are wrapped.\<close>

record 'w runtime_client =
  rt_get :: "string \<Rightarrow> string \<Rightarrow> 'w \<Rightarrow> (deployment option \<times> go_error option) res \<times> 'w"
  rt_get_selector :: "string \<Rightarrow> string \<Rightarrow> 'w \<Rightarrow> (deployment option \<times> go_error option) res \<times> 'w"
  rt_update :: "deployment \<Rightarrow> 'w \<Rightarrow> go_error option res \<times> 'w"
  rt_clone :: "deployment \<Rightarrow> deployment \<Rightarrow> 'w \<Rightarrow> go_error option res \<times> 'w"
  rt_delete :: "string \<Rightarrow> string \<Rightarrow> 'w \<Rightarrow> go_error option res \<times> 'w"
  rt_healthy :: "string \<Rightarrow> string \<Rightarrow> 'w \<Rightarrow> (deployment option \<times> go_error option) res \<times> 'w"
  rt_candidate_filter :: string
  rt_primary_filter :: string

subsection \<open>Struct validation\<close>

text \<open>
  The plugins declare their constraints as struct tags and run the validator of a
  third-party package over them. A validator is a parameter: it is given the rows
  (field, tags, value) in declaration order and returns the fields it rejects.
  \<open>validator_documented\<close> is what its documentation says for the tags in use:
  the rejected fields are those for which some tag fails, in order.
  \<open>time.ParseDuration\<close> and the URI check are parameters too.
\<close>

datatype vtag = VRequired | VGte int | VLte int | VDuration | VUri | VOneOf "string list"

datatype vval = VInt int | VStr string

type_synonym vrow = "string \<times> vtag list \<times> vval"

type_synonym validator = "vrow list \<Rightarrow> string list"

definition ValidateDuration :: "(string \<Rightarrow> int option) \<Rightarrow> string \<Rightarrow> bool" where
  "ValidateDuration pd s \<longleftrightarrow> pd s \<noteq> None"

fun tag_ok :: "(string \<Rightarrow> int option) \<Rightarrow> (string \<Rightarrow> bool) \<Rightarrow> vval \<Rightarrow> vtag \<Rightarrow> bool" where
  "tag_ok pd uri (VInt n) VRequired = (n \<noteq> 0)"
| "tag_ok pd uri (VStr s) VRequired = (s \<noteq> '''')"
| "tag_ok pd uri (VInt n) (VGte k) = (k \<le> n)"
| "tag_ok pd uri (VInt n) (VLte k) = (n \<le> k)"
| "tag_ok pd uri (VStr s) (VGte k) = (k \<le> int (length s))"
| "tag_ok pd uri (VStr s) (VLte k) = (int (length s) \<le> k)"
| "tag_ok pd uri (VStr s) VDuration = ValidateDuration pd s"
| "tag_ok pd uri (VStr s) VUri = uri s"
| "tag_ok pd uri (VStr s) (VOneOf xs) = (s \<in> set xs)"
| "tag_ok pd uri (VInt n) _ = False"

definition reference_validator :: "(string \<Rightarrow> int option) \<Rightarrow> (string \<Rightarrow> bool) \<Rightarrow> validator" where
  "reference_validator pd uri rows =
     map fst (filter (\<lambda>(f, ts, x). \<not> list_all (tag_ok pd uri x) ts) rows)"

definition validator_documented ::
    "(string \<Rightarrow> int option) \<Rightarrow> (string \<Rightarrow> bool) \<Rightarrow> validator \<Rightarrow> bool" where
  "validator_documented pd uri v \<longleftrightarrow> (\<forall>rows. v rows = reference_validator pd uri rows)"

lemma reference_validator_documented [simp]:
  "validator_documented pd uri (reference_validator pd uri)"
  by (simp add: validator_documented_def)

text \<open>The message a plugin builds: one line per rejected field it knows.\<close>

definition validation_message :: "(string \<times> string) list \<Rightarrow> string list \<Rightarrow> string" where
  "validation_message msgs fs =
     concat (map (\<lambda>f. case map_of msgs f of None \<Rightarrow> '''' | Some m \<Rightarrow> m @ [CHR 0x0A]) fs)"

subsection \<open>Contract of a plugin state store\<close>

text \<open>
  What a plugin relies on when it saves its state and reads it back: a successful
  read after a successful write of non-empty data gives that data, and a failed read
  gives no data. Both operations may fail at any time.
\<close>

locale state_store_contract =
  fixes upsert :: "bytes \<Rightarrow> 'w \<Rightarrow> go_error option \<times> 'w"
    and get :: "'w \<Rightarrow> (bytes \<times> go_error option) \<times> 'w"
    and inv :: "'w \<Rightarrow> bool"
  assumes get_after_upsert: "inv w \<Longrightarrow> upsert d w = (None, w1) \<Longrightarrow> get w1 = ((b, None), w2) \<Longrightarrow> b = d"
    and get_failed: "get w = ((b, Some e), w1) \<Longrightarrow> b = Empty"
    and get_found: "get w = ((b, None), w1) \<Longrightarrow> b \<noteq> Empty"
begin

text \<open>A plugin whose state decodes what it encodes reads back what it saved.\<close>

lemma saved_state_reloads:
  assumes "inv w" and "upsert (Text (enc s)) w = (None, w1)" and "get w1 = ((b, None), w2)"
    and "unmarshal fs (Text (enc s)) z = (s, None)"
  shows "unmarshal fs b z = (s, None)"
  using assms get_after_upsert [of w "Text (enc s)" w1 b w2] by simp

lemma unread_state_is_rejected:
  assumes "get w = ((b, Some e), w1)"
  shows "\<exists>e'. unmarshal fs b z = (z, Some e')"
  using get_failed [OF assms] by simp

end

subsection \<open>Contract of a release store\<close>

text \<open>
  What the API and the state machine rely on, stated over the map from names to releases
  a store holds (\<open>content\<close>): a successful insertion of a release the store can represent
  has exactly its effect, a successful lookup finds what is there, and a successful
  deletion removes the release and adds or changes none. A deletion may remove more.
\<close>

locale release_store_contract =
  fixes upsert :: "release \<Rightarrow> 's \<Rightarrow> go_error option \<times> 's"
    and get :: "string \<Rightarrow> 's \<Rightarrow> (release option \<times> go_error option) \<times> 's"
    and delete :: "string \<Rightarrow> 's \<Rightarrow> go_error option \<times> 's"
    and content :: "'s \<Rightarrow> string \<rightharpoonup> release"
    and inv :: "'s \<Rightarrow> bool"
    and storable :: "release \<Rightarrow> bool"
  assumes upsert_ok: "inv s \<Longrightarrow> storable r \<Longrightarrow> upsert r s = (None, s1) \<Longrightarrow>
      inv s1 \<and> content s1 = (content s)(r_name r \<mapsto> r)"
    and get_ok: "inv s \<Longrightarrow> get n s = ((x, None), s1) \<Longrightarrow>
      inv s1 \<and> content s1 = content s \<and> x = content s n \<and> x \<noteq> None"
    and get_error: "inv s \<Longrightarrow> get n s = ((x, Some e), s1) \<Longrightarrow>
      inv s1 \<and> content s1 = content s \<and> x = None"
    and delete_ok: "inv s \<Longrightarrow> delete n s = (None, s1) \<Longrightarrow>
      inv s1 \<and> content s1 n = None \<and> content s1 \<subseteq>\<^sub>m content s"
begin

lemma get_after_upsert:
  assumes "inv s" and "storable r" and "upsert r s = (None, s1)" and "get (r_name r) s1 = ((x, None), s2)"
  shows "x = Some r"
  using upsert_ok [OF assms(1-3)] get_ok [of s1 "r_name r" x s2] assms(4) by auto

lemma get_after_delete:
  assumes "inv s" and "delete n s = (None, s1)" and "get n s1 = ((x, e), s2)"
  shows "e \<noteq> None \<and> x = None"
  using delete_ok [OF assms(1,2)] get_ok [of s1 n x s2] get_error [of s1 n x _ s2] assms(3)
  by (cases e) auto

text \<open>The last of the successful insertions of a release is the one found.\<close>

lemma last_upsert_wins:
  assumes "inv s" and "storable r" and "storable r'" and "r_name r' = r_name r"
    and "upsert r s = (None, s1)" and "upsert r' s1 = (None, s2)" and "get (r_name r) s2 = ((x, None), s3)"
  shows "x = Some r'"
proof -
  have "inv s1" using upsert_ok [OF assms(1,2,5)] by blast
  with get_after_upsert [of s1 r' s2 x s3] assms(3,4,6,7) show ?thesis by simp
qed

end

subsection \<open>Retrying\<close>

text \<open>
  The retry library, with a timeout and an interval in nanoseconds and a function whose
  errors are all retryable: it calls the function again and again until it succeeds or
  the time is up. Documented is that a first success is returned at once, that success
  is only returned when the last call succeeded, and that the library itself does
  nothing to the world but make the calls: what every call keeps is kept.
\<close>

type_synonym 'w retry_lib = "int \<Rightarrow> int \<Rightarrow> ('w \<Rightarrow> go_error option \<times> 'w) \<Rightarrow> 'w \<Rightarrow> go_error option \<times> 'w"

definition calls_keep :: "('w \<Rightarrow> go_error option \<times> 'w) \<Rightarrow> ('w \<Rightarrow> bool) \<Rightarrow> bool" where
  "calls_keep f P \<longleftrightarrow> (\<forall>w. P w \<longrightarrow> P (snd (f w)))"

definition retry_documented :: "'w retry_lib \<Rightarrow> bool" where
  "retry_documented lib \<longleftrightarrow>
     (\<forall>timeout interval f w w1. f w = (None, w1) \<longrightarrow> lib timeout interval f w = (None, w1)) \<and>
     (\<forall>timeout interval f w P. calls_keep f P \<longrightarrow> P w \<longrightarrow> P (snd (lib timeout interval f w))) \<and>
     (\<forall>timeout interval f w w1. lib timeout interval f w = (None, w1) \<longrightarrow>
        (\<exists>w0. f w0 = (None, w1) \<and> (\<forall>P. calls_keep f P \<longrightarrow> P w \<longrightarrow> P w0)))"

fun retry_times :: "nat \<Rightarrow> ('w \<Rightarrow> go_error option \<times> 'w) \<Rightarrow> 'w \<Rightarrow> go_error option \<times> 'w" where
  "retry_times 0 f w = f w"
| "retry_times (Suc n) f w =
     (case f w of (None, w1) \<Rightarrow> (None, w1) | (Some e, w1) \<Rightarrow> retry_times n f w1)"

definition reference_retry :: "'w retry_lib" where
  "reference_retry timeout interval = retry_times (nat (timeout div interval))"

lemma retry_times_keeps: "calls_keep f P \<Longrightarrow> P w \<Longrightarrow> P (snd (retry_times n f w))"
proof (induction n arbitrary: w)
  case 0
  then show ?case by (simp add: calls_keep_def)
next
  case (Suc n)
  then have "P (snd (f w))" by (simp add: calls_keep_def)
  with Suc show ?case by (auto split: prod.splits option.splits)
qed

lemma retry_times_success:
  "retry_times n f w = (None, w1) \<Longrightarrow> \<exists>w0. f w0 = (None, w1) \<and> (\<forall>P. calls_keep f P \<longrightarrow> P w \<longrightarrow> P w0)"
proof (induction n arbitrary: w)
  case 0
  then show ?case by auto
next
  case (Suc n)
  show ?case
  proof (cases "fst (f w)")
    case None
    with Suc.prems show ?thesis by (intro exI [of _ w]) (auto split: prod.splits)
  next
    case (Some e)
    with Suc.prems have "retry_times n f (snd (f w)) = (None, w1)" by (auto split: prod.splits)
    from Suc.IH [OF this] obtain w0 where w0: "f w0 = (None, w1)"
      and keep: "\<forall>P. calls_keep f P \<longrightarrow> P (snd (f w)) \<longrightarrow> P w0" by (elim exE conjE)
    have "P w0" if "calls_keep f P" "P w" for P
      using keep [rule_format, OF that(1)] that by (simp add: calls_keep_def)
    with w0 show ?thesis by blast
  qed
qed

lemma reference_retry_documented: "retry_documented reference_retry"
  unfolding retry_documented_def reference_retry_def
proof (intro conjI allI impI)
  fix timeout interval :: int and f :: "'a \<Rightarrow> go_error option \<times> 'a" and w w1
  show "retry_times (nat (timeout div interval)) f w = (None, w1)" if "f w = (None, w1)"
    using that by (cases "nat (timeout div interval)") simp_all
  show "P (snd (retry_times (nat (timeout div interval)) f w))" if "calls_keep f P" "P w" for P
    using that by (rule retry_times_keeps)
  show "\<exists>w0. f w0 = (None, w1) \<and> (\<forall>P. calls_keep f P \<longrightarrow> P w \<longrightarrow> P w0)"
    if "retry_times (nat (timeout div interval)) f w = (None, w1)"
    using that by (rule retry_times_success)
qed

lemma retry_documented_success:
  assumes "retry_documented lib" and "lib timeout interval f w = (None, w1)"
  shows "\<exists>w0. f w0 = (None, w1) \<and> (\<forall>P. calls_keep f P \<longrightarrow> P w \<longrightarrow> P w0)"
  by (rule assms(1) [unfolded retry_documented_def, THEN conjunct2, THEN conjunct2, rule_format, OF assms(2)])

lemma retry_documented_keeps:
  assumes "retry_documented lib" and "calls_keep f P" and "P w"
  shows "P (snd (lib timeout interval f w))"
  by (rule assms(1) [unfolded retry_documented_def, THEN conjunct2, THEN conjunct1, rule_format, OF assms(2,3)])

lemma retry_documented_first:
  assumes "retry_documented lib" and "f w = (None, w1)"
  shows "lib timeout interval f w = (None, w1)"
  using assms(1) [unfolded retry_documented_def, THEN conjunct1] assms(2) by blast

text \<open>Running the strategy again and again while it reports success.\<close>

fun strategy_rounds ::
    "('p \<Rightarrow> 'w \<Rightarrow> (strategy_status \<times> int \<times> go_error option) \<times> 'p \<times> 'w) \<Rightarrow>
     nat \<Rightarrow> 'p \<Rightarrow> 'w \<Rightarrow> int list \<times> strategy_status option" where
  "strategy_rounds exec 0 p w = ([], None)"
| "strategy_rounds exec (Suc n) p w =
     (case exec p w of
        ((StrategyStatusSuccess, t, _), p1, w1) \<Rightarrow>
          (case strategy_rounds exec n p1 w1 of (ts, r) \<Rightarrow> (t # ts, r))
      | ((st, _, _), p1, w1) \<Rightarrow> ([], Some st))"

subsection \<open>Contract of a roll-out strategy\<close>

text \<open>
  What the state machine relies on when it runs a strategy: under its invariant, an
  error comes with the failed status, any other outcome is one of the three the
  monitor step handles, a traffic percentage given with success is a percentage, and
  the strategy cannot report success for ever (\<open>rank\<close> drops).
\<close>

locale strategy_contract =
  fixes exec :: "'p \<Rightarrow> 'w \<Rightarrow> (strategy_status \<times> int \<times> go_error option) \<times> 'p \<times> 'w"
    and inv :: "'p \<Rightarrow> bool"
    and rank :: "'p \<Rightarrow> nat"
  assumes exec_inv: "inv p \<Longrightarrow> exec p w = (r, p1, w1) \<Longrightarrow> inv p1"
    and exec_error: "inv p \<Longrightarrow> exec p w = ((st, t, Some err), p1, w1) \<Longrightarrow> st = StrategyStatusFailed"
    and exec_status: "inv p \<Longrightarrow> exec p w = ((st, t, None), p1, w1) \<Longrightarrow>
        st \<in> {StrategyStatusSuccess, StrategyStatusComplete, StrategyStatusFailed}"
    and exec_traffic: "inv p \<Longrightarrow> exec p w = ((StrategyStatusSuccess, t, e), p1, w1) \<Longrightarrow>
        1 \<le> t \<and> t \<le> 100"
    and exec_rank: "inv p \<Longrightarrow> exec p w = ((StrategyStatusSuccess, t, e), p1, w1) \<Longrightarrow>
        rank p1 < rank p"
begin

lemma exec_handled:
  assumes "inv p" and "exec p w = ((st, t, e), p1, w1)"
  shows "st \<noteq> StrategyStatusFailing"
  using assms exec_error exec_status by (cases e) fastforce+

lemma rounds_end:
  assumes "inv p" and "rank p < n"
  shows "\<exists>ts st. strategy_rounds exec n p w = (ts, Some st) \<and> length ts \<le> rank p \<and>
           st \<in> {StrategyStatusComplete, StrategyStatusFailed} \<and> (\<forall>t \<in> set ts. 1 \<le> t \<and> t \<le> 100)"
  using assms
proof (induction n arbitrary: p w)
  case 0
  then show ?case by simp
next
  case (Suc n)
  obtain st t e p1 w1 where x: "exec p w = ((st, t, e), p1, w1)"
    by (metis prod_cases3 prod.collapse)
  show ?case
  proof (cases "st = StrategyStatusSuccess")
    case True
    with x have ok: "exec p w = ((StrategyStatusSuccess, t, e), p1, w1)" by simp
    have "rank p1 < rank p" "inv p1" "1 \<le> t" "t \<le> 100"
      using exec_rank [OF Suc.prems(1) ok] exec_inv [OF Suc.prems(1) ok]
        exec_traffic [OF Suc.prems(1) ok] by auto
    then obtain ts r where "strategy_rounds exec n p1 w1 = (ts, Some r)" "length ts \<le> rank p1"
      "r \<in> {StrategyStatusComplete, StrategyStatusFailed}" "\<forall>t \<in> set ts. 1 \<le> t \<and> t \<le> 100"
      using Suc.IH [of p1 w1] Suc.prems(2) by auto
    with ok \<open>rank p1 < rank p\<close> \<open>1 \<le> t\<close> \<open>t \<le> 100\<close> show ?thesis by auto
  next
    case False
    with exec_handled [OF Suc.prems(1) x] x show ?thesis by (cases st) auto
  qed
qed

end

end
