(* ===== verification/Canary.thy ===== *)
theory Canary
  imports Interfaces
begin

text \<open>
  The canary strategy (\<open>pkg/plugins/canary/plugin.go\<close>): its configuration and its
  saved state, \<open>Configure\<close>, \<open>Execute\<close> with its retry loop, and the traffic getters.
  A plugin whose \<open>Configure\<close> failed has no state, and running it would panic; a value
  of type \<open>canary\<close> is a configured plugin.
\<close>

subsection \<open>Data\<close>

record canary_config =
  cc_initial_delay :: string
  cc_interval :: string
  cc_initial_traffic :: int
  cc_traffic_step :: int
  cc_max_traffic :: int
  cc_error_threshold :: int
  cc_delete_on_failed :: bool
  cc_manual_promotion :: bool

record canary_state =
  cs_traffic :: int
  cs_status :: string

record canary =
  c_config :: canary_config
  c_state :: canary_state

definition canary_config_zero :: canary_config where
  "canary_config_zero =
     \<lparr>cc_initial_delay = '''', cc_interval = '''', cc_initial_traffic = 0, cc_traffic_step = 0,
      cc_max_traffic = 0, cc_error_threshold = 0, cc_delete_on_failed = False,
      cc_manual_promotion = False\<rparr>"

definition canary_config_fields :: "(string \<times> canary_config member_dec) list" where
  "canary_config_fields =
     [(''initial_delay'', fld_str (\<lambda>s a. a\<lparr>cc_initial_delay := s\<rparr>)),
      (''interval'', fld_str (\<lambda>s a. a\<lparr>cc_interval := s\<rparr>)),
      (''initial_traffic'', fld_int (\<lambda>n a. a\<lparr>cc_initial_traffic := n\<rparr>)),
      (''traffic_step'', fld_int (\<lambda>n a. a\<lparr>cc_traffic_step := n\<rparr>)),
      (''max_traffic'', fld_int (\<lambda>n a. a\<lparr>cc_max_traffic := n\<rparr>)),
      (''error_threshold'', fld_int (\<lambda>n a. a\<lparr>cc_error_threshold := n\<rparr>)),
      (''delete_canary_on_failed'', fld_bool (\<lambda>b a. a\<lparr>cc_delete_on_failed := b\<rparr>)),
      (''manual_promotion'', fld_bool (\<lambda>b a. a\<lparr>cc_manual_promotion := b\<rparr>))]"

definition canary_state_zero :: canary_state where
  "canary_state_zero = \<lparr>cs_traffic = 0, cs_status = ''''\<rparr>"

definition canary_state_fields :: "(string \<times> canary_state member_dec) list" where
  "canary_state_fields =
     [(''candidate_traffic'', fld_int (\<lambda>n a. a\<lparr>cs_traffic := n\<rparr>)),
      (''status'', fld_str (\<lambda>s a. a\<lparr>cs_status := s\<rparr>))]"

definition enc_canary_state :: "canary_state \<Rightarrow> json" where
  "enc_canary_state s =
     JObj [(''candidate_traffic'', JNum (cs_traffic s)), (''status'', JStr (cs_status s))]"

subsection \<open>Configure\<close>

definition canary_rows :: "canary_config \<Rightarrow> vrow list" where
  "canary_rows c =
     [(''PluginConfig.InitialDelay'', [VDuration], VStr (cc_initial_delay c)),
      (''PluginConfig.Interval'', [VDuration], VStr (cc_interval c)),
      (''PluginConfig.InitialTraffic'', [VGte 0, VLte 100], VInt (cc_initial_traffic c)),
      (''PluginConfig.TrafficStep'', [VGte 1, VLte 100, VRequired], VInt (cc_traffic_step c)),
      (''PluginConfig.MaxTraffic'', [VGte 1, VLte 100, VRequired], VInt (cc_max_traffic c)),
      (''PluginConfig.ErrorThreshold'', [VRequired, VGte 0], VInt (cc_error_threshold c))]"

definition canary_messages :: "(string \<times> string) list" where
  "canary_messages =
     [(''PluginConfig.InitialDelay'', ''InitialDelay is not a valid duration, please specify using Go duration format e.g (30s, 30ms, 60m)''),
      (''PluginConfig.Interval'', ''Interval is not a valid duration, please specify using Go duration format e.g (30s, 30ms, 60m)''),
      (''PluginConfig.InitialTraffic'', ''InitialTraffic must contain a value between 0 and 100''),
      (''PluginConfig.TrafficStep'', ''TrafficStep must contain a value between 1 and 100''),
      (''PluginConfig.MaxTraffic'', ''MaxTraffic must contain a value between 1 and 100''),
      (''PluginConfig.ErrorThreshold'', ''ErrorThreshold must contain a value greater than 0'')]"

text \<open>The state a plugin starts from: what the store holds, or the fresh state.\<close>

definition canary_fresh :: canary_state where
  "canary_fresh = \<lparr>cs_traffic = -1, cs_status = strategy_status_str StrategyStatusSuccess\<rparr>"

definition canary_load :: "'w state_store \<Rightarrow> 'w \<Rightarrow> canary_state \<times> 'w" where
  "canary_load store w =
     (case ss_get store w of
        ((d, Some e), w1) \<Rightarrow> (canary_fresh, w1)
      | ((d, None), w1) \<Rightarrow>
          (case unmarshal canary_state_fields d canary_state_zero of
             (s, None) \<Rightarrow> (s, w1)
           | (s, Some e) \<Rightarrow> (canary_fresh, w1)))"

definition canary_Configure ::
    "validator \<Rightarrow> bytes \<Rightarrow> 'w state_store \<Rightarrow> 'w \<Rightarrow> (go_error + canary) \<times> 'w" where
  "canary_Configure v data store w =
     (case unmarshal canary_config_fields data canary_config_zero of
        (c, Some e) \<Rightarrow> (Inl e, w)
      | (c0, None) \<Rightarrow>
          (let c = (if cc_initial_delay c0 = '''' then c0\<lparr>cc_initial_delay := cc_interval c0\<rparr> else c0);
               bad = v (canary_rows c)
           in if bad \<noteq> [] then (Inl (GoErr (validation_message canary_messages bad)), w)
              else (case canary_load store w of (s, w1) \<Rightarrow> (Inr \<lparr>c_config = c, c_state = s\<rparr>, w1))))"

subsection \<open>Execute\<close>

record 'w canary_env =
  ce_parse :: "string \<Rightarrow> int option"
  ce_sleep :: "int \<Rightarrow> 'w \<Rightarrow> 'w"
  ce_check :: "string \<Rightarrow> int \<Rightarrow> 'w \<Rightarrow> (check_result \<times> go_error option) \<times> 'w"
  ce_store :: "'w state_store"

abbreviation set_state :: "int \<Rightarrow> strategy_status \<Rightarrow> canary \<Rightarrow> canary" where
  "set_state t st p \<equiv> p\<lparr>c_state := \<lparr>cs_traffic = t, cs_status = strategy_status_str st\<rparr>\<rparr>"

text \<open>\<open>saveState\<close>: the state always encodes; a failed write is logged and dropped.\<close>

definition canary_saveState :: "'w canary_env \<Rightarrow> canary \<Rightarrow> 'w \<Rightarrow> 'w" where
  "canary_saveState env p w = snd (ss_upsert (ce_store env) (Text (enc_canary_state (c_state p))) w)"

text \<open>A check that did not fail: one more step of traffic, or the end of the roll-out.\<close>

definition canary_pass :: "'w canary_env \<Rightarrow> canary \<Rightarrow> 'w \<Rightarrow>
    (strategy_status \<times> int \<times> go_error option) \<times> canary \<times> 'w" where
  "canary_pass env p w =
     (let t = cs_traffic (c_state p) + cc_traffic_step (c_config p);
          p1 = set_state t StrategyStatusSuccess p;
          w1 = canary_saveState env p1 w
      in if cc_max_traffic (c_config p) \<le> t
         then ((StrategyStatusComplete, 100, None), set_state (-1) StrategyStatusComplete p1, w1)
         else ((StrategyStatusSuccess, t, None), p1, w1))"

function canary_loop :: "'w canary_env \<Rightarrow> string \<Rightarrow> int \<Rightarrow> canary \<Rightarrow> int \<Rightarrow> 'w \<Rightarrow>
    (strategy_status \<times> int \<times> go_error option) \<times> canary \<times> 'w" where
  "canary_loop env cand d p failCount w =
     (case ce_check env cand d (ce_sleep env d w) of
        ((res, None), w1) \<Rightarrow> canary_pass env p w1
      | ((res, Some e), w1) \<Rightarrow>
          if cc_error_threshold (c_config p) \<le> failCount + 1
          then ((StrategyStatusFailed, 0, None), set_state (-1) StrategyStatusFailed p, w1)
          else
            (let p1 = set_state (cs_traffic (c_state p)) StrategyStatusFailing p
             in canary_loop env cand d p1 (failCount + 1) (canary_saveState env p1 w1)))"
  by pat_completeness auto
termination
  by (relation "measure (\<lambda>(env, cand, d, p, fc, w). nat (cc_error_threshold (c_config p) - fc))") auto

declare canary_loop.simps [simp del]

definition canary_body :: "'w canary_env \<Rightarrow> string \<Rightarrow> canary \<Rightarrow> 'w \<Rightarrow>
    (strategy_status \<times> int \<times> go_error option) \<times> canary \<times> 'w" where
  "canary_body env cand p w =
     (if cs_traffic (c_state p) = -1 then
        (let t = (if cc_initial_traffic (c_config p) = 0 then cc_traffic_step (c_config p)
                  else cc_initial_traffic (c_config p))
         in case ce_parse env (cc_initial_delay (c_config p)) of
              None \<Rightarrow>
                ((StrategyStatusFailed, 0, Some (GoErr ''unable to parse initial delay'')),
                 set_state t StrategyStatusFailed p, w)
            | Some d \<Rightarrow>
                ((StrategyStatusSuccess, t, None), set_state t StrategyStatusSuccess p,
                 ce_sleep env d w))
      else
        (case ce_parse env (cc_interval (c_config p)) of
           None \<Rightarrow>
             ((StrategyStatusFailed, 0, Some (GoErr ''unable to parse interval'')),
              set_state (cs_traffic (c_state p)) StrategyStatusFailed p, w)
         | Some d \<Rightarrow> canary_loop env cand d p 0 w))"

text \<open>\<open>Execute\<close>: the deferred \<open>saveState\<close> runs on every way out.\<close>

definition canary_Execute :: "'w canary_env \<Rightarrow> string \<Rightarrow> canary \<Rightarrow> 'w \<Rightarrow>
    (strategy_status \<times> int \<times> go_error option) \<times> canary \<times> 'w" where
  "canary_Execute env cand p w =
     (case canary_body env cand p w of (r, p1, w1) \<Rightarrow> (r, p1, canary_saveState env p1 w1))"

subsection \<open>Traffic getters\<close>

definition GetPrimaryTraffic :: "canary \<Rightarrow> int" where
  "GetPrimaryTraffic p =
     (if cs_traffic (c_state p) < 0 then 100
      else if 100 < cs_traffic (c_state p) then 0
      else 100 - cs_traffic (c_state p))"

definition GetCandidateTraffic :: "canary \<Rightarrow> int" where
  "GetCandidateTraffic p =
     (if cs_traffic (c_state p) < 1 then 0
      else if 100 < cs_traffic (c_state p) then 100
      else cs_traffic (c_state p))"

subsection \<open>Configuration\<close>

definition canary_config_ok :: "canary_config \<Rightarrow> bool" where
  "canary_config_ok c \<longleftrightarrow>
     0 \<le> cc_initial_traffic c \<and> cc_initial_traffic c \<le> 100 \<and>
     1 \<le> cc_traffic_step c \<and> cc_traffic_step c \<le> 100 \<and>
     1 \<le> cc_max_traffic c \<and> cc_max_traffic c \<le> 100 \<and>
     1 \<le> cc_error_threshold c"

lemma canary_rows_iff:
  "reference_validator pd uri (canary_rows c) = [] \<longleftrightarrow>
     canary_config_ok c \<and> pd (cc_initial_delay c) \<noteq> None \<and> pd (cc_interval c) \<noteq> None"
  by (auto simp: reference_validator_def canary_rows_def canary_config_ok_def ValidateDuration_def)

text \<open>The configuration \<open>Configure\<close> validates: an empty initial delay becomes the interval.\<close>

definition canary_defaults :: "canary_config \<Rightarrow> canary_config" where
  "canary_defaults c =
     (if cc_initial_delay c = '''' then c\<lparr>cc_initial_delay := cc_interval c\<rparr> else c)"

lemma canary_Configure_result:
  assumes "validator_documented pd uri v" and "canary_Configure v data store w = (Inr p, w1)"
  shows "canary_config_ok (c_config p) \<and> pd (cc_initial_delay (c_config p)) \<noteq> None \<and>
     pd (cc_interval (c_config p)) \<noteq> None \<and> canary_load store w = (c_state p, w1)"
  using assms canary_rows_iff [of pd uri]
  by (auto simp: canary_Configure_def validator_documented_def Let_def
      split: prod.splits option.splits if_splits)

subsection \<open>One execution\<close>

text \<open>
  The world after \<open>n\<close> consecutive failing checks from \<open>w\<close>, each followed by the saving
  of the failing status; \<open>None\<close> if one of the \<open>n\<close> checks passes.
\<close>

fun failing_rounds :: "'w canary_env \<Rightarrow> string \<Rightarrow> int \<Rightarrow> canary \<Rightarrow> nat \<Rightarrow> 'w \<Rightarrow> 'w option" where
  "failing_rounds env cand d p 0 w = Some w"
| "failing_rounds env cand d p (Suc n) w =
     (case ce_check env cand d (ce_sleep env d w) of
        ((_, None), _) \<Rightarrow> None
      | ((_, Some _), w1) \<Rightarrow>
          failing_rounds env cand d p n
            (canary_saveState env (set_state (cs_traffic (c_state p)) StrategyStatusFailing p) w1))"

definition round_check :: "'w canary_env \<Rightarrow> string \<Rightarrow> int \<Rightarrow> 'w \<Rightarrow> (check_result \<times> go_error option) \<times> 'w" where
  "round_check env cand d w = ce_check env cand d (ce_sleep env d w)"

lemma canary_pass_status [simp]:
  "canary_pass env (p\<lparr>c_state := \<lparr>cs_traffic = cs_traffic (c_state p), cs_status = s\<rparr>\<rparr>) w = canary_pass env p w"
  by (simp add: canary_pass_def Let_def)

lemma failing_rounds_status [simp]:
  "failing_rounds env cand d (p\<lparr>c_state := \<lparr>cs_traffic = cs_traffic (c_state p), cs_status = s\<rparr>\<rparr>) n w =
     failing_rounds env cand d p n w"
  by (induction n arbitrary: w) (simp_all split: prod.split option.split)

lemma canary_loop_skips:
  assumes "failing_rounds env cand d p n w = Some w1"
    and "fc + int n < cc_error_threshold (c_config p)"
  shows "\<exists>st. canary_loop env cand d p fc w =
     canary_loop env cand d (if n = 0 then p else p\<lparr>c_state := \<lparr>cs_traffic = cs_traffic (c_state p), cs_status = st\<rparr>\<rparr>) (fc + int n) w1"
  using assms
proof (induction n arbitrary: p fc w)
  case 0
  then show ?case by simp
next
  case (Suc n)
  let ?p = "set_state (cs_traffic (c_state p)) StrategyStatusFailing p"
  from Suc.prems(1) obtain r e w2 where c: "ce_check env cand d (ce_sleep env d w) = ((r, Some e), w2)"
    and f: "failing_rounds env cand d ?p n (canary_saveState env ?p w2) = Some w1"
    by (auto split: prod.splits option.splits)
  have "canary_loop env cand d p fc w = canary_loop env cand d ?p (fc + 1) (canary_saveState env ?p w2)"
    using Suc.prems(2) by (subst canary_loop.simps) (simp add: c Let_def)
  moreover obtain st where "canary_loop env cand d ?p (fc + 1) (canary_saveState env ?p w2) =
      canary_loop env cand d (if n = 0 then ?p else ?p\<lparr>c_state := \<lparr>cs_traffic = cs_traffic (c_state ?p), cs_status = st\<rparr>\<rparr>) (fc + 1 + int n) w1"
    using Suc.IH [OF f, of "fc + 1"] Suc.prems(2) by auto
  ultimately show ?case by (cases "n = 0") (auto simp: algebra_simps)
qed

lemma canary_loop_pass:
  assumes "failing_rounds env cand d p n w = Some w1"
    and "n = 0 \<or> fc + int n < cc_error_threshold (c_config p)"
    and "round_check env cand d w1 = ((r, None), w2)"
  shows "canary_loop env cand d p fc w = canary_pass env p w2"
proof (cases "n = 0")
  case True
  with assms show ?thesis by (subst canary_loop.simps) (simp add: round_check_def)
next
  case False
  then obtain st where "canary_loop env cand d p fc w =
     canary_loop env cand d (p\<lparr>c_state := \<lparr>cs_traffic = cs_traffic (c_state p), cs_status = st\<rparr>\<rparr>) (fc + int n) w1"
    using canary_loop_skips [OF assms(1), of fc] assms(2) by auto
  with assms(3) show ?thesis by (simp add: round_check_def canary_loop.simps [of env cand d _ "fc + int n" w1])
qed

lemma canary_loop_fail:
  assumes "failing_rounds env cand d p n w = Some w1"
    and "cc_error_threshold (c_config p) = fc + int n + 1"
    and "round_check env cand d w1 = ((r, Some e), w2)"
  shows "canary_loop env cand d p fc w =
     ((StrategyStatusFailed, 0, None), set_state (-1) StrategyStatusFailed p, w2)"
proof -
  obtain st where "canary_loop env cand d p fc w =
     canary_loop env cand d (if n = 0 then p else p\<lparr>c_state := \<lparr>cs_traffic = cs_traffic (c_state p), cs_status = st\<rparr>\<rparr>) (fc + int n) w1"
    using canary_loop_skips [OF assms(1), of fc] assms(2) by auto
  with assms(2,3) show ?thesis
    by (simp add: round_check_def canary_loop.simps [of env cand d _ "fc + int n" w1])
qed

text \<open>Whatever the checks and the store do, an execution ends in one of four ways.\<close>

lemma canary_loop_result:
  "canary_loop env cand d p fc w = (r, p1, w1) \<Longrightarrow>
     (let t = cs_traffic (c_state p) + cc_traffic_step (c_config p)
      in r = (StrategyStatusFailed, 0, None) \<and> p1 = set_state (-1) StrategyStatusFailed p \<or>
         cc_max_traffic (c_config p) \<le> t \<and> r = (StrategyStatusComplete, 100, None) \<and>
           p1 = set_state (-1) StrategyStatusComplete p \<or>
         t < cc_max_traffic (c_config p) \<and> r = (StrategyStatusSuccess, t, None) \<and>
           p1 = set_state t StrategyStatusSuccess p)"
proof (induction env cand d p fc w rule: canary_loop.induct)
  case (1 env cand d p fc w)
  obtain res err w2 where c: "ce_check env cand d (ce_sleep env d w) = ((res, err), w2)"
    by (metis prod.collapse)
  show ?case
  proof (cases err)
    case None
    with 1(2) c show ?thesis
      by (subst (asm) canary_loop.simps) (auto simp: canary_pass_def Let_def split: if_splits)
  next
    case (Some e)
    show ?thesis
    proof (cases "cc_error_threshold (c_config p) \<le> fc + 1")
      case True
      with Some 1(2) c show ?thesis by (subst (asm) canary_loop.simps) (auto simp: Let_def)
    next
      case False
      let ?p = "set_state (cs_traffic (c_state p)) StrategyStatusFailing p"
      from False Some 1(2) c
      have "canary_loop env cand d ?p (fc + 1) (canary_saveState env ?p w2) = (r, p1, w1)"
        by (subst (asm) canary_loop.simps) (auto simp: Let_def)
      from 1(1) [OF c [symmetric] refl Some False refl this] show ?thesis by (auto simp: Let_def)
    qed
  qed
qed

definition canary_first_traffic :: "canary_config \<Rightarrow> int" where
  "canary_first_traffic c =
     (if cc_initial_traffic c = 0 then cc_traffic_step c else cc_initial_traffic c)"

lemma canary_Execute_result:
  assumes "canary_Execute env cand p w = (r, p1, w1)"
  obtains (first) "cs_traffic (c_state p) = -1" "ce_parse env (cc_initial_delay (c_config p)) \<noteq> None"
      "r = (StrategyStatusSuccess, canary_first_traffic (c_config p), None)"
      "p1 = set_state (canary_first_traffic (c_config p)) StrategyStatusSuccess p"
  | (delay) e where "cs_traffic (c_state p) = -1" "ce_parse env (cc_initial_delay (c_config p)) = None"
      "r = (StrategyStatusFailed, 0, Some e)"
      "p1 = set_state (canary_first_traffic (c_config p)) StrategyStatusFailed p"
  | (interval) e where "cs_traffic (c_state p) \<noteq> -1" "ce_parse env (cc_interval (c_config p)) = None"
      "r = (StrategyStatusFailed, 0, Some e)"
      "p1 = set_state (cs_traffic (c_state p)) StrategyStatusFailed p"
  | (failed) "cs_traffic (c_state p) \<noteq> -1" "r = (StrategyStatusFailed, 0, None)"
      "p1 = set_state (-1) StrategyStatusFailed p"
  | (complete) "cs_traffic (c_state p) \<noteq> -1"
      "cc_max_traffic (c_config p) \<le> cs_traffic (c_state p) + cc_traffic_step (c_config p)"
      "r = (StrategyStatusComplete, 100, None)" "p1 = set_state (-1) StrategyStatusComplete p"
  | (success) t where "cs_traffic (c_state p) \<noteq> -1"
      "t = cs_traffic (c_state p) + cc_traffic_step (c_config p)"
      "t < cc_max_traffic (c_config p)" "r = (StrategyStatusSuccess, t, None)"
      "p1 = set_state t StrategyStatusSuccess p"
  using assms
  by (auto simp: canary_Execute_def canary_body_def canary_first_traffic_def Let_def
      split: prod.splits if_splits option.splits dest!: canary_loop_result)

subsection \<open>The strategy contract\<close>

text \<open>
  The upper bound covers a state written between the step of traffic and the end of a
  roll-out, which a restarted controller reads back.
\<close>

definition canary_inv :: "canary \<Rightarrow> bool" where
  "canary_inv p \<longleftrightarrow> canary_config_ok (c_config p) \<and>
     (cs_traffic (c_state p) = -1 \<or> 0 \<le> cs_traffic (c_state p) \<and> cs_traffic (c_state p) \<le> 200)"

definition canary_rank :: "canary \<Rightarrow> nat" where
  "canary_rank p =
     (if cs_traffic (c_state p) = -1 then 101
      else nat (cc_max_traffic (c_config p) - cs_traffic (c_state p)))"

lemma canary_first_traffic_bounds:
  "canary_config_ok c \<Longrightarrow> 1 \<le> canary_first_traffic c \<and> canary_first_traffic c \<le> 100"
  by (auto simp: canary_config_ok_def canary_first_traffic_def)

lemma canary_Execute_inv [inv_intros]:
  "canary_inv p \<Longrightarrow> canary_Execute env cand p w = (r, p1, w1) \<Longrightarrow> canary_inv p1"
  using canary_first_traffic_bounds [of "c_config p"]
  by (elim canary_Execute_result) (auto simp: canary_inv_def canary_config_ok_def)

lemma canary_Execute_success:
  assumes "canary_inv p" and "canary_Execute env cand p w = ((StrategyStatusSuccess, t, e), p1, w1)"
  shows "1 \<le> t \<and> t \<le> 100 \<and> e = None \<and> canary_rank p1 < canary_rank p \<and> cs_traffic (c_state p1) = t"
  using assms(2) assms(1) canary_first_traffic_bounds [of "c_config p"]
  by (elim canary_Execute_result) (auto simp: canary_inv_def canary_config_ok_def canary_rank_def)

interpretation canary: strategy_contract "canary_Execute env cand" canary_inv canary_rank
  for env :: "'w canary_env" and cand :: string
proof unfold_locales
  fix p p1 :: canary and w w1 :: 'w and r
  show "canary_inv p \<Longrightarrow> canary_Execute env cand p w = (r, p1, w1) \<Longrightarrow> canary_inv p1"
    by (rule canary_Execute_inv)
next
  fix p p1 :: canary and w w1 :: 'w and st t err
  assume "canary_Execute env cand p w = ((st, t, Some err), p1, w1)"
  then show "st = StrategyStatusFailed" by (elim canary_Execute_result) auto
next
  fix p p1 :: canary and w w1 :: 'w and st t
  assume "canary_Execute env cand p w = ((st, t, None), p1, w1)"
  then show "st \<in> {StrategyStatusSuccess, StrategyStatusComplete, StrategyStatusFailed}"
    by (elim canary_Execute_result) auto
next
  fix p p1 :: canary and w w1 :: 'w and t e
  assume a: "canary_inv p" "canary_Execute env cand p w = ((StrategyStatusSuccess, t, e), p1, w1)"
  from canary_Execute_success [OF a] show "1 \<le> t \<and> t \<le> 100" by simp
  from canary_Execute_success [OF a] show "canary_rank p1 < canary_rank p" by simp
qed

subsection \<open>A roll-out whose checks all pass\<close>

definition checks_pass :: "'w canary_env \<Rightarrow> bool" where
  "checks_pass env \<longleftrightarrow> (\<forall>cand d w. snd (fst (ce_check env cand d w)) = None)"

lemma canary_Execute_passing:
  assumes "checks_pass env" and "ce_parse env (cc_interval (c_config p)) \<noteq> None"
    and "cs_traffic (c_state p) \<noteq> -1"
  shows "\<exists>w1. canary_Execute env cand p w =
     (let t = cs_traffic (c_state p) + cc_traffic_step (c_config p)
      in if cc_max_traffic (c_config p) \<le> t
         then ((StrategyStatusComplete, 100, None), set_state (-1) StrategyStatusComplete p, w1)
         else ((StrategyStatusSuccess, t, None), set_state t StrategyStatusSuccess p, w1))"
proof -
  obtain d where d: "ce_parse env (cc_interval (c_config p)) = Some d" using assms(2) by blast
  obtain r e w2 where c: "round_check env cand d w = ((r, e), w2)"
    by (metis prod.collapse)
  with assms(1) have "e = None"
    unfolding checks_pass_def round_check_def by (metis fst_conv snd_conv)
  with c have "canary_loop env cand d p 0 w = canary_pass env p w2"
    using canary_loop_pass [of env cand d p 0 w w 0 r w2] by simp
  with assms(3) d show ?thesis
    by (auto simp: canary_Execute_def canary_body_def canary_pass_def Let_def)
qed

lemma canary_rounds_passing:
  assumes "checks_pass env" and "ce_parse env (cc_interval (c_config p)) \<noteq> None"
    and "canary_config_ok (c_config p)" and "0 \<le> cs_traffic (c_state p)"
    and "nat (cc_max_traffic (c_config p) - cs_traffic (c_state p)) < n"
  shows "\<exists>m. strategy_rounds (canary_Execute env cand) n p w =
       (map (\<lambda>k. cs_traffic (c_state p) + cc_traffic_step (c_config p) * int (Suc k)) [0..<m],
        Some StrategyStatusComplete) \<and>
     cc_max_traffic (c_config p) \<le> cs_traffic (c_state p) + cc_traffic_step (c_config p) * int (Suc m)"
  using assms(2-5)
proof (induction n arbitrary: p w)
  case 0
  then show ?case by simp
next
  case (Suc n)
  let ?s = "cc_traffic_step (c_config p)" and ?t = "cs_traffic (c_state p)"
  have "?t \<noteq> -1" using Suc.prems(3) by simp
  then obtain w1 where x: "canary_Execute env cand p w =
     (if cc_max_traffic (c_config p) \<le> ?t + ?s
      then ((StrategyStatusComplete, 100, None), set_state (-1) StrategyStatusComplete p, w1)
      else ((StrategyStatusSuccess, ?t + ?s, None), set_state (?t + ?s) StrategyStatusSuccess p, w1))"
    using canary_Execute_passing [OF assms(1) Suc.prems(1), of cand w] by (auto simp: Let_def)
  show ?case
  proof (cases "cc_max_traffic (c_config p) \<le> ?t + ?s")
    case True
    with x show ?thesis by (intro exI [of _ 0]) simp
  next
    case False
    let ?p = "set_state (?t + ?s) StrategyStatusSuccess p"
    have "1 \<le> ?s" using Suc.prems(2) by (simp add: canary_config_ok_def)
    with False Suc.prems(4) have "nat (cc_max_traffic (c_config p) - (?t + ?s)) < n" by linarith
    then have "\<exists>m. strategy_rounds (canary_Execute env cand) n ?p w1 =
        (map (\<lambda>k. ?t + ?s + ?s * int (Suc k)) [0..<m], Some StrategyStatusComplete) \<and>
      cc_max_traffic (c_config p) \<le> ?t + ?s + ?s * int (Suc m)"
      using Suc.IH [of ?p w1] Suc.prems(1-3) \<open>1 \<le> ?s\<close> by simp
    then obtain m where m: "strategy_rounds (canary_Execute env cand) n ?p w1 =
        (map (\<lambda>k. ?t + ?s + ?s * int (Suc k)) [0..<m], Some StrategyStatusComplete)"
      "cc_max_traffic (c_config p) \<le> ?t + ?s + ?s * int (Suc m)"
      by blast
    have "map (\<lambda>k. ?t + ?s * int (Suc k)) [0..<Suc m] =
        (?t + ?s) # map (\<lambda>k. ?t + ?s + ?s * int (Suc k)) [0..<m]"
      by (simp add: upt_rec [of 0] map_Suc_upt [symmetric] algebra_simps del: upt_Suc)
    with m x False show ?thesis
      by (intro exI [of _ "Suc m"]) (simp add: algebra_simps)
  qed
qed

subsection \<open>A concrete environment\<close>

text \<open>
  An environment to evaluate executions in: the world is the list of the coming check
  outcomes (a check past its end passes) and the list of what was saved, newest first;
  every text is a duration of one second and a fresh store holds nothing.
\<close>

type_synonym script = "bool list \<times> bytes list"

fun script_check :: "string \<Rightarrow> int \<Rightarrow> script \<Rightarrow> (check_result \<times> go_error option) \<times> script" where
  "script_check c d ([], s) = ((CheckSuccess, None), ([], s))"
| "script_check c d (True # bs, s) = ((CheckSuccess, None), (bs, s))"
| "script_check c d (False # bs, s) = ((CheckFailed, Some (GoErr ''check failed'')), (bs, s))"

definition script_store :: "script state_store" where
  "script_store =
     \<lparr>ss_upsert = (\<lambda>d (bs, s). (None, (bs, d # s))),
      ss_get = (\<lambda>(bs, s). (case s of [] \<Rightarrow> (Empty, Some PluginStateNotFound) | d # _ \<Rightarrow> (d, None), (bs, s)))\<rparr>"

definition script_env :: "script canary_env" where
  "script_env =
     \<lparr>ce_parse = (\<lambda>_. Some 1000000000), ce_sleep = (\<lambda>_ w. w), ce_check = script_check,
      ce_store = script_store\<rparr>"

definition sample_config :: canary_config where
  "sample_config =
     \<lparr>cc_initial_delay = ''30s'', cc_interval = ''30s'', cc_initial_traffic = 10,
      cc_traffic_step = 20, cc_max_traffic = 60, cc_error_threshold = 2,
      cc_delete_on_failed = False, cc_manual_promotion = False\<rparr>"

definition sample_canary :: "int \<Rightarrow> canary" where
  "sample_canary t =
     \<lparr>c_config = sample_config, c_state = \<lparr>cs_traffic = t, cs_status = ''''\<rparr>\<rparr>"

lemmas script_simps =
  script_env_def script_store_def sample_canary_def sample_config_def canary_saveState_def
  round_check_def canary_inv_def canary_config_ok_def

lemma script_checks_pass: "checks_pass (script_env\<lparr>ce_check := (\<lambda>_ _ w. ((CheckSuccess, None), w))\<rparr>)"
  by (simp add: checks_pass_def)

subsection \<open>Properties\<close>

text \<open>
  \<open>Configure\<close> returns a plugin exactly when the data decodes to a configuration whose
  durations parse (an empty initial delay stands for the interval), whose traffic values
  lie in their ranges and whose error threshold is positive, and the plugin carries that
  configuration.
\<close>

theorem canary_configure_accepts:
  assumes "validator_documented pd uri v"
    and "unmarshal canary_config_fields data canary_config_zero = (c0, None)"
  shows "(\<exists>s w1. canary_Configure v data store w =
       (Inr \<lparr>c_config = canary_defaults c0, c_state = s\<rparr>, w1)) \<longleftrightarrow>
     canary_config_ok c0 \<and> pd (cc_interval c0) \<noteq> None \<and>
     (cc_initial_delay c0 = '''' \<or> pd (cc_initial_delay c0) \<noteq> None)"
proof -
  have "(\<exists>s w1. canary_Configure v data store w =
       (Inr \<lparr>c_config = canary_defaults c0, c_state = s\<rparr>, w1)) \<longleftrightarrow>
      reference_validator pd uri (canary_rows (canary_defaults c0)) = []"
    using assms
    by (auto simp: canary_Configure_def canary_defaults_def validator_documented_def Let_def
        split: prod.splits)
  then show ?thesis by (auto simp: canary_rows_iff canary_defaults_def canary_config_ok_def)
qed

theorem canary_configure_accepts_witness:
  "\<exists>s w1. canary_Configure (reference_validator (\<lambda>s. if s = ''30s'' then Some 30 else None) (\<lambda>_. True))
     (Text (JObj [(''interval'', JStr ''30s''), (''traffic_step'', JNum 20), (''max_traffic'', JNum 100),
        (''error_threshold'', JNum 5)])) script_store ([], []) =
     (Inr \<lparr>c_config = canary_defaults
        (canary_config_zero\<lparr>cc_interval := ''30s'', cc_traffic_step := 20, cc_max_traffic := 100,
           cc_error_threshold := 5\<rparr>), c_state = s\<rparr>, w1)"
proof -
  have u: "unmarshal canary_config_fields
     (Text (JObj [(''interval'', JStr ''30s''), (''traffic_step'', JNum 20), (''max_traffic'', JNum 100),
        (''error_threshold'', JNum 5)])) canary_config_zero =
     (canary_config_zero\<lparr>cc_interval := ''30s'', cc_traffic_step := 20, cc_max_traffic := 100,
        cc_error_threshold := 5\<rparr>, None)"
    by (simp add: unmarshal_def dec_object_def canary_config_fields_def int64_def)
  show ?thesis
    by (subst canary_configure_accepts [OF reference_validator_documented u])
      (simp add: canary_config_ok_def canary_config_zero_def)
qed

text \<open>
  C9: Whatever the checks, the store and the clock do, an execution of a canary that
  satisfies its invariant keeps the invariant, and when it reports success the traffic it
  asks for is between 1 and 100 percent and is the traffic it remembers.
\<close>

theorem canary_execute_bounds:
  assumes "canary_inv p" and "canary_Execute env cand p w = ((st, t, e), p1, w1)"
  shows "canary_inv p1 \<and> (st = StrategyStatusSuccess \<longrightarrow>
     1 \<le> t \<and> t \<le> 100 \<and> e = None \<and> GetCandidateTraffic p1 = t \<and> GetPrimaryTraffic p1 = 100 - t)"
  using canary_Execute_inv [OF assms] canary_Execute_success [of p env cand w t e p1 w1] assms
  by (auto simp: GetCandidateTraffic_def GetPrimaryTraffic_def)

theorem canary_execute_bounds_witness:
  "\<exists>p1 w1. canary_Execute script_env ''api'' (sample_canary (-1)) ([], []) =
       ((StrategyStatusSuccess, 10, None), p1, w1) \<and> canary_inv p1 \<and>
     GetCandidateTraffic p1 = 10 \<and> GetPrimaryTraffic p1 = 90"
proof -
  let ?x = "canary_Execute script_env ''api'' (sample_canary (-1)) ([], [])"
  have "fst ?x = (StrategyStatusSuccess, 10, None)"
    by (simp add: canary_Execute_def canary_body_def script_simps)
  then have "?x = ((StrategyStatusSuccess, 10, None), fst (snd ?x), snd (snd ?x))"
    by (metis prod.collapse)
  moreover have "canary_inv (sample_canary (-1))" by (simp add: script_simps)
  ultimately show ?thesis
    using canary_execute_bounds [of "sample_canary (-1)" script_env "''api''" "([], [])"] by fastforce
qed

text \<open>
  C27: Once traffic flows, exactly as many consecutive failing checks as the error
  threshold fail the roll-out: the strategy reports failure without an error, its
  traffic goes back to the unset value and that state is saved.
\<close>

theorem canary_threshold_rolls_back:
  assumes "cs_traffic (c_state p) \<noteq> -1" and "ce_parse env (cc_interval (c_config p)) = Some d"
    and "failing_rounds env cand d p n w = Some w1"
    and "cc_error_threshold (c_config p) = int n + 1"
    and "round_check env cand d w1 = ((r, Some e), w2)"
  shows "canary_Execute env cand p w =
     ((StrategyStatusFailed, 0, None), set_state (-1) StrategyStatusFailed p,
      canary_saveState env (set_state (-1) StrategyStatusFailed p) w2)"
  using assms canary_loop_fail [OF assms(3), of 0]
  by (simp add: canary_Execute_def canary_body_def)

theorem canary_threshold_rolls_back_witness:
  "fst (canary_Execute script_env ''api'' (sample_canary 30) ([False, False], [])) =
     (StrategyStatusFailed, 0, None)"
proof -
  have "failing_rounds script_env ''api'' 1000000000 (sample_canary 30) 1 ([False, False], []) =
     Some ([False], [Text (enc_canary_state \<lparr>cs_traffic = 30, cs_status = ''strategy_status_failing''\<rparr>)])"
    by (simp add: script_simps)
  from canary_threshold_rolls_back [OF _ _ this] show ?thesis
    by (simp add: script_simps)
qed

text \<open>
  Fewer consecutive failing checks than the error threshold are forgiven: as soon as
  a check passes, the roll-out makes exactly the step of traffic it would have made with
  no failure, to the end of the roll-out if the maximum is reached.
\<close>

theorem canary_recovers_below_threshold:
  assumes "cs_traffic (c_state p) \<noteq> -1" and "ce_parse env (cc_interval (c_config p)) = Some d"
    and "failing_rounds env cand d p n w = Some w1"
    and "n = 0 \<or> int n < cc_error_threshold (c_config p)"
    and "round_check env cand d w1 = ((r, None), w2)"
  shows "fst (canary_Execute env cand p w) =
     (let t = cs_traffic (c_state p) + cc_traffic_step (c_config p)
      in if cc_max_traffic (c_config p) \<le> t then (StrategyStatusComplete, 100, None)
         else (StrategyStatusSuccess, t, None))"
  using assms canary_loop_pass [OF assms(3), of 0]
  by (auto simp: canary_Execute_def canary_body_def canary_pass_def Let_def)

theorem canary_recovers_below_threshold_witness:
  "fst (canary_Execute script_env ''api'' (sample_canary 30) ([False, True], [])) =
     (StrategyStatusSuccess, 50, None)"
proof -
  have "failing_rounds script_env ''api'' 1000000000 (sample_canary 30) 1 ([False, True], []) =
     Some ([True], [Text (enc_canary_state \<lparr>cs_traffic = 30, cs_status = ''strategy_status_failing''\<rparr>)])"
    by (simp add: script_simps)
  from canary_recovers_below_threshold [OF _ _ this] show ?thesis
    by (simp add: script_simps)
qed

text \<open>
  C10: A roll-out cannot go on for ever: from any state in its invariant, whatever the
  checks answer, at most \<open>canary_rank p\<close> executions report success before one reports
  completion or failure, and each success asks for between 1 and 100 percent.
\<close>

theorem canary_rollout_terminates:
  assumes "canary_inv p" and "canary_rank p < n"
  shows "\<exists>ts st. strategy_rounds (canary_Execute env cand) n p w = (ts, Some st) \<and>
     length ts \<le> canary_rank p \<and> st \<in> {StrategyStatusComplete, StrategyStatusFailed} \<and>
     (\<forall>t \<in> set ts. 1 \<le> t \<and> t \<le> 100)"
  by (rule canary.rounds_end [OF assms])

theorem canary_rollout_terminates_witness:
  "\<exists>ts st. strategy_rounds (canary_Execute script_env ''api'') 31 (sample_canary 30) ([True, False, True], []) =
     (ts, Some st) \<and> length ts \<le> 30 \<and> st \<in> {StrategyStatusComplete, StrategyStatusFailed}"
proof -
  have "canary_inv (sample_canary 30)" "canary_rank (sample_canary 30) = 30"
    by (simp_all add: script_simps canary_rank_def)
  with canary_rollout_terminates [of "sample_canary 30" 31 script_env "''api''" "([True, False, True], [])"]
  show ?thesis by auto
qed



text \<open>
  The two traffic getters always describe a split: each is a percentage and together
  they make 100, for every state the plugin can be in, the unset and the overshooting
  ones included.
\<close>

theorem canary_traffic_getters:
  "GetPrimaryTraffic p + GetCandidateTraffic p = 100 \<and>
   0 \<le> GetPrimaryTraffic p \<and> GetPrimaryTraffic p \<le> 100"
  by (auto simp: GetPrimaryTraffic_def GetCandidateTraffic_def)

end
