(* ===== verification/Workers.thy ===== *)
theory Workers
  imports Interfaces
begin

text \<open>
  The goroutines of the state machine (\<open>doConfigure\<close> to \<open>doDestroy\<close> of
  \<open>pkg/plugins/statemachine/statemachine.go\<close>). Each \<open>go func() {...}()\<close> is translated
  once, to a tree of the actions it performs: a call of a plugin is a node that
  branches on the plugin's reply. The tree is run in two ways: to completion with
  arbitrary replies (\<open>exec\<close>, here), and action by action, interleaved with the other
  goroutines (\<open>StateMachine\<close>).

  The context with the 30 minute timeout is handed to every plugin call; running out of
  it is an error reply like any other.
\<close>

subsection \<open>Actions\<close>

datatype subset_filter = PrimaryFilter | CandidateFilter

text \<open>
  Plugin calls that return only an error. \<open>WaitUntilServiceHealthy\<close> names which filter
  of the runtime it is given, \<open>TestExecute\<close> and the strategy get the candidate name the
  runtime reports at that moment.
\<close>

datatype plugin_call =
    ReleaserSetup
  | WaitUntilServiceHealthy subset_filter
  | Scale int
  | ReleaserDestroy
  | RemoveCandidate
  | RestoreOriginal
  | RemovePrimary
  | TestExecute

datatype status_call = InitPrimary string | PromoteCandidate

datatype prog =
    Done
  | Sleep nat prog
  | Call plugin_call "go_error option \<Rightarrow> prog"
  | StatusCall status_call "runtime_status \<Rightarrow> go_error option \<Rightarrow> prog"
  | RunStrategy "strategy_status \<Rightarrow> int \<Rightarrow> go_error option \<Rightarrow> prog"
  | ReadTraffic "int \<Rightarrow> int \<Rightarrow> prog"
  | Webhooks string sm_state sm_event int int "go_error option" prog
  | Fire sm_event "int list" prog

text \<open>The shape of most error branches: call the webhooks, then fire the failure event.\<close>

definition fail_with :: "string \<Rightarrow> sm_state \<Rightarrow> int \<Rightarrow> int \<Rightarrow> go_error \<Rightarrow> prog" where
  "fail_with title st p c err = Webhooks title st EventFail p c (Some err) (Fire EventFail [] Done)"

subsection \<open>The handlers\<close>

definition doConfigure :: "string \<Rightarrow> prog" where
  "doConfigure name =
     (let failed = fail_with ''Configure release failed'' StateConfigure;
          finish = Webhooks ''Configure release succeeded'' StateConfigure EventConfigured 100 0 None
                     (Fire EventConfigured [] Done)
      in Call ReleaserSetup (\<lambda>e. case e of Some err \<Rightarrow> failed 0 100 err | None \<Rightarrow>
         Sleep 1 (StatusCall (InitPrimary name) (\<lambda>status e. case e of Some err \<Rightarrow> failed 0 100 err | None \<Rightarrow>
         if status = RuntimeDeploymentUpdate then
           Call (WaitUntilServiceHealthy PrimaryFilter) (\<lambda>e. case e of Some err \<Rightarrow> failed 0 100 err | None \<Rightarrow>
           Call (Scale 0) (\<lambda>e. case e of Some err \<Rightarrow> failed 0 100 err | None \<Rightarrow>
           Sleep 4 (Call RemoveCandidate (\<lambda>e. case e of Some err \<Rightarrow> failed 100 0 err | None \<Rightarrow>
           finish))))
         else finish))))"

definition doDeploy :: "string \<Rightarrow> prog" where
  "doDeploy name =
     (let failed = fail_with ''New Deployment failed'' StateDeploy 100 0
      in Sleep 1 (StatusCall (InitPrimary name) (\<lambda>status e. case e of Some err \<Rightarrow> failed err | None \<Rightarrow>
         Call (WaitUntilServiceHealthy PrimaryFilter) (\<lambda>e. case e of Some err \<Rightarrow> failed err | None \<Rightarrow>
         Call (Scale 0) (\<lambda>e. case e of Some err \<Rightarrow> failed err | None \<Rightarrow>
         if status = RuntimeDeploymentUpdate then
           Sleep 4 (Call RemoveCandidate (\<lambda>e. case e of
               Some err \<Rightarrow> fail_with ''New deployment failed'' StateDeploy 100 0 err
             | None \<Rightarrow>
                 Webhooks ''New deployment succeeded'' StateDeploy EventComplete 100 0 None
                   (Fire EventComplete [] Done)))
         else
           Webhooks ''New deployment succeeded, executing strategy'' StateDeploy EventDeployed 100 0 None
             (Fire EventDeployed [] Done))))))"

text \<open>
  The error branch of the strategy fires the failure event and, as the code has no
  return there, goes on to the switch over the result.
\<close>

definition monitor_switch :: "strategy_status \<Rightarrow> int \<Rightarrow> go_error option \<Rightarrow> prog" where
  "monitor_switch result traffic err =
     (case result of
        StrategyStatusSuccess \<Rightarrow> Fire EventHealthy [traffic] Done
      | StrategyStatusComplete \<Rightarrow> Fire EventComplete [] Done
      | StrategyStatusFailed \<Rightarrow>
          ReadTraffic (\<lambda>p c. Webhooks ''Monitor deployment failed'' StateMonitor EventUnhealthy p c err
            (Fire EventUnhealthy [] Done))
      | StrategyStatusFailing \<Rightarrow> Done)"

definition monitor_strategy :: prog where
  "monitor_strategy =
     RunStrategy (\<lambda>result traffic err. case err of
         Some e \<Rightarrow>
           ReadTraffic (\<lambda>p c. Webhooks ''Monitoring deployment failed'' StateMonitor EventFail p c (Some e)
             (Fire EventFail [] (monitor_switch result traffic err)))
       | None \<Rightarrow> monitor_switch result traffic err)"

definition doMonitor :: "bool \<Rightarrow> prog" where
  "doMonitor has_test =
     (if has_test then
        Call TestExecute (\<lambda>e. case e of
            Some err \<Rightarrow>
              ReadTraffic (\<lambda>p c. Webhooks ''post deployment tests failed'' StateMonitor EventFail p c (Some err)
                (Fire EventUnhealthy [] Done))
          | None \<Rightarrow> monitor_strategy)
      else monitor_strategy)"

definition doScale :: "int list \<Rightarrow> prog" where
  "doScale args =
     (if length args \<noteq> 1 then Fire EventFail [] Done
      else Call (Scale (hd args)) (\<lambda>e. case e of
          Some err \<Rightarrow>
            ReadTraffic (\<lambda>p c. Webhooks ''Scaling deployment failed'' StateMonitor EventFail p c (Some err)
              (Fire EventFail [] Done))
        | None \<Rightarrow>
            ReadTraffic (\<lambda>p c. Webhooks ''Scaling deployment succeeded'' StateMonitor EventScaled p c None
              (Fire EventScaled [] Done))))"

definition doPromote :: prog where
  "doPromote =
     (let failed = fail_with ''Promoting candidate failed'' StatePromote
      in Call (Scale 100) (\<lambda>e. case e of Some err \<Rightarrow> failed 0 100 err | None \<Rightarrow>
         Sleep 1 (StatusCall PromoteCandidate (\<lambda>_ e. case e of Some err \<Rightarrow> failed 0 100 err | None \<Rightarrow>
         Call (WaitUntilServiceHealthy PrimaryFilter) (\<lambda>e. case e of Some err \<Rightarrow> failed 0 100 err | None \<Rightarrow>
         Call (Scale 0) (\<lambda>e. case e of Some err \<Rightarrow> failed 0 100 err | None \<Rightarrow>
         Sleep 4 (Call RemoveCandidate (\<lambda>e. case e of Some err \<Rightarrow> failed 100 0 err | None \<Rightarrow>
         Webhooks ''Promoting candidate to primary succeeded'' StatePromote EventPromoted 100 0 None
           (Fire EventPromoted [] Done)))))))))"

definition doRollback :: prog where
  "doRollback =
     Call (Scale 0) (\<lambda>e. case e of
         Some err \<Rightarrow>
           Fire EventFail []
             (ReadTraffic (\<lambda>p c. Webhooks ''Rolling back deployment failed'' StateRollback EventFail p c (Some err) Done))
       | None \<Rightarrow>
     Sleep 4 (Call RemoveCandidate (\<lambda>e. case e of
         Some err \<Rightarrow> fail_with ''Rolling back deployment failed'' StateRollback 100 0 err
       | None \<Rightarrow>
           Webhooks ''Deployment rolled back'' StateRollback EventComplete 100 0 None
             (Fire EventComplete [] Done))))"

definition doDestroy :: prog where
  "doDestroy =
     (let failed = fail_with ''Remove release failed'' StateDestroy
      in Call RestoreOriginal (\<lambda>e. case e of Some err \<Rightarrow> failed 100 0 err | None \<Rightarrow>
         Call (WaitUntilServiceHealthy CandidateFilter) (\<lambda>e. case e of Some err \<Rightarrow> failed 100 0 err | None \<Rightarrow>
         Call (Scale 100) (\<lambda>e. case e of Some err \<Rightarrow> failed 100 0 err | None \<Rightarrow>
         Sleep 4 (Call RemovePrimary (\<lambda>e. case e of Some err \<Rightarrow> failed 0 100 err | None \<Rightarrow>
         Call ReleaserDestroy (\<lambda>e. case e of Some err \<Rightarrow> failed 0 100 err | None \<Rightarrow>
         Webhooks ''Remove release succeeded'' StateDestroy EventComplete 0 100 None
           (Fire EventComplete [] Done))))))))"

subsection \<open>Webhook messages\<close>

text \<open>
  \<open>callWebhooks\<close> builds one message per configured webhook and sends it; a failing
  webhook is logged and does not stop the others. The list gives each webhook's \<open>Send\<close>.
\<close>

definition webhook_message_of ::
    "release \<Rightarrow> string \<Rightarrow> sm_state \<Rightarrow> sm_event \<Rightarrow> int \<Rightarrow> int \<Rightarrow> go_error option \<Rightarrow> webhook_message" where
  "webhook_message_of r title st result p c err =
     \<lparr>wm_title = title, wm_name = r_name r, wm_namespace = r_namespace r, wm_state = state_str st,
      wm_outcome = event_str result, wm_primary_traffic = p, wm_candidate_traffic = c,
      wm_error = (case err of None \<Rightarrow> '''' | Some e \<Rightarrow> err_msg e)\<rparr>"

fun callWebhooks ::
    "(webhook_message \<Rightarrow> 'w \<Rightarrow> go_error option \<times> 'w) list \<Rightarrow> webhook_message \<Rightarrow> 'w \<Rightarrow> 'w" where
  "callWebhooks [] m w = w"
| "callWebhooks (send # sends) m w = callWebhooks sends m (snd (send m w))"

subsection \<open>Running one goroutine to completion\<close>

datatype observation =
    OSleep nat
  | OCall plugin_call "go_error option"
  | OStatus status_call runtime_status "go_error option"
  | OStrategy strategy_status int "go_error option"
  | OHook string sm_state sm_event int int "go_error option"
  | OFire sm_event "int list"

inductive exec :: "prog \<Rightarrow> observation list \<Rightarrow> bool" where
  exec_Done: "exec Done []"
| exec_Sleep: "exec k tr \<Longrightarrow> exec (Sleep n k) (OSleep n # tr)"
| exec_Call: "exec (k e) tr \<Longrightarrow> exec (Call c k) (OCall c e # tr)"
| exec_Status: "exec (k s e) tr \<Longrightarrow> exec (StatusCall c k) (OStatus c s e # tr)"
| exec_Strategy: "exec (k s t e) tr \<Longrightarrow> exec (RunStrategy k) (OStrategy s t e # tr)"
| exec_Traffic: "exec (k p c) tr \<Longrightarrow> exec (ReadTraffic k) tr"
| exec_Hook: "exec k tr \<Longrightarrow> exec (Webhooks title st ev p c err k) (OHook title st ev p c err # tr)"
| exec_Fire: "exec k tr \<Longrightarrow> exec (Fire ev args k) (OFire ev args # tr)"

inductive_simps exec_Done_iff: "exec Done tr"
inductive_simps exec_Sleep_iff: "exec (Sleep n k) tr"
inductive_simps exec_Call_iff: "exec (Call c k) tr"
inductive_simps exec_Status_iff: "exec (StatusCall c k) tr"
inductive_simps exec_Strategy_iff: "exec (RunStrategy k) tr"
inductive_simps exec_Traffic_iff: "exec (ReadTraffic k) tr"
inductive_simps exec_Hook_iff: "exec (Webhooks title st ev p c err k) tr"
inductive_simps exec_Fire_iff: "exec (Fire ev args k) tr"

lemmas exec_iffs =
  exec_Done_iff exec_Sleep_iff exec_Call_iff exec_Status_iff exec_Strategy_iff exec_Traffic_iff
  exec_Hook_iff exec_Fire_iff

text \<open>What an execution shows: the plugin calls with their errors, the events fired, the webhooks.\<close>

datatype step = SCall plugin_call | SStatus status_call | SStrategy

fun steps_of :: "observation list \<Rightarrow> (step \<times> go_error option) list" where
  "steps_of [] = []"
| "steps_of (OCall c e # tr) = (SCall c, e) # steps_of tr"
| "steps_of (OStatus c s e # tr) = (SStatus c, e) # steps_of tr"
| "steps_of (OStrategy s t e # tr) = (SStrategy, e) # steps_of tr"
| "steps_of (_ # tr) = steps_of tr"

fun fired :: "observation list \<Rightarrow> (sm_event \<times> int list) list" where
  "fired [] = []"
| "fired (OFire ev args # tr) = (ev, args) # fired tr"
| "fired (_ # tr) = fired tr"

fun hooks :: "observation list \<Rightarrow> (sm_state \<times> sm_event) list" where
  "hooks [] = []"
| "hooks (OHook title st ev p c err # tr) = (st, ev) # hooks tr"
| "hooks (_ # tr) = hooks tr"

text \<open>
  The specification most handlers meet: a list of steps, performed in order and stopped
  at the first error. \<open>pipeline steps xs\<close> is \<open>Some True\<close> where \<open>xs\<close> is a run of all the
  steps without error, \<open>Some False\<close> where it is a run up to a first failing step, and
  \<open>None\<close> where it is neither.
\<close>

fun pipeline :: "step list \<Rightarrow> (step \<times> go_error option) list \<Rightarrow> bool option" where
  "pipeline [] [] = Some True"
| "pipeline (s # ss) ((s', None) # xs) = (if s = s' then pipeline ss xs else None)"
| "pipeline (s # ss) [(s', Some e)] = (if s = s' then Some False else None)"
| "pipeline _ _ = None"

lemma pipeline_order:
  assumes "pipeline ss xs = Some b" and "i < length xs"
  shows "fst (xs ! i) = ss ! i \<and> i < length ss \<and> (\<forall>j < i. snd (xs ! j) = None) \<and>
    (snd (xs ! i) \<noteq> None \<longleftrightarrow> \<not> b \<and> Suc i = length xs)"
  using assms
proof (induction ss xs arbitrary: i rule: pipeline.induct)
  case (2 s ss s' xs)
  show ?case
  proof (cases i)
    case 0
    with 2 show ?thesis by (cases xs) (auto split: if_splits elim: pipeline.elims)
  next
    case (Suc k)
    with 2 show ?thesis by (auto simp: nth_Cons split: if_splits nat.splits)
  qed
qed (auto split: if_splits)
end
