(* ===== verification/StateMachine.thy ===== *)
theory StateMachine
  imports Workers
begin

text \<open>
  The release state machine (\<open>pkg/plugins/statemachine/statemachine.go\<close>): its event
  table, its callbacks, the operations of the \<open>StateMachine\<close> interface, and the steps of
  a machine whose goroutines run interleaved with each other and with the API.

  The finite state machine itself is a third-party library and a parameter here. A
  library value is \<open>Event\<close>: given the event table, the callbacks, an event with its
  arguments and the current state, it returns its error and the new state.
  \<open>fsm_documented\<close> is what the library documents: an event the table has for the
  current state changes the state to the destination and runs the callbacks before the
  event, on leaving, on entering the named state and on entering any state, in this
  order; an event the table does not have for the current state is an error and
  changes nothing. \<open>Event\<close> holds a lock, so events are atomic steps.
\<close>

subsection \<open>The library as a parameter\<close>

type_synonym event_desc = "sm_event \<times> sm_state list \<times> sm_state"

datatype fsm_error = InvalidEventError sm_event sm_state | UnknownEventError sm_event | NoTransitionError

record fsm_event =
  fe_event :: sm_event
  fe_args :: "int list"
  fe_err :: "go_error option"

text \<open>A callback is given the event, the state \<open>FSM.Current()\<close> reports, and the machine.\<close>

type_synonym 'm callback = "fsm_event \<Rightarrow> sm_state \<Rightarrow> 'm \<Rightarrow> 'm"

record 'm callbacks =
  cb_before_event :: "'m callback"
  cb_leave_state :: "'m callback"
  cb_enter :: "sm_state \<Rightarrow> 'm callback option"
  cb_enter_state :: "'m callback"

type_synonym 'm fsm_lib =
  "event_desc list \<Rightarrow> 'm callbacks \<Rightarrow> sm_event \<Rightarrow> int list \<Rightarrow> sm_state \<times> 'm \<Rightarrow>
   fsm_error option \<times> sm_state \<times> 'm"

definition accepts :: "event_desc list \<Rightarrow> sm_event \<Rightarrow> sm_state \<Rightarrow> sm_state \<Rightarrow> bool" where
  "accepts tbl e s d \<longleftrightarrow> list_ex (\<lambda>(e', srcs, d'). e' = e \<and> s \<in> set srcs \<and> d' = d) tbl"

text \<open>No two rows give one event and source different destinations.\<close>

definition deterministic :: "event_desc list \<Rightarrow> bool" where
  "deterministic tbl \<longleftrightarrow>
     list_all (\<lambda>(e, srcs, d). list_all (\<lambda>(e', srcs', d').
       e = e' \<and> set srcs \<inter> set srcs' \<noteq> {} \<longrightarrow> d = d') tbl) tbl"

definition run_callbacks :: "'m callbacks \<Rightarrow> fsm_event \<Rightarrow> sm_state \<Rightarrow> sm_state \<Rightarrow> 'm \<Rightarrow> 'm" where
  "run_callbacks cbs e src dst m =
     cb_enter_state cbs e dst
       ((case cb_enter cbs dst of None \<Rightarrow> id | Some f \<Rightarrow> f e dst)
         (cb_leave_state cbs e src (cb_before_event cbs e src m)))"

definition fsm_documented :: "'m fsm_lib \<Rightarrow> bool" where
  "fsm_documented lib \<longleftrightarrow>
     (\<forall>tbl cbs e args s m d. deterministic tbl \<longrightarrow> accepts tbl e s d \<longrightarrow> d \<noteq> s \<longrightarrow>
        lib tbl cbs e args (s, m) =
          (None, d, run_callbacks cbs \<lparr>fe_event = e, fe_args = args, fe_err = None\<rparr> s d m)) \<and>
     (\<forall>tbl cbs e args s m. (\<forall>d. \<not> accepts tbl e s d) \<longrightarrow>
        (\<exists>err. lib tbl cbs e args (s, m) = (Some err, s, m)))"

text \<open>A library that behaves as documented, to evaluate runs with.\<close>

definition row_for :: "sm_event \<Rightarrow> sm_state \<Rightarrow> event_desc \<Rightarrow> bool" where
  "row_for e s row \<longleftrightarrow> fst row = e \<and> s \<in> set (fst (snd row))"

definition reference_fsm :: "'m fsm_lib" where
  "reference_fsm tbl cbs e args c =
     (case find (row_for e (fst c)) tbl of
        None \<Rightarrow>
          (Some (if e \<in> fst ` set tbl then InvalidEventError e (fst c) else UnknownEventError e), c)
      | Some (_, _, d) \<Rightarrow>
          if d = fst c then (Some NoTransitionError, c)
          else (None, d, run_callbacks cbs \<lparr>fe_event = e, fe_args = args, fe_err = None\<rparr> (fst c) d (snd c)))"

lemma accepts_unique: "deterministic tbl \<Longrightarrow> accepts tbl e s d \<Longrightarrow> accepts tbl e s d' \<Longrightarrow> d = d'"
  by (fastforce simp: deterministic_def accepts_def list_all_iff list_ex_iff)

lemma find_row_accepts:
  assumes "find (row_for e s) tbl = Some (e', srcs, d)"
  shows "accepts tbl e s d"
proof -
  from assms obtain i where "i < length tbl" "row_for e s (tbl ! i)" "tbl ! i = (e', srcs, d)"
    by (auto simp: find_Some_iff)
  then have "(e', srcs, d) \<in> set tbl" and "e' = e" and "s \<in> set srcs"
    using nth_mem by (fastforce simp: row_for_def)+
  then show ?thesis by (auto simp: accepts_def list_ex_iff)
qed

lemma accepts_find_row:
  assumes "accepts tbl e s d"
  obtains e' srcs d' where "find (row_for e s) tbl = Some (e', srcs, d')"
proof -
  from assms have "find (row_for e s) tbl \<noteq> None"
    by (auto simp: find_None_iff accepts_def list_ex_iff row_for_def)
  with that show ?thesis by auto
qed

lemma reference_fsm_accepts:
  assumes "deterministic tbl" and "accepts tbl e s d" and "d \<noteq> s"
  shows "reference_fsm tbl cbs e args (s, m) =
    (None, d, run_callbacks cbs \<lparr>fe_event = e, fe_args = args, fe_err = None\<rparr> s d m)"
proof -
  from assms(2) obtain e' srcs d' where f: "find (row_for e s) tbl = Some (e', srcs, d')"
    by (rule accepts_find_row)
  then have "d' = d" using accepts_unique [OF assms(1)] find_row_accepts assms(2) by blast
  with f assms(3) show ?thesis by (simp add: reference_fsm_def)
qed

lemma reference_fsm_rejects:
  assumes "\<And>d. \<not> accepts tbl e s d"
  shows "\<exists>err. reference_fsm tbl cbs e args (s, m) = (Some err, s, m)"
proof (cases "find (row_for e s) tbl")
  case None
  then show ?thesis by (simp add: reference_fsm_def)
next
  case (Some r)
  then show ?thesis using find_row_accepts assms by (cases r) blast
qed

lemma reference_fsm_documented: "fsm_documented reference_fsm"
  by (simp add: fsm_documented_def reference_fsm_accepts reference_fsm_rejects)

subsection \<open>The event table\<close>

definition sm_events :: "event_desc list" where
  "sm_events =
     [(EventConfigure, [StateStart, StateIdle, StateFail], StateConfigure),
      (EventConfigured, [StateConfigure], StateIdle),
      (EventDeploy, [StateIdle, StateFail], StateDeploy),
      (EventDeployed, [StateDeploy], StateMonitor),
      (EventHealthy, [StateMonitor], StateScale),
      (EventScaled, [StateScale], StateMonitor),
      (EventComplete, [StateMonitor], StatePromote),
      (EventPromoted, [StatePromote], StateIdle),
      (EventUnhealthy, [StateMonitor], StateRollback),
      (EventComplete, [StateDeploy], StateIdle),
      (EventComplete, [StateRollback], StateIdle),
      (EventComplete, [StateDestroy], StateIdle),
      (EventFail, [StateStart, StateConfigure, StateIdle, StateDeploy, StateMonitor, StateScale,
         StatePromote, StateRollback, StateDestroy], StateFail),
      (EventDestroy, [StateFail, StateIdle, StateConfigure, StateDeploy, StateMonitor, StateScale,
         StatePromote, StateRollback], StateDestroy)]"

text \<open>The same table as a function.\<close>

fun next_state :: "sm_state \<Rightarrow> sm_event \<Rightarrow> sm_state option" where
  "next_state s EventConfigure = (if s \<in> {StateStart, StateIdle, StateFail} then Some StateConfigure else None)"
| "next_state s EventConfigured = (if s = StateConfigure then Some StateIdle else None)"
| "next_state s EventDeploy = (if s \<in> {StateIdle, StateFail} then Some StateDeploy else None)"
| "next_state s EventDeployed = (if s = StateDeploy then Some StateMonitor else None)"
| "next_state s EventHealthy = (if s = StateMonitor then Some StateScale else None)"
| "next_state s EventScaled = (if s = StateScale then Some StateMonitor else None)"
| "next_state s EventComplete =
     (if s = StateMonitor then Some StatePromote
      else if s \<in> {StateDeploy, StateRollback, StateDestroy} then Some StateIdle else None)"
| "next_state s EventPromoted = (if s = StatePromote then Some StateIdle else None)"
| "next_state s EventUnhealthy = (if s = StateMonitor then Some StateRollback else None)"
| "next_state s EventFail =
     (if s \<in> {StateStart, StateConfigure, StateIdle, StateDeploy, StateMonitor, StateScale,
        StatePromote, StateRollback, StateDestroy} then Some StateFail else None)"
| "next_state s EventDestroy =
     (if s \<in> {StateFail, StateIdle, StateConfigure, StateDeploy, StateMonitor, StateScale,
        StatePromote, StateRollback} then Some StateDestroy else None)"
| "next_state s EventNull = None"

lemma accepts_sm_events: "accepts sm_events e s d \<longleftrightarrow> next_state s e = Some d"
  by (cases e) (auto simp: accepts_def sm_events_def)

lemma deterministic_sm_events: "deterministic sm_events"
  by (simp add: deterministic_def sm_events_def)

lemma next_state_changes: "next_state s e = Some d \<Longrightarrow> d \<noteq> s"
  by (cases e) (auto split: if_splits)

lemma next_state_named: "next_state s e = Some d \<Longrightarrow> d \<in> set named_states"
  by (cases e) (auto simp: named_states_def split: if_splits)

subsection \<open>The machine and its callbacks\<close>

datatype effect =
    MetricsStateChanged sm_state
  | MetricsDone sm_state nat
  | StoreUpsert release

text \<open>
  \<open>m_metrics\<close> is the stored \<open>metricsDone\<close> closure, which remembers the state it times;
  \<open>m_pool\<close> the goroutines started and not finished; \<open>m_effects\<close> the calls made to the
  metrics and the data store, in order; \<open>m_clock\<close> what \<open>time.Now()\<close> returns.
\<close>

record machine =
  m_release :: release
  m_has_test :: bool
  m_metrics :: "sm_state option"
  m_clock :: int
  m_pool :: "prog list"
  m_effects :: "effect list"

definition enterState :: "machine callback" where
  "enterState e cur m =
     (let r = UpdateState (m_clock m) cur (m_release m)
      in m\<lparr>m_metrics := Some cur, m_release := r,
           m_effects := m_effects m @ [MetricsStateChanged cur, StoreUpsert r]\<rparr>)"

definition leaveState :: "machine callback" where
  "leaveState e cur m =
     (case m_metrics m of
        None \<Rightarrow> m
      | Some st \<Rightarrow>
          m\<lparr>m_effects := m_effects m @ [MetricsDone st (if fe_err e \<noteq> None then 500 else 200)]\<rparr>)"

definition spawn :: "prog \<Rightarrow> machine \<Rightarrow> machine" where
  "spawn p m = m\<lparr>m_pool := m_pool m @ [p]\<rparr>"

text \<open>The goroutine started on entering a state, if there is a callback for it.\<close>

fun handler :: "string \<Rightarrow> bool \<Rightarrow> sm_state \<Rightarrow> int list \<Rightarrow> prog option" where
  "handler name has_test StateConfigure args = Some (doConfigure name)"
| "handler name has_test StateDeploy args = Some (doDeploy name)"
| "handler name has_test StateMonitor args = Some (doMonitor has_test)"
| "handler name has_test StateScale args = Some (doScale args)"
| "handler name has_test StatePromote args = Some doPromote"
| "handler name has_test StateRollback args = Some doRollback"
| "handler name has_test StateDestroy args = Some doDestroy"
| "handler name has_test _ args = None"

definition sm_callbacks :: "machine callbacks" where
  "sm_callbacks =
     \<lparr>cb_before_event = (\<lambda>e cur m. m),
      cb_leave_state = leaveState,
      cb_enter = (\<lambda>st.
         if st \<in> {StateConfigure, StateDeploy, StateMonitor, StateScale, StatePromote,
                  StateRollback, StateDestroy}
         then Some (\<lambda>e cur m.
           case handler (r_name (m_release m)) (m_has_test m) st (fe_args e) of
             None \<Rightarrow> m | Some p \<Rightarrow> spawn p m)
         else None),
      cb_enter_state = enterState\<rparr>"

text \<open>The state a machine starts in: the last one of the release's history, if any.\<close>

definition initial_state :: "release \<Rightarrow> sm_state" where
  "initial_state r = (if CurrentState r \<noteq> StateOther '''' then CurrentState r else StateStart)"

definition new_machine :: "release \<Rightarrow> machine" where
  "new_machine r =
     \<lparr>m_release = r, m_has_test = (r_post_test r \<noteq> None), m_metrics = None, m_clock = 0,
      m_pool = [], m_effects = []\<rparr>"

type_synonym config = "sm_state \<times> machine"

definition Event :: "machine fsm_lib \<Rightarrow> sm_event \<Rightarrow> int list \<Rightarrow> config \<Rightarrow> fsm_error option \<times> config" where
  "Event lib e args c = lib sm_events sm_callbacks e args c"

definition Configure :: "machine fsm_lib \<Rightarrow> config \<Rightarrow> fsm_error option \<times> config" where
  "Configure lib c = Event lib EventConfigure [] c"

definition Deploy :: "machine fsm_lib \<Rightarrow> config \<Rightarrow> fsm_error option \<times> config" where
  "Deploy lib c = Event lib EventDeploy [] c"

definition Destroy :: "machine fsm_lib \<Rightarrow> config \<Rightarrow> fsm_error option \<times> config" where
  "Destroy lib c = Event lib EventDestroy [] c"

text \<open>
  \<open>Resume\<close> sets the state of a machine in the monitor state back to deploy, without
  callbacks, and then fires the deployed event; other goroutines may run in between, so
  the event is left to the pool.
\<close>

definition Resume :: "config \<Rightarrow> config" where
  "Resume c =
     (case fst c of
        StateMonitor \<Rightarrow> (StateDeploy, spawn (Fire EventDeployed [] Done) (snd c))
      | _ \<Rightarrow> c)"

text \<open>What a documented library makes of an event of the table.\<close>

definition enter_machine :: "sm_state \<Rightarrow> sm_state \<Rightarrow> int list \<Rightarrow> machine \<Rightarrow> machine" where
  "enter_machine src dst args m =
     run_callbacks sm_callbacks \<lparr>fe_event = EventNull, fe_args = args, fe_err = None\<rparr> src dst m"

lemma Event_accepted:
  assumes "fsm_documented lib" and "next_state s e = Some d"
  shows "Event lib e args (s, m) = (None, d, enter_machine s d args m)"
proof -
  have "lib sm_events sm_callbacks e args (s, m) =
      (None, d, run_callbacks sm_callbacks \<lparr>fe_event = e, fe_args = args, fe_err = None\<rparr> s d m)"
    using assms next_state_changes deterministic_sm_events accepts_sm_events
    by (simp add: fsm_documented_def)
  also have "run_callbacks sm_callbacks \<lparr>fe_event = e, fe_args = args, fe_err = None\<rparr> s d m =
      enter_machine s d args m"
    by (simp add: enter_machine_def run_callbacks_def sm_callbacks_def enterState_def leaveState_def
        split: option.split)
  finally show ?thesis by (simp add: Event_def)
qed

lemma Event_rejected:
  assumes "fsm_documented lib" and "next_state s e = None"
  shows "\<exists>err. Event lib e args (s, m) = (Some err, s, m)"
  using assms accepts_sm_events by (simp add: Event_def fsm_documented_def)

text \<open>The machine after entering a state: history, persistence, and the new goroutine.\<close>

lemma enter_machine_fields:
  "m_release (enter_machine s d args m) = UpdateState (m_clock m) d (m_release m)"
  "m_pool (enter_machine s d args m) =
     m_pool m @ (case handler (r_name (m_release m)) (m_has_test m) d args of None \<Rightarrow> [] | Some p \<Rightarrow> [p])"
  "m_has_test (enter_machine s d args m) = m_has_test m"
  "m_metrics (enter_machine s d args m) = Some d"
  "m_effects (enter_machine s d args m) = m_effects m @
     (case m_metrics m of None \<Rightarrow> [] | Some st \<Rightarrow> [MetricsDone st 200]) @
     [MetricsStateChanged d, StoreUpsert (UpdateState (m_clock m) d (m_release m))]"
  by (cases d; simp add: enter_machine_def run_callbacks_def sm_callbacks_def enterState_def
        leaveState_def spawn_def Let_def split: option.split)+
end
