(* ===== verification/Interleaving.thy ===== *)
theory Interleaving
  imports StateMachine
begin

text \<open>
  A release machine in operation: the API fires events at any time, and the started
  goroutines perform their actions one by one in any order, each plugin call with any
  reply. The pool is a list only to have an order to write; a step may pick any member.
\<close>

subsection \<open>Steps\<close>

text \<open>One action of a goroutine that does not involve the state machine.\<close>

inductive act :: "prog \<Rightarrow> observation option \<Rightarrow> prog \<Rightarrow> bool" where
  act_Sleep: "act (Sleep n k) (Some (OSleep n)) k"
| act_Call: "act (Call c k) (Some (OCall c e)) (k e)"
| act_Status: "act (StatusCall c k) (Some (OStatus c s e)) (k s e)"
| act_Strategy: "act (RunStrategy k) (Some (OStrategy s t e)) (k s t e)"
| act_Traffic: "act (ReadTraffic k) None (k p c)"
| act_Hook: "act (Webhooks title st ev p c err k) (Some (OHook title st ev p c err)) k"

inductive_cases act_DoneE: "act Done ob q"
inductive_cases act_SleepE: "act (Sleep n k) ob q"
inductive_cases act_CallE: "act (Call c k) ob q"
inductive_cases act_StatusE: "act (StatusCall c k) ob q"
inductive_cases act_StrategyE: "act (RunStrategy k) ob q"
inductive_cases act_TrafficE: "act (ReadTraffic k) ob q"
inductive_cases act_HookE: "act (Webhooks title st ev p c err k) ob q"
inductive_cases act_FireE: "act (Fire ev args k) ob q"

lemmas act_cases =
  act_DoneE act_SleepE act_CallE act_StatusE act_StrategyE act_TrafficE act_HookE act_FireE

datatype label =
    LApi sm_event
  | LResume
  | LAct "observation option"
  | LFire sm_event
  | LExit
  | LTick

inductive sm_step :: "machine fsm_lib \<Rightarrow> config \<Rightarrow> label \<Rightarrow> config \<Rightarrow> bool" for lib where
  api: "ev \<in> {EventConfigure, EventDeploy, EventDestroy} \<Longrightarrow>
     sm_step lib (s, m) (LApi ev) (snd (Event lib ev [] (s, m)))"
| resume: "sm_step lib (s, m) LResume (Resume (s, m))"
| action: "m_pool m = xs @ p # ys \<Longrightarrow> act p ob q \<Longrightarrow>
     sm_step lib (s, m) (LAct ob) (s, m\<lparr>m_pool := xs @ q # ys\<rparr>)"
| fire: "m_pool m = xs @ Fire ev args k # ys \<Longrightarrow>
     sm_step lib (s, m) (LFire ev) (snd (Event lib ev args (s, m\<lparr>m_pool := xs @ k # ys\<rparr>)))"
| exit: "m_pool m = xs @ Done # ys \<Longrightarrow> sm_step lib (s, m) LExit (s, m\<lparr>m_pool := xs @ ys\<rparr>)"
| tick: "m_clock m \<le> t \<Longrightarrow> sm_step lib (s, m) LTick (s, m\<lparr>m_clock := t\<rparr>)"

text \<open>
  Runs, with the steps an environment allows: \<open>allowed\<close> says, of the configuration and
  the label, whether the step may be taken.
\<close>

inductive reach ::
    "machine fsm_lib \<Rightarrow> (config \<Rightarrow> label \<Rightarrow> bool) \<Rightarrow> config \<Rightarrow> config \<Rightarrow> bool"
  for lib allowed c0 where
  reach_start: "reach lib allowed c0 c0"
| reach_step: "reach lib allowed c0 c \<Longrightarrow> allowed c l \<Longrightarrow> sm_step lib c l c' \<Longrightarrow> reach lib allowed c0 c'"

lemma reach_invariant [consumes 1, case_names start step]:
  assumes "reach lib allowed c0 c" and "I c0"
    and "\<And>c l c'. I c \<Longrightarrow> allowed c l \<Longrightarrow> sm_step lib c l c' \<Longrightarrow> I c'"
  shows "I c"
  using assms(1) by (induction rule: reach.induct) (use assms(2,3) in blast)+

text \<open>Any step at all, but a resumption.\<close>

definition free_running :: "config \<Rightarrow> label \<Rightarrow> bool" where
  "free_running c l \<longleftrightarrow> l \<noteq> LResume"

text \<open>
  A serial client: requests and resumption come only while no goroutine is running, and
  the strategy keeps its contract: an error comes with the failed status, and the
  failing status is never a result.
\<close>

definition strategy_reply_ok :: "strategy_status \<Rightarrow> go_error option \<Rightarrow> bool" where
  "strategy_reply_ok st e \<longleftrightarrow>
     (e \<noteq> None \<longrightarrow> st = StrategyStatusFailed) \<and> st \<noteq> StrategyStatusFailing"

fun serial_client :: "config \<Rightarrow> label \<Rightarrow> bool" where
  "serial_client c (LApi ev) = (m_pool (snd c) = [])"
| "serial_client c LResume = (m_pool (snd c) = [])"
| "serial_client c (LAct (Some (OStrategy st t e))) = strategy_reply_ok st e"
| "serial_client c _ = True"

subsection \<open>What a goroutine can still fire\<close>

text \<open>Every event of the tree is in the set.\<close>

primrec fires_in :: "sm_event set \<Rightarrow> prog \<Rightarrow> bool" where
  "fires_in E Done = True"
| "fires_in E (Sleep n k) = fires_in E k"
| "fires_in E (Call c k) = (\<forall>e. fires_in E (k e))"
| "fires_in E (StatusCall c k) = (\<forall>s e. fires_in E (k s e))"
| "fires_in E (RunStrategy k) = (\<forall>s t e. fires_in E (k s t e))"
| "fires_in E (ReadTraffic k) = (\<forall>p c. fires_in E (k p c))"
| "fires_in E (Webhooks title st ev p c err k) = fires_in E k"
| "fires_in E (Fire ev args k) = (ev \<in> E \<and> fires_in E k)"

text \<open>
  Every path of the tree, with a strategy that keeps its contract, fires an event of the
  set, and after it at most, following a failure, a late unhealthy event.
\<close>

primrec live :: "sm_event set \<Rightarrow> prog \<Rightarrow> bool" where
  "live E Done = False"
| "live E (Sleep n k) = live E k"
| "live E (Call c k) = (\<forall>e. live E (k e))"
| "live E (StatusCall c k) = (\<forall>s e. live E (k s e))"
| "live E (RunStrategy k) = (\<forall>s t e. strategy_reply_ok s e \<longrightarrow> live E (k s t e))"
| "live E (ReadTraffic k) = (\<forall>p c. live E (k p c))"
| "live E (Webhooks title st ev p c err k) = live E k"
| "live E (Fire ev args k) = (ev \<in> E \<and> fires_in (if ev = EventFail then {EventUnhealthy} else {}) k)"

lemma act_fires_in: "act p ob q \<Longrightarrow> fires_in E p \<Longrightarrow> fires_in E q"
  by (cases rule: act.cases) auto

lemma act_live: "act p ob q \<Longrightarrow> serial_client c (LAct ob) \<Longrightarrow> live E p \<Longrightarrow> live E q"
  by (cases rule: act.cases) auto

subsection \<open>Each handler fires an event its state accepts\<close>

definition active_states :: "sm_state list" where
  "active_states =
     [StateConfigure, StateDeploy, StateMonitor, StateScale, StatePromote, StateRollback, StateDestroy]"

definition enabled :: "sm_state \<Rightarrow> sm_event set" where
  "enabled s = {e. next_state s e \<noteq> None}"

lemma live_fail_with: "EventFail \<in> E \<Longrightarrow> live E (fail_with title st p c err)"
  by (simp add: fail_with_def)

lemma live_doConfigure: "{EventConfigured, EventFail} \<subseteq> E \<Longrightarrow> live E (doConfigure name)"
  by (auto simp: doConfigure_def Let_def live_fail_with split: option.split)

lemma live_doDeploy: "{EventDeployed, EventComplete, EventFail} \<subseteq> E \<Longrightarrow> live E (doDeploy name)"
  by (auto simp: doDeploy_def Let_def live_fail_with split: option.split)

lemma live_monitor_strategy:
  "{EventHealthy, EventComplete, EventUnhealthy, EventFail} \<subseteq> E \<Longrightarrow> live E monitor_strategy"
  by (auto simp: monitor_strategy_def monitor_switch_def strategy_reply_ok_def
      split: option.split strategy_status.split)

lemma live_doMonitor:
  "{EventHealthy, EventComplete, EventUnhealthy, EventFail} \<subseteq> E \<Longrightarrow> live E (doMonitor has_test)"
  using live_monitor_strategy [of E] by (auto simp: doMonitor_def split: option.split)

lemma live_doScale: "{EventScaled, EventFail} \<subseteq> E \<Longrightarrow> live E (doScale args)"
  by (auto simp: doScale_def split: option.split)

lemma live_doPromote: "{EventPromoted, EventFail} \<subseteq> E \<Longrightarrow> live E doPromote"
  by (auto simp: doPromote_def Let_def live_fail_with split: option.split)

lemma live_doRollback: "{EventComplete, EventFail} \<subseteq> E \<Longrightarrow> live E doRollback"
  by (auto simp: doRollback_def live_fail_with split: option.split)

lemma live_doDestroy: "{EventComplete, EventFail} \<subseteq> E \<Longrightarrow> live E doDestroy"
  by (auto simp: doDestroy_def Let_def live_fail_with split: option.split)

lemma handler_live:
  "handler name has_test s args = Some p \<Longrightarrow> live (enabled s) p"
  by (cases s) (auto simp: enabled_def intro!: live_doConfigure live_doDeploy live_doMonitor
      live_doScale live_doPromote live_doRollback live_doDestroy)

lemma handler_active: "handler name has_test s args \<noteq> None \<longleftrightarrow> s \<in> set active_states"
  by (cases s) (simp_all add: active_states_def)

subsection \<open>Exactly one goroutine drives an active state\<close>

fun one_live :: "sm_event set \<Rightarrow> prog list \<Rightarrow> bool" where
  "one_live E [] = False"
| "one_live E (p # ps) = (live E p \<and> list_all (fires_in {}) ps \<or> fires_in {} p \<and> one_live E ps)"

lemma one_live_append:
  "one_live E (xs @ ys) \<longleftrightarrow>
     one_live E xs \<and> list_all (fires_in {}) ys \<or> list_all (fires_in {}) xs \<and> one_live E ys"
  by (induction xs) auto

text \<open>
  In an active state one goroutine still has to fire an event the state accepts and the
  others fire nothing any more; in the failed state only late unhealthy events are left,
  which it does not accept; in every other state nothing is left to fire.
\<close>

definition driven :: "config \<Rightarrow> bool" where
  "driven c \<longleftrightarrow>
     (if fst c \<in> set active_states then one_live (enabled (fst c)) (m_pool (snd c))
      else list_all (fires_in (if fst c = StateFail then {EventUnhealthy} else {})) (m_pool (snd c)))"

lemma fires_in_mono: "fires_in E p \<Longrightarrow> E \<subseteq> F \<Longrightarrow> fires_in F p"
proof (induction p)
  case (RunStrategy k)
  then show ?case by (metis fires_in.simps(5) rangeI)
qed auto

lemma driven_quiet: "driven (s, m) \<Longrightarrow> m_pool m = [] \<Longrightarrow> s \<notin> set active_states"
  by (auto simp: driven_def)

lemma next_state_target:
  assumes "next_state s ev = Some d"
  shows "d \<in> set active_states \<or> d = StateIdle \<or> d = StateFail"
  using assms by (cases ev) (auto simp: active_states_def split: if_splits)

lemma active_enabled_unhealthy: "s \<notin> set active_states \<Longrightarrow> next_state s EventUnhealthy = None"
  by (auto simp: active_states_def)

lemma driven_enter:
  assumes nxt: "next_state s ev = Some d"
    and spent: "list_all (fires_in (if d = StateFail then {EventUnhealthy} else {})) (m_pool m)"
  shows "driven (d, enter_machine s d args m)"
proof (cases "d \<in> set active_states")
  case True
  then obtain p where p: "handler (r_name (m_release m)) (m_has_test m) d args = Some p"
    using handler_active by fastforce
  have "d \<noteq> StateFail" using True by (auto simp: active_states_def)
  with spent p True handler_live [OF p] show ?thesis
    by (simp add: driven_def enter_machine_fields one_live_append)
next
  case False
  then have "handler (r_name (m_release m)) (m_has_test m) d args = None"
    using handler_active by fastforce
  with spent False show ?thesis by (simp add: driven_def enter_machine_fields)
qed

lemma driven_event_quiet:
  assumes lib: "fsm_documented lib" and d: "driven (s, m)" and quiet: "m_pool m = []"
  shows "driven (snd (Event lib ev args (s, m)))"
proof (cases "next_state s ev")
  case None
  then obtain err where "Event lib ev args (s, m) = (Some err, s, m)"
    using Event_rejected [OF lib] by blast
  with d show ?thesis by simp
next
  case (Some t)
  with quiet driven_enter [of s ev t m] show ?thesis by (simp add: Event_accepted [OF lib Some])
qed

lemma driven_fire:
  assumes lib: "fsm_documented lib" and d: "driven (s, m)"
    and pool: "m_pool m = xs @ Fire ev args k # ys"
  shows "driven (snd (Event lib ev args (s, m\<lparr>m_pool := xs @ k # ys\<rparr>)))"
proof (cases "s \<in> set active_states")
  case True
  with d pool have spent: "list_all (fires_in {}) xs" "list_all (fires_in {}) ys"
    and k: "ev \<in> enabled s" "fires_in (if ev = EventFail then {EventUnhealthy} else {}) k"
    by (auto simp: driven_def one_live_append)
  then obtain t where t: "next_state s ev = Some t" by (auto simp: enabled_def)
  have "ev = EventFail \<longleftrightarrow> t = StateFail" using t by (cases ev) (auto split: if_splits)
  with spent k have "list_all (fires_in (if t = StateFail then {EventUnhealthy} else {})) (xs @ k # ys)"
    by (auto simp: list_all_iff intro: fires_in_mono)
  with driven_enter [OF t, of "m\<lparr>m_pool := xs @ k # ys\<rparr>"] show ?thesis
    by (simp add: Event_accepted [OF lib t])
next
  case False
  with d pool have left: "ev \<in> (if s = StateFail then {EventUnhealthy} else {})"
      "list_all (fires_in (if s = StateFail then {EventUnhealthy} else {})) (xs @ k # ys)"
    by (auto simp: driven_def)
  then have "ev = EventUnhealthy" by (auto split: if_splits)
  with False active_enabled_unhealthy obtain err where
    "Event lib ev args (s, m\<lparr>m_pool := xs @ k # ys\<rparr>) = (Some err, s, m\<lparr>m_pool := xs @ k # ys\<rparr>)"
    using Event_rejected [OF lib] by blast
  with left False show ?thesis by (simp add: driven_def)
qed

lemma driven_resume:
  assumes "driven (s, m)" and "m_pool m = []"
  shows "driven (Resume (s, m))"
proof -
  have "s \<notin> set active_states" using assms by (rule driven_quiet)
  with assms show ?thesis by (cases s) (auto simp: Resume_def active_states_def)
qed

lemma driven_step [inv_intros]:
  assumes lib: "fsm_documented lib" and "driven c" and "serial_client c l" and "sm_step lib c l c'"
  shows "driven c'"
  using assms(4,2,3)
proof (cases rule: sm_step.cases)
  case (api ev s m)
  with assms(2,3) show ?thesis using driven_event_quiet [OF lib] by auto
next
  case (resume s m)
  with assms(2,3) show ?thesis using driven_resume by auto
next
  case (action m xs p ys ob q s)
  then have "live E p \<Longrightarrow> live E q" "fires_in E p \<Longrightarrow> fires_in E q" for E
    using act_live act_fires_in assms(3) by blast+
  with action assms(2) show ?thesis by (auto simp: driven_def one_live_append)
next
  case (fire m xs ev args k ys s)
  with assms(2) show ?thesis using driven_fire [OF lib] by auto
next
  case (exit m xs ys s)
  with assms(2) show ?thesis by (auto simp: driven_def one_live_append)
next
  case (tick m t s)
  with assms(2) show ?thesis by (auto simp: driven_def split: if_splits)
qed

subsection \<open>What is recorded and saved\<close>

text \<open>
  The state the library holds is the last one of the history, the history is no longer
  than its bound, and the release saved last is the release the machine holds.
\<close>

definition legal_pair :: "sm_state \<Rightarrow> sm_state \<Rightarrow> bool" where
  "legal_pair a b \<longleftrightarrow>
     list_ex (\<lambda>e. next_state a e = Some b)
       [EventDeploy, EventDeployed, EventConfigure, EventConfigured, EventHealthy, EventUnhealthy,
        EventScaled, EventPromoted, EventComplete, EventFail, EventDestroy]"

definition legal_history :: "sm_state list \<Rightarrow> bool" where
  "legal_history h = successively legal_pair h"

definition states_of :: "release \<Rightarrow> sm_state list" where
  "states_of r = map sh_state (r_history r)"

definition synced :: "config \<Rightarrow> bool" where
  "synced c \<longleftrightarrow>
     fst c = initial_state (m_release (snd c)) \<and>
     length (r_history (m_release (snd c))) \<le> 50 \<and>
     legal_history (states_of (m_release (snd c))) \<and>
     StateOther '''' \<notin> set (states_of (m_release (snd c))) \<and>
     (m_effects (snd c) \<noteq> [] \<longrightarrow> last (m_effects (snd c)) = StoreUpsert (m_release (snd c)))"

lemma legal_pairI: "next_state a e = Some b \<Longrightarrow> legal_pair a b"
  by (cases e) (auto simp: legal_pair_def)

lemma successively_drop: "successively P xs \<Longrightarrow> successively P (drop n xs)"
  by (metis append_take_drop_id successively_append_iff)

lemma last_states_of: "r_history r \<noteq> [] \<Longrightarrow> last (states_of r) = CurrentState r"
  by (simp add: states_of_def CurrentState_def last_map)

lemma states_of_UpdateState:
  "states_of (UpdateState now d r) = keep_last 50 (states_of r @ [d])"
  by (simp add: states_of_def UpdateState_history keep_last_def drop_map)

lemma legal_history_UpdateState:
  assumes "legal_history (states_of r)" and "r_history r \<noteq> [] \<Longrightarrow> legal_pair (CurrentState r) d"
  shows "legal_history (states_of (UpdateState now d r))"
proof -
  have "successively legal_pair (states_of r @ [d])"
    using assms last_states_of [of r]
    by (cases "r_history r = []") (auto simp: legal_history_def successively_append_iff states_of_def)
  then show ?thesis
    unfolding legal_history_def states_of_UpdateState keep_last_def by (rule successively_drop)
qed

lemma CurrentState_in_states: "r_history r \<noteq> [] \<Longrightarrow> CurrentState r \<in> set (states_of r)"
  using last_states_of [of r] last_in_set [of "states_of r"] by (simp add: states_of_def)

lemma synced_enter:
  assumes sy: "synced (s, m)" and nxt: "next_state s e = Some d"
  shows "synced (d, enter_machine s d args m)"
proof -
  have d: "d \<noteq> StateOther ''''" using next_state_named [OF nxt] by (auto simp: named_states_def)
  have "legal_pair (CurrentState (m_release m)) d" if "r_history (m_release m) \<noteq> []"
  proof -
    have "CurrentState (m_release m) \<noteq> StateOther ''''"
      using CurrentState_in_states [OF that] sy by (auto simp: synced_def)
    with sy nxt show ?thesis by (simp add: synced_def initial_state_def legal_pairI)
  qed
  moreover have "set (states_of (UpdateState now d r)) \<subseteq> insert d (set (states_of r))" for now r
    using set_keep_last [of 50 "states_of r @ [d]"] by (simp add: states_of_UpdateState)
  ultimately show ?thesis using sy d
    by (fastforce simp: synced_def enter_machine_fields initial_state_def UpdateState_length
        intro!: legal_history_UpdateState)
qed

lemma synced_pool: "synced (s, m) \<Longrightarrow> synced (s, m\<lparr>m_pool := ps\<rparr>)"
  by (simp add: synced_def)

lemma synced_event:
  assumes lib: "fsm_documented lib" and "synced (s, m)"
  shows "synced (snd (Event lib ev args (s, m)))"
proof (cases "next_state s ev")
  case None
  then obtain err where "Event lib ev args (s, m) = (Some err, s, m)"
    using Event_rejected [OF lib] by blast
  with assms(2) show ?thesis by simp
next
  case (Some t)
  with synced_enter [OF assms(2) Some] show ?thesis by (simp add: Event_accepted [OF lib Some])
qed

lemma synced_step [inv_intros]:
  assumes lib: "fsm_documented lib" and "synced c" and "free_running c l" and "sm_step lib c l c'"
  shows "synced c'"
  using assms(4,2,3)
proof (cases rule: sm_step.cases)
  case (api ev s m)
  with assms(2) show ?thesis using synced_event [OF lib] by auto
next
  case (resume s m)
  with assms(3) show ?thesis by (simp add: free_running_def)
next
  case (fire m xs ev args k ys s)
  with assms(2) show ?thesis using synced_event [OF lib synced_pool] by auto
qed (use assms(2) in \<open>simp_all add: synced_def\<close>)

lemma free_not_resume [simp]: "l \<noteq> LResume \<Longrightarrow> free_running c l"
  by (simp add: free_running_def)

lemma serial_act: "serial_client c (LAct ob) \<Longrightarrow> serial_client c' (LAct ob)"
  by (cases "(c, LAct ob)" rule: serial_client.cases) simp_all

text \<open>Runs in which only the first goroutine of the pool acts, with acceptable replies.\<close>

inductive acts :: "(observation option \<Rightarrow> bool) \<Rightarrow> prog \<Rightarrow> prog \<Rightarrow> bool" for good where
  acts_refl: "acts good p p"
| acts_step: "act p ob q \<Longrightarrow> good ob \<Longrightarrow> acts good q r \<Longrightarrow> acts good p r"

lemma reach_act:
  assumes "reach lib allowed c0 (s, m\<lparr>m_pool := p # ys\<rparr>)" and "act p ob q"
    and "\<And>c. allowed c (LAct ob)"
  shows "reach lib allowed c0 (s, m\<lparr>m_pool := q # ys\<rparr>)"
proof -
  have "sm_step lib (s, m\<lparr>m_pool := p # ys\<rparr>) (LAct ob) (s, m\<lparr>m_pool := p # ys\<rparr>\<lparr>m_pool := [] @ q # ys\<rparr>)"
    by (rule sm_step.action [where xs = "[]", OF _ assms(2)]) simp
  from reach_step [OF assms(1,3) this] show ?thesis by simp
qed

lemma acts_reach:
  assumes "acts good p q" and "\<And>c ob. good ob \<Longrightarrow> allowed c (LAct ob)"
    and "reach lib allowed c0 (s, m\<lparr>m_pool := p # ys\<rparr>)"
  shows "reach lib allowed c0 (s, m\<lparr>m_pool := q # ys\<rparr>)"
  using assms(1,3)
proof (induction rule: acts.induct)
  case (acts_step p ob q r)
  from acts_step.IH [OF reach_act [OF acts_step.prems acts_step.hyps(1) assms(2) [OF acts_step.hyps(2)]]]
  show ?case .
qed

lemma event_reach:
  assumes "reach lib allowed c0 (s, m)" and "fsm_documented lib" and "next_state s ev = Some d"
    and "ev \<in> {EventConfigure, EventDeploy, EventDestroy}" and "allowed (s, m) (LApi ev)"
  shows "reach lib allowed c0 (d, enter_machine s d [] m)"
  using reach_step [OF assms(1,5) sm_step.api [OF assms(4)]] by (simp add: Event_accepted [OF assms(2,3)])

lemma fire_reach:
  assumes "reach lib allowed c0 (s, m\<lparr>m_pool := Fire ev args k # ys\<rparr>)" and "fsm_documented lib"
    and "next_state s ev = Some d" and "\<And>c. allowed c (LFire ev)"
  shows "reach lib allowed c0 (d, enter_machine s d args (m\<lparr>m_pool := k # ys\<rparr>))"
proof -
  have "sm_step lib (s, m\<lparr>m_pool := Fire ev args k # ys\<rparr>) (LFire ev)
      (snd (Event lib ev args (s, m\<lparr>m_pool := Fire ev args k # ys\<rparr>\<lparr>m_pool := [] @ k # ys\<rparr>)))"
    by (rule sm_step.fire [where xs = "[]"]) simp
  from reach_step [OF assms(1,4) this] show ?thesis by (simp add: Event_accepted [OF assms(2,3)])
qed

lemma exit_reach:
  assumes "reach lib allowed c0 (s, m\<lparr>m_pool := Done # ys\<rparr>)" and "\<And>c. allowed c LExit"
  shows "reach lib allowed c0 (s, m\<lparr>m_pool := ys\<rparr>)"
proof -
  have "sm_step lib (s, m\<lparr>m_pool := Done # ys\<rparr>) LExit (s, m\<lparr>m_pool := Done # ys\<rparr>\<lparr>m_pool := [] @ ys\<rparr>)"
    by (rule sm_step.exit [where xs = "[]"]) simp
  from reach_step [OF assms(1,2) this] show ?thesis by simp
qed

lemma pool_update_id: "m_pool m = ps \<Longrightarrow> m\<lparr>m_pool := ps\<rparr> = m"
  by auto

text \<open>A deployment of an existing release whose calls all succeed.\<close>

lemma acts_intros:
  "acts good k r \<Longrightarrow> good (Some (OSleep n)) \<Longrightarrow> acts good (Sleep n k) r"
  "acts good (f e) r \<Longrightarrow> good (Some (OCall c e)) \<Longrightarrow> acts good (Call c f) r"
  "acts good (g st e) r \<Longrightarrow> good (Some (OStatus sc st e)) \<Longrightarrow> acts good (StatusCall sc g) r"
  "acts good k r \<Longrightarrow> good (Some (OHook title sm ev pt ct err)) \<Longrightarrow>
     acts good (Webhooks title sm ev pt ct err k) r"
  by (blast intro: acts_step act.intros)+

lemma doDeploy_update_acts: "acts (\<lambda>_. True) (doDeploy name) (Fire EventComplete [] Done)"
  unfolding doDeploy_def Let_def
  by (rule acts_intros acts_intros(2) [where e = None]
      acts_intros(3) [where st = RuntimeDeploymentUpdate and e = None] acts_refl TrueI | simp)+

text \<open>A configuration that fails in its first call.\<close>

lemma doConfigure_fails_acts:
  "acts (\<lambda>ob. serial_client c (LAct ob)) (doConfigure name) (Fire EventFail [] Done)"
  unfolding doConfigure_def Let_def fail_with_def
  by (rule acts_intros(2) [where e = "Some err" for err], simp)
    (rule acts_intros(4), rule acts_refl, simp, simp)

lemma failed_configure_run:
  assumes "fsm_documented lib"
  shows "\<exists>m. reach lib serial_client (Resume (initial_state new_release, new_machine new_release)) (StateFail, m) \<and>
    m_pool m = []"
proof -
  let ?c = "Resume (initial_state new_release, new_machine new_release)"
  let ?m = "enter_machine StateStart StateConfigure [] (new_machine new_release)"
  have c: "?c = (StateStart, new_machine new_release)"
    by (simp add: Resume_def initial_state_def CurrentState_def new_release_def)
  have "reach lib serial_client ?c (StateConfigure, ?m)"
    unfolding c by (rule event_reach [where ev = EventConfigure, OF reach_start assms])
      (simp_all add: new_machine_def)
  moreover have "m_pool ?m = doConfigure (r_name new_release) # []"
    by (simp add: enter_machine_fields new_machine_def)
  ultimately have "reach lib serial_client ?c (StateConfigure, ?m\<lparr>m_pool := doConfigure (r_name new_release) # []\<rparr>)"
    by (simp add: pool_update_id)
  then have "reach lib serial_client ?c (StateConfigure, ?m\<lparr>m_pool := Fire EventFail [] Done # []\<rparr>)"
    by (rule acts_reach [OF doConfigure_fails_acts [of "?c"], rotated]) (rule serial_act)
  then have "reach lib serial_client ?c
      (StateFail, enter_machine StateConfigure StateFail [] (?m\<lparr>m_pool := [Done]\<rparr>))"
    by (rule fire_reach [OF _ assms]) simp_all
  moreover have "m_pool (enter_machine StateConfigure StateFail [] (?m\<lparr>m_pool := [Done]\<rparr>)) = [Done]"
    by (simp add: enter_machine_fields)
  ultimately have "reach lib serial_client ?c
      (StateFail, (enter_machine StateConfigure StateFail [] (?m\<lparr>m_pool := [Done]\<rparr>))\<lparr>m_pool := Done # []\<rparr>)"
    by (simp add: pool_update_id)
  then have "reach lib serial_client ?c
      (StateFail, (enter_machine StateConfigure StateFail [] (?m\<lparr>m_pool := [Done]\<rparr>))\<lparr>m_pool := []\<rparr>)"
    by (rule exit_reach) simp
  then show ?thesis
    by - (rule exI, rule conjI, assumption, simp)
qed

subsection \<open>Properties\<close>



text \<open>
  C7: Whatever the environment does short of a resumption, the state of the machine is the
  last state of the recorded history, which never has more than 50 entries and is a path
  of the event table, and the release saved last is the release the machine holds: a
  restart that loads it starts in the very state the machine was in.
\<close>

theorem history_tracks_state:
  assumes "fsm_documented lib"
    and "length (r_history r) \<le> 50" and "legal_history (states_of r)"
    and "StateOther '''' \<notin> set (states_of r)"
    and "reach lib free_running (initial_state r, new_machine r) (s, m)"
  shows "s = initial_state (m_release m) \<and> length (r_history (m_release m)) \<le> 50 \<and>
    legal_history (states_of (m_release m)) \<and>
    (m_effects m \<noteq> [] \<longrightarrow> last (m_effects m) = StoreUpsert (m_release m))"
proof -
  have "synced (initial_state r, new_machine r)"
    using assms(2-4) by (simp add: synced_def new_machine_def)
  then have "synced (s, m)"
    by (rule reach_invariant [OF assms(5)]) (rule synced_step [OF assms(1)])
  then show ?thesis by (simp add: synced_def)
qed

theorem history_tracks_state_witness:
  "\<exists>m. reach reference_fsm free_running (initial_state new_release, new_machine new_release) (StateConfigure, m) \<and>
     initial_state (m_release m) = StateConfigure \<and> legal_history (states_of (m_release m))"
proof -
  let ?m = "enter_machine StateStart StateConfigure [] (new_machine new_release)"
  have "initial_state new_release = StateStart"
    by (simp add: initial_state_def CurrentState_def new_release_def)
  then have r: "reach reference_fsm free_running (initial_state new_release, new_machine new_release) (StateConfigure, ?m)"
    using event_reach [where ev = EventConfigure and d = StateConfigure and allowed = free_running,
        OF reach_start reference_fsm_documented, of StateStart "new_machine new_release"] by simp
  have "legal_history (states_of new_release)" "states_of new_release = []" "r_history new_release = []"
    by (simp_all add: states_of_def new_release_def legal_history_def)
  with history_tracks_state [OF reference_fsm_documented _ _ _ r] r show ?thesis by auto
qed

text \<open>
  C38: A request to destroy a release while a deployment is under way is not serialised
  with it: there is a run in which the deployment's completion event takes the machine
  from the destroy state to idle although the goroutine that removes the release has not
  begun, so a client that polls for idle sees the destruction finished.
\<close>

theorem destroy_overtaken_by_deploy:
  assumes "fsm_documented lib" and "m_pool m = []"
  shows "\<exists>m1. reach lib free_running (StateIdle, m) (StateIdle, m1) \<and> m_pool m1 = [Done, doDestroy]"
proof -
  let ?c = "(StateIdle, m)" and ?w = "doDeploy (r_name (m_release m))"
  let ?m1 = "enter_machine StateIdle StateDeploy [] m"
  let ?m2 = "enter_machine StateDeploy StateDestroy [] ?m1"
  have "reach lib free_running ?c (StateDeploy, ?m1)"
    by (rule event_reach [where ev = EventDeploy, OF reach_start assms(1)]) simp_all
  then have "reach lib free_running ?c (StateDestroy, ?m2)"
    by (rule event_reach [where ev = EventDestroy, OF _ assms(1)]) simp_all
  moreover have "m_pool ?m2 = ?w # [doDestroy]"
    using assms(2) by (simp add: enter_machine_fields)
  ultimately have "reach lib free_running ?c (StateDestroy, ?m2\<lparr>m_pool := ?w # [doDestroy]\<rparr>)"
    by (simp add: pool_update_id)
  then have "reach lib free_running ?c (StateDestroy, ?m2\<lparr>m_pool := Fire EventComplete [] Done # [doDestroy]\<rparr>)"
    by (rule acts_reach [OF doDeploy_update_acts, rotated]) simp
  then have "reach lib free_running ?c
      (StateIdle, enter_machine StateDestroy StateIdle [] (?m2\<lparr>m_pool := [Done, doDestroy]\<rparr>))"
    by (rule fire_reach [OF _ assms(1)]) simp_all
  then show ?thesis
    by - (rule exI, rule conjI, assumption, simp add: enter_machine_fields)
qed

theorem destroy_overtaken_by_deploy_witness:
  "\<exists>m1. reach reference_fsm free_running (StateIdle, new_machine new_release) (StateIdle, m1) \<and>
     m_pool m1 = [Done, doDestroy]"
  by (rule destroy_overtaken_by_deploy [OF reference_fsm_documented]) (simp add: new_machine_def)

end
