(* ===== verification/WorkerSpecs.thy ===== *)
theory WorkerSpecs
  imports StateMachine
begin

text \<open>
  What the goroutines of the state machine do, stated over every execution of their
  trees (\<open>exec\<close>): the plugin calls they make and in which order, where they stop, the
  event they end with, the webhooks they call, and the safety of what they remove.
\<close>

subsection \<open>Plans\<close>

text \<open>Whether the runtime reported that it took over an existing deployment.\<close>

fun took_over :: "observation list \<Rightarrow> bool" where
  "took_over [] = False"
| "took_over (OStatus c st e # tr) = (st = RuntimeDeploymentUpdate)"
| "took_over (_ # tr) = took_over tr"

definition drain_plan :: "step list" where
  "drain_plan = [SCall (Scale 0), SCall RemoveCandidate]"

definition configure_plan :: "string \<Rightarrow> bool \<Rightarrow> step list" where
  "configure_plan name upd =
     [SCall ReleaserSetup, SStatus (InitPrimary name)] @
     (if upd then SCall (WaitUntilServiceHealthy PrimaryFilter) # drain_plan else [])"

definition deploy_plan :: "string \<Rightarrow> bool \<Rightarrow> step list" where
  "deploy_plan name upd =
     [SStatus (InitPrimary name), SCall (WaitUntilServiceHealthy PrimaryFilter), SCall (Scale 0)] @
     (if upd then [SCall RemoveCandidate] else [])"

definition promote_plan :: "step list" where
  "promote_plan =
     [SCall (Scale 100), SStatus PromoteCandidate, SCall (WaitUntilServiceHealthy PrimaryFilter)] @ drain_plan"

definition destroy_plan :: "step list" where
  "destroy_plan =
     [SCall RestoreOriginal, SCall (WaitUntilServiceHealthy CandidateFilter), SCall (Scale 100),
      SCall RemovePrimary, SCall ReleaserDestroy]"

lemmas plan_defs = configure_plan_def deploy_plan_def promote_plan_def destroy_plan_def drain_plan_def

text \<open>
  A run of a plan: the calls are a prefix of the plan, stopped exactly at the first error;
  the run fires one event, without arguments, and sends one webhook, both reporting
  success or failure as the calls went.
\<close>

definition follows_plan ::
    "step list \<Rightarrow> sm_state \<Rightarrow> sm_event \<Rightarrow> observation list \<Rightarrow> bool" where
  "follows_plan plan st success tr \<longleftrightarrow>
     (case pipeline plan (steps_of tr) of
        None \<Rightarrow> False
      | Some ok \<Rightarrow>
          fired tr = [(if ok then success else EventFail, [])] \<and>
          hooks tr = [(st, if ok then success else EventFail)])"

text \<open>
  The rules by which a handler is shown to follow a plan, one for each kind of action. The
  plan and the success event may depend on whether a deployment was taken over.
\<close>

definition runs :: "(bool \<Rightarrow> step list) \<Rightarrow> sm_state \<Rightarrow> (bool \<Rightarrow> sm_event) \<Rightarrow> prog \<Rightarrow> bool" where
  "runs plan st success p \<longleftrightarrow>
     (\<forall>tr. exec p tr \<longrightarrow> follows_plan (plan (took_over tr)) st (success (took_over tr)) tr)"

definition fails :: "sm_state \<Rightarrow> prog \<Rightarrow> bool" where
  "fails st p \<longleftrightarrow>
     (\<forall>tr. exec p tr \<longrightarrow> steps_of tr = [] \<and> fired tr = [(EventFail, [])] \<and> hooks tr = [(st, EventFail)])"

lemma fails_fail_with: "fails st (fail_with title st p c err)"
  by (auto simp: fails_def fail_with_def exec_iffs)

lemma fails_fire_first: "fails st (Fire EventFail [] (ReadTraffic (\<lambda>p c. Webhooks title st EventFail p c err Done)))"
  by (auto simp: fails_def exec_iffs)

lemma follows_error:
  assumes "fails st p" and "exec p tr"
  shows "follows_plan (SCall c # plan) st ev (OCall c (Some err) # tr)"
    and "follows_plan (SStatus sc # plan) st ev (OStatus sc r (Some err) # tr)"
  using assms by (auto simp: fails_def follows_plan_def)

lemma follows_ok:
  assumes "follows_plan plan st ev tr"
  shows "follows_plan (SCall c # plan) st ev (OCall c None # tr)"
    and "follows_plan (SStatus sc # plan) st ev (OStatus sc r None # tr)"
    and "follows_plan plan st ev (OSleep n # tr)"
  using assms by (simp_all add: follows_plan_def split: option.splits)

lemma runs_sleep: "runs plan st ev p \<Longrightarrow> runs plan st ev (Sleep n p)"
  by (auto simp: runs_def exec_Sleep_iff follows_ok)

lemma runs_call:
  assumes "\<And>err. fails st (f err)" and "runs plan st ev p"
  shows "runs (\<lambda>b. SCall c # plan b) st ev (Call c (\<lambda>e. case e of Some err \<Rightarrow> f err | None \<Rightarrow> p))"
  using assms(2) by (auto simp: runs_def exec_Call_iff follows_error [OF assms(1)] follows_ok split: option.splits)

lemma runs_status:
  assumes "\<And>err. fails st (f err)"
    and "\<And>s. runs (\<lambda>_. plan (s = RuntimeDeploymentUpdate)) st (\<lambda>_. ev (s = RuntimeDeploymentUpdate)) (k s)"
  shows "runs (\<lambda>b. SStatus c # plan b) st ev
    (StatusCall c (\<lambda>s e. case e of Some err \<Rightarrow> f err | None \<Rightarrow> k s))"
  using assms(2) by (auto simp: runs_def exec_Status_iff follows_error [OF assms(1)] follows_ok split: option.splits)

lemma runs_finish: "runs (\<lambda>_. []) st (\<lambda>_. ev) (Webhooks title st ev p c None (Fire ev [] Done))"
  by (auto simp: runs_def exec_iffs follows_plan_def)

lemma runs_cong: "runs plan st ev p \<Longrightarrow> plan = plan' \<Longrightarrow> runs plan' st ev p"
  by simp

lemmas runs_intros = runs_sleep runs_call runs_finish fails_fail_with fails_fire_first

lemma runs_follows: "runs plan st ev p \<Longrightarrow> exec p tr \<Longrightarrow> follows_plan (plan (took_over tr)) st (ev (took_over tr)) tr"
  by (simp add: runs_def)

lemma runs_configure: "runs (configure_plan name) StateConfigure (\<lambda>_. EventConfigured) (doConfigure name)"
  unfolding doConfigure_def Let_def configure_plan_def append.simps drain_plan_def
  apply (intro runs_call runs_sleep runs_status fails_fail_with)
  subgoal for s by (cases "s = RuntimeDeploymentUpdate"; simp only: simp_thms if_True if_False; intro runs_intros)
  done

lemma runs_deploy:
  "runs (deploy_plan name) StateDeploy (\<lambda>b. if b then EventComplete else EventDeployed) (doDeploy name)"
  unfolding doDeploy_def Let_def deploy_plan_def append.simps
  apply (intro runs_call runs_sleep runs_status fails_fail_with)
  subgoal for s by (cases "s = RuntimeDeploymentUpdate"; simp only: simp_thms if_True if_False append.simps; intro runs_intros)
  done

lemma runs_promote: "runs (\<lambda>_. promote_plan) StatePromote (\<lambda>_. EventPromoted) doPromote"
  unfolding doPromote_def Let_def promote_plan_def append.simps drain_plan_def
  by (intro runs_intros runs_status)

lemma runs_rollback: "runs (\<lambda>_. drain_plan) StateRollback (\<lambda>_. EventComplete) doRollback"
  unfolding doRollback_def drain_plan_def by (intro runs_intros)

lemma runs_destroy: "runs (\<lambda>_. destroy_plan) StateDestroy (\<lambda>_. EventComplete) doDestroy"
  unfolding doDestroy_def Let_def destroy_plan_def by (intro runs_intros)

lemmas configure_follows = runs_follows [OF runs_configure]
lemmas deploy_follows = runs_follows [OF runs_deploy]
lemmas promote_follows = runs_follows [OF runs_promote]
lemmas rollback_follows = runs_follows [OF runs_rollback]
lemmas destroy_follows = runs_follows [OF runs_destroy]

subsection \<open>Removal only after traffic has moved\<close>

text \<open>
  \<open>split\<close> is the candidate's share of the last \<open>Scale\<close> that succeeded, if any, with no
  \<open>Scale\<close> that failed since: the candidate is removed only with all traffic on the
  primary, and the primary is removed, or replaced by the candidate, only with all
  traffic on the candidate.
\<close>

fun traffic_safe :: "int option \<Rightarrow> (step \<times> go_error option) list \<Rightarrow> bool" where
  "traffic_safe split [] = True"
| "traffic_safe split ((SCall (Scale n), e) # xs) =
     traffic_safe (if e = None then Some n else None) xs"
| "traffic_safe split ((SCall RemoveCandidate, e) # xs) = (split = Some 0 \<and> traffic_safe split xs)"
| "traffic_safe split ((SCall RemovePrimary, e) # xs) = (split = Some 100 \<and> traffic_safe split xs)"
| "traffic_safe split ((SStatus PromoteCandidate, e) # xs) = (split = Some 100 \<and> traffic_safe split xs)"
| "traffic_safe split (_ # xs) = traffic_safe split xs"

lemma pipeline_prefix:
  "pipeline ss xs = Some b \<Longrightarrow>
     \<exists>n. map fst xs = take n ss \<and> (\<forall>i. Suc i < length xs \<longrightarrow> snd (xs ! i) = None)"
proof (induction ss xs arbitrary: b rule: pipeline.induct)
  case (2 s ss s' xs)
  then obtain n where n: "map fst xs = take n ss" "\<forall>i. Suc i < length xs \<longrightarrow> snd (xs ! i) = None"
    by (auto split: if_splits)
  with 2 show ?case by (intro exI [of _ "Suc n"]) (auto simp: nth_Cons split: if_splits nat.splits)
next
  case (3 s ss s' e)
  then show ?case by (intro exI [of _ 1]) (auto split: if_splits)
qed auto

text \<open>The safety of a plan is the safety of its runs.\<close>

lemma pipeline_traffic_safe:
  assumes "pipeline ss xs = Some b" and "traffic_safe split (map (\<lambda>s. (s, None)) ss)"
  shows "traffic_safe split xs"
  using assms
proof (induction ss xs arbitrary: split rule: pipeline.induct)
  case (2 s ss s' xs)
  then show ?case
    by (cases "(split, (s, None :: go_error option) # map (\<lambda>s. (s, None)) ss)" rule: traffic_safe.cases)
      (auto split: if_splits)
next
  case (3 s ss s' e)
  then show ?case
    by (cases "(split, (s, None :: go_error option) # map (\<lambda>s. (s, None)) ss)" rule: traffic_safe.cases)
      (auto split: if_splits)
qed auto

lemma follows_traffic_safe:
  assumes "follows_plan plan st ev tr" and "traffic_safe None (map (\<lambda>s. (s, None)) plan)"
  shows "traffic_safe None (steps_of tr)"
  using assms by (auto simp: follows_plan_def intro: pipeline_traffic_safe split: option.splits)

text \<open>A goroutine that removes nothing.\<close>

fun removes :: "step \<Rightarrow> bool" where
  "removes (SCall c) = (c \<in> {RemoveCandidate, RemovePrimary})"
| "removes (SStatus c) = (c = PromoteCandidate)"
| "removes SStrategy = False"

primrec keeps_all :: "prog \<Rightarrow> bool" where
  "keeps_all Done = True"
| "keeps_all (Sleep n k) = keeps_all k"
| "keeps_all (Call c k) = (\<not> removes (SCall c) \<and> (\<forall>e. keeps_all (k e)))"
| "keeps_all (StatusCall c k) = (\<not> removes (SStatus c) \<and> (\<forall>s e. keeps_all (k s e)))"
| "keeps_all (RunStrategy k) = (\<forall>s t e. keeps_all (k s t e))"
| "keeps_all (ReadTraffic k) = (\<forall>p c. keeps_all (k p c))"
| "keeps_all (Webhooks title st ev p c err k) = keeps_all k"
| "keeps_all (Fire ev args k) = keeps_all k"

lemma traffic_safe_step:
  "\<not> removes s \<Longrightarrow> (\<And>split. traffic_safe split xs) \<Longrightarrow> traffic_safe split ((s, e) # xs)"
  by (cases "(split, (s, e) # xs)" rule: traffic_safe.cases) auto

lemma keeps_all_safe: "exec p tr \<Longrightarrow> keeps_all p \<Longrightarrow> traffic_safe split (steps_of tr)"
  by (induction arbitrary: split rule: exec.induct) (auto intro: traffic_safe_step)

lemma keeps_all_scale: "keeps_all (doScale args)"
  by (simp add: doScale_def split: option.split)

lemma keeps_all_monitor: "keeps_all (doMonitor has_test)"
  by (simp add: doMonitor_def monitor_strategy_def monitor_switch_def
      split: option.split strategy_status.split)

subsection \<open>Plans of the handlers, and the monitor step\<close>

text \<open>
  The handlers that are a sequence of calls: the plan, and the event of its success, by
  whether an existing deployment was taken over.
\<close>

fun handler_plan :: "string \<Rightarrow> sm_state \<Rightarrow> bool \<Rightarrow> (step list \<times> sm_event) option" where
  "handler_plan name StateConfigure upd = Some (configure_plan name upd, EventConfigured)"
| "handler_plan name StateDeploy upd =
     Some (deploy_plan name upd, if upd then EventComplete else EventDeployed)"
| "handler_plan name StatePromote upd = Some (promote_plan, EventPromoted)"
| "handler_plan name StateRollback upd = Some (drain_plan, EventComplete)"
| "handler_plan name StateDestroy upd = Some (destroy_plan, EventComplete)"
| "handler_plan name _ upd = None"

text \<open>The strategy's reply in an execution, and what the monitor step fires for it.\<close>

fun strategy_reply :: "observation list \<Rightarrow> (strategy_status \<times> int \<times> go_error option) option" where
  "strategy_reply [] = None"
| "strategy_reply (OStrategy st t e # tr) = Some (st, t, e)"
| "strategy_reply (_ # tr) = strategy_reply tr"

fun reply_events :: "strategy_status \<times> int \<times> go_error option \<Rightarrow> (sm_event \<times> int list) list" where
  "reply_events (st, t, e) =
     (if e = None then [] else [(EventFail, [])]) @
     (case st of
        StrategyStatusSuccess \<Rightarrow> [(EventHealthy, [t])]
      | StrategyStatusComplete \<Rightarrow> [(EventComplete, [])]
      | StrategyStatusFailed \<Rightarrow> [(EventUnhealthy, [])]
      | StrategyStatusFailing \<Rightarrow> [])"

lemma switch_outcome:
  "exec (monitor_switch st t e) tr \<Longrightarrow> steps_of tr = [] \<and>
     fired tr = (case st of
        StrategyStatusSuccess \<Rightarrow> [(EventHealthy, [t])]
      | StrategyStatusComplete \<Rightarrow> [(EventComplete, [])]
      | StrategyStatusFailed \<Rightarrow> [(EventUnhealthy, [])]
      | StrategyStatusFailing \<Rightarrow> [])"
  by (cases st) (auto simp: monitor_switch_def exec_iffs)

lemma strategy_outcome:
  assumes "exec monitor_strategy tr"
  shows "\<exists>st t e. strategy_reply tr = Some (st, t, e) \<and> steps_of tr = [(SStrategy, e)] \<and>
    fired tr = reply_events (st, t, e)"
proof -
  from assms obtain st t e tr' where tr: "tr = OStrategy st t e # tr'"
    and k: "exec (case e of
         Some err \<Rightarrow>
           ReadTraffic (\<lambda>p c. Webhooks ''Monitoring deployment failed'' StateMonitor EventFail p c (Some err)
             (Fire EventFail [] (monitor_switch st t e)))
       | None \<Rightarrow> monitor_switch st t e) tr'"
    by (auto simp: monitor_strategy_def exec_Strategy_iff)
  show ?thesis
  proof (cases e)
    case None
    with tr k switch_outcome show ?thesis by simp
  next
    case (Some err)
    with k obtain p c tr2 where "tr' = OHook ''Monitoring deployment failed'' StateMonitor EventFail p c (Some err) # OFire EventFail [] # tr2"
      "exec (monitor_switch st t (Some err)) tr2"
      by (auto simp: exec_Traffic_iff exec_Hook_iff exec_Fire_iff)
    with tr Some switch_outcome [of st t "Some err" tr2] show ?thesis by simp
  qed
qed

lemma post_test_failed_outcome:
  assumes "exec (ReadTraffic (\<lambda>p c. Webhooks title StateMonitor EventFail p c e (Fire EventUnhealthy [] Done))) tr"
  shows "steps_of tr = [] \<and> fired tr = [(EventUnhealthy, [])] \<and> hooks tr = [(StateMonitor, EventFail)]"
  using assms by (auto simp: exec_iffs)

subsection \<open>Properties\<close>

text \<open>
  C8: No goroutine of the state machine removes a workload that still receives traffic:
  in every execution of every handler, with any replies, the candidate is removed only
  after a successful scale to 0 percent, and the primary is removed or overwritten with
  the candidate only after a successful scale to 100 percent, nothing having scaled since.
\<close>

theorem removal_after_traffic_moved:
  assumes "handler name has_test s args = Some p" and "exec p tr"
  shows "traffic_safe None (steps_of tr)"
proof (cases s)
  case StateConfigure
  with assms have "exec (doConfigure name) tr" by simp
  then show ?thesis by (rule follows_traffic_safe [OF configure_follows]) (simp add: plan_defs)
next
  case StateDeploy
  with assms have "exec (doDeploy name) tr" by simp
  then show ?thesis by (rule follows_traffic_safe [OF deploy_follows]) (simp add: plan_defs)
next
  case StateMonitor
  with assms have "exec (doMonitor has_test) tr" by simp
  then show ?thesis by (rule keeps_all_safe) (rule keeps_all_monitor)
next
  case StateScale
  with assms have "exec (doScale args) tr" by simp
  then show ?thesis by (rule keeps_all_safe) (rule keeps_all_scale)
next
  case StatePromote
  with assms follows_traffic_safe [OF promote_follows] show ?thesis by (simp add: plan_defs)
next
  case StateRollback
  with assms follows_traffic_safe [OF rollback_follows] show ?thesis by (simp add: plan_defs)
next
  case StateDestroy
  with assms follows_traffic_safe [OF destroy_follows] show ?thesis by (simp add: plan_defs)
qed (use assms in simp_all)

theorem removal_after_traffic_moved_witness:
  "traffic_safe None [(SCall (Scale 0), None), (SCall RemoveCandidate, None)]"
proof -
  have "exec doRollback
     [OCall (Scale 0) None, OSleep 4, OCall RemoveCandidate None,
      OHook ''Deployment rolled back'' StateRollback EventComplete 100 0 None, OFire EventComplete []]"
    by (simp add: doRollback_def exec_iffs)
  with removal_after_traffic_moved [of "''api''" True StateRollback "[]" doRollback] show ?thesis by simp
qed
text \<open>
  C12: The configure, deploy, promote, rollback and destroy goroutines carry out their
  plans: in every execution the plugin calls are the plan's calls in order, stopped at
  the first error; then exactly one webhook and one event report the plan's success or
  the failure. Which plan configure and deploy follow depends only on whether the
  runtime took over an existing deployment.
\<close>

theorem handlers_follow_plans:
  assumes "handler name has_test s args = Some p" and "exec p tr"
    and "handler_plan name s (took_over tr) = Some (plan, success)"
  shows "follows_plan plan s success tr"
  using assms configure_follows deploy_follows promote_follows rollback_follows destroy_follows
  by (cases s) auto

theorem handlers_follow_plans_witness:
  "follows_plan promote_plan StatePromote EventPromoted
     [OCall (Scale 100) None, OSleep 1, OStatus PromoteCandidate RuntimeDeploymentInternalError (Some (GoErr ''boom'')),
      OHook ''Promoting candidate failed'' StatePromote EventFail 0 100 (Some (GoErr ''boom'')), OFire EventFail []]"
  by (rule handlers_follow_plans [of "''api''" False StatePromote "[]" doPromote])
    (simp_all add: doPromote_def fail_with_def exec_iffs Let_def)

text \<open>
  The monitor goroutine runs the post deployment test first, if there is one, and
  rolls back on its failure without asking the strategy; otherwise it asks the strategy
  once and fires what the reply stands for. A reply with an error fires the failure
  event and then, in addition, the event of the reply's status.
\<close>

theorem monitor_outcomes:
  assumes "exec (doMonitor has_test) tr"
  shows "(\<exists>e. has_test \<and> steps_of tr = [(SCall TestExecute, Some e)] \<and> fired tr = [(EventUnhealthy, [])]) \<or>
    (\<exists>st t e. strategy_reply tr = Some (st, t, e) \<and>
       steps_of tr = (if has_test then [(SCall TestExecute, None)] else []) @ [(SStrategy, e)] \<and>
       fired tr = reply_events (st, t, e))"
proof (cases has_test)
  case False
  with assms strategy_outcome show ?thesis by (simp add: doMonitor_def)
next
  case True
  with assms obtain e tr' where tr: "tr = OCall TestExecute e # tr'"
    and k: "exec (case e of
            Some err \<Rightarrow>
              ReadTraffic (\<lambda>p c. Webhooks ''post deployment tests failed'' StateMonitor EventFail p c (Some err)
                (Fire EventUnhealthy [] Done))
          | None \<Rightarrow> monitor_strategy) tr'"
    by (auto simp: doMonitor_def exec_Call_iff)
  show ?thesis
  proof (cases e)
    case None
    with k tr True strategy_outcome [of tr'] show ?thesis by simp
  next
    case (Some err)
    with k tr True post_test_failed_outcome [of _ "Some err" tr'] show ?thesis by simp
  qed
qed

theorem monitor_outcomes_witness:
  "fired [OStrategy StrategyStatusFailed 0 (Some (GoErr ''boom'')),
      OHook ''Monitoring deployment failed'' StateMonitor EventFail 50 50 (Some (GoErr ''boom'')), OFire EventFail [],
      OHook ''Monitor deployment failed'' StateMonitor EventUnhealthy 50 50 (Some (GoErr ''boom'')),
      OFire EventUnhealthy []] = [(EventFail, []), (EventUnhealthy, [])]"
proof -
  let ?tr = "[OStrategy StrategyStatusFailed 0 (Some (GoErr ''boom'')),
      OHook ''Monitoring deployment failed'' StateMonitor EventFail 50 50 (Some (GoErr ''boom'')), OFire EventFail [],
      OHook ''Monitor deployment failed'' StateMonitor EventUnhealthy 50 50 (Some (GoErr ''boom'')),
      OFire EventUnhealthy []]"
  have "exec (doMonitor False) ?tr"
    by (simp add: doMonitor_def monitor_strategy_def monitor_switch_def exec_iffs)
  from monitor_outcomes [OF this] show ?thesis by simp
qed

text \<open>
  Promotion does not look at the status of the runtime: with a runtime that reports
  that there was no candidate to promote, and no other error, the goroutine goes on,
  deletes the candidate and reports the release as promoted.
\<close>

theorem promotion_without_candidate:
  "\<exists>tr. exec doPromote tr \<and> OStatus PromoteCandidate RuntimeDeploymentNotFound None \<in> set tr \<and>
     (SCall RemoveCandidate, None) \<in> set (steps_of tr) \<and> fired tr = [(EventPromoted, [])]"
  by (rule exI [of _ "[OCall (Scale 100) None, OSleep 1, OStatus PromoteCandidate RuntimeDeploymentNotFound None,
        OCall (WaitUntilServiceHealthy PrimaryFilter) None, OCall (Scale 0) None, OSleep 4, OCall RemoveCandidate None,
        OHook ''Promoting candidate to primary succeeded'' StatePromote EventPromoted 100 0 None,
        OFire EventPromoted []]"])
    (simp add: doPromote_def exec_iffs Let_def)

text \<open>
  The scale goroutine sends the traffic the healthy event carried to the releaser,
  once, and reports the outcome by one event; its webhook names the monitor state, not
  the scale state. With any other number of arguments it makes no call and fails.
\<close>

theorem scale_outcomes:
  assumes "exec (doScale args) tr"
  shows "if length args = 1
    then \<exists>e. steps_of tr = [(SCall (Scale (hd args)), e)] \<and>
      fired tr = [(if e = None then EventScaled else EventFail, [])] \<and>
      hooks tr = [(StateMonitor, if e = None then EventScaled else EventFail)]
    else tr = [OFire EventFail []]"
proof (cases "length args = 1")
  case False
  with assms show ?thesis by (auto simp: doScale_def exec_iffs)
next
  case True
  with assms obtain e tr' where "tr = OCall (Scale (hd args)) e # tr'"
    "exec (case e of
          Some err \<Rightarrow>
            ReadTraffic (\<lambda>p c. Webhooks ''Scaling deployment failed'' StateMonitor EventFail p c (Some err)
              (Fire EventFail [] Done))
        | None \<Rightarrow>
            ReadTraffic (\<lambda>p c. Webhooks ''Scaling deployment succeeded'' StateMonitor EventScaled p c None
              (Fire EventScaled [] Done))) tr'"
    by (auto simp: doScale_def exec_Call_iff)
  with True show ?thesis
    by (cases e) (auto simp: exec_Traffic_iff exec_Hook_iff exec_Fire_iff exec_Done_iff)
qed

theorem scale_outcomes_witness:
  "hooks [OCall (Scale 30) None, OHook ''Scaling deployment succeeded'' StateMonitor EventScaled 70 30 None,
     OFire EventScaled []] = [(StateMonitor, EventScaled)]"
proof -
  have "exec (doScale [30]) [OCall (Scale 30) None,
      OHook ''Scaling deployment succeeded'' StateMonitor EventScaled 70 30 None, OFire EventScaled []]"
    by (simp add: doScale_def exec_iffs)
  from scale_outcomes [OF this] show ?thesis by simp
qed

end
