(* ===== verification/ConsulClient.thy ===== *)
theory ConsulClient
  imports Interfaces
begin

text \<open>
  The client of the service mesh (\<open>pkg/clients/consul.go\<close>): the operations that create,
  change and remove the configuration entries of a service, the health check and the
  key-value operations.

  The Consul API library is a parameter: a record of functions over the world.
  \<open>consul_documented\<close> and \<open>kv_documented\<close> state, for a view of the entries and of the
  keys in the world, what the library documents; \<open>reference_consul\<close> is an instance.
  Fields of an entry that this client neither reads nor writes are kept together in
  \<open>eh_rest\<close>, whose zero value is the empty text.
\<close>

subsection \<open>Configuration entries\<close>

datatype entry_kind = ServiceDefaults | ServiceResolver | ServiceSplitter | ServiceRouter | ServiceIntentions

record entry_head =
  eh_name :: string
  eh_namespace :: string
  eh_partition :: string
  eh_meta :: "(string \<rightharpoonup> string) option"
  eh_rest :: string

record resolver_subset =
  su_filter :: string
  su_only_passing :: bool

record service_split =
  sp_subset :: string
  sp_weight :: int

record route_destination =
  rd_service :: string
  rd_subset :: string
  rd_num_retries :: nat
  rd_retry_on_connect_failure :: bool
  rd_retry_on_status :: "nat list"

text \<open>A route: the exact header matches, the destination (a pointer), the other fields.\<close>

record service_route =
  ro_headers :: "(string \<times> string) list"
  ro_destination :: "route_destination option"
  ro_rest :: string

record source_intention =
  si_name :: string
  si_namespace :: string
  si_partition :: string
  si_action :: string

datatype config_entry =
    ServiceConfigEntry entry_head string
  | ServiceResolverConfigEntry entry_head string "(string \<rightharpoonup> resolver_subset) option"
  | ServiceSplitterConfigEntry entry_head "service_split list"
  | ServiceRouterConfigEntry entry_head "service_route list"
  | ServiceIntentionsConfigEntry entry_head "source_intention list"

fun head_of :: "config_entry \<Rightarrow> entry_head" where
  "head_of (ServiceConfigEntry h p) = h"
| "head_of (ServiceResolverConfigEntry h d s) = h"
| "head_of (ServiceSplitterConfigEntry h s) = h"
| "head_of (ServiceRouterConfigEntry h r) = h"
| "head_of (ServiceIntentionsConfigEntry h s) = h"

fun kind_of :: "config_entry \<Rightarrow> entry_kind" where
  "kind_of (ServiceConfigEntry h p) = ServiceDefaults"
| "kind_of (ServiceResolverConfigEntry h d s) = ServiceResolver"
| "kind_of (ServiceSplitterConfigEntry h s) = ServiceSplitter"
| "kind_of (ServiceRouterConfigEntry h r) = ServiceRouter"
| "kind_of (ServiceIntentionsConfigEntry h s) = ServiceIntentions"

subsection \<open>The API library\<close>

type_synonym scope = "string \<times> string"

type_synonym entry_key = "entry_kind \<times> string \<times> scope"

text \<open>
  \<open>ca_health connect name filter scope\<close> lists the service instances as their id and
  aggregated status. \<open>ca_kv_put\<close> is given the scope written in the pair and the scope of
  the write options.
\<close>

record 'w consul_api =
  ca_get :: "entry_kind \<Rightarrow> string \<Rightarrow> scope \<Rightarrow> 'w \<Rightarrow> (config_entry option \<times> go_error option) \<times> 'w"
  ca_set :: "config_entry \<Rightarrow> scope \<Rightarrow> 'w \<Rightarrow> go_error option \<times> 'w"
  ca_delete :: "entry_kind \<Rightarrow> string \<Rightarrow> scope \<Rightarrow> 'w \<Rightarrow> go_error option \<times> 'w"
  ca_health :: "bool \<Rightarrow> string \<Rightarrow> string \<Rightarrow> scope \<Rightarrow> 'w \<Rightarrow>
    ((string \<times> string) list \<times> go_error option) \<times> 'w"
  ca_kv_put :: "string \<Rightarrow> bytes \<Rightarrow> scope \<Rightarrow> scope \<Rightarrow> 'w \<Rightarrow> go_error option \<times> 'w"
  ca_kv_get :: "string \<Rightarrow> scope \<Rightarrow> 'w \<Rightarrow> (bytes option \<times> go_error option) \<times> 'w"
  ca_kv_delete_tree :: "string \<Rightarrow> scope \<Rightarrow> 'w \<Rightarrow> go_error option \<times> 'w"
  ca_kv_keys :: "string \<Rightarrow> scope \<Rightarrow> 'w \<Rightarrow> (string list \<times> go_error option) \<times> 'w"

definition not_found :: "go_error \<Rightarrow> bool" where
  "not_found e \<longleftrightarrow> str_contains (err_msg e) ''404''"

text \<open>
  What is documented of the entries: a read changes none and gives the entry, or no
  entry and an error, which says 404 only when there is no such entry; a successful
  write or deletion has exactly its effect; an entry is found under its own kind and
  name. What a failed write leaves is not known.
\<close>

definition consul_documented :: "('w \<Rightarrow> entry_key \<rightharpoonup> config_entry) \<Rightarrow> 'w consul_api \<Rightarrow> bool" where
  "consul_documented view api \<longleftrightarrow>
     (\<forall>k n sc w r e w1. ca_get api k n sc w = ((r, e), w1) \<longrightarrow>
        view w1 = view w \<and>
        (case e of
           None \<Rightarrow> r \<noteq> None \<and> view w (k, n, sc) = r
         | Some x \<Rightarrow> r = None \<and> (not_found x \<longrightarrow> view w (k, n, sc) = None))) \<and>
     (\<forall>ce sc w w1. ca_set api ce sc w = (None, w1) \<longrightarrow>
        view w1 = (view w)((kind_of ce, eh_name (head_of ce), sc) \<mapsto> ce)) \<and>
     (\<forall>k n sc w w1. ca_delete api k n sc w = (None, w1) \<longrightarrow>
        view w1 = (view w)((k, n, sc) := None)) \<and>
     (\<forall>w k n sc ce. view w (k, n, sc) = Some ce \<longrightarrow> kind_of ce = k \<and> eh_name (head_of ce) = n)"

text \<open>The same for the key-value store, for the keys of the default namespace and partition.\<close>

definition kv_documented :: "('w \<Rightarrow> string \<rightharpoonup> bytes) \<Rightarrow> 'w consul_api \<Rightarrow> bool" where
  "kv_documented kv api \<longleftrightarrow>
     (\<forall>p d w w1. ca_kv_put api p d ('''', '''') ('''', '''') w = (None, w1) \<longrightarrow> kv w1 = (kv w)(p \<mapsto> d)) \<and>
     (\<forall>p w r e w1. ca_kv_get api p ('''', '''') w = ((r, e), w1) \<longrightarrow>
        kv w1 = kv w \<and> (e = None \<longrightarrow> r = kv w p)) \<and>
     (\<forall>p w w1. ca_kv_delete_tree api p ('''', '''') w = (None, w1) \<longrightarrow>
        kv w1 = kv w |` {k. \<not> has_prefix k p}) \<and>
     (\<forall>p w ks e w1. ca_kv_keys api p ('''', '''') w = ((ks, e), w1) \<longrightarrow>
        kv w1 = kv w \<and> (e = None \<longrightarrow> distinct ks \<and> set ks = {k \<in> dom (kv w). has_prefix k p}))"

lemma kv_documented_put:
  "kv_documented kv api \<Longrightarrow> ca_kv_put api p d ('''', '''') ('''', '''') w = (None, w1) \<Longrightarrow> kv w1 = (kv w)(p \<mapsto> d)"
  unfolding kv_documented_def by metis

lemma kv_documented_get:
  "kv_documented kv api \<Longrightarrow> ca_kv_get api p ('''', '''') w = ((r, e), w1) \<Longrightarrow>
     kv w1 = kv w \<and> (e = None \<longrightarrow> r = kv w p)"
  unfolding kv_documented_def by metis

lemma kv_documented_delete:
  "kv_documented kv api \<Longrightarrow> ca_kv_delete_tree api p ('''', '''') w = (None, w1) \<Longrightarrow>
     kv w1 = kv w |` {k. \<not> has_prefix k p}"
  unfolding kv_documented_def by metis

lemma kv_documented_keys:
  "kv_documented kv api \<Longrightarrow> ca_kv_keys api p ('''', '''') w = ((ks, e), w1) \<Longrightarrow>
     kv w1 = kv w \<and> (e = None \<longrightarrow> distinct ks \<and> set ks = {k \<in> dom (kv w). has_prefix k p})"
  unfolding kv_documented_def by metis

text \<open>An instance of both: the entries as a map, the keys as an association list.\<close>

type_synonym ref_world = "(entry_key \<rightharpoonup> config_entry) \<times> (string \<times> bytes) list"

definition ref_entries :: "ref_world \<Rightarrow> entry_key \<rightharpoonup> config_entry" where
  "ref_entries w key =
     (case fst w key of
        None \<Rightarrow> None
      | Some ce \<Rightarrow> if kind_of ce = fst key \<and> eh_name (head_of ce) = fst (snd key) then Some ce else None)"

definition ref_kv :: "ref_world \<Rightarrow> string \<rightharpoonup> bytes" where
  "ref_kv w = map_of (snd w)"

definition reference_consul :: "ref_world consul_api" where
  "reference_consul =
     \<lparr>ca_get = (\<lambda>k n sc w.
        (case ref_entries w (k, n, sc) of
           None \<Rightarrow> (None, Some (GoErr ''Unexpected response code: 404''))
         | Some ce \<Rightarrow> (Some ce, None), w)),
      ca_set = (\<lambda>ce sc (m, kv). (None, (m((kind_of ce, eh_name (head_of ce), sc) \<mapsto> ce), kv))),
      ca_delete = (\<lambda>k n sc (m, kv). (None, (m((k, n, sc) := None), kv))),
      ca_health = (\<lambda>connect n flt sc w. (([(n, ''passing'')], None), w)),
      ca_kv_put = (\<lambda>p d ksc wsc (m, kv). (None, (m, (p, d) # filter (\<lambda>x. fst x \<noteq> p) kv))),
      ca_kv_get = (\<lambda>p sc w. ((ref_kv w p, None), w)),
      ca_kv_delete_tree = (\<lambda>p sc (m, kv). (None, (m, filter (\<lambda>x. \<not> has_prefix (fst x) p) kv))),
      ca_kv_keys = (\<lambda>p sc w. ((remdups (filter (\<lambda>k. has_prefix k p) (map fst (snd w))), None), w))\<rparr>"

lemma reference_consul_documented: "consul_documented ref_entries reference_consul"
  by (auto simp: consul_documented_def reference_consul_def ref_entries_def fun_eq_iff
      not_found_def has_prefix_def split: option.splits if_splits)

lemma map_of_filter_fst: "map_of (filter (\<lambda>x. P (fst x)) kv) = map_of kv |` {k. P k}"
  by (induction kv) (auto simp: fun_eq_iff restrict_map_def)

lemma reference_kv_documented: "kv_documented ref_kv reference_consul"
proof -
  have "map_of (filter (\<lambda>x. fst x \<noteq> p) kv) = (map_of kv)(p := None)" for p and kv :: "(string \<times> bytes) list"
    by (auto simp: map_of_filter_fst [of "\<lambda>k. k \<noteq> p"] restrict_map_def fun_eq_iff)
  moreover have "map_of (filter (\<lambda>x. \<not> has_prefix (fst x) p) kv) = map_of kv |` {k. \<not> has_prefix k p}"
    for p and kv :: "(string \<times> bytes) list"
    by (rule map_of_filter_fst [of "\<lambda>k. \<not> has_prefix k p"])
  ultimately show ?thesis
    by (auto simp: kv_documented_def reference_consul_def ref_kv_def dom_map_of_conv_image_fst)
qed

subsection \<open>The client\<close>

record consul_options =
  co_namespace :: string
  co_partition :: string

text \<open>
  The namespace and the partition are copied into the options of every call when they are
  not empty; the empty string is their default value.
\<close>

definition scope_of :: "consul_options \<Rightarrow> scope" where
  "scope_of opt = (co_namespace opt, co_partition opt)"

definition MetaCreatedTag :: string where "MetaCreatedTag = ''external-source''"

definition MetaCreatedValue :: string where "MetaCreatedValue = ''consul-release-controller''"

definition UpstreamRouterName :: string where
  "UpstreamRouterName = ''consul-release-controller-upstreams''"

definition ControllerServiceName :: string where
  "ControllerServiceName = ''consul-release-controller''"

definition primary_subset :: "string \<Rightarrow> string" where
  "primary_subset name = ''crc-'' @ name @ ''-primary''"

definition candidate_subset :: "string \<Rightarrow> string" where
  "candidate_subset name = ''crc-'' @ name @ ''-candidate''"

definition new_head :: "consul_options \<Rightarrow> string \<Rightarrow> entry_head" where
  "new_head opt name =
     \<lparr>eh_name = name, eh_namespace = co_namespace opt, eh_partition = co_partition opt,
      eh_meta = Some [MetaCreatedTag \<mapsto> MetaCreatedValue], eh_rest = ''''\<rparr>"

definition created_here :: "config_entry \<Rightarrow> bool" where
  "created_here ce \<longleftrightarrow> meta_get (eh_meta (head_of ce)) MetaCreatedTag = MetaCreatedValue"

text \<open>The read all the create operations begin with: an error that says 404 is passed over.\<close>

definition fetch ::
    "'w consul_api \<Rightarrow> consul_options \<Rightarrow> entry_kind \<Rightarrow> string \<Rightarrow> 'w \<Rightarrow> (go_error + config_entry option) \<times> 'w" where
  "fetch api opt k name w =
     (case ca_get api k name (scope_of opt) w of
        ((ce, Some e), w1) \<Rightarrow> if not_found e then (Inr ce, w1) else (Inl e, w1)
      | ((ce, None), w1) \<Rightarrow> (Inr ce, w1))"

text \<open>The read of the delete operations: the entry to go on with, or what to return.\<close>

definition fetch_existing ::
    "'w consul_api \<Rightarrow> consul_options \<Rightarrow> entry_kind \<Rightarrow> string \<Rightarrow> 'w \<Rightarrow> (ret + config_entry) \<times> 'w" where
  "fetch_existing api opt k name w =
     (case ca_get api k name (scope_of opt) w of
        ((Some ce, Some e), w1) \<Rightarrow> (Inl Ok, w1)
      | ((None, e), w1) \<Rightarrow> (Inl (ret_of e), w1)
      | ((Some ce, None), w1) \<Rightarrow> (Inr ce, w1))"

definition put_entry ::
    "'w consul_api \<Rightarrow> consul_options \<Rightarrow> config_entry \<Rightarrow> 'w \<Rightarrow> ret \<times> 'w" where
  "put_entry api opt ce w = (case ca_set api ce (scope_of opt) w of (e, w1) \<Rightarrow> (ret_of e, w1))"

definition drop_entry ::
    "'w consul_api \<Rightarrow> consul_options \<Rightarrow> entry_kind \<Rightarrow> string \<Rightarrow> 'w \<Rightarrow> ret \<times> 'w" where
  "drop_entry api opt k name w = (case ca_delete api k name (scope_of opt) w of (e, w1) \<Rightarrow> (ret_of e, w1))"

definition protocol_error :: "string \<Rightarrow> string \<Rightarrow> go_error" where
  "protocol_error name protocol =
     GoErr (''service '' @ name @ '' has an existing protocol of '' @ protocol @
       '', consul release controller can not set protocol to HTTP. '' @
       [CHR 0x0A, CHR 0x09, CHR 0x09, CHR 0x09, CHR 0x09] @
       ''please remove the existing Service Defaults before configuring a release'')"

definition CreateServiceDefaults ::
    "'w consul_api \<Rightarrow> consul_options \<Rightarrow> string \<Rightarrow> 'w \<Rightarrow> ret \<times> 'w" where
  "CreateServiceDefaults api opt name w =
     (case fetch api opt ServiceDefaults name w of
        (Inl e, w1) \<Rightarrow> (Err e, w1)
      | (Inr ce, w1) \<Rightarrow>
          (let create = put_entry api opt (ServiceConfigEntry (new_head opt name) ''http'') w1
           in case ce of
                None \<Rightarrow> create
              | Some (ServiceConfigEntry h protocol) \<Rightarrow>
                  if protocol = ''grpc'' then
                    (Err (protocol_error name ''gRPC''), w1)
                  else if protocol = ''http2'' then
                    (Err (protocol_error name ''HTTP2''), w1)
                  else if protocol = ''http'' then (Ok, w1)
                  else if protocol = ''tcp'' then put_entry api opt (ServiceConfigEntry h ''http'') w1
                  else create
              | Some _ \<Rightarrow> (Panic, w1)))"

definition CreateServiceResolver ::
    "'w consul_api \<Rightarrow> consul_options \<Rightarrow> string \<Rightarrow> string \<Rightarrow> string \<Rightarrow> 'w \<Rightarrow> ret \<times> 'w" where
  "CreateServiceResolver api opt name pf cf w =
     (let add = (\<lambda>m. m(primary_subset name \<mapsto> \<lparr>su_filter = pf, su_only_passing = True\<rparr>,
                       candidate_subset name \<mapsto> \<lparr>su_filter = cf, su_only_passing = True\<rparr>))
      in case fetch api opt ServiceResolver name w of
           (Inl e, w1) \<Rightarrow> (Err e, w1)
         | (Inr None, w1) \<Rightarrow>
             put_entry api opt
               (ServiceResolverConfigEntry (new_head opt name) (candidate_subset name) (Some (add Map.empty))) w1
         | (Inr (Some (ServiceResolverConfigEntry h d (Some m))), w1) \<Rightarrow>
             put_entry api opt (ServiceResolverConfigEntry h d (Some (add m))) w1
         | (Inr (Some _), w1) \<Rightarrow> (Panic, w1))"

definition CreateServiceSplitter ::
    "'w consul_api \<Rightarrow> consul_options \<Rightarrow> string \<Rightarrow> int \<Rightarrow> int \<Rightarrow> 'w \<Rightarrow> ret \<times> 'w" where
  "CreateServiceSplitter api opt name primaryTraffic canaryTraffic w =
     put_entry api opt
       (ServiceSplitterConfigEntry (new_head opt name)
         [\<lparr>sp_subset = primary_subset name, sp_weight = primaryTraffic\<rparr>,
          \<lparr>sp_subset = candidate_subset name, sp_weight = canaryTraffic\<rparr>]) w"

definition crc_route :: "string \<Rightarrow> string \<Rightarrow> string \<Rightarrow> string \<Rightarrow> service_route" where
  "crc_route header exact name sub =
     \<lparr>ro_headers = [(header, exact)],
      ro_destination = Some \<lparr>rd_service = name, rd_subset = sub, rd_num_retries = 5,
        rd_retry_on_connect_failure = True, rd_retry_on_status = [503]\<rparr>,
      ro_rest = ''''\<rparr>"

text \<open>The common body of the two router operations: append routes to the entry, new or found.\<close>

definition append_routes ::
    "'w consul_api \<Rightarrow> consul_options \<Rightarrow> string \<Rightarrow> service_route list \<Rightarrow> 'w \<Rightarrow> ret \<times> 'w" where
  "append_routes api opt rname routes w =
     (case fetch api opt ServiceRouter rname w of
        (Inl e, w1) \<Rightarrow> (Err e, w1)
      | (Inr None, w1) \<Rightarrow> put_entry api opt (ServiceRouterConfigEntry (new_head opt rname) routes) w1
      | (Inr (Some (ServiceRouterConfigEntry h rs)), w1) \<Rightarrow>
          put_entry api opt (ServiceRouterConfigEntry h (rs @ routes)) w1
      | (Inr (Some _), w1) \<Rightarrow> (Panic, w1))"

definition CreateServiceRouter ::
    "'w consul_api \<Rightarrow> consul_options \<Rightarrow> string \<Rightarrow> 'w \<Rightarrow> ret \<times> 'w" where
  "CreateServiceRouter api opt name w =
     append_routes api opt name
       [crc_route ''x-primary'' ''true'' name (primary_subset name),
        crc_route ''x-candidate'' ''true'' name (candidate_subset name)] w"

definition CreateUpstreamRouter ::
    "'w consul_api \<Rightarrow> consul_options \<Rightarrow> string \<Rightarrow> 'w \<Rightarrow> ret \<times> 'w" where
  "CreateUpstreamRouter api opt name w =
     (let namespace = (if co_namespace opt \<noteq> '''' then co_namespace opt else ''default'')
      in append_routes api opt UpstreamRouterName
           [crc_route ''HOST'' (name @ ''.'' @ namespace) name (candidate_subset name)] w)"

definition CreateServiceIntention ::
    "'w consul_api \<Rightarrow> consul_options \<Rightarrow> string \<Rightarrow> 'w \<Rightarrow> ret \<times> 'w" where
  "CreateServiceIntention api opt name w =
     (let i = \<lparr>si_name = ControllerServiceName, si_namespace = co_namespace opt,
               si_partition = co_partition opt, si_action = ''allow''\<rparr>
      in case fetch api opt ServiceIntentions name w of
           (Inl e, w1) \<Rightarrow> (Err e, w1)
         | (Inr None, w1) \<Rightarrow> put_entry api opt (ServiceIntentionsConfigEntry (new_head opt name) [i]) w1
         | (Inr (Some (ServiceIntentionsConfigEntry h sources)), w1) \<Rightarrow>
             if list_ex (\<lambda>s. si_name s = ControllerServiceName) sources then (Ok, w1)
             else put_entry api opt (ServiceIntentionsConfigEntry h (sources @ [i])) w1
         | (Inr (Some _), w1) \<Rightarrow> (Panic, w1))"

definition DeleteServiceDefaults ::
    "'w consul_api \<Rightarrow> consul_options \<Rightarrow> string \<Rightarrow> 'w \<Rightarrow> ret \<times> 'w" where
  "DeleteServiceDefaults api opt name w =
     (case fetch_existing api opt ServiceDefaults name w of
        (Inl r, w1) \<Rightarrow> (r, w1)
      | (Inr ce, w1) \<Rightarrow>
          if \<not> created_here ce then (Ok, w1) else drop_entry api opt ServiceDefaults name w1)"

definition DeleteServiceResolver ::
    "'w consul_api \<Rightarrow> consul_options \<Rightarrow> string \<Rightarrow> 'w \<Rightarrow> ret \<times> 'w" where
  "DeleteServiceResolver api opt name w =
     (case fetch_existing api opt ServiceResolver name w of
        (Inl r, w1) \<Rightarrow> (r, w1)
      | (Inr ce, w1) \<Rightarrow>
          if \<not> created_here ce then
            (case ce of
               ServiceResolverConfigEntry h d m \<Rightarrow>
                 put_entry api opt (ServiceResolverConfigEntry h d
                   (map_option (\<lambda>f. f(primary_subset name := None, candidate_subset name := None)) m)) w1
             | _ \<Rightarrow> (Panic, w1))
          else drop_entry api opt ServiceResolver name w1)"

definition DeleteServiceSplitter ::
    "'w consul_api \<Rightarrow> consul_options \<Rightarrow> string \<Rightarrow> 'w \<Rightarrow> ret \<times> 'w" where
  "DeleteServiceSplitter api opt name w = drop_entry api opt ServiceSplitter name w"

text \<open>
  The loops over the routes read through the destination pointer of every route. The
  routes \<open>DeleteServiceRouter\<close> keeps are computed and dropped: the entry is written back
  as it was read.
\<close>

fun keep_routes :: "(route_destination \<Rightarrow> bool) \<Rightarrow> service_route list \<Rightarrow> service_route list option" where
  "keep_routes keep [] = Some []"
| "keep_routes keep (r # rs) =
     (case ro_destination r of
        None \<Rightarrow> None
      | Some d \<Rightarrow>
          (case keep_routes keep rs of
             None \<Rightarrow> None
           | Some rs' \<Rightarrow> Some (if keep d then r # rs' else rs')))"

definition DeleteServiceRouter ::
    "'w consul_api \<Rightarrow> consul_options \<Rightarrow> string \<Rightarrow> 'w \<Rightarrow> ret \<times> 'w" where
  "DeleteServiceRouter api opt name w =
     (case fetch_existing api opt ServiceRouter name w of
        (Inl r, w1) \<Rightarrow> (r, w1)
      | (Inr ce, w1) \<Rightarrow>
          if \<not> created_here ce then
            (case ce of
               ServiceRouterConfigEntry h rs \<Rightarrow>
                 (case keep_routes (\<lambda>d. rd_subset d \<noteq> primary_subset name \<and>
                                        rd_subset d \<noteq> candidate_subset name) rs of
                    None \<Rightarrow> (Panic, w1)
                  | Some routes \<Rightarrow> put_entry api opt ce w1)
             | _ \<Rightarrow> (Panic, w1))
          else drop_entry api opt ServiceRouter name w1)"

definition DeleteUpstreamRouter ::
    "'w consul_api \<Rightarrow> consul_options \<Rightarrow> string \<Rightarrow> 'w \<Rightarrow> ret \<times> 'w" where
  "DeleteUpstreamRouter api opt name w =
     (case fetch_existing api opt ServiceRouter UpstreamRouterName w of
        (Inl r, w1) \<Rightarrow> (r, w1)
      | (Inr (ServiceRouterConfigEntry h rs), w1) \<Rightarrow>
          (case keep_routes (\<lambda>d. rd_service d \<noteq> name) rs of
             None \<Rightarrow> (Panic, w1)
           | Some [] \<Rightarrow> drop_entry api opt ServiceRouter UpstreamRouterName w1
           | Some routes \<Rightarrow> put_entry api opt (ServiceRouterConfigEntry h routes) w1)
      | (Inr _, w1) \<Rightarrow> (Panic, w1))"

definition DeleteServiceIntention ::
    "'w consul_api \<Rightarrow> consul_options \<Rightarrow> string \<Rightarrow> 'w \<Rightarrow> ret \<times> 'w" where
  "DeleteServiceIntention api opt name w =
     (case fetch_existing api opt ServiceIntentions name w of
        (Inl r, w1) \<Rightarrow> (r, w1)
      | (Inr ce, w1) \<Rightarrow>
          if \<not> created_here ce then
            (case ce of
               ServiceIntentionsConfigEntry h sources \<Rightarrow>
                 put_entry api opt (ServiceIntentionsConfigEntry h
                   (filter (\<lambda>s. si_name s \<noteq> ControllerServiceName) sources)) w1
             | _ \<Rightarrow> (Panic, w1))
          else drop_entry api opt ServiceIntentions name w1)"

subsection \<open>Health and keys\<close>

fun first_failing :: "string \<Rightarrow> (string \<times> string) list \<Rightarrow> go_error option" where
  "first_failing msg [] = None"
| "first_failing msg ((sid, status) # cs) =
     (if status \<noteq> ''passing'' then Some (GoErr (msg @ sid @ '', '' @ status)) else first_failing msg cs)"

text \<open>One of the two queries of \<open>CheckHealth\<close>.\<close>

definition check_instances ::
    "'w consul_api \<Rightarrow> consul_options \<Rightarrow> bool \<Rightarrow> string \<Rightarrow> string \<Rightarrow> 'w \<Rightarrow> go_error option \<times> 'w" where
  "check_instances api opt connect name flt w =
     (case ca_health api connect name flt (scope_of opt) w of
        ((checks, Some e), w1) \<Rightarrow>
          (Some (wrap_err (''unable to check health for service '' @ name @ '': '') e), w1)
      | ((checks, None), w1) \<Rightarrow>
          if checks = [] then
            (Some (GoErr (''no service checks returned for service '' @ name @ '', with filter '' @ flt)), w1)
          else
            (first_failing (if connect then ''connect health checks failing: ''
                            else ''service health checks failing: '') checks, w1))"

definition CheckHealth ::
    "'w consul_api \<Rightarrow> consul_options \<Rightarrow> string \<Rightarrow> string \<Rightarrow> 'w \<Rightarrow> go_error option \<times> 'w" where
  "CheckHealth api opt name flt w =
     (case check_instances api opt False name flt w of
        (Some e, w1) \<Rightarrow> (Some e, w1)
      | (None, w1) \<Rightarrow> check_instances api opt True name flt w1)"

definition SetKV :: "'w consul_api \<Rightarrow> consul_options \<Rightarrow> string \<Rightarrow> bytes \<Rightarrow> 'w \<Rightarrow> go_error option \<times> 'w" where
  "SetKV api opt path data w =
     (case ca_kv_put api path data (scope_of opt) ('''', '''') w of
        (Some e, w1) \<Rightarrow> (Some (wrap_err ''unable to write data to Consul KV: '' e), w1)
      | (None, w1) \<Rightarrow> (None, w1))"

text \<open>A missing key is no data and no error.\<close>

definition GetKV :: "'w consul_api \<Rightarrow> consul_options \<Rightarrow> string \<Rightarrow> 'w \<Rightarrow> (bytes \<times> go_error option) \<times> 'w" where
  "GetKV api opt path w =
     (case ca_kv_get api path (scope_of opt) w of
        ((kp, Some e), w1) \<Rightarrow>
          ((Empty, Some (wrap_err (''unable to fetch key from path '' @ path @ '' in Consul KV: '') e)), w1)
      | ((None, None), w1) \<Rightarrow> ((Empty, None), w1)
      | ((Some d, None), w1) \<Rightarrow> ((d, None), w1))"

definition DeleteKV :: "'w consul_api \<Rightarrow> consul_options \<Rightarrow> string \<Rightarrow> 'w \<Rightarrow> go_error option \<times> 'w" where
  "DeleteKV api opt path w =
     (case ca_kv_delete_tree api path (scope_of opt) w of
        (Some e, w1) \<Rightarrow>
          (Some (wrap_err (''unable to delete key from path '' @ path @ '' in Consul KV: '') e), w1)
      | (None, w1) \<Rightarrow> (None, w1))"

definition ListKV :: "'w consul_api \<Rightarrow> consul_options \<Rightarrow> string \<Rightarrow> 'w \<Rightarrow> (string list \<times> go_error option) \<times> 'w" where
  "ListKV api opt path w =
     (case ca_kv_keys api path (scope_of opt) w of
        ((k, Some e), w1) \<Rightarrow> (([], Some e), w1)
      | ((k, None), w1) \<Rightarrow> ((k, None), w1))"

subsection \<open>The operations on the documented API\<close>

text \<open>
  The entries of the mesh as a map. Each successful operation has the effect of a pure
  function of this map; these functions are what the properties are about.
\<close>

type_synonym mesh = "entry_key \<rightharpoonup> config_entry"

definition crc_subsets :: "string \<Rightarrow> string \<Rightarrow> string \<Rightarrow> (string \<rightharpoonup> resolver_subset) \<Rightarrow> string \<rightharpoonup> resolver_subset" where
  "crc_subsets name pf cf m =
     m(primary_subset name \<mapsto> \<lparr>su_filter = pf, su_only_passing = True\<rparr>,
       candidate_subset name \<mapsto> \<lparr>su_filter = cf, su_only_passing = True\<rparr>)"

definition crc_intention :: "consul_options \<Rightarrow> source_intention" where
  "crc_intention opt =
     \<lparr>si_name = ControllerServiceName, si_namespace = co_namespace opt,
      si_partition = co_partition opt, si_action = ''allow''\<rparr>"

lemma put_entry_ok:
  assumes "consul_documented view api" and "put_entry api opt ce w = (Ok, w1)"
  shows "view w1 = (view w)((kind_of ce, eh_name (head_of ce), scope_of opt) \<mapsto> ce)"
proof -
  have "ca_set api ce (scope_of opt) w = (None, w1)"
    using assms(2) by (simp add: put_entry_def split: prod.splits)
  with assms(1) show ?thesis unfolding consul_documented_def by blast
qed

lemma drop_entry_ok:
  assumes "consul_documented view api" and "drop_entry api opt k n w = (Ok, w1)"
  shows "view w1 = (view w)((k, n, scope_of opt) := None)"
proof -
  have "ca_delete api k n (scope_of opt) w = (None, w1)"
    using assms(2) by (simp add: drop_entry_def split: prod.splits)
  with assms(1) show ?thesis unfolding consul_documented_def by blast
qed

lemma put_not_panic: "put_entry api opt ce w \<noteq> (Panic, w1)"
  and drop_not_panic: "drop_entry api opt k n w \<noteq> (Panic, w1)"
  by (simp_all add: put_entry_def drop_entry_def split: prod.splits)

lemma get_documented:
  assumes "consul_documented view api" and "ca_get api k n sc w = ((r, e), w1)"
  shows "view w1 = view w" and "e = None \<Longrightarrow> r \<noteq> None \<and> view w (k, n, sc) = r"
    and "e = Some x \<Longrightarrow> r = None" and "e = Some x \<Longrightarrow> not_found x \<Longrightarrow> view w (k, n, sc) = None"
proof -
  have "view w1 = view w \<and> (case e of
      None \<Rightarrow> r \<noteq> None \<and> view w (k, n, sc) = r
    | Some x \<Rightarrow> r = None \<and> (not_found x \<longrightarrow> view w (k, n, sc) = None))"
    by (rule assms(1) [unfolded consul_documented_def, THEN conjunct1, rule_format, OF assms(2)])
  then show "view w1 = view w" and "e = None \<Longrightarrow> r \<noteq> None \<and> view w (k, n, sc) = r"
    and "e = Some x \<Longrightarrow> r = None" and "e = Some x \<Longrightarrow> not_found x \<Longrightarrow> view w (k, n, sc) = None"
    by (auto split: option.splits)
qed

lemma fetch_ok:
  assumes doc: "consul_documented view api" and "fetch api opt k n w = (Inr ce, w1)"
  shows "view w1 = view w \<and> view w (k, n, scope_of opt) = ce"
proof -
  obtain r e w' where g: "ca_get api k n (scope_of opt) w = ((r, e), w')" by (metis prod.collapse)
  with assms(2) get_documented [OF doc g] show ?thesis
    by (cases e) (auto simp: fetch_def split: if_splits)
qed

lemma fetch_existing_ok:
  assumes doc: "consul_documented view api" and "fetch_existing api opt k n w = (Inr ce, w1)"
  shows "view w1 = view w \<and> view w (k, n, scope_of opt) = Some ce"
proof -
  obtain r e w' where g: "ca_get api k n (scope_of opt) w = ((r, e), w')" by (metis prod.collapse)
  with assms(2) get_documented [OF doc g] show ?thesis
    by (cases e; cases r) (auto simp: fetch_existing_def)
qed

text \<open>The documented API never gives an entry with an error, nor neither of them.\<close>

lemma fetch_existing_stops:
  assumes doc: "consul_documented view api" and "fetch_existing api opt k n w = (Inl r, w1)"
  shows "\<exists>e. r = Err e" and "view w1 = view w"
proof -
  obtain c e w' where g: "ca_get api k n (scope_of opt) w = ((c, e), w')" by (metis prod.collapse)
  with assms(2) get_documented [OF doc g] show "\<exists>e. r = Err e" and "view w1 = view w"
    by (cases e; cases c; auto simp: fetch_existing_def)+
qed

lemma fetch_existing_missing:
  assumes doc: "consul_documented view api" and "view w (k, n, scope_of opt) = None"
  shows "\<exists>e w1. fetch_existing api opt k n w = (Inl (Err e), w1) \<and> view w1 = view w"
proof -
  obtain r w1 where f: "fetch_existing api opt k n w = (r, w1)" by fastforce
  with fetch_existing_ok [OF doc] fetch_existing_stops [OF doc] assms(2) show ?thesis
    by (cases r) fastforce+
qed

lemma keep_routes_Some:
  "keep_routes keep rs = Some rs' \<Longrightarrow>
     rs' = filter (\<lambda>r. case ro_destination r of None \<Rightarrow> False | Some d \<Rightarrow> keep d) rs"
  by (induction rs arbitrary: rs') (auto split: option.splits if_splits)

lemma keep_routes_append:
  "keep_routes keep (rs @ qs) =
     (case keep_routes keep rs of None \<Rightarrow> None
      | Some rs' \<Rightarrow> (case keep_routes keep qs of None \<Rightarrow> None | Some qs' \<Rightarrow> Some (rs' @ qs')))"
  by (induction rs) (auto split: option.splits)

lemma keep_routes_all:
  assumes "\<forall>r \<in> set rs. \<exists>d. ro_destination r = Some d \<and> keep d"
  shows "keep_routes keep rs = Some rs"
  using assms by (induction rs) auto

subsection \<open>Effect of each operation\<close>

lemma CreateServiceDefaults_ok:
  assumes doc: "consul_documented view api" and "CreateServiceDefaults api opt name w = (Ok, w1)"
  shows "(\<exists>h. view w (ServiceDefaults, name, scope_of opt) = Some (ServiceConfigEntry h ''http'') \<and>
            view w1 = view w) \<or>
         (\<exists>h. view w (ServiceDefaults, name, scope_of opt) = Some (ServiceConfigEntry h ''tcp'') \<and>
            view w1 = (view w)((ServiceDefaults, eh_name h, scope_of opt) \<mapsto> ServiceConfigEntry h ''http'')) \<or>
         ((\<forall>h p. view w (ServiceDefaults, name, scope_of opt) = Some (ServiceConfigEntry h p) \<longrightarrow>
             p \<notin> {''grpc'', ''http2'', ''http'', ''tcp''}) \<and>
          view w1 = (view w)((ServiceDefaults, name, scope_of opt) \<mapsto>
             ServiceConfigEntry (new_head opt name) ''http''))"
proof -
  obtain ce w' where f: "fetch api opt ServiceDefaults name w = (Inr ce, w')"
    using assms(2) by (auto simp: CreateServiceDefaults_def split: prod.splits sum.splits)
  note view = fetch_ok [OF doc f]
  have new: "put_entry api opt (ServiceConfigEntry (new_head opt name) ''http'') w' = (Ok, w1) \<Longrightarrow>
      view w1 = (view w)((ServiceDefaults, name, scope_of opt) \<mapsto> ServiceConfigEntry (new_head opt name) ''http'')"
    using put_entry_ok [OF doc] view by (simp add: new_head_def)
  show ?thesis
  proof (cases ce)
    case None
    with assms(2) f view new show ?thesis by (simp add: CreateServiceDefaults_def Let_def)
  next
    case (Some c)
    with assms(2) f view new put_entry_ok [OF doc, of opt _ w' w1] show ?thesis
      by (cases c) (auto simp: CreateServiceDefaults_def Let_def split: if_splits)
  qed
qed

lemma CreateServiceResolver_ok:
  assumes doc: "consul_documented view api" and "CreateServiceResolver api opt name pf cf w = (Ok, w1)"
  shows "(view w (ServiceResolver, name, scope_of opt) = None \<and>
          view w1 = (view w)((ServiceResolver, name, scope_of opt) \<mapsto>
            ServiceResolverConfigEntry (new_head opt name) (candidate_subset name) (Some (crc_subsets name pf cf Map.empty)))) \<or>
         (\<exists>h d m. view w (ServiceResolver, name, scope_of opt) = Some (ServiceResolverConfigEntry h d (Some m)) \<and>
            view w1 = (view w)((ServiceResolver, eh_name h, scope_of opt) \<mapsto>
              ServiceResolverConfigEntry h d (Some (crc_subsets name pf cf m))))"
proof -
  obtain ce w' where f: "fetch api opt ServiceResolver name w = (Inr ce, w')"
    using assms(2) by (auto simp: CreateServiceResolver_def Let_def split: prod.splits sum.splits)
  note view = fetch_ok [OF doc f]
  show ?thesis
  proof (cases ce)
    case None
    with assms(2) f have "put_entry api opt (ServiceResolverConfigEntry (new_head opt name) (candidate_subset name)
        (Some (crc_subsets name pf cf Map.empty))) w' = (Ok, w1)"
      by (simp add: CreateServiceResolver_def Let_def crc_subsets_def)
    with None view put_entry_ok [OF doc this] show ?thesis by (simp add: new_head_def)
  next
    case (Some c)
    with assms(2) f obtain h d m where c: "c = ServiceResolverConfigEntry h d (Some m)"
      and p: "put_entry api opt (ServiceResolverConfigEntry h d (Some (crc_subsets name pf cf m))) w' = (Ok, w1)"
      by (cases c) (auto simp: CreateServiceResolver_def Let_def crc_subsets_def split: option.splits)
    with Some view put_entry_ok [OF doc p] show ?thesis by simp
  qed
qed

lemma append_routes_ok:
  assumes doc: "consul_documented view api" and "append_routes api opt rname routes w = (Ok, w1)"
  shows "(view w (ServiceRouter, rname, scope_of opt) = None \<and>
          view w1 = (view w)((ServiceRouter, rname, scope_of opt) \<mapsto>
            ServiceRouterConfigEntry (new_head opt rname) routes)) \<or>
         (\<exists>h rs. view w (ServiceRouter, rname, scope_of opt) = Some (ServiceRouterConfigEntry h rs) \<and>
            view w1 = (view w)((ServiceRouter, eh_name h, scope_of opt) \<mapsto> ServiceRouterConfigEntry h (rs @ routes)))"
proof -
  obtain ce w' where f: "fetch api opt ServiceRouter rname w = (Inr ce, w')"
    using assms(2) by (auto simp: append_routes_def split: prod.splits sum.splits)
  note view = fetch_ok [OF doc f]
  show ?thesis
  proof (cases ce)
    case None
    with assms(2) f view put_entry_ok [OF doc, of opt _ w' w1] show ?thesis
      by (simp add: append_routes_def new_head_def)
  next
    case (Some c)
    with assms(2) f view put_entry_ok [OF doc, of opt _ w' w1] show ?thesis
      by (cases c) (auto simp: append_routes_def)
  qed
qed

lemma CreateServiceIntention_ok:
  assumes doc: "consul_documented view api" and "CreateServiceIntention api opt name w = (Ok, w1)"
  shows "(view w (ServiceIntentions, name, scope_of opt) = None \<and>
          view w1 = (view w)((ServiceIntentions, name, scope_of opt) \<mapsto>
            ServiceIntentionsConfigEntry (new_head opt name) [crc_intention opt])) \<or>
         (\<exists>h ss. view w (ServiceIntentions, name, scope_of opt) = Some (ServiceIntentionsConfigEntry h ss) \<and>
            view w1 = (if list_ex (\<lambda>s. si_name s = ControllerServiceName) ss then view w
              else (view w)((ServiceIntentions, eh_name h, scope_of opt) \<mapsto>
                ServiceIntentionsConfigEntry h (ss @ [crc_intention opt]))))"
proof -
  obtain ce w' where f: "fetch api opt ServiceIntentions name w = (Inr ce, w')"
    using assms(2) by (auto simp: CreateServiceIntention_def Let_def split: prod.splits sum.splits)
  note view = fetch_ok [OF doc f]
  show ?thesis
  proof (cases ce)
    case None
    with assms(2) f view put_entry_ok [OF doc, of opt _ w' w1] show ?thesis
      by (simp add: CreateServiceIntention_def Let_def crc_intention_def new_head_def)
  next
    case (Some c)
    with assms(2) f view put_entry_ok [OF doc, of opt _ w' w1] show ?thesis
      by (cases c) (auto simp: CreateServiceIntention_def Let_def crc_intention_def split: if_splits)
  qed
qed

lemma fetch_existing_cases:
  assumes "consul_documented view api" and "fetch_existing api opt k n w = (r, w')"
  shows "view w' = view w" and "r = Inl x \<Longrightarrow> \<exists>e. x = Err e"
    and "r = Inr ce \<Longrightarrow> view w (k, n, scope_of opt) = Some ce"
  using fetch_existing_ok [OF assms(1)] fetch_existing_stops [OF assms(1)] assms(2)
  by (cases r; auto)+

text \<open>What the delete operations leave of an entry that was created elsewhere.\<close>

definition without_crc_subsets :: "string \<Rightarrow> (string \<rightharpoonup> resolver_subset) \<Rightarrow> string \<rightharpoonup> resolver_subset" where
  "without_crc_subsets name m = m(primary_subset name := None, candidate_subset name := None)"

lemma DeleteServiceDefaults_ok:
  assumes doc: "consul_documented view api" and "DeleteServiceDefaults api opt name w = (Ok, w1)"
  shows "\<exists>ce. view w (ServiceDefaults, name, scope_of opt) = Some ce \<and>
    view w1 = (if created_here ce then (view w)((ServiceDefaults, name, scope_of opt) := None) else view w)"
proof -
  obtain r w' where f: "fetch_existing api opt ServiceDefaults name w = (r, w')" by fastforce
  with assms(2) fetch_existing_cases [OF doc f] drop_entry_ok [OF doc, of opt ServiceDefaults name w' w1]
  show ?thesis
    by (cases r) (auto simp: DeleteServiceDefaults_def split: if_splits)
qed

lemma DeleteServiceResolver_ok:
  assumes doc: "consul_documented view api" and "DeleteServiceResolver api opt name w = (Ok, w1)"
  shows "\<exists>ce. view w (ServiceResolver, name, scope_of opt) = Some ce \<and>
    (if created_here ce then view w1 = (view w)((ServiceResolver, name, scope_of opt) := None)
     else \<exists>h d m. ce = ServiceResolverConfigEntry h d m \<and>
       view w1 = (view w)((ServiceResolver, eh_name h, scope_of opt) \<mapsto>
         ServiceResolverConfigEntry h d (map_option (without_crc_subsets name) m)))"
proof -
  obtain r w' where f: "fetch_existing api opt ServiceResolver name w = (r, w')" by fastforce
  note cs = fetch_existing_cases [OF doc f]
  show ?thesis
  proof (cases r)
    case (Inl x)
    with assms(2) f cs show ?thesis by (auto simp: DeleteServiceResolver_def)
  next
    case (Inr ce)
    show ?thesis
    proof (cases "created_here ce")
      case True
      with assms(2) f Inr cs drop_entry_ok [OF doc, of opt ServiceResolver name w' w1] show ?thesis
        by (auto simp: DeleteServiceResolver_def)
    next
      case False
      with assms(2) f Inr obtain h d m where ce: "ce = ServiceResolverConfigEntry h d m"
        and p: "put_entry api opt (ServiceResolverConfigEntry h d (map_option (without_crc_subsets name) m)) w' = (Ok, w1)"
        by (cases ce) (auto simp: DeleteServiceResolver_def without_crc_subsets_def [abs_def])
      from put_entry_ok [OF doc p] ce False Inr cs show ?thesis by auto
    qed
  qed
qed

lemma DeleteServiceSplitter_ok:
  assumes "consul_documented view api" and "DeleteServiceSplitter api opt name w = (Ok, w1)"
  shows "view w1 = (view w)((ServiceSplitter, name, scope_of opt) := None)"
  using assms drop_entry_ok by (simp add: DeleteServiceSplitter_def)

text \<open>The router of a service as it was read is written back.\<close>

lemma DeleteServiceRouter_ok:
  assumes doc: "consul_documented view api" and "DeleteServiceRouter api opt name w = (Ok, w1)"
  shows "\<exists>ce. view w (ServiceRouter, name, scope_of opt) = Some ce \<and>
    (if created_here ce then view w1 = (view w)((ServiceRouter, name, scope_of opt) := None)
     else \<exists>h rs. ce = ServiceRouterConfigEntry h rs \<and>
       view w1 = (view w)((ServiceRouter, eh_name h, scope_of opt) \<mapsto> ServiceRouterConfigEntry h rs))"
proof -
  obtain r w' where f: "fetch_existing api opt ServiceRouter name w = (r, w')" by fastforce
  note cs = fetch_existing_cases [OF doc f]
  show ?thesis
  proof (cases r)
    case (Inl x)
    with assms(2) f cs show ?thesis by (auto simp: DeleteServiceRouter_def)
  next
    case (Inr ce)
    show ?thesis
    proof (cases "created_here ce")
      case True
      with assms(2) f Inr cs drop_entry_ok [OF doc, of opt ServiceRouter name w' w1] show ?thesis
        by (auto simp: DeleteServiceRouter_def)
    next
      case False
      with assms(2) f Inr obtain h rs where ce: "ce = ServiceRouterConfigEntry h rs"
        and p: "put_entry api opt (ServiceRouterConfigEntry h rs) w' = (Ok, w1)"
        by (cases ce) (auto simp: DeleteServiceRouter_def split: option.splits)
      from put_entry_ok [OF doc p] ce False Inr cs show ?thesis by auto
    qed
  qed
qed

lemma DeleteUpstreamRouter_ok:
  assumes doc: "consul_documented view api" and "DeleteUpstreamRouter api opt name w = (Ok, w1)"
  shows "\<exists>h rs rs'. view w (ServiceRouter, UpstreamRouterName, scope_of opt) = Some (ServiceRouterConfigEntry h rs) \<and>
    keep_routes (\<lambda>d. rd_service d \<noteq> name) rs = Some rs' \<and>
    view w1 = (if rs' = [] then (view w)((ServiceRouter, UpstreamRouterName, scope_of opt) := None)
      else (view w)((ServiceRouter, eh_name h, scope_of opt) \<mapsto> ServiceRouterConfigEntry h rs'))"
proof -
  obtain r w' where f: "fetch_existing api opt ServiceRouter UpstreamRouterName w = (r, w')" by fastforce
  note cs = fetch_existing_cases [OF doc f]
  with assms(2) f obtain h rs rs' where r: "r = Inr (ServiceRouterConfigEntry h rs)"
    and k: "keep_routes (\<lambda>d. rd_service d \<noteq> name) rs = Some rs'"
    and x: "(if rs' = [] then drop_entry api opt ServiceRouter UpstreamRouterName w'
             else put_entry api opt (ServiceRouterConfigEntry h rs') w') = (Ok, w1)"
    by (fastforce simp: DeleteUpstreamRouter_def neq_Nil_conv split: sum.splits config_entry.splits option.splits list.splits)
  with cs drop_entry_ok [OF doc] put_entry_ok [OF doc] show ?thesis
    by (intro exI [of _ h] exI [of _ rs] exI [of _ rs']) (auto split: if_splits)
qed

lemma DeleteServiceIntention_ok:
  assumes doc: "consul_documented view api" and "DeleteServiceIntention api opt name w = (Ok, w1)"
  shows "\<exists>ce. view w (ServiceIntentions, name, scope_of opt) = Some ce \<and>
    (if created_here ce then view w1 = (view w)((ServiceIntentions, name, scope_of opt) := None)
     else \<exists>h ss. ce = ServiceIntentionsConfigEntry h ss \<and>
       view w1 = (view w)((ServiceIntentions, eh_name h, scope_of opt) \<mapsto>
         ServiceIntentionsConfigEntry h (filter (\<lambda>s. si_name s \<noteq> ControllerServiceName) ss)))"
proof -
  obtain r w' where f: "fetch_existing api opt ServiceIntentions name w = (r, w')" by fastforce
  note cs = fetch_existing_cases [OF doc f]
  show ?thesis
  proof (cases r)
    case (Inl x)
    with assms(2) f cs show ?thesis by (auto simp: DeleteServiceIntention_def)
  next
    case (Inr ce)
    show ?thesis
    proof (cases "created_here ce")
      case True
      with assms(2) f Inr cs drop_entry_ok [OF doc, of opt ServiceIntentions name w' w1] show ?thesis
        by (auto simp: DeleteServiceIntention_def)
    next
      case False
      with assms(2) f Inr obtain h ss where ce: "ce = ServiceIntentionsConfigEntry h ss"
        and p: "put_entry api opt (ServiceIntentionsConfigEntry h
          (filter (\<lambda>s. si_name s \<noteq> ControllerServiceName) ss)) w' = (Ok, w1)"
        by (cases ce) (auto simp: DeleteServiceIntention_def)
      from put_entry_ok [OF doc p] ce False Inr cs show ?thesis by auto
    qed
  qed
qed

lemma DeleteX_missing:
  assumes doc: "consul_documented view api" and "view w (k, n, scope_of opt) = None"
    and "(k, n, op) \<in> {(ServiceDefaults, name, DeleteServiceDefaults api opt name w),
       (ServiceResolver, name, DeleteServiceResolver api opt name w),
       (ServiceRouter, name, DeleteServiceRouter api opt name w),
       (ServiceRouter, UpstreamRouterName, DeleteUpstreamRouter api opt name w),
       (ServiceIntentions, name, DeleteServiceIntention api opt name w)}"
  shows "\<exists>e w1. op = (Err e, w1) \<and> view w1 = view w"
proof -
  obtain e w1 where "fetch_existing api opt k n w = (Inl (Err e), w1)" "view w1 = view w"
    using fetch_existing_missing [OF doc assms(2)] by blast
  with assms(3) show ?thesis
    by (auto simp: DeleteServiceDefaults_def DeleteServiceResolver_def DeleteServiceRouter_def
        DeleteUpstreamRouter_def DeleteServiceIntention_def)
qed

subsection \<open>Resources that are created and removed again\<close>

text \<open>
  What the releaser relies on for each kind of entry it sets up: if the entry was fresh
  (not there, or somebody else's and untouched), a successful creation changes only this
  entry, into one whose successful removal puts the former value back. \<open>inv\<close> is kept by
  assumption: it is a statement about the API, which no operation changes.
\<close>

locale mesh_resource =
  fixes create :: "'s \<Rightarrow> ret \<times> 's"
    and remove :: "'s \<Rightarrow> ret \<times> 's"
    and entries :: "'s \<Rightarrow> 'k \<rightharpoonup> 'e"
    and inv :: "'s \<Rightarrow> bool"
    and key :: 'k
    and fresh :: "'e option \<Rightarrow> bool"
    and added :: "'e option \<Rightarrow> 'e option \<Rightarrow> bool"
  assumes create_ok: "inv s \<Longrightarrow> create s = (Ok, s1) \<Longrightarrow> fresh (entries s key) \<Longrightarrow>
      inv s1 \<and> (\<exists>x. entries s1 = (entries s)(key := x) \<and> added (entries s key) x)"
    and remove_ok: "inv s \<Longrightarrow> remove s = (Ok, s1) \<Longrightarrow> added x (entries s key) \<Longrightarrow>
      inv s1 \<and> entries s1 = (entries s)(key := x)"
begin

text \<open>Whatever happens to other entries in between, the removal undoes the creation.\<close>

lemma create_remove:
  assumes "inv s" and "create s = (Ok, s1)" and "fresh (entries s key)"
    and "inv s2" and "entries s2 key = entries s1 key" and "remove s2 = (Ok, s3)"
  shows "entries s3 = (entries s2)(key := entries s key)"
proof -
  obtain x where "entries s1 = (entries s)(key := x)" "added (entries s key) x"
    using create_ok [OF assms(1-3)] by blast
  with assms(5) have "added (entries s key) (entries s2 key)" by simp
  with remove_ok [OF assms(4,6)] show ?thesis by blast
qed

lemma create_frame:
  assumes "inv s" and "create s = (Ok, s1)" and "fresh (entries s key)" and "k \<noteq> key"
  shows "entries s1 k = entries s k"
  using create_ok [OF assms(1-3)] assms(4) by auto

end

text \<open>An operation with the API and the view of its entries carried along in the state.\<close>

type_synonym 'w mesh_state = "'w consul_api \<times> ('w \<Rightarrow> mesh) \<times> 'w"

definition on_mesh :: "('w consul_api \<Rightarrow> 'w \<Rightarrow> ret \<times> 'w) \<Rightarrow> 'w mesh_state \<Rightarrow> ret \<times> 'w mesh_state" where
  "on_mesh op s = (case s of (api, view, w) \<Rightarrow> (case op api w of (r, w1) \<Rightarrow> (r, (api, view, w1))))"

definition mesh_entries :: "'w mesh_state \<Rightarrow> mesh" where
  "mesh_entries s = (case s of (api, view, w) \<Rightarrow> view w)"

definition mesh_inv :: "'w mesh_state \<Rightarrow> bool" where
  "mesh_inv s = (case s of (api, view, w) \<Rightarrow> consul_documented view api)"

lemma on_mesh_iff [simp]:
  "on_mesh op (api, view, w) = (r, s1) \<longleftrightarrow> (\<exists>w1. op api w = (r, w1) \<and> s1 = (api, view, w1))"
  by (auto simp: on_mesh_def split: prod.splits)

lemma mesh_state_simps [simp]:
  "mesh_entries (api, view, w) = view w" "mesh_inv (api, view, w) = consul_documented view api"
  by (simp_all add: mesh_entries_def mesh_inv_def)

text \<open>Entries found in the mesh that the controller may work on and give back unchanged.\<close>

definition foreign :: "config_entry \<Rightarrow> bool" where
  "foreign ce \<longleftrightarrow> \<not> created_here ce"

fun fresh_defaults :: "config_entry option \<Rightarrow> bool" where
  "fresh_defaults None = True"
| "fresh_defaults (Some (ServiceConfigEntry h p)) = (foreign (ServiceConfigEntry h p) \<and> p = ''http'')"
| "fresh_defaults (Some _) = False"

fun fresh_resolver :: "string \<Rightarrow> config_entry option \<Rightarrow> bool" where
  "fresh_resolver name None = True"
| "fresh_resolver name (Some (ServiceResolverConfigEntry h d (Some m))) =
     (foreign (ServiceResolverConfigEntry h d (Some m)) \<and>
      m (primary_subset name) = None \<and> m (candidate_subset name) = None)"
| "fresh_resolver name (Some _) = False"

fun fresh_intention :: "config_entry option \<Rightarrow> bool" where
  "fresh_intention None = True"
| "fresh_intention (Some (ServiceIntentionsConfigEntry h ss)) =
     (foreign (ServiceIntentionsConfigEntry h ss) \<and> list_all (\<lambda>s. si_name s \<noteq> ControllerServiceName) ss)"
| "fresh_intention (Some _) = False"

text \<open>The shared upstream router: it has routes, none of them to this service.\<close>

fun fresh_upstream :: "string \<Rightarrow> config_entry option \<Rightarrow> bool" where
  "fresh_upstream name None = True"
| "fresh_upstream name (Some (ServiceRouterConfigEntry h rs)) =
     (rs \<noteq> [] \<and> list_all (\<lambda>r. case ro_destination r of None \<Rightarrow> False | Some d \<Rightarrow> rd_service d \<noteq> name) rs)"
| "fresh_upstream name (Some _) = False"

definition added_defaults :: "consul_options \<Rightarrow> string \<Rightarrow> config_entry option \<Rightarrow> config_entry option \<Rightarrow> bool" where
  "added_defaults opt name x y \<longleftrightarrow> fresh_defaults x \<and>
     y = (if x = None then Some (ServiceConfigEntry (new_head opt name) ''http'') else x)"

fun added_resolver :: "consul_options \<Rightarrow> string \<Rightarrow> string \<Rightarrow> string \<Rightarrow> config_entry option \<Rightarrow> config_entry option \<Rightarrow> bool" where
  "added_resolver opt name pf cf x y = (fresh_resolver name x \<and>
     y = (case x of
        Some (ServiceResolverConfigEntry h d (Some m)) \<Rightarrow>
          Some (ServiceResolverConfigEntry h d (Some (crc_subsets name pf cf m)))
      | _ \<Rightarrow> Some (ServiceResolverConfigEntry (new_head opt name) (candidate_subset name)
               (Some (crc_subsets name pf cf Map.empty)))))"

fun added_intention :: "consul_options \<Rightarrow> string \<Rightarrow> config_entry option \<Rightarrow> config_entry option \<Rightarrow> bool" where
  "added_intention opt name x y = (fresh_intention x \<and>
     y = (case x of
        Some (ServiceIntentionsConfigEntry h ss) \<Rightarrow> Some (ServiceIntentionsConfigEntry h (ss @ [crc_intention opt]))
      | _ \<Rightarrow> Some (ServiceIntentionsConfigEntry (new_head opt name) [crc_intention opt])))"

definition upstream_route :: "consul_options \<Rightarrow> string \<Rightarrow> service_route" where
  "upstream_route opt name =
     crc_route ''HOST'' (name @ ''.'' @ (if co_namespace opt \<noteq> '''' then co_namespace opt else ''default''))
       name (candidate_subset name)"

fun added_upstream :: "consul_options \<Rightarrow> string \<Rightarrow> config_entry option \<Rightarrow> config_entry option \<Rightarrow> bool" where
  "added_upstream opt name x y = (fresh_upstream name x \<and>
     y = (case x of
        Some (ServiceRouterConfigEntry h rs) \<Rightarrow> Some (ServiceRouterConfigEntry h (rs @ [upstream_route opt name]))
      | _ \<Rightarrow> Some (ServiceRouterConfigEntry (new_head opt UpstreamRouterName) [upstream_route opt name])))"

lemma new_head_created [simp]:
  "created_here (ServiceConfigEntry (new_head opt n) p)"
  "created_here (ServiceResolverConfigEntry (new_head opt n) d m)"
  "created_here (ServiceRouterConfigEntry (new_head opt n) rs)"
  "created_here (ServiceIntentionsConfigEntry (new_head opt n) ss)"
  by (simp_all add: created_here_def new_head_def meta_get_def)

lemma documented_name:
  "consul_documented view api \<Longrightarrow> view w (k, n, sc) = Some ce \<Longrightarrow> kind_of ce = k \<and> eh_name (head_of ce) = n"
  unfolding consul_documented_def by blast

lemma subsets_differ: "primary_subset n \<noteq> candidate_subset n"
  by (simp add: primary_subset_def candidate_subset_def)

lemma without_crc_subsets_add:
  "m (primary_subset n) = None \<Longrightarrow> m (candidate_subset n) = None \<Longrightarrow>
     without_crc_subsets n (crc_subsets n pf cf m) = m"
  by (auto simp: without_crc_subsets_def crc_subsets_def fun_eq_iff)

lemma created_here_payload:
  "created_here (ServiceResolverConfigEntry h d m) = created_here (ServiceResolverConfigEntry h d' m')"
  "created_here (ServiceIntentionsConfigEntry h ss) = created_here (ServiceIntentionsConfigEntry h ss')"
  by (simp_all add: created_here_def)

lemma mesh_resourceI:
  assumes "\<And>view api w w1. consul_documented view api \<Longrightarrow> create api w = (Ok, w1) \<Longrightarrow> fresh (view w key) \<Longrightarrow>
      \<exists>x. view w1 = (view w)(key := x) \<and> added (view w key) x"
    and "\<And>view api w w1 x. consul_documented view api \<Longrightarrow> remove api w = (Ok, w1) \<Longrightarrow> added x (view w key) \<Longrightarrow>
      view w1 = (view w)(key := x)"
  shows "mesh_resource (on_mesh create) (on_mesh remove) mesh_entries mesh_inv key fresh added"
  by unfold_locales (use assms in \<open>auto simp: on_mesh_def mesh_entries_def mesh_inv_def split: prod.splits\<close>)

lemma defaults_created:
  assumes doc: "consul_documented view api" and "CreateServiceDefaults api opt name w = (Ok, w1)"
    and "fresh_defaults (view w (ServiceDefaults, name, scope_of opt))"
  shows "\<exists>x. view w1 = (view w)((ServiceDefaults, name, scope_of opt) := x) \<and>
    added_defaults opt name (view w (ServiceDefaults, name, scope_of opt)) x"
proof (cases "view w (ServiceDefaults, name, scope_of opt)")
  case None
  with CreateServiceDefaults_ok [OF assms(1,2)] show ?thesis by (auto simp: added_defaults_def)
next
  case (Some ce)
  with assms(3) obtain h where "ce = ServiceConfigEntry h ''http''" by (cases ce) auto
  with Some assms(3) CreateServiceDefaults_ok [OF assms(1,2)] show ?thesis
    by (auto simp: added_defaults_def fun_upd_idem)
qed

lemma defaults_removed:
  assumes doc: "consul_documented view api" and "DeleteServiceDefaults api opt name w = (Ok, w1)"
    and ad: "added_defaults opt name x (view w (ServiceDefaults, name, scope_of opt))"
  shows "view w1 = (view w)((ServiceDefaults, name, scope_of opt) := x)"
proof -
  from DeleteServiceDefaults_ok [OF assms(1,2)] obtain ce where
    ce: "view w (ServiceDefaults, name, scope_of opt) = Some ce"
    and v: "view w1 = (if created_here ce then (view w)((ServiceDefaults, name, scope_of opt) := None) else view w)"
    by blast
  show ?thesis
  proof (cases x)
    case None
    with ad ce v show ?thesis by (auto simp: added_defaults_def)
  next
    case (Some c)
    with ad ce have "c = ce" "fresh_defaults (Some ce)" by (auto simp: added_defaults_def)
    moreover from this have "\<not> created_here ce" by (cases ce) (auto simp: foreign_def)
    ultimately show ?thesis using Some ce v by (auto simp: fun_upd_idem)
  qed
qed

lemma resolver_created:
  assumes doc: "consul_documented view api" and "CreateServiceResolver api opt name pf cf w = (Ok, w1)"
    and "fresh_resolver name (view w (ServiceResolver, name, scope_of opt))"
  shows "\<exists>x. view w1 = (view w)((ServiceResolver, name, scope_of opt) := x) \<and>
    added_resolver opt name pf cf (view w (ServiceResolver, name, scope_of opt)) x"
  using CreateServiceResolver_ok [OF assms(1,2)] assms(3) documented_name [OF doc] by fastforce

lemma resolver_removed:
  assumes doc: "consul_documented view api" and "DeleteServiceResolver api opt name w = (Ok, w1)"
    and ad: "added_resolver opt name pf cf x (view w (ServiceResolver, name, scope_of opt))"
  shows "view w1 = (view w)((ServiceResolver, name, scope_of opt) := x)"
proof (cases x)
  case None
  with ad DeleteServiceResolver_ok [OF assms(1,2)] show ?thesis by auto
next
  case (Some c)
  with ad obtain h d m where c: "c = ServiceResolverConfigEntry h d (Some m)"
    by (cases "(name, x)" rule: fresh_resolver.cases) auto
  have v: "view w (ServiceResolver, name, scope_of opt) =
      Some (ServiceResolverConfigEntry h d (Some (crc_subsets name pf cf m)))"
    using ad Some c by simp
  then have "eh_name h = name" using documented_name [OF doc v] by simp
  moreover have "\<not> created_here (ServiceResolverConfigEntry h d (Some (crc_subsets name pf cf m)))"
    using ad Some c created_here_payload(1) by (fastforce simp: foreign_def)
  ultimately show ?thesis
    using DeleteServiceResolver_ok [OF assms(1,2)] v ad Some c by (auto simp: without_crc_subsets_add)
qed

lemma intention_created:
  assumes doc: "consul_documented view api" and "CreateServiceIntention api opt name w = (Ok, w1)"
    and "fresh_intention (view w (ServiceIntentions, name, scope_of opt))"
  shows "\<exists>x. view w1 = (view w)((ServiceIntentions, name, scope_of opt) := x) \<and>
    added_intention opt name (view w (ServiceIntentions, name, scope_of opt)) x"
  using CreateServiceIntention_ok [OF assms(1,2)] assms(3) documented_name [OF doc]
  by (fastforce simp: list_all_iff list_ex_iff)

lemma intention_removed:
  assumes doc: "consul_documented view api" and "DeleteServiceIntention api opt name w = (Ok, w1)"
    and ad: "added_intention opt name x (view w (ServiceIntentions, name, scope_of opt))"
  shows "view w1 = (view w)((ServiceIntentions, name, scope_of opt) := x)"
proof (cases x)
  case None
  with ad DeleteServiceIntention_ok [OF assms(1,2)] show ?thesis by auto
next
  case (Some c)
  with ad obtain h ss where c: "c = ServiceIntentionsConfigEntry h ss"
    by (cases x rule: fresh_intention.cases) auto
  have v: "view w (ServiceIntentions, name, scope_of opt) =
      Some (ServiceIntentionsConfigEntry h (ss @ [crc_intention opt]))"
    using ad Some c by simp
  then have "eh_name h = name" using documented_name [OF doc v] by simp
  moreover have "\<not> created_here (ServiceIntentionsConfigEntry h (ss @ [crc_intention opt]))"
    using ad Some c created_here_payload(2) by (fastforce simp: foreign_def)
  moreover have "filter (\<lambda>s. si_name s \<noteq> ControllerServiceName) (ss @ [crc_intention opt]) = ss"
    using ad Some c by (auto simp: crc_intention_def list_all_iff intro: filter_True)
  ultimately show ?thesis
    using DeleteServiceIntention_ok [OF assms(1,2)] v Some c by auto
qed

lemma upstream_created:
  assumes doc: "consul_documented view api" and "CreateUpstreamRouter api opt name w = (Ok, w1)"
    and "fresh_upstream name (view w (ServiceRouter, UpstreamRouterName, scope_of opt))"
  shows "\<exists>x. view w1 = (view w)((ServiceRouter, UpstreamRouterName, scope_of opt) := x) \<and>
    added_upstream opt name (view w (ServiceRouter, UpstreamRouterName, scope_of opt)) x"
proof -
  have "append_routes api opt UpstreamRouterName [upstream_route opt name] w = (Ok, w1)"
    using assms(2) by (simp add: CreateUpstreamRouter_def Let_def upstream_route_def)
  from append_routes_ok [OF doc this] assms(3) documented_name [OF doc] show ?thesis by fastforce
qed

lemma upstream_removed:
  assumes doc: "consul_documented view api" and "DeleteUpstreamRouter api opt name w = (Ok, w1)"
    and ad: "added_upstream opt name x (view w (ServiceRouter, UpstreamRouterName, scope_of opt))"
  shows "view w1 = (view w)((ServiceRouter, UpstreamRouterName, scope_of opt) := x)"
proof -
  have new: "keep_routes (\<lambda>d. rd_service d \<noteq> name) [upstream_route opt name] = Some []"
    by (simp add: upstream_route_def crc_route_def)
  show ?thesis
  proof (cases x)
    case None
    with ad new DeleteUpstreamRouter_ok [OF assms(1,2)] show ?thesis by auto
  next
    case (Some c)
    with ad obtain h rs where c: "c = ServiceRouterConfigEntry h rs"
      by (cases "(name, x)" rule: fresh_upstream.cases) auto
    have v: "view w (ServiceRouter, UpstreamRouterName, scope_of opt) =
        Some (ServiceRouterConfigEntry h (rs @ [upstream_route opt name]))"
      using ad Some c by simp
    then have "eh_name h = UpstreamRouterName" using documented_name [OF doc v] by simp
    moreover have "keep_routes (\<lambda>d. rd_service d \<noteq> name) rs = Some rs"
      using ad Some c by (intro keep_routes_all) (auto simp: list_all_iff split: option.splits)
    ultimately show ?thesis
      using DeleteUpstreamRouter_ok [OF assms(1,2)] v new ad Some c by (auto simp: keep_routes_append)
  qed
qed

interpretation defaults: mesh_resource
  "on_mesh (\<lambda>api. CreateServiceDefaults api opt name)" "on_mesh (\<lambda>api. DeleteServiceDefaults api opt name)"
  mesh_entries mesh_inv "(ServiceDefaults, name, scope_of opt)" fresh_defaults "added_defaults opt name"
  for opt name
  by (rule mesh_resourceI) (fact defaults_created, fact defaults_removed)

interpretation resolver: mesh_resource
  "on_mesh (\<lambda>api. CreateServiceResolver api opt name pf cf)" "on_mesh (\<lambda>api. DeleteServiceResolver api opt name)"
  mesh_entries mesh_inv "(ServiceResolver, name, scope_of opt)" "fresh_resolver name" "added_resolver opt name pf cf"
  for opt name pf cf
  by (rule mesh_resourceI) (fact resolver_created, fact resolver_removed)

interpretation intention: mesh_resource
  "on_mesh (\<lambda>api. CreateServiceIntention api opt name)" "on_mesh (\<lambda>api. DeleteServiceIntention api opt name)"
  mesh_entries mesh_inv "(ServiceIntentions, name, scope_of opt)" fresh_intention "added_intention opt name"
  for opt name
  by (rule mesh_resourceI) (fact intention_created, fact intention_removed)

interpretation upstream: mesh_resource
  "on_mesh (\<lambda>api. CreateUpstreamRouter api opt name)" "on_mesh (\<lambda>api. DeleteUpstreamRouter api opt name)"
  mesh_entries mesh_inv "(ServiceRouter, UpstreamRouterName, scope_of opt)" "fresh_upstream name"
  "added_upstream opt name"
  for opt name
  by (rule mesh_resourceI) (fact upstream_created, fact upstream_removed)

subsection \<open>Concrete meshes\<close>

definition ref_options :: consul_options where
  "ref_options = \<lparr>co_namespace = '''', co_partition = ''''\<rparr>"

definition user_head :: "string \<Rightarrow> entry_head" where
  "user_head name = \<lparr>eh_name = name, eh_namespace = '''', eh_partition = '''', eh_meta = None, eh_rest = ''redirect''\<rparr>"

definition mesh_of :: "(entry_key \<times> config_entry) list \<Rightarrow> ref_world" where
  "mesh_of es = (map_of es, [])"

definition user_resolver :: config_entry where
  "user_resolver = ServiceResolverConfigEntry (user_head ''api'') ''v1''
     (Some [''v1'' \<mapsto> \<lparr>su_filter = ''Service.Meta.v == 1'', su_only_passing = False\<rparr>])"

lemmas ref_simps =
  reference_consul_def ref_options_def user_head_def mesh_of_def scope_of_def user_resolver_def
  put_entry_def drop_entry_def fetch_def fetch_existing_def not_found_def ref_entries_def created_here_def
  meta_get_def MetaCreatedTag_def MetaCreatedValue_def has_prefix_def

subsection \<open>Properties\<close>

text \<open>
  Adding the subsets of a release to a service's resolver and removing them again
  gives the mesh back as it was, whether the resolver did not exist or belonged to
  somebody else with subsets of its own.
\<close>

theorem resolver_round_trip:
  assumes "consul_documented view api"
    and "fresh_resolver name (view w (ServiceResolver, name, scope_of opt))"
    and "CreateServiceResolver api opt name pf cf w = (Ok, w1)"
    and "DeleteServiceResolver api opt name w1 = (Ok, w2)"
  shows "view w2 = view w"
proof -
  have "view w2 = (view w1)((ServiceResolver, name, scope_of opt) := view w (ServiceResolver, name, scope_of opt))"
    using resolver.create_remove [of "(api, view, w)" opt name pf cf "(api, view, w1)" "(api, view, w1)" "(api, view, w2)"] assms
    by simp
  moreover obtain x where "view w1 = (view w)((ServiceResolver, name, scope_of opt) := x)"
    using resolver.create_ok [of "(api, view, w)" opt name pf cf "(api, view, w1)"] assms by auto
  ultimately show ?thesis by simp
qed

theorem resolver_round_trip_witness:
  "\<exists>w1 w2. CreateServiceResolver reference_consul ref_options ''api'' ''p'' ''c''
       (mesh_of [((ServiceResolver, ''api'', ('''', '''')), user_resolver)]) = (Ok, w1) \<and>
     ref_entries w1 \<noteq> ref_entries (mesh_of [((ServiceResolver, ''api'', ('''', '''')), user_resolver)]) \<and>
     DeleteServiceResolver reference_consul ref_options ''api'' w1 = (Ok, w2) \<and>
     ref_entries w2 = ref_entries (mesh_of [((ServiceResolver, ''api'', ('''', '''')), user_resolver)])"
proof -
  let ?w = "mesh_of [((ServiceResolver, ''api'', ('''', '''')), user_resolver)]"
  let ?k = "(ServiceResolver, ''api'', ('''', ''''))"
  obtain w1 where w1: "CreateServiceResolver reference_consul ref_options ''api'' ''p'' ''c'' ?w = (Ok, w1)"
    and e1: "ref_entries w1 ?k = Some (ServiceResolverConfigEntry (user_head ''api'') ''v1''
       (Some (crc_subsets ''api'' ''p'' ''c'' [''v1'' \<mapsto> \<lparr>su_filter = ''Service.Meta.v == 1'', su_only_passing = False\<rparr>])))"
    by (simp add: CreateServiceResolver_def Let_def ref_simps crc_subsets_def)
  have "ref_entries w1 \<noteq> ref_entries ?w"
  proof
    assume "ref_entries w1 = ref_entries ?w"
    with e1 have "crc_subsets ''api'' ''p'' ''c'' [''v1'' \<mapsto> \<lparr>su_filter = ''Service.Meta.v == 1'', su_only_passing = False\<rparr>] =
        [''v1'' \<mapsto> \<lparr>su_filter = ''Service.Meta.v == 1'', su_only_passing = False\<rparr>]"
      by (simp add: ref_simps)
    then show False
      by (auto simp: crc_subsets_def fun_eq_iff candidate_subset_def dest: spec [of _ "candidate_subset ''api''"])
  qed
  moreover obtain w2 where w2: "DeleteServiceResolver reference_consul ref_options ''api'' w1 = (Ok, w2)"
    using w1 by (auto simp: CreateServiceResolver_def DeleteServiceResolver_def Let_def ref_simps)
  moreover have "ref_entries w2 = ref_entries ?w"
    by (rule resolver_round_trip [OF reference_consul_documented _ w1 w2])
      (simp add: ref_simps foreign_def primary_subset_def candidate_subset_def)
  ultimately show ?thesis using w1 by blast
qed



text \<open>
  Removing an entry that is not there is an error and changes nothing, for every kind
  the clean-up reads first: the branch meant to treat a missing entry as success needs an
  entry together with an error, which the API never returns. A clean-up that stopped
  half way therefore cannot be repeated to its end.
\<close>

theorem delete_missing_fails:
  assumes "consul_documented view api" and "view w (k, n, scope_of opt) = None"
    and "(k, n, op) \<in> {(ServiceDefaults, name, DeleteServiceDefaults api opt name w),
       (ServiceResolver, name, DeleteServiceResolver api opt name w),
       (ServiceRouter, name, DeleteServiceRouter api opt name w),
       (ServiceRouter, UpstreamRouterName, DeleteUpstreamRouter api opt name w),
       (ServiceIntentions, name, DeleteServiceIntention api opt name w)}"
  shows "\<exists>e w1. op = (Err e, w1) \<and> view w1 = view w"
  by (rule DeleteX_missing [OF assms])

theorem delete_missing_fails_witness:
  "\<exists>e w1. DeleteServiceResolver reference_consul ref_options ''api'' (mesh_of []) = (Err e, w1)"
proof -
  have "ref_entries (mesh_of []) (ServiceResolver, ''api'', scope_of ref_options) = None"
    by (simp add: ref_simps)
  from delete_missing_fails [OF reference_consul_documented this, of _ "''api''"] show ?thesis by blast
qed

text \<open>
  The routes the controller adds to a router that belongs to somebody else are never
  removed: after a successful clean-up the router still has the routes it had before it,
  although the code computes the list without them.
\<close>

theorem foreign_router_keeps_routes:
  assumes "consul_documented view api"
    and "view w (ServiceRouter, name, scope_of opt) = Some (ServiceRouterConfigEntry h rs)"
    and "foreign (ServiceRouterConfigEntry h rs)"
    and "CreateServiceRouter api opt name w = (Ok, w1)"
    and "DeleteServiceRouter api opt name w1 = (Ok, w2)"
  shows "view w2 (ServiceRouter, name, scope_of opt) = Some (ServiceRouterConfigEntry h
    (rs @ [crc_route ''x-primary'' ''true'' name (primary_subset name),
           crc_route ''x-candidate'' ''true'' name (candidate_subset name)]))"
proof -
  let ?rs = "rs @ [crc_route ''x-primary'' ''true'' name (primary_subset name),
           crc_route ''x-candidate'' ''true'' name (candidate_subset name)]"
  have h: "eh_name h = name" using documented_name [OF assms(1,2)] by simp
  then have v1: "view w1 (ServiceRouter, name, scope_of opt) = Some (ServiceRouterConfigEntry h ?rs)"
    using append_routes_ok [OF assms(1) assms(4) [unfolded CreateServiceRouter_def]] assms(2) by auto
  have "\<not> created_here (ServiceRouterConfigEntry h ?rs)"
    using assms(3) by (simp add: foreign_def created_here_def)
  with DeleteServiceRouter_ok [OF assms(1,5)] v1 h show ?thesis by auto
qed

theorem foreign_router_keeps_routes_witness:
  "\<exists>w1 w2. CreateServiceRouter reference_consul ref_options ''api''
       (mesh_of [((ServiceRouter, ''api'', ('''', '''')), ServiceRouterConfigEntry (user_head ''api'') [])]) = (Ok, w1) \<and>
     DeleteServiceRouter reference_consul ref_options ''api'' w1 = (Ok, w2) \<and>
     ref_entries w2 (ServiceRouter, ''api'', ('''', '''')) \<noteq> Some (ServiceRouterConfigEntry (user_head ''api'') [])"
proof -
  let ?w = "mesh_of [((ServiceRouter, ''api'', ('''', '''')), ServiceRouterConfigEntry (user_head ''api'') [])]"
  have v: "ref_entries ?w (ServiceRouter, ''api'', scope_of ref_options) = Some (ServiceRouterConfigEntry (user_head ''api'') [])"
    "foreign (ServiceRouterConfigEntry (user_head ''api'') [])"
    by (simp_all add: ref_simps foreign_def)
  obtain w1 where w1: "CreateServiceRouter reference_consul ref_options ''api'' ?w = (Ok, w1)"
    by (simp add: CreateServiceRouter_def append_routes_def ref_simps)
  moreover obtain w2 where w2: "DeleteServiceRouter reference_consul ref_options ''api'' w1 = (Ok, w2)"
    using w1 by (auto simp: CreateServiceRouter_def append_routes_def DeleteServiceRouter_def crc_route_def ref_simps)
  moreover have "scope_of ref_options = ('''', '''')" by (simp add: ref_simps)
  moreover have "ref_entries w2 (ServiceRouter, ''api'', scope_of ref_options) \<noteq>
      Some (ServiceRouterConfigEntry (user_head ''api'') [])"
    by (simp add: foreign_router_keeps_routes [OF reference_consul_documented v w1 w2])
  ultimately show ?thesis by (intro exI [of _ w1] exI [of _ w2]) simp
qed

text \<open>
  Service defaults that set no protocol, or one the client does not know, are taken
  over: the creation replaces them by the controller's own entry, tagged as created
  here, so the clean-up deletes what was the user's configuration.
\<close>

theorem defaults_takeover:
  assumes "consul_documented view api"
    and "view w (ServiceDefaults, name, scope_of opt) = Some (ServiceConfigEntry h p)"
    and "p \<notin> {''grpc'', ''http2'', ''http'', ''tcp''}"
    and "CreateServiceDefaults api opt name w = (Ok, w1)"
    and "DeleteServiceDefaults api opt name w1 = (Ok, w2)"
  shows "view w2 (ServiceDefaults, name, scope_of opt) = None"
proof -
  have "view w1 (ServiceDefaults, name, scope_of opt) = Some (ServiceConfigEntry (new_head opt name) ''http'')"
    using CreateServiceDefaults_ok [OF assms(1,4)] assms(2,3) by auto
  with DeleteServiceDefaults_ok [OF assms(1,5)] show ?thesis by auto
qed

theorem defaults_takeover_witness:
  "\<exists>w1 w2. CreateServiceDefaults reference_consul ref_options ''api''
       (mesh_of [((ServiceDefaults, ''api'', ('''', '''')), ServiceConfigEntry (user_head ''api'') '''')]) = (Ok, w1) \<and>
     DeleteServiceDefaults reference_consul ref_options ''api'' w1 = (Ok, w2) \<and>
     ref_entries w2 (ServiceDefaults, ''api'', ('''', '''')) = None"
proof -
  let ?w = "mesh_of [((ServiceDefaults, ''api'', ('''', '''')), ServiceConfigEntry (user_head ''api'') '''')]"
  have v: "ref_entries ?w (ServiceDefaults, ''api'', scope_of ref_options) = Some (ServiceConfigEntry (user_head ''api'') '''')"
    by (simp add: ref_simps)
  obtain w1 where w1: "CreateServiceDefaults reference_consul ref_options ''api'' ?w = (Ok, w1)"
    by (simp add: CreateServiceDefaults_def Let_def ref_simps)
  moreover obtain w2 where w2: "DeleteServiceDefaults reference_consul ref_options ''api'' w1 = (Ok, w2)"
    using w1 by (auto simp: CreateServiceDefaults_def DeleteServiceDefaults_def new_head_def Let_def ref_simps)
  moreover have "ref_entries w2 (ServiceDefaults, ''api'', scope_of ref_options) = None"
    by (rule defaults_takeover [OF reference_consul_documented v _ w1 w2]) simp
  moreover have "scope_of ref_options = ('''', '''')" by (simp add: ref_simps)
  ultimately show ?thesis by (intro exI [of _ w1] exI [of _ w2]) simp
qed

text \<open>
  A service counts as healthy exactly when both queries, of its instances and of their
  proxies, answer without error with at least one instance and every instance passing.
\<close>

theorem check_health_iff:
  "fst (CheckHealth api opt name flt w) = None \<longleftrightarrow>
     (\<exists>c1 w1 c2 w2. ca_health api False name flt (scope_of opt) w = ((c1, None), w1) \<and>
        ca_health api True name flt (scope_of opt) w1 = ((c2, None), w2) \<and>
        c1 \<noteq> [] \<and> c2 \<noteq> [] \<and> list_all (\<lambda>c. snd c = ''passing'') (c1 @ c2))"
proof -
  have ff: "first_failing msg cs = None \<longleftrightarrow> list_all (\<lambda>c. snd c = ''passing'') cs" for msg cs
    by (induction msg cs rule: first_failing.induct) (auto split: if_splits)
  have one: "check_instances api opt b name flt w = (None, w') \<longleftrightarrow>
      (\<exists>c. ca_health api b name flt (scope_of opt) w = ((c, None), w') \<and> c \<noteq> [] \<and> list_all (\<lambda>c. snd c = ''passing'') c)"
    for b w w'
    by (auto simp: check_instances_def ff split: prod.splits option.splits)
  have "fst (CheckHealth api opt name flt w) = None \<longleftrightarrow>
      (\<exists>w1 w2. check_instances api opt False name flt w = (None, w1) \<and>
         check_instances api opt True name flt w1 = (None, w2))"
    by (auto simp: CheckHealth_def split: prod.splits option.splits) (metis prod.collapse)
  then show ?thesis by (auto simp: one)
qed

end
