(* ===== verification/Storage.thy ===== *)
theory Storage
  imports ConsulClient Canary
begin

text \<open>
  The two release stores: the in-memory one (\<open>pkg/plugins/memory/inmem.go\<close>) and the one
  over the Consul key-value store (\<open>pkg/plugins/consul/storage.go\<close>), which is also the
  state store of the plugins. Both are shown to meet the contracts their users rely on.

  The memory store keeps pointers; a release is a value here, as the callers treat a
  stored release as given away. The order in which Go visits a map is not specified;
  it is the order of the association list here and no property depends on it.
\<close>

subsection \<open>The memory store\<close>

type_synonym memory_store = "(string \<times> release) list"

definition memory_UpsertRelease :: "release \<Rightarrow> memory_store \<Rightarrow> go_error option \<times> memory_store" where
  "memory_UpsertRelease d m =
     (if r_name d = '''' then (Some (GoErr ''invalid name:  for release''), m)
      else (None, (r_name d, d) # filter (\<lambda>x. fst x \<noteq> r_name d) m))"

text \<open>\<open>None\<close> is a panic: the filter reads the runtime of every release through its pointer.\<close>

definition memory_ListReleases :: "string option \<Rightarrow> memory_store \<Rightarrow> release list option" where
  "memory_ListReleases options m =
     (case options of
        None \<Rightarrow> Some (map snd m)
      | Some runtime \<Rightarrow>
          if list_ex (\<lambda>x. r_runtime (snd x) = None) m then None
          else Some (filter (\<lambda>r. pc_name (the (r_runtime r)) = runtime) (map snd m)))"

definition memory_DeleteRelease :: "string \<Rightarrow> memory_store \<Rightarrow> go_error option \<times> memory_store" where
  "memory_DeleteRelease name m =
     (case map_of m name of
        None \<Rightarrow> (Some ReleaseNotFound, m)
      | Some r \<Rightarrow> (None, filter (\<lambda>x. fst x \<noteq> r_name r) m))"

definition memory_GetRelease :: "string \<Rightarrow> memory_store \<Rightarrow> (release option \<times> go_error option) \<times> memory_store" where
  "memory_GetRelease name m =
     (case find (\<lambda>r. r_name r = name) (map snd m) of
        Some r \<Rightarrow> ((Some r, None), m)
      | None \<Rightarrow> ((None, Some ReleaseNotFound), m))"

definition memory_inv :: "memory_store \<Rightarrow> bool" where
  "memory_inv m \<longleftrightarrow> distinct (map fst m) \<and> list_all (\<lambda>x. fst x = r_name (snd x)) m"

lemma memory_get_map_of:
  assumes "memory_inv m"
  shows "find (\<lambda>r. r_name r = n) (map snd m) = map_of m n"
  using assms by (induction m) (auto simp: memory_inv_def)

lemma memory_inv_filter: "memory_inv m \<Longrightarrow> memory_inv (filter P m)"
  by (auto simp: memory_inv_def list_all_iff distinct_map inj_on_def)

lemma map_of_filter_neq: "map_of (filter (\<lambda>x. fst x \<noteq> n) m) = (map_of m)(n := None)"
  by (auto simp: map_of_filter_fst [of "\<lambda>k. k \<noteq> n"] restrict_map_def fun_eq_iff)

interpretation memory: release_store_contract memory_UpsertRelease memory_GetRelease memory_DeleteRelease
  map_of memory_inv "\<lambda>r. True"
proof
  fix s s1 :: memory_store and r n x e
  show "memory_inv s1 \<and> map_of s1 = (map_of s)(r_name r \<mapsto> r)"
    if "memory_inv s" "memory_UpsertRelease r s = (None, s1)"
    using that memory_inv_filter [OF that(1), of "\<lambda>x. fst x \<noteq> r_name r"]
    by (auto simp: memory_UpsertRelease_def map_of_filter_neq memory_inv_def split: if_splits)
  show "memory_inv s1 \<and> map_of s1 = map_of s \<and> x = map_of s n \<and> x \<noteq> None"
    if "memory_inv s" "memory_GetRelease n s = ((x, None), s1)"
    using that memory_get_map_of [OF that(1), of n] by (cases x) (simp_all add: memory_GetRelease_def split: option.splits)
  show "memory_inv s1 \<and> map_of s1 = map_of s \<and> x = None"
    if "memory_inv s" "memory_GetRelease n s = ((x, Some e), s1)"
    using that by (auto simp: memory_GetRelease_def split: option.splits)
  show "memory_inv s1 \<and> map_of s1 n = None \<and> map_of s1 \<subseteq>\<^sub>m map_of s"
    if "memory_inv s" "memory_DeleteRelease n s = (None, s1)"
  proof -
    from that obtain r where r: "map_of s n = Some r" and s1: "s1 = filter (\<lambda>x. fst x \<noteq> r_name r) s"
      by (auto simp: memory_DeleteRelease_def split: option.splits)
    have "r_name r = n" using that(1) map_of_SomeD [OF r] by (auto simp: memory_inv_def list_all_iff)
    with s1 memory_inv_filter [OF that(1)] show ?thesis
      by (auto simp: map_of_filter_neq map_le_def)
  qed
qed

subsection \<open>The Consul store\<close>

definition basePath :: string where "basePath = ''consul-release-controller/releases''"

definition configPath :: string where "configPath = ''config''"

definition pluginPath :: string where "pluginPath = ''plugin-state''"

definition releasePath :: "string \<Rightarrow> string" where
  "releasePath name = basePath @ ''/'' @ name"

definition releaseConfigPath :: "string \<Rightarrow> string" where
  "releaseConfigPath name = basePath @ ''/'' @ name @ ''/'' @ configPath"

definition stateConfigPath :: "string \<Rightarrow> string \<Rightarrow> string" where
  "stateConfigPath name pluginName = basePath @ ''/'' @ name @ ''/'' @ pluginPath @ ''/'' @ pluginName"

text \<open>The store is created with empty options; a plugin's state store carries two names.\<close>

record storage =
  sg_release_name :: string
  sg_plugin_name :: string

definition storage_options :: consul_options where
  "storage_options = \<lparr>co_namespace = '''', co_partition = ''''\<rparr>"

definition NewStorage :: storage where
  "NewStorage = \<lparr>sg_release_name = '''', sg_plugin_name = ''''\<rparr>"

definition CreatePluginStateStore :: "release \<Rightarrow> string \<Rightarrow> storage" where
  "CreatePluginStateStore r pluginName = \<lparr>sg_release_name = r_name r, sg_plugin_name = pluginName\<rparr>"

definition UpsertRelease :: "'w consul_api \<Rightarrow> release \<Rightarrow> 'w \<Rightarrow> go_error option \<times> 'w" where
  "UpsertRelease api r w =
     (case marshal_release r of
        None \<Rightarrow> (Some (GoErr ''json: error calling MarshalJSON''), w)
      | Some j \<Rightarrow> SetKV api storage_options (releaseConfigPath (r_name r)) (Text j) w)"

definition getRelease :: "'w consul_api \<Rightarrow> string \<Rightarrow> 'w \<Rightarrow> (release option \<times> go_error option) \<times> 'w" where
  "getRelease api path w =
     (case GetKV api storage_options path w of
        ((d, Some e), w1) \<Rightarrow> ((None, Some e), w1)
      | ((d, None), w1) \<Rightarrow>
          if d = Empty then ((None, Some ReleaseNotFound), w1)
          else
            (case unmarshal release_fields d new_release of
               (rel, Some e) \<Rightarrow> ((None, Some e), w1)
             | (rel, None) \<Rightarrow> ((Some rel, None), w1)))"

definition GetRelease :: "'w consul_api \<Rightarrow> string \<Rightarrow> 'w \<Rightarrow> (release option \<times> go_error option) \<times> 'w" where
  "GetRelease api name w = getRelease api (releaseConfigPath name) w"

definition runtime_matches :: "string option \<Rightarrow> release \<Rightarrow> bool" where
  "runtime_matches options rel \<longleftrightarrow>
     (case options of
        None \<Rightarrow> True
      | Some runtime \<Rightarrow> (case r_runtime rel of None \<Rightarrow> False | Some p \<Rightarrow> runtime = pc_name p))"

fun list_keys :: "'w consul_api \<Rightarrow> string option \<Rightarrow> string list \<Rightarrow> 'w \<Rightarrow>
    (release list \<times> go_error option) \<times> 'w" where
  "list_keys api options [] w = (([], None), w)"
| "list_keys api options (k # ks) w =
     (if has_suffix k configPath then
        (case getRelease api k w of
           ((_, Some e), w1) \<Rightarrow> (([], Some e), w1)
         | ((None, None), w1) \<Rightarrow> (([], Some ReleaseNotFound), w1)
         | ((Some rel, None), w1) \<Rightarrow>
             (case list_keys api options ks w1 of
                ((_, Some e), w2) \<Rightarrow> (([], Some e), w2)
              | ((rels, None), w2) \<Rightarrow>
                  ((if runtime_matches options rel then rel # rels else rels, None), w2)))
      else list_keys api options ks w)"

definition ListReleases :: "'w consul_api \<Rightarrow> string option \<Rightarrow> 'w \<Rightarrow>
    (release list \<times> go_error option) \<times> 'w" where
  "ListReleases api options w =
     (case ListKV api storage_options basePath w of
        ((keys, Some e), w1) \<Rightarrow> (([], Some e), w1)
      | ((keys, None), w1) \<Rightarrow> list_keys api options keys w1)"

definition DeleteRelease :: "'w consul_api \<Rightarrow> string \<Rightarrow> 'w \<Rightarrow> go_error option \<times> 'w" where
  "DeleteRelease api name w = DeleteKV api storage_options (releasePath name) w"

definition UpsertState :: "'w consul_api \<Rightarrow> storage \<Rightarrow> bytes \<Rightarrow> 'w \<Rightarrow> go_error option \<times> 'w" where
  "UpsertState api s data w =
     (if sg_plugin_name s = '''' \<or> sg_release_name s = '''' then
        (Some (GoErr ''storage incorrectly configured, no pluginName or releaseName''), w)
      else SetKV api storage_options (stateConfigPath (sg_release_name s) (sg_plugin_name s)) data w)"

definition GetState :: "'w consul_api \<Rightarrow> storage \<Rightarrow> 'w \<Rightarrow> (bytes \<times> go_error option) \<times> 'w" where
  "GetState api s w =
     (if sg_plugin_name s = '''' \<or> sg_release_name s = '''' then
        ((Empty, Some (GoErr ''storage incorrectly configured, no pluginName or releaseName'')), w)
      else
        (case GetKV api storage_options (stateConfigPath (sg_release_name s) (sg_plugin_name s)) w of
           ((d, Some e), w1) \<Rightarrow> ((Empty, Some (wrap_err ''unable to retrieve key from Consul: '' e)), w1)
         | ((d, None), w1) \<Rightarrow>
             if d = Empty then ((Empty, Some PluginStateNotFound), w1) else ((d, None), w1)))"

subsection \<open>The stores over the documented key-value store\<close>

definition kv_data :: "(string \<rightharpoonup> bytes) \<Rightarrow> string \<Rightarrow> bytes" where
  "kv_data m p = (case m p of None \<Rightarrow> Empty | Some d \<Rightarrow> d)"

lemma SetKV_ok:
  assumes "kv_documented kv api" and "SetKV api storage_options p d w = (None, w1)"
  shows "kv w1 = (kv w)(p \<mapsto> d)"
proof -
  have "ca_kv_put api p d ('''', '''') ('''', '''') w = (None, w1)"
    using assms(2) by (auto simp: SetKV_def storage_options_def scope_of_def split: prod.splits option.splits)
  with assms(1) show ?thesis by (rule kv_documented_put)
qed

lemma GetKV_documented:
  assumes "kv_documented kv api" and "GetKV api storage_options p w = ((d, e), w1)"
  shows "kv w1 = kv w" and "e = None \<Longrightarrow> d = kv_data (kv w) p" and "e \<noteq> None \<Longrightarrow> d = Empty"
proof -
  obtain r e' w' where g: "ca_kv_get api p ('''', '''') w = ((r, e'), w')" by (metis prod.collapse)
  with assms(1) have "kv w' = kv w \<and> (e' = None \<longrightarrow> r = kv w p)" by (rule kv_documented_get)
  then have kv: "kv w' = kv w" and r: "e' = None \<Longrightarrow> kv w p = r" by simp_all
  have "GetKV api storage_options p w =
      (case e' of
         Some x \<Rightarrow> ((Empty, Some (wrap_err (''unable to fetch key from path '' @ p @ '' in Consul KV: '') x)), w')
       | None \<Rightarrow> ((case r of None \<Rightarrow> Empty | Some y \<Rightarrow> y, None), w'))"
    using g by (simp add: GetKV_def storage_options_def scope_of_def split: option.split)
  with assms(2) kv r show "kv w1 = kv w" and "e = None \<Longrightarrow> d = kv_data (kv w) p" and "e \<noteq> None \<Longrightarrow> d = Empty"
    by (simp_all add: kv_data_def split: option.splits)
qed

lemma DeleteKV_ok:
  assumes "kv_documented kv api" and "DeleteKV api storage_options p w = (None, w1)"
  shows "kv w1 = kv w |` {k. \<not> has_prefix k p}"
proof -
  have "ca_kv_delete_tree api p ('''', '''') w = (None, w1)"
    using assms(2) by (auto simp: DeleteKV_def storage_options_def scope_of_def split: prod.splits option.splits)
  with assms(1) show ?thesis by (rule kv_documented_delete)
qed

text \<open>The release a path holds: nothing where the data is missing or does not decode.\<close>

definition decode_release :: "bytes \<Rightarrow> release option" where
  "decode_release d =
     (case unmarshal release_fields d new_release of (rel, None) \<Rightarrow> Some rel | (rel, Some e) \<Rightarrow> None)"

definition stored_releases :: "(string \<rightharpoonup> bytes) \<Rightarrow> string \<rightharpoonup> release" where
  "stored_releases m n = decode_release (kv_data m (releaseConfigPath n))"

lemma decode_Empty [simp]: "decode_release Empty = None"
  by (simp add: decode_release_def)

lemma getRelease_documented:
  assumes doc: "kv_documented kv api" and "getRelease api p w = ((x, e), w1)"
  shows "kv w1 = kv w" and "e = None \<Longrightarrow> x = decode_release (kv_data (kv w) p) \<and> x \<noteq> None"
    and "e \<noteq> None \<Longrightarrow> x = None"
proof -
  obtain d e' w' where g: "GetKV api storage_options p w = ((d, e'), w')" by (metis prod.collapse)
  obtain rel err where u: "unmarshal release_fields d new_release = (rel, err)" by fastforce
  note k = GetKV_documented [OF doc g]
  from assms(2) g k u show "kv w1 = kv w" and "e = None \<Longrightarrow> x = decode_release (kv_data (kv w) p) \<and> x \<noteq> None"
    and "e \<noteq> None \<Longrightarrow> x = None"
    by (cases e'; cases err; auto simp: getRelease_def decode_release_def split: if_splits)+
qed

lemma releaseConfigPath_inj: "releaseConfigPath m = releaseConfigPath n \<longleftrightarrow> m = n"
  by (simp add: releaseConfigPath_def)

lemma config_path_under_release: "has_prefix (releaseConfigPath n) (releasePath n)"
proof -
  have "releaseConfigPath n = releasePath n @ (''/'' @ configPath)"
    by (simp add: releaseConfigPath_def releasePath_def)
  then show ?thesis by (simp only: has_prefix_append)
qed

lemma config_path_suffix: "has_suffix (releaseConfigPath n) configPath"
proof -
  have "releaseConfigPath n = (basePath @ ''/'' @ n @ ''/'') @ configPath"
    by (simp add: releaseConfigPath_def)
  then show ?thesis by (simp only: has_suffix_append)
qed

lemma config_path_base: "has_prefix (releaseConfigPath n) basePath"
  by (simp add: releaseConfigPath_def)

lemma stored_delete:
  "stored_releases (m |` {k. \<not> has_prefix k (releasePath n)}) n' =
     (if has_prefix (releaseConfigPath n') (releasePath n) then None else stored_releases m n')"
  by (simp add: stored_releases_def kv_data_def restrict_map_def)

lemma upsert_release_stored:
  assumes doc: "kv_documented kv api" and wf: "release_wf r" and "UpsertRelease api r w = (None, w1)"
  shows "stored_releases (kv w1) = (stored_releases (kv w))(r_name r \<mapsto> r)"
proof -
  obtain j where j: "marshal_release r = Some j" using marshal_release_wf [OF wf] by blast
  with assms(3) have "kv w1 = (kv w)(releaseConfigPath (r_name r) \<mapsto> Text j)"
    by (intro SetKV_ok [OF doc]) (simp add: UpsertRelease_def)
  moreover have "decode_release (Text j) = Some r"
    by (simp add: decode_release_def unmarshal_marshal_release [OF wf j])
  ultimately show ?thesis
    by (auto simp: fun_eq_iff stored_releases_def kv_data_def releaseConfigPath_inj)
qed

lemma list_keys_ok:
  assumes doc: "kv_documented kv api" and "list_keys api options ks w = ((rels, None), w1)"
  shows "kv w1 = kv w \<and>
    set rels = {r. \<exists>k \<in> set ks. has_suffix k configPath \<and> decode_release (kv_data (kv w) k) = Some r \<and>
      runtime_matches options r}"
  using assms(2)
proof (induction ks arbitrary: w rels)
  case Nil
  then show ?case by simp
next
  case (Cons k ks)
  show ?case
  proof (cases "has_suffix k configPath")
    case False
    with Cons show ?thesis by auto
  next
    case True
    with Cons.prems obtain rel w' rels' where g: "getRelease api k w = ((Some rel, None), w')"
      and l: "list_keys api options ks w' = ((rels', None), w1)"
      and r: "rels = (if runtime_matches options rel then rel # rels' else rels')"
      by (auto split: prod.splits option.splits)
    from getRelease_documented [OF doc g] have "kv w' = kv w" "decode_release (kv_data (kv w) k) = Some rel"
      by auto
    with Cons.IH [OF l] r True show ?thesis by auto
  qed
qed

lemma ListReleases_ok:
  assumes doc: "kv_documented kv api" and "ListReleases api options w = ((rels, None), w1)"
  shows "kv w1 = kv w"
    and "ran (stored_releases (kv w)) \<inter> {r. runtime_matches options r} \<subseteq> set rels"
    and "\<forall>r \<in> set rels. runtime_matches options r"
proof -
  obtain ks e w' where k: "ca_kv_keys api basePath ('''', '''') w = ((ks, e), w')" by (metis prod.collapse)
  with assms(2) have e: "e = None" and l: "list_keys api options ks w' = ((rels, None), w1)"
    by (auto simp: ListReleases_def ListKV_def storage_options_def scope_of_def split: option.splits)
  from kv_documented_keys [OF doc k] e have kv': "kv w' = kv w"
    and ks: "set ks = {k \<in> dom (kv w). has_prefix k basePath}"
    by simp_all
  note lk = list_keys_ok [OF doc l]
  from lk kv' show "kv w1 = kv w" "\<forall>r \<in> set rels. runtime_matches options r" by auto
  show "ran (stored_releases (kv w)) \<inter> {r. runtime_matches options r} \<subseteq> set rels"
  proof
    fix r
    assume "r \<in> ran (stored_releases (kv w)) \<inter> {r. runtime_matches options r}"
    then obtain n where n: "decode_release (kv_data (kv w) (releaseConfigPath n)) = Some r" "runtime_matches options r"
      by (auto simp: ran_def stored_releases_def)
    then have "releaseConfigPath n \<in> dom (kv w)"
      by (auto simp: kv_data_def split: option.splits)
    then have "releaseConfigPath n \<in> set ks" using ks config_path_base by blast
    with n lk kv' config_path_suffix show "r \<in> set rels" by auto
  qed
qed

text \<open>The store with the API and its view of the keys carried along.\<close>

type_synonym 'w kv_state = "'w consul_api \<times> ('w \<Rightarrow> string \<rightharpoonup> bytes) \<times> 'w"

definition on_kv :: "('w consul_api \<Rightarrow> 'w \<Rightarrow> 'a \<times> 'w) \<Rightarrow> 'w kv_state \<Rightarrow> 'a \<times> 'w kv_state" where
  "on_kv op s = (case s of (api, kv, w) \<Rightarrow> (case op api w of (r, w1) \<Rightarrow> (r, (api, kv, w1))))"

definition kv_content :: "'w kv_state \<Rightarrow> string \<rightharpoonup> release" where
  "kv_content s = (case s of (api, kv, w) \<Rightarrow> stored_releases (kv w))"

definition kv_inv :: "'w kv_state \<Rightarrow> bool" where
  "kv_inv s = (case s of (api, kv, w) \<Rightarrow> kv_documented kv api)"

lemma on_kv_iff [simp]:
  "on_kv op (api, kv, w) = (r, s1) \<longleftrightarrow> (\<exists>w1. op api w = (r, w1) \<and> s1 = (api, kv, w1))"
  by (auto simp: on_kv_def split: prod.splits)

lemma kv_state_simps [simp]:
  "kv_content (api, kv, w) = stored_releases (kv w)" "kv_inv (api, kv, w) = kv_documented kv api"
  by (simp_all add: kv_content_def kv_inv_def)

interpretation consul_releases: release_store_contract
  "\<lambda>r. on_kv (\<lambda>api. UpsertRelease api r)" "\<lambda>n. on_kv (\<lambda>api. GetRelease api n)"
  "\<lambda>n. on_kv (\<lambda>api. DeleteRelease api n)" kv_content kv_inv release_wf
proof
  fix s s1 :: "'w kv_state" and r n x e
  obtain api kv w where s: "s = (api, kv, w)" by (cases s)
  show "kv_inv s1 \<and> kv_content s1 = (kv_content s)(r_name r \<mapsto> r)"
    if inv: "kv_inv s" and wf: "release_wf r" and op: "on_kv (\<lambda>api. UpsertRelease api r) s = (None, s1)"
  proof -
    from op s obtain w1 where "UpsertRelease api r w = (None, w1)" "s1 = (api, kv, w1)" by auto
    with inv s wf upsert_release_stored [of kv api r w w1] show ?thesis by simp
  qed
  show "kv_inv s1 \<and> kv_content s1 = kv_content s \<and> x = kv_content s n \<and> x \<noteq> None"
    if inv: "kv_inv s" and op: "on_kv (\<lambda>api. GetRelease api n) s = ((x, None), s1)"
  proof -
    from op s obtain w1 where "getRelease api (releaseConfigPath n) w = ((x, None), w1)" "s1 = (api, kv, w1)"
      by (auto simp: GetRelease_def)
    with inv s getRelease_documented [of kv api "releaseConfigPath n" w x None w1] show ?thesis
      by (auto simp: stored_releases_def)
  qed
  show "kv_inv s1 \<and> kv_content s1 = kv_content s \<and> x = None"
    if inv: "kv_inv s" and op: "on_kv (\<lambda>api. GetRelease api n) s = ((x, Some e), s1)"
  proof -
    from op s obtain w1 where "getRelease api (releaseConfigPath n) w = ((x, Some e), w1)" "s1 = (api, kv, w1)"
      by (auto simp: GetRelease_def)
    with inv s getRelease_documented [of kv api "releaseConfigPath n" w x "Some e" w1] show ?thesis by simp
  qed
  show "kv_inv s1 \<and> kv_content s1 n = None \<and> kv_content s1 \<subseteq>\<^sub>m kv_content s"
    if inv: "kv_inv s" and op: "on_kv (\<lambda>api. DeleteRelease api n) s = (None, s1)"
  proof -
    from op s obtain w1 where "DeleteKV api storage_options (releasePath n) w = (None, w1)" "s1 = (api, kv, w1)"
      by (auto simp: DeleteRelease_def)
    with inv s DeleteKV_ok [of kv api "releasePath n" w w1] show ?thesis
      by (simp add: stored_delete config_path_under_release map_le_def dom_def)
  qed
qed

interpretation consul_state: state_store_contract
  "\<lambda>d. on_kv (\<lambda>api. UpsertState api sg d)" "on_kv (\<lambda>api. GetState api sg)" kv_inv for sg
proof
  fix s s1 s2 :: "'w kv_state" and b d e
  obtain api kv w where s: "s = (api, kv, w)" by (cases s)
  show "b = d" if "kv_inv s" "on_kv (\<lambda>api. UpsertState api sg d) s = (None, s1)"
    "on_kv (\<lambda>api. GetState api sg) s1 = ((b, None), s2)"
  proof -
    from that s obtain w1 w2 where doc: "kv_documented kv api" and s1: "s1 = (api, kv, w1)"
      and u: "UpsertState api sg d w = (None, w1)" and g: "GetState api sg w1 = ((b, None), w2)"
      by auto
    let ?p = "stateConfigPath (sg_release_name sg) (sg_plugin_name sg)"
    have "kv w1 ?p = Some d"
      using u SetKV_ok [OF doc, of ?p d w w1] by (auto simp: UpsertState_def split: if_splits)
    moreover obtain b' e' w' where gk: "GetKV api storage_options ?p w1 = ((b', e'), w')" by (metis prod.collapse)
    ultimately show ?thesis
      using g GetKV_documented [OF doc gk]
      by (auto simp: GetState_def kv_data_def split: if_splits option.splits)
  qed
  show "b = Empty" if "on_kv (\<lambda>api. GetState api sg) s = ((b, Some e), s1)"
    using that by (auto simp: s GetState_def split: if_splits prod.splits option.splits)
  show "b \<noteq> Empty" if "on_kv (\<lambda>api. GetState api sg) s = ((b, None), s1)"
    using that by (auto simp: s GetState_def split: if_splits prod.splits option.splits)
qed

text \<open>A plugin's state store as the plugins see it.\<close>

definition plugin_store :: "'w consul_api \<Rightarrow> storage \<Rightarrow> 'w state_store" where
  "plugin_store api sg = \<lparr>ss_upsert = UpsertState api sg, ss_get = GetState api sg\<rparr>"

lemma enc_canary_state_roundtrip:
  "int64 (cs_traffic s) \<Longrightarrow> unmarshal canary_state_fields (Text (enc_canary_state s)) canary_state_zero = (s, None)"
  by (simp add: unmarshal_def dec_object_def enc_canary_state_def canary_state_fields_def canary_state_zero_def)

subsection \<open>Concrete stores\<close>

definition sample_release :: "string \<Rightarrow> release" where
  "sample_release n =
     new_release\<lparr>r_name := n, r_runtime := Some \<lparr>pc_name = ''kubernetes'', pc_config = Text (JObj [])\<rparr>\<rparr>"

lemma sample_release_wf: "release_wf (sample_release n)"
  by (simp add: sample_release_def release_wf_def new_release_def)

definition empty_world :: ref_world where
  "empty_world = (Map.empty, [])"

lemma ref_upsert: "\<exists>w1. UpsertRelease reference_consul (sample_release n) w = (None, w1)"
  using marshal_release_wf [OF sample_release_wf [of n]]
  by (auto simp: UpsertRelease_def SetKV_def reference_consul_def split: prod.splits)

lemma ref_delete: "\<exists>w1. DeleteRelease reference_consul n w = (None, w1)"
  by (simp add: DeleteRelease_def DeleteKV_def reference_consul_def split: prod.splits)

lemma ref_get:
  assumes "stored_releases (ref_kv w) n = Some r"
  shows "GetRelease reference_consul n w = ((Some r, None), w)"
proof -
  obtain d where d: "ref_kv w (releaseConfigPath n) = Some d" "decode_release d = Some r"
    using assms by (auto simp: stored_releases_def kv_data_def split: option.splits)
  then have "d \<noteq> Empty" "unmarshal release_fields d new_release = (r, None)"
    by (auto simp: decode_release_def split: prod.splits option.splits)
  with d show ?thesis
    by (simp add: GetRelease_def getRelease_def GetKV_def reference_consul_def)
qed

subsection \<open>Properties\<close>

text \<open>
  C16: The Consul store gives back what was written: a release whose plugin configurations
  are JSON, written and then read under its name without error, is the same release,
  its state history included.
\<close>

theorem consul_store_reads_back:
  assumes "kv_documented kv api" and "release_wf r"
    and "UpsertRelease api r w = (None, w1)" and "GetRelease api (r_name r) w1 = ((x, None), w2)"
  shows "x = Some r"
  using consul_releases.get_after_upsert [of "(api, kv, w)" r "(api, kv, w1)" x "(api, kv, w2)"] assms
  by simp

theorem consul_store_reads_back_witness:
  "\<exists>w1 w2. UpsertRelease reference_consul (sample_release ''api'') empty_world = (None, w1) \<and>
     GetRelease reference_consul ''api'' w1 = ((Some (sample_release ''api''), None), w2)"
proof -
  obtain w1 where w1: "UpsertRelease reference_consul (sample_release ''api'') empty_world = (None, w1)"
    using ref_upsert by blast
  have n: "r_name (sample_release ''api'') = ''api''" by (simp add: sample_release_def)
  from upsert_release_stored [OF reference_kv_documented sample_release_wf w1]
  have "stored_releases (ref_kv w1) ''api'' = Some (sample_release ''api'')" by (simp add: n)
  then obtain x where x: "GetRelease reference_consul (r_name (sample_release ''api'')) w1 = ((x, None), w1)"
    using ref_get by (metis n)
  with consul_store_reads_back [OF reference_kv_documented sample_release_wf w1 x] w1 n show ?thesis by auto
qed

text \<open>
  Deleting a release deletes exactly the releases whose configuration key begins with
  the release's path: the release itself, and also every release whose name begins with
  its name. All the others are kept.
\<close>

theorem delete_release_by_prefix:
  assumes "kv_documented kv api" and "DeleteRelease api n w = (None, w1)"
  shows "stored_releases (kv w1) n' =
    (if has_prefix (n' @ ''/config'') n then None else stored_releases (kv w) n')"
proof -
  have "kv w1 = kv w |` {k. \<not> has_prefix k (releasePath n)}"
    using assms(2) by (intro DeleteKV_ok [OF assms(1)]) (simp add: DeleteRelease_def)
  moreover have "has_prefix (releaseConfigPath n') (releasePath n) \<longleftrightarrow> has_prefix (n' @ ''/config'') n"
    by (simp add: releaseConfigPath_def releasePath_def configPath_def has_prefix_def)
  ultimately show ?thesis by (simp only: stored_delete)
qed

theorem delete_release_by_prefix_witness:
  "\<exists>w1 w2. UpsertRelease reference_consul (sample_release ''api-v2'') empty_world = (None, w1) \<and>
     stored_releases (ref_kv w1) ''api-v2'' = Some (sample_release ''api-v2'') \<and>
     DeleteRelease reference_consul ''api'' w1 = (None, w2) \<and> stored_releases (ref_kv w2) ''api-v2'' = None"
proof -
  obtain w1 where w1: "UpsertRelease reference_consul (sample_release ''api-v2'') empty_world = (None, w1)"
    using ref_upsert by blast
  have "stored_releases (ref_kv w1) ''api-v2'' = Some (sample_release ''api-v2'')"
    by (simp add: upsert_release_stored [OF reference_kv_documented sample_release_wf w1] sample_release_def)
  moreover obtain w2 where w2: "DeleteRelease reference_consul ''api'' w1 = (None, w2)"
    using ref_delete by blast
  moreover have "stored_releases (ref_kv w2) ''api-v2'' = None"
    using delete_release_by_prefix [OF reference_kv_documented w2, of "''api-v2''"] by (simp add: has_prefix_def)
  ultimately show ?thesis using w1 by blast
qed

text \<open>
  A listing with no options gives every release of the store, and a listing for a
  runtime gives every release of that runtime and only such releases.
\<close>

theorem list_releases_complete:
  assumes "kv_documented kv api" and "ListReleases api options w = ((rels, None), w1)"
    and "stored_releases (kv w) n = Some r" and "runtime_matches options r"
  shows "r \<in> set rels \<and> list_all (runtime_matches options) rels"
  using ListReleases_ok [OF assms(1,2)] assms(3,4) by (auto simp: list_all_iff intro: ranI)

theorem list_releases_complete_witness:
  "\<exists>w1 rels. UpsertRelease reference_consul (sample_release ''api'') empty_world = (None, w1) \<and>
     ListReleases reference_consul (Some ''kubernetes'') w1 = ((rels, None), w1) \<and> sample_release ''api'' \<in> set rels"
proof -
  obtain j where j: "marshal_release (sample_release ''api'') = Some j"
    using marshal_release_wf [OF sample_release_wf] by blast
  let ?p = "releaseConfigPath ''api''"
  let ?w1 = "(Map.empty, [(?p, Text j)]) :: ref_world"
  have n: "r_name (sample_release ''api'') = ''api''" by (simp add: sample_release_def)
  have w1: "UpsertRelease reference_consul (sample_release ''api'') empty_world = (None, ?w1)"
    by (simp add: UpsertRelease_def j SetKV_def reference_consul_def empty_world_def n)
  have st: "stored_releases (ref_kv ?w1) ''api'' = Some (sample_release ''api'')"
    by (simp add: upsert_release_stored [OF reference_kv_documented sample_release_wf w1] n)
  have "getRelease reference_consul ?p ?w1 = ((Some (sample_release ''api''), None), ?w1)"
    using ref_get [OF st] by (simp add: GetRelease_def)
  then obtain rels where l: "ListReleases reference_consul (Some ''kubernetes'') ?w1 = ((rels, None), ?w1)"
    by (simp add: ListReleases_def ListKV_def reference_consul_def config_path_base config_path_suffix)
  from list_releases_complete [where kv = ref_kv, OF reference_kv_documented l st] w1 l show ?thesis
    by (auto simp: runtime_matches_def sample_release_def)
qed

text \<open>
  A listing whose options name no runtime, which is how the server looks for the
  releases to resume when it starts, gives none of the releases that have a runtime.
\<close>

theorem list_with_empty_runtime:
  assumes "kv_documented kv api" and "ListReleases api (Some '''') w = ((rels, None), w1)"
    and "r \<in> set rels"
  shows "\<exists>p. r_runtime r = Some p \<and> pc_name p = ''''"
  using ListReleases_ok(3) [OF assms(1,2)] assms(3)
  by (auto simp: runtime_matches_def split: option.splits)

theorem list_with_empty_runtime_witness:
  "\<exists>w1. UpsertRelease reference_consul (new_release\<lparr>r_name := ''api'',
        r_runtime := Some \<lparr>pc_name = '''', pc_config = Text (JObj [])\<rparr>\<rparr>) empty_world = (None, w1) \<and>
     (\<exists>rels r p. ListReleases reference_consul (Some '''') w1 = ((rels, None), w1) \<and> r \<in> set rels \<and>
        r_runtime r = Some p \<and> pc_name p = '''')"
proof -
  let ?r = "new_release\<lparr>r_name := ''api'', r_runtime := Some \<lparr>pc_name = '''', pc_config = Text (JObj [])\<rparr>\<rparr>"
  have wf: "release_wf ?r" by (simp add: release_wf_def new_release_def)
  then obtain j where j: "marshal_release ?r = Some j" using marshal_release_wf by blast
  let ?p = "releaseConfigPath ''api''"
  let ?w1 = "(Map.empty, [(?p, Text j)]) :: ref_world"
  have n: "r_name ?r = ''api''" by simp
  have w1: "UpsertRelease reference_consul ?r empty_world = (None, ?w1)"
    by (simp add: UpsertRelease_def j SetKV_def reference_consul_def empty_world_def n)
  have st: "stored_releases (ref_kv ?w1) ''api'' = Some ?r"
    by (simp add: upsert_release_stored [OF reference_kv_documented wf w1])
  have "getRelease reference_consul ?p ?w1 = ((Some ?r, None), ?w1)"
    using ref_get [OF st] by (simp add: GetRelease_def)
  then have l: "ListReleases reference_consul (Some '''') ?w1 = (([?r], None), ?w1)"
    by (simp add: ListReleases_def ListKV_def reference_consul_def config_path_base config_path_suffix
        runtime_matches_def)
  from list_with_empty_runtime [OF reference_kv_documented l, of ?r] w1 l show ?thesis by auto
qed

text \<open>
  C29: A canary whose state was saved through the Consul store starts again, after a
  restart of the controller, from exactly that state: the traffic the candidate has and
  the status of the roll-out.
\<close>

theorem canary_state_survives_restart:
  assumes "kv_documented kv api" and "int64 (cs_traffic s)"
    and "ss_upsert (plugin_store api sg) (Text (enc_canary_state s)) w = (None, w1)"
    and "ss_get (plugin_store api sg) w1 = ((b, None), w2)"
  shows "canary_load (plugin_store api sg) w1 = (s, w2)"
proof -
  have "unmarshal canary_state_fields b canary_state_zero = (s, None)"
    using consul_state.saved_state_reloads [of "(api, kv, w)" sg enc_canary_state s "(api, kv, w1)" b "(api, kv, w2)"]
      assms enc_canary_state_roundtrip by (simp add: plugin_store_def)
  with assms(4) show ?thesis by (simp add: canary_load_def)
qed

theorem canary_state_survives_restart_witness:
  "\<exists>w1. ss_upsert (plugin_store reference_consul (CreatePluginStateStore (sample_release ''api'') ''strategy''))
       (Text (enc_canary_state \<lparr>cs_traffic = 30, cs_status = ''ok''\<rparr>)) empty_world = (None, w1) \<and>
     canary_load (plugin_store reference_consul (CreatePluginStateStore (sample_release ''api'') ''strategy'')) w1 =
       (\<lparr>cs_traffic = 30, cs_status = ''ok''\<rparr>, w1)"
proof -
  let ?sg = "CreatePluginStateStore (sample_release ''api'') ''strategy''"
  let ?s = "\<lparr>cs_traffic = 30, cs_status = ''ok''\<rparr>"
  let ?w1 = "(Map.empty, [(stateConfigPath ''api'' ''strategy'', Text (enc_canary_state ?s))]) :: ref_world"
  have sg: "sg_release_name ?sg = ''api''" "sg_plugin_name ?sg = ''strategy''"
    by (simp_all add: CreatePluginStateStore_def sample_release_def)
  have u: "ss_upsert (plugin_store reference_consul ?sg) (Text (enc_canary_state ?s)) empty_world = (None, ?w1)"
    by (simp add: plugin_store_def UpsertState_def sg SetKV_def reference_consul_def empty_world_def)
  have g: "ss_get (plugin_store reference_consul ?sg) ?w1 = ((Text (enc_canary_state ?s), None), ?w1)"
    by (simp add: plugin_store_def GetState_def sg GetKV_def reference_consul_def ref_kv_def)
  from canary_state_survives_restart [OF reference_kv_documented _ u g] u show ?thesis by (simp add: int64_def)
qed

end
