(* ===== verification/Releaser.thy ===== *)
theory Releaser
  imports ConsulClient
begin

text \<open>
  The Consul releaser plugin (\<open>pkg/plugins/consul/releaser.go\<close>): its configuration, the
  set-up and removal of the mesh configuration of a service, the traffic split and the
  wait for the service's health, over the client of \<open>ConsulClient\<close>.
\<close>

subsection \<open>The plugin\<close>

record releaser =
  rl_config :: releaser_base_config
  rl_options :: consul_options

text \<open>\<open>re_sleep\<close> is \<open>time.Sleep\<close> with its duration in nanoseconds, \<open>re_retry\<close> the retry library.\<close>

record 'w releaser_env =
  re_api :: "'w consul_api"
  re_sleep :: "int \<Rightarrow> 'w \<Rightarrow> 'w"
  re_retry :: "'w retry_lib"

definition syncDelay :: int where "syncDelay = 1000000000"

definition releaser_config_zero :: releaser_base_config where
  "releaser_config_zero = \<lparr>rb_service = '''', rb_namespace = '''', rb_partition = ''''\<rparr>"

definition releaser_config_fields :: "(string \<times> releaser_base_config member_dec) list" where
  "releaser_config_fields =
     [(''consul_service'', fld_str (\<lambda>s a. a\<lparr>rb_service := s\<rparr>)),
      (''namespace'', fld_str (\<lambda>s a. a\<lparr>rb_namespace := s\<rparr>)),
      (''partition'', fld_str (\<lambda>s a. a\<lparr>rb_partition := s\<rparr>))]"

definition ErrConsulService :: string where
  "ErrConsulService = ''ConsulService is a required field, please specify the name of the Consul service for the release.''"

text \<open>
  The error of the decoder is overwritten by that of the validator. \<open>new_client\<close> is the
  API library's constructor.
\<close>

definition releaser_Configure ::
    "validator \<Rightarrow> (consul_options \<Rightarrow> go_error option) \<Rightarrow> bytes \<Rightarrow> go_error + releaser" where
  "releaser_Configure v new_client data =
     (let c = fst (unmarshal releaser_config_fields data releaser_config_zero);
          bad = v [(''PluginConfig.ReleaserBaseConfig.ConsulService'', [VRequired], VStr (rb_service c))];
          opt = \<lparr>co_namespace = rb_namespace c, co_partition = rb_partition c\<rparr>
      in if bad \<noteq> [] then
           Inl (GoErr (validation_message
             [(''PluginConfig.ReleaserBaseConfig.ConsulService'', ErrConsulService)] bad))
         else (case new_client opt of
                 Some e \<Rightarrow> Inl e
               | None \<Rightarrow> Inr \<lparr>rl_config = c, rl_options = opt\<rparr>))"

definition releaser_BaseConfig :: "releaser \<Rightarrow> releaser_base_config" where
  "releaser_BaseConfig p = rl_config p"

definition releaser_Setup ::
    "'w releaser_env \<Rightarrow> releaser \<Rightarrow> string \<Rightarrow> string \<Rightarrow> 'w \<Rightarrow> ret \<times> 'w" where
  "releaser_Setup env p primarySubsetFilter candidateSubsetFilter =
     (let api = re_api env; opt = rl_options p; service = rb_service (rl_config p);
          pause = re_sleep env syncDelay
      in and_then (CreateServiceDefaults api opt service) (\<lambda>w.
         and_then (CreateServiceDefaults api opt ControllerServiceName) (\<lambda>w.
         and_then (CreateServiceDefaults api opt UpstreamRouterName) (\<lambda>w.
         and_then (CreateServiceResolver api opt service primarySubsetFilter candidateSubsetFilter) (\<lambda>w.
         and_then (CreateUpstreamRouter api opt service) (\<lambda>w.
         CreateServiceIntention api opt service (pause w))
           (pause w)) (pause w)) (pause w)) (pause w)))"

definition releaser_Scale :: "'w releaser_env \<Rightarrow> releaser \<Rightarrow> int \<Rightarrow> 'w \<Rightarrow> ret \<times> 'w" where
  "releaser_Scale env p value w =
     (let primaryTraffic = 100 - value; canaryTraffic = value
      in CreateServiceSplitter (re_api env) (rl_options p) (rb_service (rl_config p)) primaryTraffic canaryTraffic w)"

definition releaser_Destroy :: "'w releaser_env \<Rightarrow> releaser \<Rightarrow> 'w \<Rightarrow> ret \<times> 'w" where
  "releaser_Destroy env p =
     (let api = re_api env; opt = rl_options p; service = rb_service (rl_config p);
          pause = re_sleep env syncDelay
      in and_then (DeleteServiceSplitter api opt service) (\<lambda>w.
         and_then (DeleteUpstreamRouter api opt service) (\<lambda>w.
         and_then (DeleteServiceResolver api opt service) (\<lambda>w.
         and_then (DeleteServiceIntention api opt service) (\<lambda>w.
         DeleteServiceDefaults api opt service (pause w))
           (pause w)) (pause w)) (pause w)))"

definition releaser_WaitUntilServiceHealthy ::
    "'w releaser_env \<Rightarrow> releaser \<Rightarrow> string \<Rightarrow> 'w \<Rightarrow> go_error option \<times> 'w" where
  "releaser_WaitUntilServiceHealthy env p flt w =
     re_retry env (300 * 1000000000) (1 * 1000000000)
       (CheckHealth (re_api env) (rl_options p) (rb_service (rl_config p)) flt) w"

subsection \<open>Set-up and removal\<close>

text \<open>Each operation of a set-up or removal changes at most its own entry.\<close>

lemma defaults_own_entry:
  assumes doc: "consul_documented view api" and "CreateServiceDefaults api opt name w = (Ok, w1)"
  shows "\<exists>y. view w1 = (view w)((ServiceDefaults, name, scope_of opt) := y)"
proof -
  have "eh_name h = name" if "view w (ServiceDefaults, name, scope_of opt) = Some (ServiceConfigEntry h p)" for h p
    using documented_name [OF doc that] by simp
  with CreateServiceDefaults_ok [OF assms] show ?thesis by (metis fun_upd_triv)
qed

lemma splitter_own_entry:
  assumes "consul_documented view api" and "CreateServiceSplitter api opt name p c w = (Ok, w1)"
  shows "\<exists>y. view w1 = (view w)((ServiceSplitter, name, scope_of opt) := y)"
  using put_entry_ok [OF assms(1)] assms(2) by (auto simp: CreateServiceSplitter_def new_head_def)

text \<open>Any number of changes of the split.\<close>

fun scales :: "'w releaser_env \<Rightarrow> releaser \<Rightarrow> int list \<Rightarrow> 'w \<Rightarrow> ret \<times> 'w" where
  "scales env p [] w = (Ok, w)"
| "scales env p (n # ns) w = and_then (releaser_Scale env p n) (scales env p ns) w"

lemma scales_own_entry:
  assumes doc: "consul_documented view (re_api env)" and "scales env p ns w = (Ok, w1)"
  shows "\<exists>y. view w1 = (view w)((ServiceSplitter, rb_service (rl_config p), scope_of (rl_options p)) := y)"
  using assms(2)
proof (induction ns arbitrary: w)
  case Nil
  then show ?case by (metis fun_upd_triv old.prod.inject scales.simps(1))
next
  case (Cons n ns)
  then obtain w' where s: "releaser_Scale env p n w = (Ok, w')" and r: "scales env p ns w' = (Ok, w1)"
    by (auto simp: and_then_ok)
  have "\<exists>y. view w' = (view w)((ServiceSplitter, rb_service (rl_config p), scope_of (rl_options p)) := y)"
    using splitter_own_entry [OF doc] s by (auto simp: releaser_Scale_def)
  with Cons.IH [OF r] show ?case by (metis fun_upd_upd)
qed

text \<open>The state of the mesh a service is fresh in.\<close>

definition mesh_fresh :: "consul_options \<Rightarrow> string \<Rightarrow> mesh \<Rightarrow> bool" where
  "mesh_fresh opt name v \<longleftrightarrow>
     name \<noteq> ControllerServiceName \<and> name \<noteq> UpstreamRouterName \<and>
     v (ServiceSplitter, name, scope_of opt) = None \<and>
     fresh_defaults (v (ServiceDefaults, name, scope_of opt)) \<and>
     fresh_resolver name (v (ServiceResolver, name, scope_of opt)) \<and>
     fresh_upstream name (v (ServiceRouter, UpstreamRouterName, scope_of opt)) \<and>
     fresh_intention (v (ServiceIntentions, name, scope_of opt))"

lemma Setup_effect:
  fixes p :: releaser and opt :: consul_options and n :: string
  defines "opt \<equiv> rl_options p" and "n \<equiv> rb_service (rl_config p)"
  assumes doc: "consul_documented view (re_api env)" and sleep: "\<And>d w. view (re_sleep env d w) = view w"
    and fresh: "mesh_fresh opt n (view w)" and ok: "releaser_Setup env p pf cf w = (Ok, w1)"
  shows "\<exists>d c u r t i. view w1 = (view w)
      ((ServiceDefaults, n, scope_of opt) := d, (ServiceDefaults, ControllerServiceName, scope_of opt) := c,
       (ServiceDefaults, UpstreamRouterName, scope_of opt) := u, (ServiceResolver, n, scope_of opt) := r,
       (ServiceRouter, UpstreamRouterName, scope_of opt) := t, (ServiceIntentions, n, scope_of opt) := i) \<and>
     added_defaults opt n (view w (ServiceDefaults, n, scope_of opt)) d \<and>
     added_resolver opt n pf cf (view w (ServiceResolver, n, scope_of opt)) r \<and>
     added_upstream opt n (view w (ServiceRouter, UpstreamRouterName, scope_of opt)) t \<and>
     added_intention opt n (view w (ServiceIntentions, n, scope_of opt)) i"
proof -
  let ?z = "re_sleep env syncDelay" and ?a = "re_api env"
  from ok obtain a b c d e where
    ops: "CreateServiceDefaults ?a opt n w = (Ok, a)"
      "CreateServiceDefaults ?a opt ControllerServiceName (?z a) = (Ok, b)"
      "CreateServiceDefaults ?a opt UpstreamRouterName (?z b) = (Ok, c)"
      "CreateServiceResolver ?a opt n pf cf (?z c) = (Ok, d)"
      "CreateUpstreamRouter ?a opt n (?z d) = (Ok, e)"
      "CreateServiceIntention ?a opt n (?z e) = (Ok, w1)"
    by (auto simp: releaser_Setup_def Let_def and_then_ok opt_def n_def)
  obtain x1 where x1: "view a = (view w)((ServiceDefaults, n, scope_of opt) := x1)"
      "added_defaults opt n (view w (ServiceDefaults, n, scope_of opt)) x1"
    using defaults_created [OF doc ops(1)] fresh by (auto simp: mesh_fresh_def)
  obtain x2 where x2: "view b = (view a)((ServiceDefaults, ControllerServiceName, scope_of opt) := x2)"
    using defaults_own_entry [OF doc ops(2)] sleep by auto
  obtain x3 where x3: "view c = (view b)((ServiceDefaults, UpstreamRouterName, scope_of opt) := x3)"
    using defaults_own_entry [OF doc ops(3)] sleep by auto
  obtain x4 where x4: "view d = (view c)((ServiceResolver, n, scope_of opt) := x4)"
      "added_resolver opt n pf cf (view w (ServiceResolver, n, scope_of opt)) x4"
    using resolver_created [OF doc ops(4)] fresh sleep by (auto simp: mesh_fresh_def x1 x2 x3)
  obtain x5 where x5: "view e = (view d)((ServiceRouter, UpstreamRouterName, scope_of opt) := x5)"
      "added_upstream opt n (view w (ServiceRouter, UpstreamRouterName, scope_of opt)) x5"
    using upstream_created [OF doc ops(5)] fresh sleep by (auto simp: mesh_fresh_def x1 x2 x3 x4)
  obtain x6 where x6: "view w1 = (view e)((ServiceIntentions, n, scope_of opt) := x6)"
      "added_intention opt n (view w (ServiceIntentions, n, scope_of opt)) x6"
    using intention_created [OF doc ops(6)] fresh sleep by (auto simp: mesh_fresh_def x1 x2 x3 x4 x5)
  show ?thesis using x1 x2 x3 x4 x5 x6 by auto
qed

lemma Destroy_effect:
  fixes p :: releaser and opt :: consul_options and n :: string
  defines "opt \<equiv> rl_options p" and "n \<equiv> rb_service (rl_config p)"
  assumes doc: "consul_documented view (re_api env)" and sleep: "\<And>d w. view (re_sleep env d w) = view w"
    and ok: "releaser_Destroy env p w = (Ok, w1)"
    and d: "added_defaults opt n d0 (view w (ServiceDefaults, n, scope_of opt))"
    and r: "added_resolver opt n pf cf r0 (view w (ServiceResolver, n, scope_of opt))"
    and t: "added_upstream opt n t0 (view w (ServiceRouter, UpstreamRouterName, scope_of opt))"
    and i: "added_intention opt n i0 (view w (ServiceIntentions, n, scope_of opt))"
  shows "view w1 = (view w)((ServiceSplitter, n, scope_of opt) := None,
      (ServiceRouter, UpstreamRouterName, scope_of opt) := t0, (ServiceResolver, n, scope_of opt) := r0,
      (ServiceIntentions, n, scope_of opt) := i0, (ServiceDefaults, n, scope_of opt) := d0)"
proof -
  let ?z = "re_sleep env syncDelay" and ?a = "re_api env"
  from ok obtain a b c e where
    ops: "DeleteServiceSplitter ?a opt n w = (Ok, a)" "DeleteUpstreamRouter ?a opt n (?z a) = (Ok, b)"
      "DeleteServiceResolver ?a opt n (?z b) = (Ok, c)" "DeleteServiceIntention ?a opt n (?z c) = (Ok, e)"
      "DeleteServiceDefaults ?a opt n (?z e) = (Ok, w1)"
    by (auto simp: releaser_Destroy_def Let_def and_then_ok opt_def n_def)
  have a: "view a = (view w)((ServiceSplitter, n, scope_of opt) := None)"
    by (rule DeleteServiceSplitter_ok [OF doc ops(1)])
  have b: "view b = (view a)((ServiceRouter, UpstreamRouterName, scope_of opt) := t0)"
    using upstream_removed [OF doc ops(2), of t0] t by (simp add: sleep a)
  have c: "view c = (view b)((ServiceResolver, n, scope_of opt) := r0)"
    using resolver_removed [OF doc ops(3), of pf cf r0] r by (simp add: sleep a b)
  have e: "view e = (view c)((ServiceIntentions, n, scope_of opt) := i0)"
    using intention_removed [OF doc ops(4), of i0] i by (simp add: sleep a b c)
  have "view w1 = (view e)((ServiceDefaults, n, scope_of opt) := d0)"
    using defaults_removed [OF doc ops(5), of d0] d by (simp add: sleep a b c e)
  then show ?thesis by (simp add: a b c e)
qed

text \<open>The mesh while a release is set up: its own entries added, its split anything.\<close>

definition mesh_set_up :: "consul_options \<Rightarrow> string \<Rightarrow> string \<Rightarrow> string \<Rightarrow> mesh \<Rightarrow> mesh \<Rightarrow> bool" where
  "mesh_set_up opt n pf cf v0 v \<longleftrightarrow>
     (\<exists>d c u r t i y. v = v0
        ((ServiceDefaults, n, scope_of opt) := d, (ServiceDefaults, ControllerServiceName, scope_of opt) := c,
         (ServiceDefaults, UpstreamRouterName, scope_of opt) := u, (ServiceResolver, n, scope_of opt) := r,
         (ServiceRouter, UpstreamRouterName, scope_of opt) := t, (ServiceIntentions, n, scope_of opt) := i,
         (ServiceSplitter, n, scope_of opt) := y) \<and>
       added_defaults opt n (v0 (ServiceDefaults, n, scope_of opt)) d \<and>
       added_resolver opt n pf cf (v0 (ServiceResolver, n, scope_of opt)) r \<and>
       added_upstream opt n (v0 (ServiceRouter, UpstreamRouterName, scope_of opt)) t \<and>
       added_intention opt n (v0 (ServiceIntentions, n, scope_of opt)) i)"

text \<open>The defaults of the controller and of the upstream service are shared and stay behind.\<close>

definition mesh_restored :: "consul_options \<Rightarrow> mesh \<Rightarrow> mesh \<Rightarrow> bool" where
  "mesh_restored opt v0 v \<longleftrightarrow>
     (\<forall>key. key \<noteq> (ServiceDefaults, ControllerServiceName, scope_of opt) \<longrightarrow>
        key \<noteq> (ServiceDefaults, UpstreamRouterName, scope_of opt) \<longrightarrow> v key = v0 key)"

lemma Setup_sets_up:
  assumes "consul_documented view (re_api env)" and "\<And>d w. view (re_sleep env d w) = view w"
    and "mesh_fresh (rl_options p) (rb_service (rl_config p)) (view w)" and "releaser_Setup env p pf cf w = (Ok, w1)"
  shows "mesh_set_up (rl_options p) (rb_service (rl_config p)) pf cf (view w) (view w1)"
proof -
  let ?o = "rl_options p" and ?n = "rb_service (rl_config p)"
  obtain d c u r t i where s: "view w1 = (view w)
      ((ServiceDefaults, ?n, scope_of ?o) := d, (ServiceDefaults, ControllerServiceName, scope_of ?o) := c,
       (ServiceDefaults, UpstreamRouterName, scope_of ?o) := u, (ServiceResolver, ?n, scope_of ?o) := r,
       (ServiceRouter, UpstreamRouterName, scope_of ?o) := t, (ServiceIntentions, ?n, scope_of ?o) := i)"
    and added: "added_defaults ?o ?n (view w (ServiceDefaults, ?n, scope_of ?o)) d"
      "added_resolver ?o ?n pf cf (view w (ServiceResolver, ?n, scope_of ?o)) r"
      "added_upstream ?o ?n (view w (ServiceRouter, UpstreamRouterName, scope_of ?o)) t"
      "added_intention ?o ?n (view w (ServiceIntentions, ?n, scope_of ?o)) i"
    using Setup_effect [OF assms] by blast
  show ?thesis
    unfolding mesh_set_up_def
    by (intro exI [of _ d] exI [of _ c] exI [of _ u] exI [of _ r] exI [of _ t] exI [of _ i]
        exI [of _ "view w1 (ServiceSplitter, ?n, scope_of ?o)"] conjI added)
      (simp only: s [symmetric] fun_upd_triv)
qed

lemma set_up_split:
  "mesh_set_up opt n pf cf v0 v \<Longrightarrow> mesh_set_up opt n pf cf v0 (v((ServiceSplitter, n, scope_of opt) := y))"
  unfolding mesh_set_up_def by (elim exE conjE, intro exI conjI) (simp only: fun_upd_upd, assumption+)

lemma Destroy_restores:
  assumes doc: "consul_documented view (re_api env)" and sleep: "\<And>d w. view (re_sleep env d w) = view w"
    and fresh: "mesh_fresh (rl_options p) (rb_service (rl_config p)) v0"
    and up: "mesh_set_up (rl_options p) (rb_service (rl_config p)) pf cf v0 (view w)"
    and ok: "releaser_Destroy env p w = (Ok, w1)"
  shows "mesh_restored (rl_options p) v0 (view w1)"
proof -
  let ?o = "rl_options p" and ?n = "rb_service (rl_config p)"
  from up obtain d c u r t i y where v: "view w = v0
      ((ServiceDefaults, ?n, scope_of ?o) := d, (ServiceDefaults, ControllerServiceName, scope_of ?o) := c,
       (ServiceDefaults, UpstreamRouterName, scope_of ?o) := u, (ServiceResolver, ?n, scope_of ?o) := r,
       (ServiceRouter, UpstreamRouterName, scope_of ?o) := t, (ServiceIntentions, ?n, scope_of ?o) := i,
       (ServiceSplitter, ?n, scope_of ?o) := y)"
    and added: "added_defaults ?o ?n (v0 (ServiceDefaults, ?n, scope_of ?o)) d"
      "added_resolver ?o ?n pf cf (v0 (ServiceResolver, ?n, scope_of ?o)) r"
      "added_upstream ?o ?n (v0 (ServiceRouter, UpstreamRouterName, scope_of ?o)) t"
      "added_intention ?o ?n (v0 (ServiceIntentions, ?n, scope_of ?o)) i"
    unfolding mesh_set_up_def by blast
  have n: "?n \<noteq> ControllerServiceName" "?n \<noteq> UpstreamRouterName" and split: "v0 (ServiceSplitter, ?n, scope_of ?o) = None"
    using fresh by (simp_all add: mesh_fresh_def)
  have "view w1 = (view w)((ServiceSplitter, ?n, scope_of ?o) := None,
      (ServiceRouter, UpstreamRouterName, scope_of ?o) := v0 (ServiceRouter, UpstreamRouterName, scope_of ?o),
      (ServiceResolver, ?n, scope_of ?o) := v0 (ServiceResolver, ?n, scope_of ?o),
      (ServiceIntentions, ?n, scope_of ?o) := v0 (ServiceIntentions, ?n, scope_of ?o),
      (ServiceDefaults, ?n, scope_of ?o) := v0 (ServiceDefaults, ?n, scope_of ?o))"
    by (rule Destroy_effect [OF doc sleep ok]) (use added n in \<open>simp_all add: v\<close>)
  then show ?thesis using split by (auto simp: v mesh_restored_def)
qed

subsection \<open>Concrete runs\<close>

definition ref_releaser :: releaser where
  "ref_releaser =
     \<lparr>rl_config = \<lparr>rb_service = ''api'', rb_namespace = '''', rb_partition = ''''\<rparr>, rl_options = ref_options\<rparr>"

definition ref_releaser_env :: "ref_world releaser_env" where
  "ref_releaser_env = \<lparr>re_api = reference_consul, re_sleep = (\<lambda>_ w. w), re_retry = reference_retry\<rparr>"

lemma ref_put: "put_entry reference_consul opt ce (m, kv) =
    (Ok, (m((kind_of ce, eh_name (head_of ce), scope_of opt) \<mapsto> ce), kv))"
  by (simp add: put_entry_def reference_consul_def)

lemma ref_drop: "drop_entry reference_consul opt k n (m, kv) = (Ok, (m((k, n, scope_of opt) := None), kv))"
  by (simp add: drop_entry_def reference_consul_def)

lemma ref_fetch: "fetch reference_consul opt k n w = (Inr (ref_entries w (k, n, scope_of opt)), w)"
  by (simp add: fetch_def reference_consul_def not_found_def has_prefix_def split: option.split)

lemma ref_fetch_existing:
  "ref_entries w (k, n, scope_of opt) = Some ce \<Longrightarrow> fetch_existing reference_consul opt k n w = (Inr ce, w)"
  by (simp add: fetch_existing_def reference_consul_def)

lemma ref_entries_simps [simp]:
  "ref_entries (Map.empty, kv) key = None"
  "ref_entries (m(key := None), kv) key = None"
  "ref_entries (m(key \<mapsto> ce), kv) key =
     (if kind_of ce = fst key \<and> eh_name (head_of ce) = fst (snd key) then Some ce else None)"
  "key \<noteq> key' \<Longrightarrow> ref_entries (m(key := x), kv) key' = ref_entries (m, kv) key'"
  by (auto simp: ref_entries_def)

lemmas ref_run_simps =
  ref_releaser_def ref_releaser_env_def ref_put ref_drop ref_fetch ref_fetch_existing and_then_def Let_def
  releaser_Setup_def releaser_Scale_def releaser_Destroy_def
  CreateServiceDefaults_def CreateServiceResolver_def CreateUpstreamRouter_def CreateServiceIntention_def
  CreateServiceSplitter_def append_routes_def DeleteServiceSplitter_def DeleteUpstreamRouter_def
  DeleteServiceResolver_def DeleteServiceIntention_def DeleteServiceDefaults_def new_head_def created_here_def
  meta_get_def crc_route_def ControllerServiceName_def UpstreamRouterName_def

lemma ref_setup: "\<exists>m. releaser_Setup ref_releaser_env ref_releaser pf cf (Map.empty, []) = (Ok, (m, []))"
  by (simp add: ref_run_simps)

subsection \<open>Properties\<close>



text \<open>
  The split \<open>Scale\<close> writes gives the candidate the value and the primary the rest, and
  replaces whatever split the service had; it touches no other entry.
\<close>

theorem scale_writes_split:
  assumes "consul_documented view (re_api env)" and "releaser_Scale env p value w = (Ok, w1)"
  shows "view w1 = (view w)((ServiceSplitter, rb_service (rl_config p), scope_of (rl_options p)) \<mapsto>
    ServiceSplitterConfigEntry (new_head (rl_options p) (rb_service (rl_config p)))
      [\<lparr>sp_subset = primary_subset (rb_service (rl_config p)), sp_weight = 100 - value\<rparr>,
       \<lparr>sp_subset = candidate_subset (rb_service (rl_config p)), sp_weight = value\<rparr>])"
  using put_entry_ok [OF assms(1)] assms(2)
  by (auto simp: releaser_Scale_def CreateServiceSplitter_def new_head_def Let_def)

theorem scale_writes_split_witness:
  "\<exists>w1. releaser_Scale ref_releaser_env ref_releaser 30 (Map.empty, []) = (Ok, w1) \<and>
     ref_entries w1 (ServiceSplitter, ''api'', ('''', '''')) =
       Some (ServiceSplitterConfigEntry (new_head ref_options ''api'')
         [\<lparr>sp_subset = primary_subset ''api'', sp_weight = 70\<rparr>, \<lparr>sp_subset = candidate_subset ''api'', sp_weight = 30\<rparr>])"
proof -
  have doc: "consul_documented ref_entries (re_api ref_releaser_env)"
    by (simp add: ref_releaser_env_def reference_consul_documented)
  obtain w1 where w1: "releaser_Scale ref_releaser_env ref_releaser 30 (Map.empty, []) = (Ok, w1)"
    by (simp add: ref_run_simps)
  from scale_writes_split [OF doc w1] w1 show ?thesis
    by (simp add: ref_releaser_def ref_options_def scope_of_def)
qed

text \<open>
  When the wait for a service reports success, the service's health check succeeded in
  the very last call it made, with the filter asked for.
\<close>

theorem wait_healthy_sound:
  assumes "retry_documented (re_retry env)" and "releaser_WaitUntilServiceHealthy env p flt w = (None, w1)"
  shows "\<exists>w0. CheckHealth (re_api env) (rl_options p) (rb_service (rl_config p)) flt w0 = (None, w1)"
  using retry_documented_success [OF assms(1)] assms(2) unfolding releaser_WaitUntilServiceHealthy_def by blast

theorem wait_healthy_sound_witness:
  "releaser_WaitUntilServiceHealthy ref_releaser_env ref_releaser ''f'' (Map.empty, []) = (None, (Map.empty, [])) \<and>
   (\<exists>w0. CheckHealth reference_consul ref_options ''api'' ''f'' w0 = (None, (Map.empty, [])))"
proof -
  have c: "CheckHealth reference_consul ref_options ''api'' ''f'' (Map.empty, []) = (None, (Map.empty, []))"
    by (simp add: CheckHealth_def check_instances_def reference_consul_def)
  have "releaser_WaitUntilServiceHealthy ref_releaser_env ref_releaser ''f'' (Map.empty, []) = (None, (Map.empty, []))"
    using retry_documented_first [where f = "CheckHealth reference_consul ref_options ''api'' ''f''", OF reference_retry_documented c]
    by (simp add: releaser_WaitUntilServiceHealthy_def ref_releaser_env_def ref_releaser_def)
  moreover have "retry_documented (re_retry ref_releaser_env)"
    by (simp add: ref_releaser_env_def reference_retry_documented)
  ultimately show ?thesis
    using wait_healthy_sound [of ref_releaser_env ref_releaser "''f''" "(Map.empty, [])"]
    by (simp add: ref_releaser_env_def ref_releaser_def)
qed

end
