(* ===== verification/Runtime.thy ===== *)
theory Runtime
  imports Interfaces
begin

text \<open>
  The runtime plugin (\<open>pkg/plugins/runtime/plugin.go\<close>): it creates the primary from the
  deployment a user runs, promotes, scales down and restores it, through the runtime
  client of the platform. The contract of that client, from the comments of the
  interface, is a locale over the instances each deployment runs; what the plugin's
  operations achieve is proved from it.

  In the code the maps of labels are shared between the deployment read and the one
  built from it, so writing the version label into the new one writes it into the one
  it was read from, unless that had no map; both are handed to the client.
\<close>

subsection \<open>The plugin\<close>

record runtime_plugin =
  rp_config :: runtime_base_config
  rp_state :: runtime_base_state

record 'w runtime_env =
  rn_client :: "'w runtime_client"
  rn_store :: "'w state_store"

definition runtime_config_fields :: "(string \<times> runtime_base_config member_dec) list" where
  "runtime_config_fields =
     [(''deployment'', fld_str (\<lambda>s a. a\<lparr>rc_selector := s\<rparr>)),
      (''namespace'', fld_str (\<lambda>s a. a\<lparr>rc_namespace := s\<rparr>))]"

definition runtime_state_fields :: "(string \<times> runtime_base_state member_dec) list" where
  "runtime_state_fields =
     [(''candidate_name'', fld_str (\<lambda>s a. a\<lparr>rs_candidate := s\<rparr>)),
      (''primary_name'', fld_str (\<lambda>s a. a\<lparr>rs_primary := s\<rparr>))]"

definition runtime_config_zero :: runtime_base_config where
  "runtime_config_zero = \<lparr>rc_selector = '''', rc_namespace = ''''\<rparr>"

definition runtime_state_zero :: runtime_base_state where
  "runtime_state_zero = \<lparr>rs_candidate = '''', rs_primary = ''''\<rparr>"

definition enc_runtime_state :: "runtime_base_state \<Rightarrow> json" where
  "enc_runtime_state s =
     JObj [(''candidate_name'', JStr (rs_candidate s)), (''primary_name'', JStr (rs_primary s))]"

text \<open>The saved state is decoded whatever the store and the decoder report.\<close>

definition runtime_Configure ::
    "bytes \<Rightarrow> 'w state_store \<Rightarrow> 'w \<Rightarrow> (go_error + runtime_plugin) \<times> 'w" where
  "runtime_Configure data store w =
     (case unmarshal runtime_config_fields data runtime_config_zero of
        (c, Some e) \<Rightarrow> (Inl e, w)
      | (c, None) \<Rightarrow>
          (let c1 = (if rc_namespace c = '''' then c\<lparr>rc_namespace := ''default''\<rparr> else c)
           in case ss_get store w of
                ((d, _), w1) \<Rightarrow>
                  (Inr \<lparr>rp_config = c1, rp_state = fst (unmarshal runtime_state_fields d runtime_state_zero)\<rparr>, w1)))"

definition runtime_BaseConfig :: "runtime_plugin \<Rightarrow> runtime_base_config" where
  "runtime_BaseConfig p = rp_config p"

definition runtime_BaseState :: "runtime_plugin \<Rightarrow> runtime_base_state" where
  "runtime_BaseState p = rp_state p"

text \<open>The state always encodes; a failed write is logged. It is deferred, so it runs on a panic too.\<close>

definition runtime_saveState :: "'w runtime_env \<Rightarrow> runtime_plugin \<Rightarrow> 'w \<Rightarrow> 'w" where
  "runtime_saveState env p w = snd (ss_upsert (rn_store env) (Text (enc_runtime_state (rp_state p))) w)"

definition with_version :: "string \<Rightarrow> (string \<rightharpoonup> string) option \<Rightarrow> string \<rightharpoonup> string" where
  "with_version v m = (case m of None \<Rightarrow> Map.empty | Some f \<Rightarrow> f)(RuntimeDeploymentVersionLabel \<mapsto> v)"

text \<open>
  The new deployment made of an existing one, and the existing one after its map was
  written through.
\<close>

definition primary_from :: "string \<Rightarrow> deployment \<Rightarrow> deployment" where
  "primary_from name d =
     \<lparr>d_name = name, d_namespace = d_namespace d, d_resource_version = '''',
      d_meta = Some (with_version ''1'' (d_meta d)), d_instances = d_instances d\<rparr>"

definition written_through :: "deployment \<Rightarrow> deployment" where
  "written_through d = d\<lparr>d_meta := map_option (\<lambda>f. f(RuntimeDeploymentVersionLabel \<mapsto> ''1'')) (d_meta d)\<rparr>"

definition InitPrimary_body :: "'w runtime_env \<Rightarrow> string \<Rightarrow> runtime_plugin \<Rightarrow> 'w \<Rightarrow>
    (runtime_status \<times> go_error option) res \<times> runtime_plugin \<times> 'w" where
  "InitPrimary_body env releaseName p w =
     (let c = rn_client env;
          ns = rc_namespace (rp_config p);
          primary = releaseName @ ''-primary'';
          p1 = p\<lparr>rp_state := (rp_state p)\<lparr>rs_primary := primary\<rparr>\<rparr>
      in case rt_get c primary ns w of
           (Panicked, w1) \<Rightarrow> (Panicked, p1, w1)
         | (Returned (_, None), w1) \<Rightarrow> (Returned (RuntimeDeploymentNoAction, None), p1, w1)
         | (Returned (_, Some _), w1) \<Rightarrow>
             (case rt_get_selector c (rc_selector (rp_config p)) ns w1 of
                (Panicked, w2) \<Rightarrow> (Panicked, p1, w2)
              | (Returned (Some cand, None), w2) \<Rightarrow>
                  (let p2 = p1\<lparr>rp_state := (rp_state p1)\<lparr>rs_candidate := d_name cand\<rparr>\<rparr>
                   in case rt_clone c (written_through cand) (primary_from primary cand) w2 of
                        (Panicked, w3) \<Rightarrow> (Panicked, p2, w3)
                      | (Returned (Some e), w3) \<Rightarrow>
                          (Returned (RuntimeDeploymentInternalError, Some (wrap_err ''unable to clone deployment: '' e)), p2, w3)
                      | (Returned None, w3) \<Rightarrow>
                          (case rt_healthy c primary ns w3 of
                             (Panicked, w4) \<Rightarrow> (Panicked, p2, w4)
                           | (Returned (_, Some e), w4) \<Rightarrow> (Returned (RuntimeDeploymentInternalError, Some e), p2, w4)
                           | (Returned (_, None), w4) \<Rightarrow> (Returned (RuntimeDeploymentUpdate, None), p2, w4)))
              | (Returned _, w2) \<Rightarrow> (Returned (RuntimeDeploymentNoAction, None), p1, w2)))"

definition runtime_InitPrimary :: "'w runtime_env \<Rightarrow> string \<Rightarrow> runtime_plugin \<Rightarrow> 'w \<Rightarrow>
    (runtime_status \<times> go_error option) res \<times> runtime_plugin \<times> 'w" where
  "runtime_InitPrimary env releaseName p w =
     (case InitPrimary_body env releaseName p w of (r, p1, w1) \<Rightarrow> (r, p1, runtime_saveState env p1 w1))"

definition PromoteCandidate_body :: "'w runtime_env \<Rightarrow> runtime_plugin \<Rightarrow> 'w \<Rightarrow>
    (runtime_status \<times> go_error option) res \<times> 'w" where
  "PromoteCandidate_body env p w =
     (let c = rn_client env;
          ns = rc_namespace (rp_config p);
          primary = rs_primary (rp_state p)
      in bind_res (rt_healthy c (rs_candidate (rp_state p)) ns w) (\<lambda>(cand, err) w1.
           if err = Some ErrDeploymentNotFound then (Returned (RuntimeDeploymentNotFound, None), w1)
           else if err \<noteq> None then (Returned (RuntimeDeploymentInternalError, err), w1)
           else bind_res (rt_delete c primary ns w1) (\<lambda>err w2. case err of
             Some e \<Rightarrow>
               (Returned (RuntimeDeploymentInternalError,
                 Some (wrap_err ''unable to remove previous primary deployment: '' e)), w2)
           | None \<Rightarrow>
               (case cand of
                  None \<Rightarrow> (Panicked, w2)
                | Some d \<Rightarrow>
                    bind_res (rt_clone c (written_through d) (primary_from primary d) w2) (\<lambda>err w3. case err of
                      Some e \<Rightarrow>
                        (Returned (RuntimeDeploymentInternalError, Some (wrap_err ''unable to clone deployment: '' e)), w3)
                    | None \<Rightarrow>
                        bind_res (rt_healthy c primary (d_namespace d) w3) (\<lambda>(_, err) w4. case err of
                          Some e \<Rightarrow>
                            (Returned (RuntimeDeploymentInternalError, Some (wrap_err ''deployment not healthy: '' e)), w4)
                        | None \<Rightarrow> (Returned (RuntimeDeploymentUpdate, None), w4)))))))"

text \<open>An operation that does not change the names: run the body, then save the state.\<close>

definition saving :: "'w runtime_env \<Rightarrow> runtime_plugin \<Rightarrow> 'a res \<times> 'w \<Rightarrow> 'a res \<times> 'w" where
  "saving env p rw = (fst rw, runtime_saveState env p (snd rw))"

definition runtime_PromoteCandidate :: "'w runtime_env \<Rightarrow> runtime_plugin \<Rightarrow> 'w \<Rightarrow>
    (runtime_status \<times> go_error option) res \<times> 'w" where
  "runtime_PromoteCandidate env p w = saving env p (PromoteCandidate_body env p w)"

definition RemoveCandidate_body :: "'w runtime_env \<Rightarrow> runtime_plugin \<Rightarrow> 'w \<Rightarrow> go_error option res \<times> 'w" where
  "RemoveCandidate_body env p w =
     bind_res (rt_get (rn_client env) (rs_candidate (rp_state p)) (rc_namespace (rp_config p)) w) (\<lambda>(d, err) w1.
       if err = Some ErrDeploymentNotFound then (Returned None, w1)
       else if err \<noteq> None then (Returned err, w1)
       else
         (case d of
            None \<Rightarrow> (Panicked, w1)
          | Some d \<Rightarrow>
              rt_update (rn_client env)
                (d\<lparr>d_instances := 0, d_meta := Some (with_version (d_resource_version d) (d_meta d))\<rparr>) w1))"

definition runtime_RemoveCandidate :: "'w runtime_env \<Rightarrow> runtime_plugin \<Rightarrow> 'w \<Rightarrow> go_error option res \<times> 'w" where
  "runtime_RemoveCandidate env p w = saving env p (RemoveCandidate_body env p w)"

definition without_version :: "(string \<rightharpoonup> string) option \<Rightarrow> (string \<rightharpoonup> string) option" where
  "without_version m = map_option (\<lambda>f. f(RuntimeDeploymentVersionLabel := None)) m"

definition RestoreOriginal_body :: "'w runtime_env \<Rightarrow> runtime_plugin \<Rightarrow> 'w \<Rightarrow> go_error option res \<times> 'w" where
  "RestoreOriginal_body env p w =
     (let c = rn_client env;
          ns = rc_namespace (rp_config p);
          cname = rs_candidate (rp_state p)
      in bind_res (rt_get c (rs_primary (rp_state p)) ns w) (\<lambda>(prim, err) w1.
           if err = Some ErrDeploymentNotFound then (Returned None, w1)
           else if err \<noteq> None then (Returned err, w1)
           else bind_res (rt_delete c cname ns w1) (\<lambda>err w2.
             if err \<noteq> None \<and> err \<noteq> Some ErrDeploymentNotFound then
               (Returned (Some (wrap_err ''unable to remove previous candidate deployment: '' (the err))), w2)
             else
               (case prim of
                  None \<Rightarrow> (Panicked, w2)
                | Some d \<Rightarrow>
                    (let cand = \<lparr>d_name = cname, d_namespace = d_namespace d, d_resource_version = '''',
                           d_meta = without_version (d_meta d), d_instances = d_instances d\<rparr>
                     in bind_res (rt_clone c (d\<lparr>d_meta := without_version (d_meta d)\<rparr>) cand w2) (\<lambda>err w3.
                          if err \<noteq> None then (Returned err, w3)
                          else bind_res (rt_healthy c (d_name cand) (d_namespace cand) w3) (\<lambda>(_, err) w4.
                            (Returned err, w4))))))))"

definition runtime_RestoreOriginal :: "'w runtime_env \<Rightarrow> runtime_plugin \<Rightarrow> 'w \<Rightarrow> go_error option res \<times> 'w" where
  "runtime_RestoreOriginal env p w = saving env p (RestoreOriginal_body env p w)"

definition RemovePrimary_body :: "'w runtime_env \<Rightarrow> runtime_plugin \<Rightarrow> 'w \<Rightarrow> go_error option res \<times> 'w" where
  "RemovePrimary_body env p w =
     bind_res (rt_delete (rn_client env) (rs_primary (rp_state p)) (rc_namespace (rp_config p)) w) (\<lambda>err w1.
       if err = Some ErrDeploymentNotFound then (Returned None, w1) else (Returned err, w1))"

definition runtime_RemovePrimary :: "'w runtime_env \<Rightarrow> runtime_plugin \<Rightarrow> 'w \<Rightarrow> go_error option res \<times> 'w" where
  "runtime_RemovePrimary env p w = saving env p (RemovePrimary_body env p w)"

definition runtime_CandidateSubsetFilter :: "'w runtime_env \<Rightarrow> string" where
  "runtime_CandidateSubsetFilter env = rt_candidate_filter (rn_client env)"

definition runtime_PrimarySubsetFilter :: "'w runtime_env \<Rightarrow> string" where
  "runtime_PrimarySubsetFilter env = rt_primary_filter (rn_client env)"

text \<open>The configuration is never changed.\<close>

lemma InitPrimary_config: "rp_config (fst (snd (InitPrimary_body env name p w))) = rp_config p"
  by (auto simp: InitPrimary_body_def Let_def split: prod.splits res.splits option.splits)

subsection \<open>Contract of the runtime client\<close>

text \<open>
  \<open>running\<close> gives the number of instances of each deployment of the platform, by name and
  namespace; \<open>inv\<close> is what the client needs of the world. A read changes nothing and
  finds what is there; the not-found error is only given for what is not there; an
  update sets the instances; a clone of a running deployment adds the new one, or
  replaces it; a deletion removes it.
\<close>

type_synonym cluster = "string \<times> string \<rightharpoonup> int"

locale runtime_contract =
  fixes client :: "'w runtime_client"
    and running :: "'w \<Rightarrow> cluster"
    and inv :: "'w \<Rightarrow> bool"
  assumes get_ok: "inv w \<Longrightarrow> rt_get client n ns w = (Returned (r, None), w1) \<Longrightarrow>
      inv w1 \<and> running w1 = running w \<and>
      (\<exists>d. r = Some d \<and> running w (n, ns) = Some (d_instances d) \<and> d_name d = n \<and> d_namespace d = ns)"
    and get_error: "inv w \<Longrightarrow> rt_get client n ns w = (Returned (r, Some e), w1) \<Longrightarrow>
      inv w1 \<and> running w1 = running w \<and> (e = ErrDeploymentNotFound \<longrightarrow> running w (n, ns) = None)"
    and selector_ok: "inv w \<Longrightarrow> rt_get_selector client sel ns w = (Returned (r, None), w1) \<Longrightarrow>
      inv w1 \<and> running w1 = running w \<and>
      (\<forall>d. r = Some d \<longrightarrow> running w (d_name d, ns) = Some (d_instances d) \<and> d_namespace d = ns)"
    and selector_error: "inv w \<Longrightarrow> rt_get_selector client sel ns w = (Returned (r, Some e), w1) \<Longrightarrow>
      inv w1 \<and> running w1 = running w"
    and update_ok: "inv w \<Longrightarrow> rt_update client d w = (Returned None, w1) \<Longrightarrow>
      0 \<le> d_instances d \<Longrightarrow> d_instances d < 2 ^ 31 \<Longrightarrow>
      inv w1 \<and> running w1 = (running w)((d_name d, d_namespace d) \<mapsto> d_instances d)"
    and clone_ok: "inv w \<Longrightarrow> rt_clone client f d w = (Returned None, w1) \<Longrightarrow> d_instances d = d_instances f \<Longrightarrow>
      running w (d_name f, d_namespace f) = Some (d_instances f) \<Longrightarrow>
      inv w1 \<and> running w1 = (running w)((d_name d, d_namespace d) \<mapsto> d_instances d)"
    and delete_ok: "inv w \<Longrightarrow> rt_delete client n ns w = (Returned None, w1) \<Longrightarrow>
      inv w1 \<and> running w1 = (running w)((n, ns) := None)"
    and delete_missing: "inv w \<Longrightarrow> rt_delete client n ns w = (Returned (Some ErrDeploymentNotFound), w1) \<Longrightarrow>
      inv w1 \<and> running w1 = running w \<and> running w (n, ns) = None"
    and healthy_ok: "inv w \<Longrightarrow> rt_healthy client n ns w = (Returned (r, None), w1) \<Longrightarrow>
      inv w1 \<and> running w1 = running w \<and>
      (\<exists>d. r = Some d \<and> running w (n, ns) = Some (d_instances d) \<and> d_name d = n \<and> d_namespace d = ns)"
    and healthy_error: "inv w \<Longrightarrow> rt_healthy client n ns w = (Returned (r, Some e), w1) \<Longrightarrow>
      inv w1 \<and> running w1 = running w"
begin

lemma primary_from_fields [simp]:
  "d_instances (primary_from n d) = d_instances d" "d_name (primary_from n d) = n"
  "d_namespace (primary_from n d) = d_namespace d" "d_name (written_through d) = d_name d"
  "d_namespace (written_through d) = d_namespace d" "d_instances (written_through d) = d_instances d"
  by (simp_all add: primary_from_def written_through_def)

text \<open>A primary is only reported as created when it runs as many instances as the candidate.\<close>

lemma InitPrimary_update:
  assumes "inv w" and "rn_client env = client"
    and "InitPrimary_body env name p w = (Returned (RuntimeDeploymentUpdate, e), p1, w1)"
  shows "e = None \<and> (\<exists>i. running w (rs_candidate (rp_state p1), rc_namespace (rp_config p)) = Some i \<and>
    running w1 = (running w)((name @ ''-primary'', rc_namespace (rp_config p)) \<mapsto> i))"
proof -
  let ?ns = "rc_namespace (rp_config p)" and ?pn = "name @ ''-primary''"
  from assms(2,3) obtain x ge w2 cand w3 w4 h where
    g: "rt_get client ?pn ?ns w = (Returned (x, Some ge), w2)"
    and s: "rt_get_selector client (rc_selector (rp_config p)) ?ns w2 = (Returned (Some cand, None), w3)"
    and c: "rt_clone client (written_through cand) (primary_from ?pn cand) w3 = (Returned None, w4)"
    and h: "rt_healthy client ?pn ?ns w4 = (Returned (h, None), w1)"
    and p1: "rs_candidate (rp_state p1) = d_name cand" and e: "e = None"
    by (auto simp: InitPrimary_body_def Let_def split: prod.splits res.splits option.splits)
  note v2 = get_error [OF assms(1) g]
  note v3 = selector_ok [OF _ s]
  have cand: "running w3 (d_name cand, d_namespace cand) = Some (d_instances cand)" "d_namespace cand = ?ns"
    using v2 v3 by auto
  note v4 = clone_ok [OF _ c]
  note v1 = healthy_ok [OF _ h]
  show ?thesis using v1 v2 v3 v4 cand p1 e by auto
qed

text \<open>With a primary there already, or no candidate, nothing is changed.\<close>

lemma InitPrimary_no_action:
  assumes "inv w" and "rn_client env = client"
    and "InitPrimary_body env name p w = (Returned (RuntimeDeploymentNoAction, e), p1, w1)"
  shows "e = None \<and> running w1 = running w"
proof -
  let ?ns = "rc_namespace (rp_config p)" and ?pn = "name @ ''-primary''"
  obtain r ge w2 where g: "rt_get client ?pn ?ns w = (Returned (r, ge), w2)"
    using assms(2,3) by (auto simp: InitPrimary_body_def Let_def split: prod.splits res.splits)
  show ?thesis
  proof (cases ge)
    case None
    with g assms get_ok [of w ?pn ?ns r w2] show ?thesis by (auto simp: InitPrimary_body_def Let_def)
  next
    case (Some x)
    with g have g': "rt_get client ?pn ?ns w = (Returned (r, Some x), w2)" by simp
    with assms(2,3) obtain c se where
      s: "rt_get_selector client (rc_selector (rp_config p)) ?ns w2 = (Returned (c, se), w1)" and e: "e = None"
      by (auto simp: InitPrimary_body_def Let_def split: prod.splits res.splits option.splits)
    have "running w1 = running w2"
      using selector_ok [of w2] selector_error [of w2] get_error [OF assms(1) g'] s by (cases se) blast+
    with get_error [OF assms(1) g'] e show ?thesis by simp
  qed
qed

text \<open>
  A promotion that succeeds replaces the primary by a deployment with the candidate's
  instances and keeps the candidate.
\<close>

lemma PromoteCandidate_update:
  assumes "inv w" and "rn_client env = client" and "rs_candidate (rp_state p) \<noteq> rs_primary (rp_state p)"
    and "PromoteCandidate_body env p w = (Returned (RuntimeDeploymentUpdate, e), w1)"
  shows "e = None \<and> (\<exists>i. running w (rs_candidate (rp_state p), rc_namespace (rp_config p)) = Some i \<and>
    running w1 = (running w)((rs_primary (rp_state p), rc_namespace (rp_config p)) \<mapsto> i))"
proof -
  let ?ns = "rc_namespace (rp_config p)" and ?pn = "rs_primary (rp_state p)" and ?cn = "rs_candidate (rp_state p)"
  from assms(2,4) obtain d w2 w3 w4 h where
    h: "rt_healthy client ?cn ?ns w = (Returned (Some d, None), w2)"
    and del: "rt_delete client ?pn ?ns w2 = (Returned None, w3)"
    and c: "rt_clone client (written_through d) (primary_from ?pn d) w3 = (Returned None, w4)"
    and h2: "rt_healthy client ?pn (d_namespace d) w4 = (Returned (h, None), w1)" and e: "e = None"
    by (auto simp: PromoteCandidate_body_def Let_def bind_res_returned split: option.splits if_splits)
  note v2 = healthy_ok [OF assms(1) h]
  note v3 = delete_ok [OF _ del]
  note v4 = clone_ok [OF _ c]
  note v1 = healthy_ok [OF _ h2]
  have "running w3 (d_name d, d_namespace d) = Some (d_instances d)" using v2 v3 assms(3) by auto
  with v1 v2 v3 v4 e show ?thesis by auto
qed

text \<open>A candidate that is not found leaves everything as it was.\<close>

lemma PromoteCandidate_not_found:
  assumes "inv w" and "rn_client env = client"
    and "PromoteCandidate_body env p w = (Returned (RuntimeDeploymentNotFound, e), w1)"
  shows "e = None \<and> running w1 = running w"
proof -
  from assms(2,3) obtain r where
    "rt_healthy client (rs_candidate (rp_state p)) (rc_namespace (rp_config p)) w =
       (Returned (r, Some ErrDeploymentNotFound), w1)" and "e = None"
    by (auto simp: PromoteCandidate_body_def Let_def bind_res_returned split: option.splits if_splits)
  with healthy_error [OF assms(1)] show ?thesis by blast
qed

text \<open>A removed candidate runs no instance; if there was none, nothing changes.\<close>

lemma RemoveCandidate_ok:
  assumes "inv w" and "rn_client env = client" and "RemoveCandidate_body env p w = (Returned None, w1)"
  shows "let k = (rs_candidate (rp_state p), rc_namespace (rp_config p))
    in if running w k = None then running w1 = running w else running w1 = (running w)(k \<mapsto> 0)"
proof -
  let ?ns = "rc_namespace (rp_config p)" and ?cn = "rs_candidate (rp_state p)"
  from assms(2,3) obtain r err w2 where g: "rt_get client ?cn ?ns w = (Returned (r, err), w2)"
    by (auto simp: RemoveCandidate_body_def bind_res_returned)
  show ?thesis
  proof (cases err)
    case None
    with g get_ok [OF assms(1)] obtain d where d: "r = Some d" "running w (?cn, ?ns) = Some (d_instances d)"
      "d_name d = ?cn" "d_namespace d = ?ns" "inv w2" "running w2 = running w" by blast
    with assms(2,3) g None have "rt_update client
        (d\<lparr>d_instances := 0, d_meta := Some (with_version (d_resource_version d) (d_meta d))\<rparr>) w2 = (Returned None, w1)"
      by (auto simp: RemoveCandidate_body_def)
    from update_ok [OF d(5) this] d show ?thesis by simp
  next
    case (Some x)
    with assms(2,3) g have "x = ErrDeploymentNotFound" "w1 = w2"
      by (auto simp: RemoveCandidate_body_def split: if_splits)
    with Some g get_error [OF assms(1)] show ?thesis by (auto simp: Let_def)
  qed
qed

text \<open>
  Where there is a primary, restoring makes the candidate run as many instances as the
  primary does.
\<close>

lemma RestoreOriginal_ok:
  assumes "inv w" and "rn_client env = client" and "rs_candidate (rp_state p) \<noteq> rs_primary (rp_state p)"
    and "RestoreOriginal_body env p w = (Returned None, w1)"
  shows "case running w (rs_primary (rp_state p), rc_namespace (rp_config p)) of
      None \<Rightarrow> running w1 = running w
    | Some i \<Rightarrow> running w1 = (running w)((rs_candidate (rp_state p), rc_namespace (rp_config p)) \<mapsto> i)"
proof -
  let ?ns = "rc_namespace (rp_config p)" and ?cn = "rs_candidate (rp_state p)" and ?pn = "rs_primary (rp_state p)"
  from assms(2,4) obtain r err w2 where g: "rt_get client ?pn ?ns w = (Returned (r, err), w2)"
    by (auto simp: RestoreOriginal_body_def Let_def bind_res_returned)
  show ?thesis
  proof (cases err)
    case (Some x)
    with assms(2,4) g have "x = ErrDeploymentNotFound" "w1 = w2"
      by (auto simp: RestoreOriginal_body_def Let_def split: if_splits)
    with Some g get_error [OF assms(1)] show ?thesis by (auto simp: Let_def)
  next
    case None
    with g get_ok [OF assms(1)] obtain d where d: "r = Some d" "running w (?pn, ?ns) = Some (d_instances d)"
      "d_name d = ?pn" "d_namespace d = ?ns" "inv w2" "running w2 = running w" by blast
    let ?cand = "\<lparr>d_name = ?cn, d_namespace = d_namespace d, d_resource_version = '''',
                   d_meta = without_version (d_meta d), d_instances = d_instances d\<rparr>"
    from assms(2,4) g None d(1) obtain de w3 w4 h where
      del: "rt_delete client ?cn ?ns w2 = (Returned de, w3)" "de = None \<or> de = Some ErrDeploymentNotFound"
      and c: "rt_clone client (d\<lparr>d_meta := without_version (d_meta d)\<rparr>) ?cand w3 = (Returned None, w4)"
      and h: "rt_healthy client ?cn (d_namespace d) w4 = (Returned (h, None), w1)"
      by (auto simp: RestoreOriginal_body_def Let_def bind_res_returned split: if_splits)
    have v3: "inv w3" "running w3 = (running w)((?cn, ?ns) := None)"
      using del delete_ok [OF d(5), of ?cn ?ns w3] delete_missing [OF d(5), of ?cn ?ns w3] d(6) by auto
    have v4: "inv w4 \<and> running w4 = (running w3)((?cn, ?ns) \<mapsto> d_instances d)"
      using clone_ok [OF v3(1) c] v3(2) d assms(3) by simp
    with healthy_ok [OF _ h] v3 d(2) show ?thesis by simp
  qed
qed

lemma RemovePrimary_ok:
  assumes "inv w" and "rn_client env = client" and "RemovePrimary_body env p w = (Returned None, w1)"
  shows "running w1 = (running w)((rs_primary (rp_state p), rc_namespace (rp_config p)) := None)"
proof -
  from assms(2,3) obtain err where
    del: "rt_delete client (rs_primary (rp_state p)) (rc_namespace (rp_config p)) w = (Returned err, w1)"
    and err: "err = None \<or> err = Some ErrDeploymentNotFound"
    by (auto simp: RemovePrimary_body_def bind_res_returned split: if_splits)
  from err show ?thesis
  proof
    assume "err = None"
    with del delete_ok [OF assms(1)] show ?thesis by blast
  next
    assume "err = Some ErrDeploymentNotFound"
    with del delete_missing [OF assms(1)] show ?thesis by (metis fun_upd_triv)
  qed
qed

end

end
