(* ===== verification/Kubernetes.thy ===== *)
theory Kubernetes
  imports Runtime
begin

text \<open>
  The Kubernetes runtime client (\<open>pkg/clients/kubernetes.go\<close>) over the API library,
  which is a parameter: a record of functions over the world, documented by
  \<open>kube_documented\<close> for a view of the deployments in it. The client is shown to meet
  \<open>runtime_contract\<close>, so what is proved of the runtime plugin holds on this platform.
\<close>

subsection \<open>The API library\<close>

text \<open>A deployment object; the fields the client does not use are kept in \<open>kd_rest\<close>.\<close>

record kube_deployment =
  kd_name :: string
  kd_namespace :: string
  kd_labels :: "(string \<rightharpoonup> string) option"
  kd_resource_version :: string
  kd_replicas :: "int option"
  kd_available :: int
  kd_unavailable :: int
  kd_rest :: string

text \<open>\<open>errors.IsNotFound\<close> tells \<open>KubeNotFound\<close> from the other errors.\<close>

datatype kube_error = KubeNotFound string | KubeOther go_error

fun kube_go_error :: "kube_error \<Rightarrow> go_error" where
  "kube_go_error (KubeNotFound s) = GoErr s"
| "kube_go_error (KubeOther e) = e"

text \<open>\<open>ka_get\<close> always gives a pointer to a result object, which is empty with an error.\<close>

record 'w kube_api =
  ka_list :: "string \<Rightarrow> 'w \<Rightarrow> (kube_deployment list \<times> kube_error option) \<times> 'w"
  ka_get :: "string \<Rightarrow> string \<Rightarrow> 'w \<Rightarrow> (kube_deployment \<times> kube_error option) \<times> 'w"
  ka_create :: "string \<Rightarrow> kube_deployment \<Rightarrow> 'w \<Rightarrow> kube_error option \<times> 'w"
  ka_update :: "string \<Rightarrow> kube_deployment \<Rightarrow> 'w \<Rightarrow> kube_error option \<times> 'w"
  ka_delete :: "string \<Rightarrow> string \<Rightarrow> 'w \<Rightarrow> kube_error option \<times> 'w"
  ka_create_release :: "string \<Rightarrow> 'w \<Rightarrow> kube_error option \<times> 'w"
  ka_delete_release :: "string \<Rightarrow> string \<Rightarrow> 'w \<Rightarrow> kube_error option \<times> 'w"

text \<open>
  The client: \<open>ke_compile\<close> is \<open>regexp.Compile\<close> with \<open>MatchString\<close> of its result,
  \<open>ke_is_timeout\<close> is \<open>os.IsTimeout\<close>. The retry library runs over the world and the two
  variables its function assigns, the last deployment and the last error.
\<close>

type_synonym 'w attempt_state = "'w \<times> kube_deployment option \<times> go_error option"

record 'w kube_env =
  ke_api :: "'w kube_api"
  ke_timeout :: int
  ke_interval :: int
  ke_compile :: "string \<Rightarrow> (string \<Rightarrow> bool) option"
  ke_retry :: "'w attempt_state retry_lib"
  ke_is_timeout :: "go_error \<Rightarrow> bool"

subsection \<open>The client\<close>

definition GetKubernetesDeployment ::
    "'w kube_env \<Rightarrow> string \<Rightarrow> string \<Rightarrow> 'w \<Rightarrow> (kube_deployment option \<times> go_error option) \<times> 'w" where
  "GetKubernetesDeployment env name namespace w =
     (case ka_get (ke_api env) namespace name w of
        ((d, Some (KubeNotFound s)), w1) \<Rightarrow> ((None, Some ErrDeploymentNotFound), w1)
      | ((d, err), w1) \<Rightarrow> ((Some d, map_option kube_go_error err), w1))"

definition GetKubernetesDeploymentWithSelector ::
    "'w kube_env \<Rightarrow> string \<Rightarrow> string \<Rightarrow> 'w \<Rightarrow> (kube_deployment option \<times> go_error option) \<times> 'w" where
  "GetKubernetesDeploymentWithSelector env selector namespace w =
     (case ka_list (ke_api env) namespace w of
        ((items, Some e), w1) \<Rightarrow> ((None, Some ErrDeploymentNotFound), w1)
      | ((items, None), w1) \<Rightarrow>
          (case ke_compile env (anchor_end selector) of
             None \<Rightarrow>
               ((None, Some (GoErr (''invalid regular expression for deployment selector: '' @ anchor_end selector))), w1)
           | Some matches \<Rightarrow>
               (case find (\<lambda>d. matches (kd_name d)) items of
                  None \<Rightarrow> ((None, Some ErrDeploymentNotFound), w1)
                | Some d \<Rightarrow> GetKubernetesDeployment env (kd_name d) namespace w1)))"

text \<open>Reading the replicas through their pointer panics where it is nil.\<close>

definition to_deployment :: "kube_deployment \<Rightarrow> deployment res" where
  "to_deployment d =
     (case kd_replicas d of
        None \<Rightarrow> Panicked
      | Some n \<Rightarrow>
          Returned \<lparr>d_name = kd_name d, d_namespace = kd_namespace d, d_resource_version = kd_resource_version d,
            d_meta = kd_labels d, d_instances = n\<rparr>)"

definition from_kube :: "(kube_deployment option \<times> go_error option) \<times> 'w \<Rightarrow>
    (deployment option \<times> go_error option) res \<times> 'w" where
  "from_kube rw =
     (case rw of
        ((None, err), w1) \<Rightarrow> (Returned (None, err), w1)
      | ((Some dep, err), w1) \<Rightarrow>
          (case to_deployment dep of Panicked \<Rightarrow> (Panicked, w1) | Returned d \<Rightarrow> (Returned (Some d, err), w1)))"

definition kube_GetDeployment ::
    "'w kube_env \<Rightarrow> string \<Rightarrow> string \<Rightarrow> 'w \<Rightarrow> (deployment option \<times> go_error option) res \<times> 'w" where
  "kube_GetDeployment env name namespace w = from_kube (GetKubernetesDeployment env name namespace w)"

definition kube_GetDeploymentWithSelector ::
    "'w kube_env \<Rightarrow> string \<Rightarrow> string \<Rightarrow> 'w \<Rightarrow> (deployment option \<times> go_error option) res \<times> 'w" where
  "kube_GetDeploymentWithSelector env selector namespace w =
     from_kube (GetKubernetesDeploymentWithSelector env selector namespace w)"

definition UpsertKubernetesDeployment ::
    "'w kube_env \<Rightarrow> kube_deployment \<Rightarrow> 'w \<Rightarrow> go_error option res \<times> 'w" where
  "UpsertKubernetesDeployment env dep0 w =
     (let labels = (case kd_labels dep0 of None \<Rightarrow> Map.empty | Some m \<Rightarrow> m);
          dep = dep0\<lparr>kd_labels := Some (labels(RuntimeDeploymentVersionLabel \<mapsto> kd_resource_version dep0))\<rparr>
      in bind_res (kube_GetDeployment env (kd_name dep) (kd_namespace dep) w) (\<lambda>(_, err) w1.
           if err = Some ErrDeploymentNotFound then
             (case ka_create (ke_api env) (kd_namespace dep) dep w1 of (e, w2) \<Rightarrow> (Returned (map_option kube_go_error e), w2))
           else if err \<noteq> None then (Returned err, w1)
           else
             (case ka_update (ke_api env) (kd_namespace dep) dep w1 of (e, w2) \<Rightarrow> (Returned (map_option kube_go_error e), w2))))"

definition DeleteKubernetesDeployment :: "'w kube_env \<Rightarrow> string \<Rightarrow> string \<Rightarrow> 'w \<Rightarrow> go_error option \<times> 'w" where
  "DeleteKubernetesDeployment env name namespace w =
     (case ka_delete (ke_api env) namespace name w of
        (Some (KubeNotFound s), w1) \<Rightarrow> (Some ErrDeploymentNotFound, w1)
      | (e, w1) \<Rightarrow> (map_option kube_go_error e, w1))"

text \<open>
  One attempt of the health check. The test for zero replicas compares two pointers to
  different variables, which is never true, so it has no branch here. Without an error
  the deployment is there.
\<close>

definition healthy_attempt ::
    "'w kube_env \<Rightarrow> string \<Rightarrow> string \<Rightarrow> 'w attempt_state \<Rightarrow> go_error option \<times> 'w attempt_state" where
  "healthy_attempt env name namespace s =
     (case GetKubernetesDeployment env name namespace (fst s) of
        ((dep, Some e), w1) \<Rightarrow>
          (if e = ErrDeploymentNotFound then (Some e, (w1, dep, Some e))
           else (Some (wrap_err ''error calling GetDeployment: '' e), (w1, dep, Some e)))
      | ((dep, None), w1) \<Rightarrow>
          if kd_unavailable (the dep) > 0 \<or> kd_available (the dep) < 1
          then (Some ErrDeploymentNotHealthy, (w1, dep, Some ErrDeploymentNotHealthy))
          else (None, (w1, dep, None)))"

definition GetHealthyKubernetesDeployment ::
    "'w kube_env \<Rightarrow> string \<Rightarrow> string \<Rightarrow> 'w \<Rightarrow> (kube_deployment option \<times> go_error option) \<times> 'w" where
  "GetHealthyKubernetesDeployment env name namespace w =
     (case ke_retry env (ke_timeout env) (ke_interval env) (healthy_attempt env name namespace) (w, None, None) of
        (err, (w1, dep, lastError)) \<Rightarrow>
          if (case err of None \<Rightarrow> False | Some e \<Rightarrow> ke_is_timeout env e) then ((None, lastError), w1)
          else ((dep, None), w1))"

definition kube_GetHealthyDeployment ::
    "'w kube_env \<Rightarrow> string \<Rightarrow> string \<Rightarrow> 'w \<Rightarrow> (deployment option \<times> go_error option) res \<times> 'w" where
  "kube_GetHealthyDeployment env name namespace w =
     (case GetHealthyKubernetesDeployment env name namespace w of
        ((_, Some e), w1) \<Rightarrow> (Returned (None, Some e), w1)
      | ((None, None), w1) \<Rightarrow> (Panicked, w1)
      | ((Some dep, None), w1) \<Rightarrow>
          (case to_deployment dep of Panicked \<Rightarrow> (Panicked, w1) | Returned d \<Rightarrow> (Returned (Some d, None), w1)))"

definition kube_InsertRelease :: "'w kube_env \<Rightarrow> string \<Rightarrow> 'w \<Rightarrow> go_error option \<times> 'w" where
  "kube_InsertRelease env release w =
     (case ka_create_release (ke_api env) release w of (e, w1) \<Rightarrow> (map_option kube_go_error e, w1))"

definition kube_DeleteRelease :: "'w kube_env \<Rightarrow> string \<Rightarrow> string \<Rightarrow> 'w \<Rightarrow> go_error option \<times> 'w" where
  "kube_DeleteRelease env name namespace w =
     (case ka_delete_release (ke_api env) name namespace w of
        (Some (KubeNotFound s), w1) \<Rightarrow> (Some ErrDeploymentNotFound, w1)
      | (e, w1) \<Rightarrow> (map_option kube_go_error e, w1))"

text \<open>The conversion \<open>int32(n)\<close>.\<close>

definition to_int32 :: "int \<Rightarrow> int" where
  "to_int32 n = (n + 2 ^ 31) mod 2 ^ 32 - 2 ^ 31"

lemma to_int32_id: "- (2 ^ 31) \<le> n \<Longrightarrow> n < 2 ^ 31 \<Longrightarrow> to_int32 n = n"
  by (simp add: to_int32_def)

lemma to_int32_range: "- (2 ^ 31) \<le> to_int32 n \<and> to_int32 n < 2 ^ 31"
  by (simp add: to_int32_def)

text \<open>The pointer is only read through without an error, so it is not nil.\<close>

definition kube_UpdateDeployment :: "'w kube_env \<Rightarrow> deployment \<Rightarrow> 'w \<Rightarrow> go_error option res \<times> 'w" where
  "kube_UpdateDeployment env d w =
     (case GetKubernetesDeployment env (d_name d) (d_namespace d) w of
        ((_, Some e), w1) \<Rightarrow> (Returned (Some e), w1)
      | ((dep, None), w1) \<Rightarrow>
          UpsertKubernetesDeployment env
            ((the dep)\<lparr>kd_labels := d_meta d, kd_resource_version := d_resource_version d,
               kd_replicas := Some (to_int32 (d_instances d))\<rparr>) w1)"

definition kube_CloneDeployment :: "'w kube_env \<Rightarrow> deployment \<Rightarrow> deployment \<Rightarrow> 'w \<Rightarrow> go_error option res \<times> 'w" where
  "kube_CloneDeployment env existing new w =
     (case GetKubernetesDeployment env (d_name existing) (d_namespace existing) w of
        ((_, Some e), w1) \<Rightarrow> (Returned (Some e), w1)
      | ((dep, None), w1) \<Rightarrow>
          UpsertKubernetesDeployment env
            ((the dep)\<lparr>kd_name := d_name new, kd_namespace := d_namespace new, kd_labels := d_meta new,
               kd_resource_version := d_resource_version new\<rparr>) w1)"

definition kube_DeleteDeployment :: "'w kube_env \<Rightarrow> string \<Rightarrow> string \<Rightarrow> 'w \<Rightarrow> go_error option res \<times> 'w" where
  "kube_DeleteDeployment env name namespace w =
     (case DeleteKubernetesDeployment env name namespace w of (e, w1) \<Rightarrow> (Returned e, w1))"

definition kube_CandidateSubsetFilter :: string where
  "kube_CandidateSubsetFilter = ''Service.ID not contains '' @ [CHR 0x22] @ ''primary'' @ [CHR 0x22]"

definition kube_PrimarySubsetFilter :: string where
  "kube_PrimarySubsetFilter = ''Service.ID contains '' @ [CHR 0x22] @ ''primary'' @ [CHR 0x22]"

definition kube_client :: "'w kube_env \<Rightarrow> 'w runtime_client" where
  "kube_client env =
     \<lparr>rt_get = kube_GetDeployment env, rt_get_selector = kube_GetDeploymentWithSelector env,
      rt_update = kube_UpdateDeployment env, rt_clone = kube_CloneDeployment env,
      rt_delete = kube_DeleteDeployment env, rt_healthy = kube_GetHealthyDeployment env,
      rt_candidate_filter = kube_CandidateSubsetFilter, rt_primary_filter = kube_PrimarySubsetFilter\<rparr>"

subsection \<open>What the API documents\<close>

text \<open>
  Stored deployments have their own name and namespace and their replicas set. Reads change
  nothing; a successful write stores the object, with a new resource version and a default
  for replicas left out; a deletion removes it. Waiting for health ends in a timeout or in
  success.
\<close>

type_synonym kube_view = "string \<times> string \<rightharpoonup> kube_deployment"

definition kube_reads_documented :: "('w \<Rightarrow> kube_view) \<Rightarrow> 'w kube_api \<Rightarrow> bool" where
  "kube_reads_documented view api \<longleftrightarrow>
     (\<forall>ns n w r e w1. ka_get api ns n w = ((r, e), w1) \<longrightarrow> view w1 = view w \<and>
        (case e of None \<Rightarrow> view w (n, ns) = Some r
         | Some (KubeNotFound s) \<Rightarrow> view w (n, ns) = None
         | Some (KubeOther x) \<Rightarrow> x \<noteq> ErrDeploymentNotFound)) \<and>
     (\<forall>ns w r e w1. ka_list api ns w = ((r, e), w1) \<longrightarrow> view w1 = view w)"

definition kube_writes_documented :: "('w \<Rightarrow> kube_view) \<Rightarrow> 'w kube_api \<Rightarrow> bool" where
  "kube_writes_documented view api \<longleftrightarrow>
     (\<forall>ns d n w w1. (ka_create api ns d w = (None, w1) \<or> ka_update api ns d w = (None, w1)) \<longrightarrow>
        kd_replicas d = Some n \<longrightarrow> kd_namespace d = ns \<longrightarrow>
        (\<exists>d'. view w1 = (view w)((kd_name d, ns) \<mapsto> d') \<and> kd_replicas d' = Some n \<and> kd_labels d' = kd_labels d)) \<and>
     (\<forall>ns n w w1. ka_delete api ns n w = (None, w1) \<longrightarrow> view w1 = (view w)((n, ns) := None)) \<and>
     (\<forall>ns n s w w1. ka_delete api ns n w = (Some (KubeNotFound s), w1) \<longrightarrow> view w1 = view w \<and> view w (n, ns) = None) \<and>
     (\<forall>ns n x w w1. ka_delete api ns n w = (Some (KubeOther x), w1) \<longrightarrow> x \<noteq> ErrDeploymentNotFound)"

definition kube_documented :: "('w \<Rightarrow> kube_view) \<Rightarrow> 'w kube_env \<Rightarrow> bool" where
  "kube_documented view env \<longleftrightarrow>
     kube_reads_documented view (ke_api env) \<and> kube_writes_documented view (ke_api env) \<and>
     (\<forall>w n ns d. view w (n, ns) = Some d \<longrightarrow> kd_name d = n \<and> kd_namespace d = ns \<and> kd_replicas d \<noteq> None) \<and>
     retry_documented (ke_retry env) \<and>
     (\<forall>f s e s1. ke_retry env (ke_timeout env) (ke_interval env) f s = (Some e, s1) \<longrightarrow> ke_is_timeout env e)"

definition instances_of :: "kube_view \<Rightarrow> cluster" where
  "instances_of v k = (case v k of None \<Rightarrow> None | Some d \<Rightarrow> kd_replicas d)"

lemma instances_of_upd: "kd_replicas d = Some n \<Longrightarrow> instances_of (v(k \<mapsto> d)) = (instances_of v)(k \<mapsto> n)"
  and instances_of_del: "instances_of (v(k := None)) = (instances_of v)(k := None)"
  by (auto simp: instances_of_def fun_eq_iff)

locale kube_platform =
  fixes env :: "'w kube_env" and view :: "'w \<Rightarrow> kube_view"
  assumes doc: "kube_documented view env"
begin

lemma reads: "kube_reads_documented view (ke_api env)"
  and writes: "kube_writes_documented view (ke_api env)"
  and stored: "view w (n, ns) = Some d \<Longrightarrow> kd_name d = n \<and> kd_namespace d = ns \<and> kd_replicas d \<noteq> None"
  and retry: "retry_documented (ke_retry env)"
  and timeouts: "ke_retry env (ke_timeout env) (ke_interval env) f s = (Some e, s1) \<Longrightarrow> ke_is_timeout env e"
  using doc unfolding kube_documented_def by blast+

lemma get_effect:
  assumes "GetKubernetesDeployment env n ns w = ((r, e), w1)"
  shows "view w1 = view w" and "e = None \<Longrightarrow> r \<noteq> None \<and> view w (n, ns) = r"
    and "e = Some ErrDeploymentNotFound \<Longrightarrow> r = None \<and> view w (n, ns) = None"
proof -
  obtain d ke w' where g: "ka_get (ke_api env) ns n w = ((d, ke), w')" by (metis prod.collapse)
  with reads have v: "view w' = view w" and c: "case ke of None \<Rightarrow> view w (n, ns) = Some d
      | Some (KubeNotFound s) \<Rightarrow> view w (n, ns) = None | Some (KubeOther x) \<Rightarrow> x \<noteq> ErrDeploymentNotFound"
    unfolding kube_reads_documented_def by blast+
  have w1: "w1 = w'" and ok: "ke = None \<Longrightarrow> r = Some d \<and> e = None"
    and missing: "\<And>s. ke = Some (KubeNotFound s) \<Longrightarrow> r = None \<and> e = Some ErrDeploymentNotFound"
    and other: "\<And>x. ke = Some (KubeOther x) \<Longrightarrow> e = Some x"
    using assms g by (auto simp: GetKubernetesDeployment_def split: option.splits kube_error.splits)
  show "view w1 = view w" using v w1 by simp
  consider "ke = None" | s where "ke = Some (KubeNotFound s)" | x where "ke = Some (KubeOther x)"
    by (metis kube_error.exhaust option.exhaust)
  then show "e = None \<Longrightarrow> r \<noteq> None \<and> view w (n, ns) = r"
    and "e = Some ErrDeploymentNotFound \<Longrightarrow> r = None \<and> view w (n, ns) = None"
    using ok missing other c by (cases; simp)+
qed

lemma find_some_member: "find P xs = Some x \<Longrightarrow> x \<in> set xs \<and> P x"
  by (auto simp: find_Some_iff)

lemma selector_effect:
  assumes "GetKubernetesDeploymentWithSelector env sel ns w = ((r, e), w1)"
  shows "view w1 = view w" and "e = None \<Longrightarrow> r = Some d \<Longrightarrow> view w (kd_name d, ns) = Some d"
proof -
  obtain items le w' where l: "ka_list (ke_api env) ns w = ((items, le), w')" by (metis prod.collapse)
  have v: "view w' = view w" using reads l unfolding kube_reads_documented_def by blast
  have cases: "w1 = w' \<and> e \<noteq> None \<or> (\<exists>c :: kube_deployment. GetKubernetesDeployment env (kd_name c) ns w' = ((r, e), w1))"
    using assms l by (auto simp: GetKubernetesDeploymentWithSelector_def split: option.splits)
  with v get_effect(1) show "view w1 = view w" by metis
  show "view w (kd_name d, ns) = Some d" if "e = None" "r = Some d"
  proof -
    obtain c :: kube_deployment where g: "GetKubernetesDeployment env (kd_name c) ns w' = ((r, e), w1)"
      using cases \<open>e = None\<close> by blast
    from get_effect(2) [OF g] that v have "view w (kd_name c, ns) = Some d" by simp
    with stored [OF this] show ?thesis by simp
  qed
qed

lemma to_deployment_fields:
  "to_deployment k = Returned d \<Longrightarrow> d_name d = kd_name k \<and> d_namespace d = kd_namespace k \<and>
     kd_replicas k = Some (d_instances d)"
  by (auto simp: to_deployment_def split: option.splits)

lemma from_kube_returned:
  "from_kube ((k, e), w') = (Returned (r, e'), w1) \<Longrightarrow>
     w1 = w' \<and> e' = e \<and> (case k of None \<Rightarrow> r = None | Some x \<Rightarrow> \<exists>d. to_deployment x = Returned d \<and> r = Some d)"
  by (auto simp: from_kube_def split: option.splits res.splits)

lemma GetDeployment_effect:
  assumes "kube_GetDeployment env n ns w = (Returned (r, e), w1)"
  shows "view w1 = view w"
    and "e = None \<Longrightarrow> \<exists>d. r = Some d \<and> instances_of (view w) (n, ns) = Some (d_instances d) \<and>
           d_name d = n \<and> d_namespace d = ns"
    and "e = Some ErrDeploymentNotFound \<Longrightarrow> view w (n, ns) = None"
proof -
  obtain k ke w' where g: "GetKubernetesDeployment env n ns w = ((k, ke), w')" by (metis prod.collapse)
  from assms g have f: "w1 = w'" "e = ke"
    "case k of None \<Rightarrow> r = None | Some x \<Rightarrow> \<exists>d. to_deployment x = Returned d \<and> r = Some d"
    using from_kube_returned [of k ke w' r e w1] by (simp_all add: kube_GetDeployment_def)
  from get_effect [OF g] f show "view w1 = view w" "e = Some ErrDeploymentNotFound \<Longrightarrow> view w (n, ns) = None"
    by auto
  assume "e = None"
  with get_effect [OF g] f obtain x where x: "k = Some x" "view w (n, ns) = Some x" by auto
  with f(3) obtain d where "to_deployment x = Returned d" "r = Some d" by auto
  with x stored [OF x(2)] to_deployment_fields [of x d]
  show "\<exists>d. r = Some d \<and> instances_of (view w) (n, ns) = Some (d_instances d) \<and> d_name d = n \<and> d_namespace d = ns"
    by (auto simp: instances_of_def)
qed

lemma write_effect:
  assumes "ka_create (ke_api env) ns d w = (None, w1) \<or> ka_update (ke_api env) ns d w = (None, w1)"
    and "kd_replicas d = Some n" and "kd_namespace d = ns"
  shows "\<exists>d'. view w1 = (view w)((kd_name d, ns) \<mapsto> d') \<and> kd_replicas d' = Some n \<and> kd_labels d' = kd_labels d"
  using writes assms unfolding kube_writes_documented_def by blast

lemma upsert_stored:
  assumes "UpsertKubernetesDeployment env dep w = (Returned None, w1)" and n: "kd_replicas dep = Some n"
  shows "\<exists>d'. view w1 = (view w)((kd_name dep, kd_namespace dep) \<mapsto> d') \<and> kd_replicas d' = Some n \<and>
    meta_get (kd_labels d') RuntimeDeploymentVersionLabel = kd_resource_version dep"
proof -
  let ?dep = "dep\<lparr>kd_labels := Some ((case kd_labels dep of None \<Rightarrow> Map.empty | Some m \<Rightarrow> m)
                (RuntimeDeploymentVersionLabel \<mapsto> kd_resource_version dep))\<rparr>"
  from assms(1) obtain r err w' where
    g: "kube_GetDeployment env (kd_name ?dep) (kd_namespace ?dep) w = (Returned (r, err), w')"
    and u: "ka_create (ke_api env) (kd_namespace ?dep) ?dep w' = (None, w1) \<or>
            ka_update (ke_api env) (kd_namespace ?dep) ?dep w' = (None, w1)"
    by (auto simp: UpsertKubernetesDeployment_def Let_def bind_res_returned split: if_splits prod.splits)
  have "\<exists>d'. view w1 = (view w')((kd_name ?dep, kd_namespace ?dep) \<mapsto> d') \<and> kd_replicas d' = Some n \<and> kd_labels d' = kd_labels ?dep"
    by (rule write_effect [OF u]) (simp_all add: n)
  then obtain d' where d': "view w1 = (view w')((kd_name dep, kd_namespace dep) \<mapsto> d')" "kd_replicas d' = Some n"
    "kd_labels d' = kd_labels ?dep"
    by auto
  with GetDeployment_effect(1) [OF g] show ?thesis by (intro exI [of _ d']) (simp add: meta_get_def)
qed

lemma upsert_effect:
  assumes "UpsertKubernetesDeployment env dep w = (Returned None, w1)" and "kd_replicas dep = Some n"
  shows "instances_of (view w1) = (instances_of (view w))((kd_name dep, kd_namespace dep) \<mapsto> n)"
  using upsert_stored [OF assms] by (auto simp: instances_of_upd)

lemma clone_label:
  assumes "kube_CloneDeployment env f d w = (Returned None, w1)"
  shows "\<exists>d'. view w1 (d_name d, d_namespace d) = Some d' \<and>
    meta_get (kd_labels d') RuntimeDeploymentVersionLabel = d_resource_version d"
proof -
  obtain dep w' where g: "GetKubernetesDeployment env (d_name f) (d_namespace f) w = ((dep, None), w')"
    and u: "UpsertKubernetesDeployment env ((the dep)\<lparr>kd_name := d_name d, kd_namespace := d_namespace d,
       kd_labels := d_meta d, kd_resource_version := d_resource_version d\<rparr>) w' = (Returned None, w1)"
    using assms by (auto simp: kube_CloneDeployment_def split: prod.splits option.splits)
  obtain x n where "dep = Some x" "kd_replicas x = Some n" using get_effect(2) [OF g] stored by fastforce
  with upsert_stored [OF u] show ?thesis by auto
qed

lemma attempt_keeps: "calls_keep (healthy_attempt env n ns) (\<lambda>s. view (fst s) = v)"
  using get_effect(1)
  by (auto simp: calls_keep_def healthy_attempt_def split: prod.splits option.splits if_splits)

lemma healthy_effect:
  assumes "GetHealthyKubernetesDeployment env n ns w = ((r, e), w1)"
  shows "view w1 = view w" and "e = None \<Longrightarrow> r = Some d \<Longrightarrow> view w (n, ns) = Some d"
proof -
  obtain err s1 where l: "ke_retry env (ke_timeout env) (ke_interval env) (healthy_attempt env n ns) (w, None, None) = (err, s1)"
    by (metis prod.exhaust)
  have "view (fst (snd (ke_retry env (ke_timeout env) (ke_interval env) (healthy_attempt env n ns) (w, None, None)))) = view w"
    by (rule retry_documented_keeps [OF retry attempt_keeps]) simp
  with l have s1: "view (fst s1) = view w" by simp
  from assms l have w1: "w1 = fst s1"
    by (auto simp: GetHealthyKubernetesDeployment_def split: prod.splits if_splits)
  with s1 show "view w1 = view w" by simp
  assume e: "e = None" "r = Some d"
  have ok: "err = None"
  proof (rule ccontr)
    assume "err \<noteq> None"
    then obtain x where x: "err = Some x" by auto
    with l timeouts have "ke_is_timeout env x" by blast
    with assms l x e show False by (auto simp: GetHealthyKubernetesDeployment_def split: prod.splits)
  qed
  with l obtain s0 where a: "healthy_attempt env n ns s0 = (None, s1)"
    and k: "\<forall>P. calls_keep (healthy_attempt env n ns) P \<longrightarrow> P (w, None, None) \<longrightarrow> P s0"
    using retry_documented_success [OF retry] by blast
  have v0: "view (fst s0) = view w" using k attempt_keeps [of n ns "view w"] by fastforce
  from a obtain dep w' where g: "GetKubernetesDeployment env n ns (fst s0) = ((dep, None), w')" and "s1 = (w', dep, None)"
    by (auto simp: healthy_attempt_def split: prod.splits option.splits if_splits)
  with assms l ok e have "dep = Some d"
    by (auto simp: GetHealthyKubernetesDeployment_def)
  with get_effect(2) [OF g] v0 show "view w (n, ns) = Some d" by simp
qed

lemma delete_effect:
  assumes "DeleteKubernetesDeployment env n ns w = (e, w1)"
  shows "e = None \<Longrightarrow> view w1 = (view w)((n, ns) := None)"
    and "e = Some ErrDeploymentNotFound \<Longrightarrow> view w1 = view w \<and> view w (n, ns) = None"
proof -
  obtain ke w' where k: "ka_delete (ke_api env) ns n w = (ke, w')" by fastforce
  have w1: "w1 = w'" and e: "e = (case ke of None \<Rightarrow> None | Some (KubeNotFound s) \<Rightarrow> Some ErrDeploymentNotFound
      | Some (KubeOther x) \<Rightarrow> Some x)"
    using assms k by (auto simp: DeleteKubernetesDeployment_def split: option.splits kube_error.splits)
  consider "ke = None" | s where "ke = Some (KubeNotFound s)" | x where "ke = Some (KubeOther x)" "x \<noteq> ErrDeploymentNotFound"
    using writes k unfolding kube_writes_documented_def by (metis kube_error.exhaust option.exhaust)
  then show "e = None \<Longrightarrow> view w1 = (view w)((n, ns) := None)"
    and "e = Some ErrDeploymentNotFound \<Longrightarrow> view w1 = view w \<and> view w (n, ns) = None"
    using w1 e k writes unfolding kube_writes_documented_def by (cases; simp; metis)+
qed

end

sublocale kube_platform \<subseteq> platform: runtime_contract "kube_client env" "\<lambda>w. instances_of (view w)" "\<lambda>w. True"
proof
  fix w w1 :: 'w and n ns sel r e and d f :: deployment
  show "True \<and> instances_of (view w1) = instances_of (view w) \<and>
      (\<exists>d. r = Some d \<and> instances_of (view w) (n, ns) = Some (d_instances d) \<and> d_name d = n \<and> d_namespace d = ns)"
    if "rt_get (kube_client env) n ns w = (Returned (r, None), w1)"
    using that GetDeployment_effect(1,2) [of n ns w r None w1] by (simp add: kube_client_def)
  show "True \<and> instances_of (view w1) = instances_of (view w) \<and>
      (e = ErrDeploymentNotFound \<longrightarrow> instances_of (view w) (n, ns) = None)"
    if "rt_get (kube_client env) n ns w = (Returned (r, Some e), w1)"
    using that GetDeployment_effect(1,3) [of n ns w r "Some e" w1] by (simp add: kube_client_def instances_of_def)
  show "True \<and> instances_of (view w1) = instances_of (view w) \<and>
      (\<forall>d. r = Some d \<longrightarrow> instances_of (view w) (d_name d, ns) = Some (d_instances d) \<and> d_namespace d = ns)"
    if "rt_get_selector (kube_client env) sel ns w = (Returned (r, None), w1)"
  proof -
    obtain k ke w' where g: "GetKubernetesDeploymentWithSelector env sel ns w = ((k, ke), w')" by (metis prod.collapse)
    have f: "w1 = w'" "ke = None"
      "case k of None \<Rightarrow> r = None | Some x \<Rightarrow> \<exists>d. to_deployment x = Returned d \<and> r = Some d"
      using that g from_kube_returned [of k ke w' r None w1]
      by (simp_all add: kube_client_def kube_GetDeploymentWithSelector_def)
    have "instances_of (view w) (d_name d, ns) = Some (d_instances d) \<and> d_namespace d = ns" if rd: "r = Some d" for d
    proof -
      obtain x where x: "k = Some x" "to_deployment x = Returned d" using f(3) rd by (auto split: option.splits)
      have "view w (kd_name x, ns) = Some x" using selector_effect(2) [OF g] f(2) x(1) by simp
      with stored [OF this] to_deployment_fields [OF x(2)] show ?thesis by (simp add: instances_of_def)
    qed
    with f(1) selector_effect(1) [OF g] show ?thesis by simp
  qed
  show "True \<and> instances_of (view w1) = instances_of (view w)"
    if "rt_get_selector (kube_client env) sel ns w = (Returned (r, Some e), w1)"
  proof -
    obtain k ke w' where g: "GetKubernetesDeploymentWithSelector env sel ns w = ((k, ke), w')" by (metis prod.collapse)
    then have "w1 = w'" using that from_kube_returned [of k ke w' r "Some e" w1]
      by (simp add: kube_client_def kube_GetDeploymentWithSelector_def)
    with selector_effect(1) [OF g] show ?thesis by simp
  qed
  show "True \<and> instances_of (view w1) = (instances_of (view w))((d_name d, d_namespace d) \<mapsto> d_instances d)"
    if op: "rt_update (kube_client env) d w = (Returned None, w1)"
      and range: "0 \<le> d_instances d" "d_instances d < 2 ^ 31"
  proof -
    obtain dep w' where g: "GetKubernetesDeployment env (d_name d) (d_namespace d) w = ((dep, None), w')"
      and u: "UpsertKubernetesDeployment env ((the dep)\<lparr>kd_labels := d_meta d,
         kd_resource_version := d_resource_version d, kd_replicas := Some (to_int32 (d_instances d))\<rparr>) w' = (Returned None, w1)"
      using op by (auto simp: kube_client_def kube_UpdateDeployment_def split: prod.splits option.splits)
    obtain x where x: "dep = Some x" "view w (d_name d, d_namespace d) = Some x" using get_effect(2) [OF g] by auto
    with upsert_effect [OF u] stored [OF x(2)] get_effect(1) [OF g] range show ?thesis
      by (simp add: to_int32_id)
  qed
  show "True \<and> instances_of (view w1) = (instances_of (view w))((d_name d, d_namespace d) \<mapsto> d_instances d)"
    if op: "rt_clone (kube_client env) f d w = (Returned None, w1)" and same: "d_instances d = d_instances f"
      and there: "instances_of (view w) (d_name f, d_namespace f) = Some (d_instances f)"
  proof -
    obtain dep w' where g: "GetKubernetesDeployment env (d_name f) (d_namespace f) w = ((dep, None), w')"
      and u: "UpsertKubernetesDeployment env ((the dep)\<lparr>kd_name := d_name d, kd_namespace := d_namespace d,
         kd_labels := d_meta d, kd_resource_version := d_resource_version d\<rparr>) w' = (Returned None, w1)"
      using op by (auto simp: kube_client_def kube_CloneDeployment_def split: prod.splits option.splits)
    obtain x where x: "dep = Some x" "view w (d_name f, d_namespace f) = Some x" using get_effect(2) [OF g] by auto
    with there same have "kd_replicas x = Some (d_instances d)" by (simp add: instances_of_def)
    with upsert_effect [OF u] x get_effect(1) [OF g] show ?thesis by simp
  qed
  show "True \<and> instances_of (view w1) = (instances_of (view w))((n, ns) := None)"
    if "rt_delete (kube_client env) n ns w = (Returned None, w1)"
    using that delete_effect(1) [of n ns w None w1]
    by (simp add: kube_client_def kube_DeleteDeployment_def instances_of_del split: prod.splits)
  show "True \<and> instances_of (view w1) = instances_of (view w) \<and> instances_of (view w) (n, ns) = None"
    if "rt_delete (kube_client env) n ns w = (Returned (Some ErrDeploymentNotFound), w1)"
    using that delete_effect(2) [of n ns w "Some ErrDeploymentNotFound" w1]
    by (simp add: kube_client_def kube_DeleteDeployment_def instances_of_def split: prod.splits)
  show "True \<and> instances_of (view w1) = instances_of (view w) \<and>
      (\<exists>d. r = Some d \<and> instances_of (view w) (n, ns) = Some (d_instances d) \<and> d_name d = n \<and> d_namespace d = ns)"
    if op: "rt_healthy (kube_client env) n ns w = (Returned (r, None), w1)"
  proof -
    obtain x d where h: "GetHealthyKubernetesDeployment env n ns w = ((Some x, None), w1)"
      and d: "to_deployment x = Returned d" "r = Some d"
      using op by (auto simp: kube_client_def kube_GetHealthyDeployment_def split: prod.splits option.splits res.splits)
    have "view w (n, ns) = Some x" using healthy_effect(2) [OF h] by simp
    with stored [OF this] to_deployment_fields [OF d(1)] d(2) healthy_effect(1) [OF h] show ?thesis
      by (simp add: instances_of_def)
  qed
  show "True \<and> instances_of (view w1) = instances_of (view w)"
    if op: "rt_healthy (kube_client env) n ns w = (Returned (r, Some e), w1)"
  proof -
    obtain y x where "GetHealthyKubernetesDeployment env n ns w = ((y, Some x), w1)"
      using op by (auto simp: kube_client_def kube_GetHealthyDeployment_def split: prod.splits option.splits res.splits)
    from healthy_effect(1) [OF this] show ?thesis by simp
  qed
qed

text \<open>What the runtime plugin achieves, on every cluster whose API is as documented.\<close>

context kube_platform
begin

lemmas InitPrimary_here = platform.InitPrimary_update
lemmas InitPrimary_nothing = platform.InitPrimary_no_action
lemmas PromoteCandidate_here = platform.PromoteCandidate_update platform.PromoteCandidate_not_found
lemmas RemoveCandidate_here = platform.RemoveCandidate_ok
lemmas RestoreOriginal_here = platform.RestoreOriginal_ok
lemmas RemovePrimary_here = platform.RemovePrimary_ok

end

subsection \<open>A reference cluster\<close>

type_synonym ref_cluster = "((string \<times> string) \<times> kube_deployment) list"

definition ref_kube_view :: "ref_cluster \<Rightarrow> kube_view" where
  "ref_kube_view w k =
     (case map_of w k of
        None \<Rightarrow> None
      | Some d \<Rightarrow>
          if kd_name d = fst k \<and> kd_namespace d = snd k \<and> kd_replicas d \<noteq> None then Some d else None)"

definition kube_object :: "string \<Rightarrow> int option \<Rightarrow> kube_deployment" where
  "kube_object name n =
     \<lparr>kd_name = name, kd_namespace = ''default'', kd_labels = None, kd_resource_version = ''7'',
      kd_replicas = n, kd_available = 1, kd_unavailable = 0, kd_rest = ''''\<rparr>"

definition ref_store_deployment :: "string \<Rightarrow> kube_deployment \<Rightarrow> ref_cluster \<Rightarrow> kube_error option \<times> ref_cluster" where
  "ref_store_deployment ns d w =
     (if kd_replicas d = None then (Some (KubeOther (GoErr ''replicas'')), w)
      else (None, ((kd_name d, ns), d) # w))"

definition reference_kube_api :: "ref_cluster kube_api" where
  "reference_kube_api =
     \<lparr>ka_list = (\<lambda>ns w. ((map snd (filter (\<lambda>x. snd (fst x) = ns) w), None), w)),
      ka_get = (\<lambda>ns n w. (case ref_kube_view w (n, ns) of
          None \<Rightarrow> (kube_object '''' None, Some (KubeNotFound ''not found'')) | Some d \<Rightarrow> (d, None), w)),
      ka_create = ref_store_deployment, ka_update = ref_store_deployment,
      ka_delete = (\<lambda>ns n w. case ref_kube_view w (n, ns) of
          None \<Rightarrow> (Some (KubeNotFound ''not found''), w) | Some d \<Rightarrow> (None, filter (\<lambda>x. fst x \<noteq> (n, ns)) w)),
      ka_create_release = (\<lambda>r w. (None, w)), ka_delete_release = (\<lambda>n ns w. (None, w))\<rparr>"

definition reference_kube :: "ref_cluster kube_env" where
  "reference_kube =
     \<lparr>ke_api = reference_kube_api, ke_timeout = 0, ke_interval = 1,
      ke_compile = (\<lambda>p. Some (\<lambda>s. s @ ''$'' = p)), ke_retry = reference_retry, ke_is_timeout = (\<lambda>_. True)\<rparr>"

lemma map_of_filter_key: "map_of (filter (\<lambda>x. fst x \<noteq> k) w) = (map_of w)(k := None)"
  by (induction w) (auto simp: fun_eq_iff)

lemma ref_kube_delete: "ref_kube_view (filter (\<lambda>x. fst x \<noteq> k) w) = (ref_kube_view w)(k := None)"
  by (auto simp: ref_kube_view_def map_of_filter_key fun_eq_iff)

lemma ref_kube_store:
  "kd_replicas d = Some n \<Longrightarrow> ref_kube_view (((kd_name d, kd_namespace d), d) # w) =
     (ref_kube_view w)((kd_name d, kd_namespace d) \<mapsto> d)"
  by (auto simp: ref_kube_view_def fun_eq_iff)

lemma reference_kube_documented: "kube_documented ref_kube_view reference_kube"
proof -
  have "kube_reads_documented ref_kube_view reference_kube_api"
    by (auto simp: kube_reads_documented_def reference_kube_api_def split: option.splits)
  moreover have "kube_writes_documented ref_kube_view reference_kube_api"
    by (auto simp: kube_writes_documented_def reference_kube_api_def ref_store_deployment_def
        ref_kube_delete ref_kube_store split: option.splits if_splits)
  moreover have "kd_name d = n \<and> kd_namespace d = ns \<and> kd_replicas d \<noteq> None"
    if "ref_kube_view w (n, ns) = Some d" for w n ns d
    using that by (auto simp: ref_kube_view_def split: option.splits if_splits)
  ultimately show ?thesis
    by (simp add: kube_documented_def reference_kube_def reference_retry_documented)
qed

interpretation ref_kube: kube_platform reference_kube ref_kube_view
  by unfold_locales (rule reference_kube_documented)

subsection \<open>The plugin on this platform\<close>

text \<open>The plugin's own state is kept in a store that is not part of the cluster.\<close>

definition store_apart :: "('w \<Rightarrow> kube_view) \<Rightarrow> 'w state_store \<Rightarrow> bool" where
  "store_apart view store \<longleftrightarrow> (\<forall>d w. view (snd (ss_upsert store d w)) = view w)"

definition on_kube :: "'w kube_env \<Rightarrow> 'w state_store \<Rightarrow> 'w runtime_env" where
  "on_kube ke store = \<lparr>rn_client = kube_client ke, rn_store = store\<rparr>"

lemma saveState_view: "store_apart view store \<Longrightarrow> view (runtime_saveState (on_kube ke store) p w) = view w"
  by (simp add: store_apart_def runtime_saveState_def on_kube_def)

lemma on_kube_client [simp]: "rn_client (on_kube ke store) = kube_client ke"
  by (simp add: on_kube_def)

definition cluster_of :: "('w \<Rightarrow> kube_view) \<Rightarrow> 'w \<Rightarrow> cluster" where
  "cluster_of view w = instances_of (view w)"

abbreviation candidate_key :: "runtime_plugin \<Rightarrow> string \<times> string" where
  "candidate_key p \<equiv> (rs_candidate (rp_state p), rc_namespace (rp_config p))"

abbreviation primary_key :: "runtime_plugin \<Rightarrow> string \<times> string" where
  "primary_key p \<equiv> (rs_primary (rp_state p), rc_namespace (rp_config p))"

definition ref_store :: "ref_cluster state_store" where
  "ref_store = \<lparr>ss_upsert = (\<lambda>d w. (None, w)), ss_get = (\<lambda>w. ((Empty, Some PluginStateNotFound), w))\<rparr>"

definition ref_plugin :: runtime_plugin where
  "ref_plugin =
     \<lparr>rp_config = \<lparr>rc_selector = ''api'', rc_namespace = ''default''\<rparr>,
      rp_state = \<lparr>rs_candidate = ''api'', rs_primary = ''web-primary''\<rparr>\<rparr>"

lemma ref_store_apart: "store_apart ref_kube_view ref_store"
  by (simp add: store_apart_def ref_store_def)

lemma ref_retry_first: "f s = (None, s1) \<Longrightarrow> retry_times n f s = (None, s1)"
  by (cases n) simp_all

lemma ref_healthy:
  assumes "ref_kube_view w (n, ns) = Some d" and "kd_available d = 1" and "kd_unavailable d = 0"
  shows "GetHealthyKubernetesDeployment reference_kube n ns w = ((Some d, None), w)"
proof -
  have "healthy_attempt reference_kube n ns (w, None, None) = (None, (w, Some d, None))"
    using assms by (simp add: healthy_attempt_def GetKubernetesDeployment_def reference_kube_def reference_kube_api_def)
  then show ?thesis
    by (simp add: GetHealthyKubernetesDeployment_def reference_kube_def reference_retry_def ref_retry_first)
qed

lemmas ref_kube_simps =
  ref_plugin_def ref_store_def on_kube_def kube_client_def bind_res_def saving_def runtime_saveState_def
  kube_GetDeployment_def kube_GetDeploymentWithSelector_def GetKubernetesDeploymentWithSelector_def
  GetKubernetesDeployment_def kube_UpdateDeployment_def kube_CloneDeployment_def UpsertKubernetesDeployment_def
  kube_DeleteDeployment_def DeleteKubernetesDeployment_def kube_GetHealthyDeployment_def
  reference_kube_def reference_kube_api_def ref_kube_view_def ref_store_deployment_def from_kube_def
  to_deployment_def kube_object_def primary_from_def written_through_def without_version_def Let_def
  reference_retry_def GetHealthyKubernetesDeployment_def healthy_attempt_def to_int32_def anchor_end_def
  has_suffix_def

subsection \<open>Properties\<close>

text \<open>
  When creating the primary reports an update, the cluster runs, besides all it ran
  before, the primary under the release's name with as many instances as the candidate,
  and the plugin has taken the candidate's name from the deployment that was cloned.
\<close>

theorem init_primary_clones_candidate:
  assumes "kube_documented view ke" and "store_apart view store"
    and "runtime_InitPrimary (on_kube ke store) name p w = (Returned (RuntimeDeploymentUpdate, e), p1, w1)"
  shows "e = None \<and> (\<exists>i. cluster_of view w (candidate_key p1) = Some i \<and>
    cluster_of view w1 = (cluster_of view w)((name @ ''-primary'', rc_namespace (rp_config p1)) \<mapsto> i))"
proof -
  from assms(3) obtain w2 where b: "InitPrimary_body (on_kube ke store) name p w = (Returned (RuntimeDeploymentUpdate, e), p1, w2)"
    and w1: "w1 = runtime_saveState (on_kube ke store) p1 w2"
    by (auto simp: runtime_InitPrimary_def split: prod.splits)
  have "rp_config p1 = rp_config p" using InitPrimary_config [of "on_kube ke store" name p w] b by simp
  then show ?thesis
    using kube_platform.InitPrimary_here [OF kube_platform.intro [OF assms(1)] _ _ b]
    by (simp add: w1 cluster_of_def saveState_view [OF assms(2)])
qed

theorem init_primary_clones_candidate_witness:
  "\<exists>p1 w1. runtime_InitPrimary (on_kube reference_kube ref_store) ''web'' ref_plugin
       [((''api'', ''default''), kube_object ''api'' (Some 3))] = (Returned (RuntimeDeploymentUpdate, None), p1, w1) \<and>
     cluster_of ref_kube_view w1 (''web-primary'', ''default'') = Some 3"
proof -
  let ?w = "[((''api'', ''default''), kube_object ''api'' (Some 3))]"
  obtain p1 w1 where r: "runtime_InitPrimary (on_kube reference_kube ref_store) ''web'' ref_plugin ?w =
      (Returned (RuntimeDeploymentUpdate, None), p1, w1)"
    and p1: "candidate_key p1 = (''api'', ''default'')"
    by (simp add: runtime_InitPrimary_def InitPrimary_body_def ref_kube_simps)
  have "cluster_of ref_kube_view ?w (''api'', ''default'') = Some 3"
    by (simp add: cluster_of_def instances_of_def ref_kube_view_def kube_object_def)
  with init_primary_clones_candidate [OF reference_kube_documented ref_store_apart r] p1 r show ?thesis by auto
qed

text \<open>
  A promotion that reports an update leaves the candidate running and the primary
  replaced by a deployment with the candidate's number of instances; one that reports
  that no candidate was found leaves the cluster as it was.
\<close>

theorem promote_replaces_primary:
  assumes "kube_documented view ke" and "store_apart view store"
    and "rs_candidate (rp_state p) \<noteq> rs_primary (rp_state p)"
    and "runtime_PromoteCandidate (on_kube ke store) p w = (Returned (st, None), w1)"
    and "st \<in> {RuntimeDeploymentUpdate, RuntimeDeploymentNotFound}"
  shows "if st = RuntimeDeploymentUpdate
    then \<exists>i. cluster_of view w (candidate_key p) = Some i \<and>
      cluster_of view w1 = (cluster_of view w)(primary_key p \<mapsto> i)
    else cluster_of view w1 = cluster_of view w"
proof -
  from assms(4) obtain w2 where b: "PromoteCandidate_body (on_kube ke store) p w = (Returned (st, None), w2)"
    and w1: "w1 = runtime_saveState (on_kube ke store) p w2"
    by (auto simp: runtime_PromoteCandidate_def saving_def) (metis prod.collapse)
  have "cluster_of view w1 = cluster_of view w2" by (simp add: w1 cluster_of_def saveState_view [OF assms(2)])
  then show ?thesis
  proof (cases "st = RuntimeDeploymentUpdate")
    case True
    with b have "\<exists>i. instances_of (view w) (candidate_key p) = Some i \<and>
        instances_of (view w2) = (instances_of (view w))(primary_key p \<mapsto> i)"
      using kube_platform.PromoteCandidate_here(1) [OF kube_platform.intro [OF assms(1)] _ on_kube_client assms(3)]
      by simp
    with True \<open>cluster_of view w1 = cluster_of view w2\<close> show ?thesis by (simp add: cluster_of_def)
  next
    case False
    with b assms(5) have "PromoteCandidate_body (on_kube ke store) p w = (Returned (RuntimeDeploymentNotFound, None), w2)"
      by simp
    then have "instances_of (view w2) = instances_of (view w)"
      using kube_platform.PromoteCandidate_here(2) [OF kube_platform.intro [OF assms(1)] _ on_kube_client] by simp
    with False \<open>cluster_of view w1 = cluster_of view w2\<close> show ?thesis by (simp add: cluster_of_def)
  qed
qed

theorem promote_replaces_primary_witness:
  "\<exists>w1. runtime_PromoteCandidate (on_kube reference_kube ref_store) ref_plugin
       [((''api'', ''default''), kube_object ''api'' (Some 3)), ((''web-primary'', ''default''), kube_object ''web-primary'' (Some 1))] =
       (Returned (RuntimeDeploymentUpdate, None), w1) \<and>
     cluster_of ref_kube_view w1 (''web-primary'', ''default'') = Some 3"
proof -
  let ?w = "[((''api'', ''default''), kube_object ''api'' (Some 3)), ((''web-primary'', ''default''), kube_object ''web-primary'' (Some 1))]"
  obtain w1 where r: "runtime_PromoteCandidate (on_kube reference_kube ref_store) ref_plugin ?w =
      (Returned (RuntimeDeploymentUpdate, None), w1)"
    by (simp add: runtime_PromoteCandidate_def PromoteCandidate_body_def ref_kube_simps)
  have k: "candidate_key ref_plugin = (''api'', ''default'')" "primary_key ref_plugin = (''web-primary'', ''default'')"
    by (simp_all add: ref_plugin_def)
  have "cluster_of ref_kube_view ?w (''api'', ''default'') = Some 3"
    by (simp add: cluster_of_def instances_of_def ref_kube_view_def kube_object_def)
  moreover have "rs_candidate (rp_state ref_plugin) \<noteq> rs_primary (rp_state ref_plugin)"
    by (simp add: ref_plugin_def)
  ultimately show ?thesis
    using promote_replaces_primary [OF reference_kube_documented ref_store_apart _ r] r by (auto simp: k)
qed

text \<open>
  C15: What the destruction of a release does to the deployments: after the original has
  been restored and the primary removed, both without error, the candidate's name runs
  as many instances as the primary did and the primary is gone; without a primary
  nothing has changed.
\<close>

theorem destroy_restores_original:
  assumes "kube_documented view ke" and "store_apart view store"
    and "rs_candidate (rp_state p) \<noteq> rs_primary (rp_state p)"
    and "runtime_RestoreOriginal (on_kube ke store) p w = (Returned None, w1)"
    and "runtime_RemovePrimary (on_kube ke store) p w1 = (Returned None, w2)"
  shows "cluster_of view w2 = (case cluster_of view w (primary_key p) of
      None \<Rightarrow> cluster_of view w
    | Some i \<Rightarrow> (cluster_of view w)(candidate_key p \<mapsto> i, primary_key p := None))"
proof -
  from assms(4) obtain v1 where b1: "RestoreOriginal_body (on_kube ke store) p w = (Returned None, v1)"
    and w1: "w1 = runtime_saveState (on_kube ke store) p v1"
    by (auto simp: runtime_RestoreOriginal_def saving_def) (metis prod.collapse)
  from assms(5) obtain v2 where b2: "RemovePrimary_body (on_kube ke store) p w1 = (Returned None, v2)"
    and w2: "w2 = runtime_saveState (on_kube ke store) p v2"
    by (auto simp: runtime_RemovePrimary_def saving_def) (metis prod.collapse)
  have 1: "case cluster_of view w (primary_key p) of None \<Rightarrow> cluster_of view w1 = cluster_of view w
      | Some i \<Rightarrow> cluster_of view w1 = (cluster_of view w)(candidate_key p \<mapsto> i)"
    using kube_platform.RestoreOriginal_here [OF kube_platform.intro [OF assms(1)] _ _ assms(3) b1]
    by (simp add: w1 cluster_of_def saveState_view [OF assms(2)] split: option.splits)
  have 2: "cluster_of view w2 = (cluster_of view w1)(primary_key p := None)"
    using kube_platform.RemovePrimary_here [OF kube_platform.intro [OF assms(1)] _ _ b2]
    by (simp add: w2 cluster_of_def saveState_view [OF assms(2)])
  from 1 2 show ?thesis by (auto split: option.splits simp: fun_upd_idem)
qed

theorem destroy_restores_original_witness:
  "\<exists>w1 w2. runtime_RestoreOriginal (on_kube reference_kube ref_store) ref_plugin
       [((''web-primary'', ''default''), kube_object ''web-primary'' (Some 2))] = (Returned None, w1) \<and>
     runtime_RemovePrimary (on_kube reference_kube ref_store) ref_plugin w1 = (Returned None, w2) \<and>
     cluster_of ref_kube_view w2 = [(''api'', ''default'') \<mapsto> 2]"
proof -
  let ?w = "[((''web-primary'', ''default''), kube_object ''web-primary'' (Some 2))]"
  obtain w1 w2 where r: "runtime_RestoreOriginal (on_kube reference_kube ref_store) ref_plugin ?w = (Returned None, w1)"
    "runtime_RemovePrimary (on_kube reference_kube ref_store) ref_plugin w1 = (Returned None, w2)"
    by (simp add: runtime_RestoreOriginal_def RestoreOriginal_body_def runtime_RemovePrimary_def RemovePrimary_body_def ref_kube_simps)
  have k: "candidate_key ref_plugin = (''api'', ''default'')" "primary_key ref_plugin = (''web-primary'', ''default'')"
    by (simp_all add: ref_plugin_def)
  have c: "cluster_of ref_kube_view ?w = [(''web-primary'', ''default'') \<mapsto> 2]"
    by (auto simp: cluster_of_def instances_of_def ref_kube_view_def kube_object_def fun_eq_iff)
  have "rs_candidate (rp_state ref_plugin) \<noteq> rs_primary (rp_state ref_plugin)"
    by (simp add: ref_plugin_def)
  from destroy_restores_original [OF reference_kube_documented ref_store_apart this r]
  have "cluster_of ref_kube_view w2 = [(''api'', ''default'') \<mapsto> 2]" by (auto simp: k c)
  with r show ?thesis by blast
qed

text \<open>
  Removing the candidate scales it to no instances and changes no other deployment; a
  candidate that does not exist is no error.
\<close>

theorem remove_candidate_scales_down:
  assumes "kube_documented view ke" and "store_apart view store"
    and "runtime_RemoveCandidate (on_kube ke store) p w = (Returned None, w1)"
  shows "cluster_of view w1 = (if cluster_of view w (candidate_key p) = None then cluster_of view w
    else (cluster_of view w)(candidate_key p \<mapsto> 0))"
proof -
  from assms(3) obtain v1 where b: "RemoveCandidate_body (on_kube ke store) p w = (Returned None, v1)"
    and w1: "w1 = runtime_saveState (on_kube ke store) p v1"
    by (auto simp: runtime_RemoveCandidate_def saving_def) (metis prod.collapse)
  from kube_platform.RemoveCandidate_here [OF kube_platform.intro [OF assms(1)] _ _ b] show ?thesis
    by (simp add: w1 cluster_of_def saveState_view [OF assms(2)] Let_def split: if_splits)
qed

theorem remove_candidate_scales_down_witness:
  "\<exists>w1. runtime_RemoveCandidate (on_kube reference_kube ref_store) ref_plugin
       [((''api'', ''default''), kube_object ''api'' (Some 2))] = (Returned None, w1) \<and>
     cluster_of ref_kube_view w1 (''api'', ''default'') = Some 0"
proof -
  let ?w = "[((''api'', ''default''), kube_object ''api'' (Some 2))]"
  obtain w1 where r: "runtime_RemoveCandidate (on_kube reference_kube ref_store) ref_plugin ?w = (Returned None, w1)"
    by (simp add: runtime_RemoveCandidate_def RemoveCandidate_body_def ref_kube_simps)
  have "candidate_key ref_plugin = (''api'', ''default'')"
    "cluster_of ref_kube_view ?w (''api'', ''default'') = Some 2"
    by (simp_all add: ref_plugin_def cluster_of_def instances_of_def ref_kube_view_def kube_object_def)
  with remove_candidate_scales_down [OF reference_kube_documented ref_store_apart r] r show ?thesis by auto
qed

text \<open>
  The version label the runtime gives a new deployment does not reach the platform:
  whatever the labels asked for, the label of a clone is the clone's resource version,
  which is empty for every primary the runtime creates.
\<close>

theorem clone_loses_version:
  assumes "kube_documented view ke" and "kube_CloneDeployment ke f (primary_from n c) w = (Returned None, w1)"
  shows "\<exists>d. view w1 (n, d_namespace c) = Some d \<and> meta_get (kd_labels d) RuntimeDeploymentVersionLabel = ''''"
  using kube_platform.clone_label [OF kube_platform.intro [OF assms(1)] assms(2)]
  by (simp add: primary_from_def)

theorem clone_loses_version_witness:
  "\<exists>d w1. kube_CloneDeployment reference_kube (NewDeployment\<lparr>d_name := ''api'', d_namespace := ''default''\<rparr>)
       (primary_from ''web-primary'' (NewDeployment\<lparr>d_name := ''api'', d_namespace := ''default''\<rparr>))
       [((''api'', ''default''), kube_object ''api'' (Some 2))] = (Returned None, w1) \<and>
     ref_kube_view w1 (''web-primary'', ''default'') = Some d \<and>
     meta_get (kd_labels d) RuntimeDeploymentVersionLabel = ''''"
proof -
  let ?c = "NewDeployment\<lparr>d_name := ''api'', d_namespace := ''default''\<rparr>"
  obtain w1 where r: "kube_CloneDeployment reference_kube ?c (primary_from ''web-primary'' ?c)
      [((''api'', ''default''), kube_object ''api'' (Some 2))] = (Returned None, w1)"
    by (simp add: ref_kube_simps)
  from clone_loses_version [OF reference_kube_documented r] r show ?thesis by (auto simp: NewDeployment_def)
qed

text \<open>
  An API error other than not-found panics the client: the empty object the library
  returns with an error has no replicas, and they are read before the error is.
\<close>

theorem get_deployment_panics_on_error:
  assumes "ka_get (ke_api ke) ns n w = ((d, Some (KubeOther x)), w1)" and "kd_replicas d = None"
  shows "kube_GetDeployment ke n ns w = (Panicked, w1)"
  using assms by (simp add: kube_GetDeployment_def GetKubernetesDeployment_def from_kube_def to_deployment_def)

theorem get_deployment_panics_on_error_witness:
  "kube_GetDeployment (reference_kube\<lparr>ke_api := reference_kube_api\<lparr>ka_get :=
      (\<lambda>ns n w. ((kube_object '''' None, Some (KubeOther (GoErr ''timeout''))), w))\<rparr>\<rparr>) ''api'' ''default'' [] = (Panicked, [])"
  by (rule get_deployment_panics_on_error [of _ _ _ _ "kube_object '''' None" "GoErr ''timeout''"])
    (simp_all add: kube_object_def)

end
