(* ===== verification/Nomad.thy ===== *)
theory Nomad
  imports Runtime "HOL-Library.Word"
begin

text \<open>
  The Nomad runtime client (\<open>pkg/clients/nomad.go\<close>) over the Nomad API library, the
  regular expressions and the retry library, which are parameters. It looks a job up by
  name with the selector search, so a name also finds the jobs whose names end with it;
  what follows from that, from the version parsed in base two and from the shadowed error
  of the health check is stated in the properties.
\<close>

subsection \<open>Jobs\<close>

text \<open>
  A job as the API gives it. Its id, name, namespace and version are always set in a job
  that was read; its status and the count of a task group are pointers. The version is an
  unsigned 64-bit integer. The fields the client does not use are kept in the rest.
\<close>

record nomad_service =
  nv_tags :: "string list"
  nv_meta :: "(string \<rightharpoonup> string) option"
  nv_rest :: string

record task_group =
  tg_count :: "int option"
  tg_services :: "nomad_service list"
  tg_rest :: string

record nomad_job =
  nj_id :: string
  nj_name :: string
  nj_namespace :: string
  nj_status :: "string option"
  nj_version :: "64 word"
  nj_meta :: "(string \<rightharpoonup> string) option"
  nj_groups :: "task_group list"
  nj_rest :: string

record job_stub =
  js_id :: string
  js_name :: string

record allocation =
  al_desired :: string
  al_client :: string

text \<open>The first argument of a call is the namespace of its options, empty for the default.\<close>

record 'w nomad_api =
  na_list :: "string \<Rightarrow> 'w \<Rightarrow> (job_stub list \<times> go_error option) \<times> 'w"
  na_info :: "string \<Rightarrow> string \<Rightarrow> 'w \<Rightarrow> (nomad_job \<times> go_error option) \<times> 'w"
  na_register :: "string \<Rightarrow> nomad_job \<Rightarrow> 'w \<Rightarrow> go_error option \<times> 'w"
  na_deregister :: "string \<Rightarrow> string \<Rightarrow> bool \<Rightarrow> 'w \<Rightarrow> go_error option \<times> 'w"
  na_allocations :: "string \<Rightarrow> string \<Rightarrow> bool \<Rightarrow> 'w \<Rightarrow> (allocation list \<times> go_error option) \<times> 'w"

text \<open>
  The function the retry library is given runs over the world and the two variables of
  the enclosing function it assigns, the last job and the last error.
\<close>

type_synonym 'w job_attempt = "'w \<times> nomad_job option \<times> go_error option"

record 'w nomad_env =
  ne_api :: "'w nomad_api"
  ne_interval :: int
  ne_timeout :: int
  ne_compile :: "string \<Rightarrow> go_error + (string \<Rightarrow> bool)"
  ne_retry :: "'w job_attempt retry_lib"
  ne_is_timeout :: "go_error \<Rightarrow> bool"

subsection \<open>Binary numerals\<close>

text \<open>
  \<open>strconv.ParseUint(s, 2, 64)\<close> with the error ignored: zero for an empty string or one
  with a character that is no binary digit, the greatest value where the number is out of
  range, whichever is met first from the left.
\<close>

fun parse_bits :: "64 word \<Rightarrow> string \<Rightarrow> 64 word" where
  "parse_bits n [] = n"
| "parse_bits n (c # cs) =
     (if c \<noteq> CHR ''0'' \<and> c \<noteq> CHR ''1'' then 0
      else if 2 ^ 63 \<le> n then - 1
      else parse_bits (2 * n + (if c = CHR ''1'' then 1 else 0)) cs)"

definition parse_base2 :: "string \<Rightarrow> 64 word" where
  "parse_base2 s = (if s = [] then 0 else parse_bits 0 s)"

subsection \<open>The client\<close>

text \<open>The loop over the listed jobs: the first active one whose name matches.\<close>

fun select_job :: "'w nomad_env \<Rightarrow> (string \<Rightarrow> bool) \<Rightarrow> job_stub list \<Rightarrow> 'w \<Rightarrow>
    (nomad_job option \<times> go_error option) \<times> 'w" where
  "select_job env matches [] w = ((None, Some ErrDeploymentNotFound), w)"
| "select_job env matches (j # js) w =
     (if matches (js_name j) then
        (case na_info (ne_api env) '''' (js_id j) w of
           ((job, Some e), w1) \<Rightarrow> ((None, Some e), w1)
         | ((job, None), w1) \<Rightarrow>
             if nj_status job = Some ''running'' \<or> nj_status job = Some ''pending''
             then ((Some job, None), w1)
             else select_job env matches js w1)
      else select_job env matches js w)"

definition GetJobWithSelector ::
    "'w nomad_env \<Rightarrow> string \<Rightarrow> string \<Rightarrow> 'w \<Rightarrow> (nomad_job option \<times> go_error option) \<times> 'w" where
  "GetJobWithSelector env selector namespace w =
     (case na_list (ne_api env) namespace w of
        ((jobs, Some e), w1) \<Rightarrow> ((None, Some (wrap_err ''unable to list jobs: '' e)), w1)
      | ((jobs, None), w1) \<Rightarrow>
          (case ne_compile env (anchor_end selector) of
             Inl e \<Rightarrow>
               ((None, Some (wrap_err (''invalid regular expression for deployment selector: '' @
                  anchor_end selector @ '', error: '') e)), w1)
           | Inr matches \<Rightarrow> select_job env matches jobs w1))"

definition GetJob ::
    "'w nomad_env \<Rightarrow> string \<Rightarrow> string \<Rightarrow> 'w \<Rightarrow> (nomad_job option \<times> go_error option) \<times> 'w" where
  "GetJob env name namespace w = GetJobWithSelector env name namespace w"

definition UpsertJob :: "'w nomad_env \<Rightarrow> nomad_job \<Rightarrow> 'w \<Rightarrow> go_error option \<times> 'w" where
  "UpsertJob env job w = na_register (ne_api env) '''' job w"

definition DeleteJob :: "'w nomad_env \<Rightarrow> string \<Rightarrow> string \<Rightarrow> 'w \<Rightarrow> go_error option \<times> 'w" where
  "DeleteJob env job_id namespace w =
     (case GetJob env job_id namespace w of
        ((job, Some e), w1) \<Rightarrow> (Some e, w1)
      | ((job, None), w1) \<Rightarrow> na_deregister (ne_api env) namespace job_id True w1)"

definition desired_allocs :: "allocation list \<Rightarrow> nat" where
  "desired_allocs as = length (filter (\<lambda>a. al_desired a = ''run'') as)"

definition healthy_allocs :: "allocation list \<Rightarrow> nat" where
  "healthy_allocs as = length (filter (\<lambda>a. al_desired a = ''run'' \<and> al_client a = ''running'') as)"

text \<open>
  One attempt of the health check. The error of the allocations is assigned to a variable
  of its own that hides the last error, so that one is left as the lookup set it: nil.
  A lookup without error gives a job.
\<close>

definition job_attempt ::
    "'w nomad_env \<Rightarrow> string \<Rightarrow> string \<Rightarrow> 'w job_attempt \<Rightarrow> go_error option \<times> 'w job_attempt" where
  "job_attempt env name namespace s =
     (case GetJob env name namespace (fst s) of
        ((job, Some e), w1) \<Rightarrow>
          (if e = ErrDeploymentNotFound then (Some e, (w1, job, Some e))
           else (Some (wrap_err ''error calling GetJob: '' e), (w1, job, Some e)))
      | ((job, None), w1) \<Rightarrow>
          (case na_allocations (ne_api env) namespace (nj_id (the job)) True w1 of
             ((allocs, Some e), w2) \<Rightarrow> (Some (wrap_err ''error calling GetJob: '' e), (w2, job, None))
           | ((allocs, None), w2) \<Rightarrow>
               let desired = desired_allocs allocs; healthy = healthy_allocs allocs
               in if healthy = 0 \<or> desired \<noteq> healthy
                  then (Some (GoErr (decimal healthy @ '' of '' @ decimal desired @ '' allocations healthy, retry'')),
                        (w2, job, None))
                  else (None, (w2, job, None))))"

definition GetHealthyJob ::
    "'w nomad_env \<Rightarrow> string \<Rightarrow> string \<Rightarrow> 'w \<Rightarrow> (nomad_job option \<times> go_error option) \<times> 'w" where
  "GetHealthyJob env name namespace w =
     (case ne_retry env (ne_timeout env) (ne_interval env) (job_attempt env name namespace) (w, None, None) of
        (err, (w1, job, lastError)) \<Rightarrow>
          if (case err of None \<Rightarrow> False | Some e \<Rightarrow> ne_is_timeout env e) then ((None, lastError), w1)
          else ((job, None), w1))"

text \<open>Reading the first task group panics where there is none, or its count is nil.\<close>

definition job_deployment :: "nomad_job \<Rightarrow> deployment res" where
  "job_deployment job =
     (case nj_groups job of
        [] \<Rightarrow> Panicked
      | g # gs \<Rightarrow>
          (case tg_count g of
             None \<Rightarrow> Panicked
           | Some n \<Rightarrow>
               Returned \<lparr>d_name = nj_name job, d_namespace = nj_namespace job,
                 d_resource_version = decimal (unat (nj_version job)), d_meta = nj_meta job, d_instances = n\<rparr>))"

definition from_job :: "(nomad_job option \<times> go_error option) \<times> 'w \<Rightarrow>
    (deployment option \<times> go_error option) res \<times> 'w" where
  "from_job rw =
     (case rw of
        ((None, err), w1) \<Rightarrow> (Returned (None, err), w1)
      | ((Some job, err), w1) \<Rightarrow>
          (case job_deployment job of Panicked \<Rightarrow> (Panicked, w1) | Returned d \<Rightarrow> (Returned (Some d, err), w1)))"

definition nomad_GetDeployment ::
    "'w nomad_env \<Rightarrow> string \<Rightarrow> string \<Rightarrow> 'w \<Rightarrow> (deployment option \<times> go_error option) res \<times> 'w" where
  "nomad_GetDeployment env name namespace w = from_job (GetJob env name namespace w)"

definition nomad_GetDeploymentWithSelector ::
    "'w nomad_env \<Rightarrow> string \<Rightarrow> string \<Rightarrow> 'w \<Rightarrow> (deployment option \<times> go_error option) res \<times> 'w" where
  "nomad_GetDeploymentWithSelector env selector namespace w = from_job (GetJobWithSelector env selector namespace w)"

definition nomad_UpdateDeployment :: "'w nomad_env \<Rightarrow> deployment \<Rightarrow> 'w \<Rightarrow> go_error option res \<times> 'w" where
  "nomad_UpdateDeployment env d w =
     (case GetJob env (d_name d) (d_namespace d) w of
        ((job, Some e), w1) \<Rightarrow> (Returned (Some e), w1)
      | ((job, None), w1) \<Rightarrow>
          (case UpsertJob env ((the job)\<lparr>nj_groups := map (tg_count_update (\<lambda>_. Some (d_instances d))) (nj_groups (the job)),
                  nj_meta := d_meta d, nj_version := parse_base2 (d_resource_version d)\<rparr>) w1 of
             (e, w2) \<Rightarrow> (Returned e, w2)))"

text \<open>The label as a key of a service's meta data, which may hold no dash.\<close>

definition meta_key :: string where
  "meta_key = map (\<lambda>c. if c = CHR ''-'' then CHR ''_'' else c) RuntimeDeploymentVersionLabel"

definition retag_service :: "string \<Rightarrow> nomad_service \<Rightarrow> nomad_service" where
  "retag_service version s =
     s\<lparr>nv_tags :=
         (if version \<noteq> '''' then
            (if RuntimeDeploymentVersionLabel \<in> set (nv_tags s) then nv_tags s
             else nv_tags s @ [RuntimeDeploymentVersionLabel])
          else filter (\<lambda>t. t \<noteq> RuntimeDeploymentVersionLabel) (nv_tags s)),
       nv_meta :=
         (let m = (case nv_meta s of None \<Rightarrow> Map.empty | Some m \<Rightarrow> m)
          in Some (if version \<noteq> '''' then m(meta_key \<mapsto> version) else m(meta_key := None)))\<rparr>"

definition cloned_job :: "deployment \<Rightarrow> nomad_job \<Rightarrow> nomad_job" where
  "cloned_job new job =
     job\<lparr>nj_groups :=
           map (\<lambda>tg. tg\<lparr>tg_count := Some (d_instances new),
                  tg_services := map (retag_service (meta_get (d_meta new) RuntimeDeploymentVersionLabel)) (tg_services tg)\<rparr>)
             (nj_groups job),
         nj_meta := d_meta new, nj_name := d_name new, nj_id := d_name new\<rparr>"

definition nomad_CloneDeployment :: "'w nomad_env \<Rightarrow> deployment \<Rightarrow> deployment \<Rightarrow> 'w \<Rightarrow> go_error option res \<times> 'w" where
  "nomad_CloneDeployment env existing new w =
     (case GetJob env (d_name existing) (d_namespace existing) w of
        ((job, Some e), w1) \<Rightarrow> (Returned (Some e), w1)
      | ((job, None), w1) \<Rightarrow>
          (case UpsertJob env (cloned_job new (the job)) w1 of (e, w2) \<Rightarrow> (Returned e, w2)))"

definition nomad_DeleteDeployment :: "'w nomad_env \<Rightarrow> string \<Rightarrow> string \<Rightarrow> 'w \<Rightarrow> go_error option res \<times> 'w" where
  "nomad_DeleteDeployment env name namespace w =
     (case DeleteJob env name namespace w of (e, w1) \<Rightarrow> (Returned e, w1))"

definition nomad_GetHealthyDeployment ::
    "'w nomad_env \<Rightarrow> string \<Rightarrow> string \<Rightarrow> 'w \<Rightarrow> (deployment option \<times> go_error option) res \<times> 'w" where
  "nomad_GetHealthyDeployment env name namespace w = from_job (GetHealthyJob env name namespace w)"

definition nomad_CandidateSubsetFilter :: string where
  "nomad_CandidateSubsetFilter =
     [CHR 0x22] @ RuntimeDeploymentVersionLabel @ [CHR 0x22] @ '' not in Service.Tags''"

definition nomad_PrimarySubsetFilter :: string where
  "nomad_PrimarySubsetFilter =
     [CHR 0x22] @ RuntimeDeploymentVersionLabel @ [CHR 0x22] @ '' in Service.Tags''"

definition nomad_client :: "'w nomad_env \<Rightarrow> 'w runtime_client" where
  "nomad_client env =
     \<lparr>rt_get = nomad_GetDeployment env, rt_get_selector = nomad_GetDeploymentWithSelector env,
      rt_update = nomad_UpdateDeployment env, rt_clone = nomad_CloneDeployment env,
      rt_delete = nomad_DeleteDeployment env, rt_healthy = nomad_GetHealthyDeployment env,
      rt_candidate_filter = nomad_CandidateSubsetFilter, rt_primary_filter = nomad_PrimarySubsetFilter\<rparr>"

subsection \<open>Looking jobs up\<close>

text \<open>
  What the regular expression library makes of a name without special characters, once
  the dollar is added: the expression is not anchored at the front, so every name that
  ends with it matches.
\<close>

definition plain_name :: "'w nomad_env \<Rightarrow> string \<Rightarrow> bool" where
  "plain_name env n \<longleftrightarrow> \<not> has_suffix n ''$'' \<and> ne_compile env (n @ ''$'') = Inr (\<lambda>x. has_suffix x n)"

definition active_job :: "nomad_job \<Rightarrow> bool" where
  "active_job job \<longleftrightarrow> nj_status job = Some ''running'' \<or> nj_status job = Some ''pending''"

lemma select_job_skips:
  "\<forall>j \<in> set pre. \<not> matches (js_name j) \<Longrightarrow> select_job env matches (pre @ js) w = select_job env matches js w"
  by (induction pre) auto

lemma GetJob_result: "GetJob env n ns w = ((job, None), w1) \<Longrightarrow> job \<noteq> None"
proof -
  have sel: "select_job env matches js w = ((job, None), w1) \<Longrightarrow> job \<noteq> None" for matches js w
    by (induction js arbitrary: w) (auto split: if_splits prod.splits option.splits)
  then show "GetJob env n ns w = ((job, None), w1) \<Longrightarrow> job \<noteq> None"
    by (auto simp: GetJob_def GetJobWithSelector_def split: prod.splits option.splits sum.splits)
qed

subsection \<open>Waiting for health\<close>

text \<open>An attempt that finds the job leaves no last error, whatever its allocations.\<close>

lemma job_attempt_no_error:
  assumes "\<forall>w. \<exists>job w1. GetJob env n ns w = ((Some job, None), w1)"
  shows "calls_keep (job_attempt env n ns) (\<lambda>s. snd (snd s) = None)"
  unfolding calls_keep_def
proof (intro allI impI)
  fix s :: "'a job_attempt"
  obtain job w1 where "GetJob env n ns (fst s) = ((Some job, None), w1)" using assms by blast
  then show "snd (snd (snd (job_attempt env n ns s))) = None"
    by (auto simp: job_attempt_def Let_def split: prod.splits option.splits)
qed

text \<open>So a wait that times out on a job that is there gives no job and no error.\<close>

lemma GetHealthyJob_timeout:
  assumes "retry_documented (ne_retry env)" and "\<forall>w. \<exists>job w1. GetJob env n ns w = ((Some job, None), w1)"
    and "ne_retry env (ne_timeout env) (ne_interval env) (job_attempt env n ns) (w, None, None) = (Some e, s1)"
    and "ne_is_timeout env e"
  shows "GetHealthyJob env n ns w = ((None, None), fst s1)"
proof -
  have "snd (snd (snd (ne_retry env (ne_timeout env) (ne_interval env) (job_attempt env n ns) (w, None, None)))) = None"
    by (rule retry_documented_keeps [OF assms(1) job_attempt_no_error [OF assms(2)]]) simp
  with assms(3,4) show ?thesis by (cases s1) (simp add: GetHealthyJob_def)
qed

subsection \<open>Versions\<close>

lemma unat_double:
  assumes "unat (n :: 64 word) < 2 ^ 62" and "unat b \<le> 1"
  shows "unat (2 * n + b) = 2 * unat n + unat b"
proof -
  have "unat (2 * n) = 2 * unat n" using assms(1) by (subst unat_word_ariths) simp
  with assms show ?thesis by (subst unat_word_ariths) simp
qed

lemma parse_bits_digit:
  assumes "unat n < 2 ^ k" and "k + length cs \<le> 63" and "c \<in> set cs" and "c \<noteq> CHR ''0''" and "c \<noteq> CHR ''1''"
  shows "parse_bits n cs = 0"
  using assms(1-3)
proof (induction cs arbitrary: n k)
  case Nil
  then show ?case by simp
next
  case (Cons d cs)
  have "(2::nat) ^ k \<le> 2 ^ 62" using Cons.prems(2) by (intro power_increasing) simp_all
  with Cons.prems(1) have small: "unat n < 2 ^ 62" by (rule less_le_trans)
  then have fits: "\<not> 2 ^ 63 \<le> n" by (simp add: word_le_nat_alt)
  let ?b = "if d = CHR ''1'' then 1 else 0 :: 64 word"
  have "unat (2 * n + ?b) = 2 * unat n + unat ?b" by (rule unat_double [OF small]) simp
  with Cons.prems(1) have bound: "unat (2 * n + ?b) < 2 ^ Suc k" by (simp split: if_splits)
  show ?case
  proof (cases "d \<noteq> CHR ''0'' \<and> d \<noteq> CHR ''1''")
    case False
    with Cons.prems(3) assms(4,5) have "c \<in> set cs" by auto
    with Cons.IH [OF bound] Cons.prems(2) fits False show ?thesis by auto
  qed auto
qed

lemma parse_base2_decimal:
  assumes "c \<in> set (decimal (unat v))" and "c \<noteq> CHR ''0''" and "c \<noteq> CHR ''1''"
  shows "parse_base2 (decimal (unat (v :: 64 word))) = 0"
proof -
  have "unat v < 2 ^ 64" using unsigned_less [of v] by simp
  then have "unat v < 10 ^ Suc 19" by simp
  then have "length (decimal (unat v)) \<le> Suc 19" by (rule decimal_length)
  then show ?thesis
    using assms parse_bits_digit [of 0 0 "decimal (unat v)" c] by (simp add: parse_base2_def)
qed

subsection \<open>Tags\<close>

lemma retag_service_fields:
  "RuntimeDeploymentVersionLabel \<in> set (nv_tags (retag_service v s)) \<longleftrightarrow> v \<noteq> ''''"
  "meta_get (nv_meta (retag_service v s)) meta_key = v"
  by (simp_all add: retag_service_def meta_get_def Let_def)

subsection \<open>A reference instance\<close>

text \<open>
  The jobs in the order they are listed; all allocations of a job have the same client
  status. The compiler knows only plain names.
\<close>

definition reference_nomad_api :: "string \<Rightarrow> nomad_job list nomad_api" where
  "reference_nomad_api status =
     \<lparr>na_list = (\<lambda>ns jobs. ((map (\<lambda>j. \<lparr>js_id = nj_id j, js_name = nj_name j\<rparr>) jobs, None), jobs)),
      na_info = (\<lambda>ns i jobs. ((hd (filter (\<lambda>j. nj_id j = i) jobs), None), jobs)),
      na_register = (\<lambda>ns job jobs. (None, filter (\<lambda>j. nj_id j \<noteq> nj_id job) jobs @ [job])),
      na_deregister = (\<lambda>ns i purge jobs. (None, filter (\<lambda>j. nj_id j \<noteq> i) jobs)),
      na_allocations = (\<lambda>ns i all_allocs jobs. (([\<lparr>al_desired = ''run'', al_client = status\<rparr>], None), jobs))\<rparr>"

definition reference_nomad :: "string \<Rightarrow> nomad_job list nomad_env" where
  "reference_nomad status =
     \<lparr>ne_api = reference_nomad_api status, ne_interval = 1, ne_timeout = 1,
      ne_compile = (\<lambda>s. Inr (\<lambda>x. has_suffix x (butlast s))), ne_retry = reference_retry,
      ne_is_timeout = (\<lambda>e. True)\<rparr>"

definition nomad_service_of :: "string list \<Rightarrow> nomad_service" where
  "nomad_service_of tags = \<lparr>nv_tags = tags, nv_meta = None, nv_rest = ''''\<rparr>"

definition nomad_sample :: "string \<Rightarrow> nomad_job" where
  "nomad_sample n =
     \<lparr>nj_id = n, nj_name = n, nj_namespace = ''default'', nj_status = Some ''running'', nj_version = 12,
      nj_meta = None,
      nj_groups = [\<lparr>tg_count = Some 3, tg_services = [nomad_service_of [''http'']], tg_rest = ''''\<rparr>], nj_rest = ''''\<rparr>"

definition on_nomad :: "'w nomad_env \<Rightarrow> 'w state_store \<Rightarrow> 'w runtime_env" where
  "on_nomad env store = \<lparr>rn_client = nomad_client env, rn_store = store\<rparr>"

definition idle_store :: "'w state_store" where
  "idle_store = \<lparr>ss_upsert = (\<lambda>d w. (None, w)), ss_get = (\<lambda>w. ((Empty, Some PluginStateNotFound), w))\<rparr>"

text \<open>A cluster that always runs the job asked for and its primary, with no healthy allocation.\<close>

definition stuck_nomad :: "string list nomad_env" where
  "stuck_nomad =
     \<lparr>ne_api =
        \<lparr>na_list = (\<lambda>ns w. (([\<lparr>js_id = ''web'', js_name = ''web''\<rparr>, \<lparr>js_id = ''web-primary'', js_name = ''web-primary''\<rparr>],
                     None), w)),
         na_info = (\<lambda>ns i w. ((nomad_sample i, None), w)),
         na_register = (\<lambda>ns job w. (None, w)),
         na_deregister = (\<lambda>ns i purge w. (None, i # w)),
         na_allocations = (\<lambda>ns i all_allocs w. (([\<lparr>al_desired = ''run'', al_client = ''pending''\<rparr>], None), w))\<rparr>,
      ne_interval = 1, ne_timeout = 1, ne_compile = (\<lambda>s. Inr (\<lambda>x. has_suffix x (butlast s))),
      ne_retry = reference_retry, ne_is_timeout = (\<lambda>e. True)\<rparr>"

lemma stuck_GetJob:
  "n \<in> {''web'', ''web-primary''} \<Longrightarrow> GetJob stuck_nomad n ''default'' w = ((Some (nomad_sample n), None), w)"
  by (auto simp: GetJob_def GetJobWithSelector_def stuck_nomad_def anchor_end_def has_suffix_def nomad_sample_def)

definition nomad_plugin :: runtime_plugin where
  "nomad_plugin =
     \<lparr>rp_config = \<lparr>rc_selector = ''web'', rc_namespace = ''default''\<rparr>,
      rp_state = \<lparr>rs_candidate = ''web'', rs_primary = ''web-primary''\<rparr>\<rparr>"

lemma reference_nomad_plain [simp]: "\<not> has_suffix n ''$'' \<Longrightarrow> plain_name (reference_nomad status) n"
  by (simp add: plain_name_def reference_nomad_def)

subsection \<open>Properties\<close>

text \<open>
  A job is looked up by the end of its name: the lookup gives the first listed job
  that is active and whose name ends with the name asked for, which need not be the job
  of that name, and passes over those that do not match.
\<close>

theorem nomad_lookup_by_suffix:
  assumes "plain_name env n" and "na_list (ne_api env) ns w = ((pre @ j # post, None), w1)"
    and "\<forall>i \<in> set pre. \<not> has_suffix (js_name i) n" and "has_suffix (js_name j) n"
    and "na_info (ne_api env) '''' (js_id j) w1 = ((job, None), w2)" and "active_job job"
  shows "GetJob env n ns w = ((Some job, None), w2)"
proof -
  have "ne_compile env (anchor_end n) = Inr (\<lambda>x. has_suffix x n)"
    using assms(1) by (simp add: plain_name_def anchor_end_def)
  with assms show ?thesis
    by (auto simp: GetJob_def GetJobWithSelector_def select_job_skips active_job_def)
qed

lemma nomad_lookup_by_suffix_witness:
  "GetJob (reference_nomad ''running'') ''web'' ''default'' [nomad_sample ''old-web'', nomad_sample ''web''] =
     ((Some (nomad_sample ''old-web''), None), [nomad_sample ''old-web'', nomad_sample ''web''])"
  by (rule nomad_lookup_by_suffix [where pre = "[]" and j = "\<lparr>js_id = ''old-web'', js_name = ''old-web''\<rparr>"
        and post = "[\<lparr>js_id = ''web'', js_name = ''web''\<rparr>]" and ?w1.0 = "[nomad_sample ''old-web'', nomad_sample ''web'']"])
    (simp_all add: reference_nomad_def reference_nomad_api_def nomad_sample_def active_job_def has_suffix_iff
      plain_name_def has_suffix_def)

text \<open>
  C39: A clone that reports success has registered a job under the new name, with the new
  number of instances in every group, whose services carry the controller's tag and
  version exactly when the new deployment has a version label: a primary is in the
  primary subset only and a restored original in the candidate subset only, whatever the
  tags of the job cloned.
\<close>

theorem nomad_clone_tags:
  assumes "nomad_CloneDeployment env f d w = (Returned None, w2)"
  shows "\<exists>job w1. na_register (ne_api env) '''' job w1 = (None, w2) \<and> nj_name job = d_name d \<and> nj_id job = d_name d \<and>
     nj_meta job = d_meta d \<and>
     (\<forall>g \<in> set (nj_groups job). tg_count g = Some (d_instances d) \<and>
        (\<forall>s \<in> set (tg_services g).
           (RuntimeDeploymentVersionLabel \<in> set (nv_tags s) \<longleftrightarrow>
              meta_get (d_meta d) RuntimeDeploymentVersionLabel \<noteq> '''') \<and>
           meta_get (nv_meta s) meta_key = meta_get (d_meta d) RuntimeDeploymentVersionLabel))"
proof -
  obtain job w1 where r: "na_register (ne_api env) '''' (cloned_job d (the job)) w1 = (None, w2)"
    using assms by (auto simp: nomad_CloneDeployment_def UpsertJob_def split: prod.splits option.splits)
  let ?j = "cloned_job d (the job)"
  have "tg_count g = Some (d_instances d)" if "g \<in> set (nj_groups ?j)" for g
    using that by (auto simp: cloned_job_def)
  moreover have "(RuntimeDeploymentVersionLabel \<in> set (nv_tags s) \<longleftrightarrow>
        meta_get (d_meta d) RuntimeDeploymentVersionLabel \<noteq> '''') \<and>
      meta_get (nv_meta s) meta_key = meta_get (d_meta d) RuntimeDeploymentVersionLabel"
    if "g \<in> set (nj_groups ?j)" "s \<in> set (tg_services g)" for g s
    using that by (auto simp: cloned_job_def retag_service_fields)
  moreover have "nj_name ?j = d_name d" "nj_id ?j = d_name d" "nj_meta ?j = d_meta d"
    by (simp_all add: cloned_job_def)
  ultimately show ?thesis
    using r by (intro exI [of _ ?j] exI [of _ w1] conjI ballI) simp_all
qed

lemma nomad_clone_tags_witness:
  "\<exists>job w1. na_register (ne_api (reference_nomad ''running'')) '''' job w1 =
       (None, [nomad_sample ''web'', cloned_job (primary_from ''p'' NewDeployment) (nomad_sample ''web'')]) \<and>
     nj_name job = ''p''"
proof -
  have "nomad_CloneDeployment (reference_nomad ''running'') (NewDeployment\<lparr>d_name := ''web''\<rparr>)
      (primary_from ''p'' NewDeployment) [nomad_sample ''web''] =
    (Returned None, [nomad_sample ''web'', cloned_job (primary_from ''p'' NewDeployment) (nomad_sample ''web'')])"
    by (simp add: nomad_CloneDeployment_def GetJob_def GetJobWithSelector_def UpsertJob_def reference_nomad_def
        reference_nomad_api_def nomad_sample_def NewDeployment_def cloned_job_def primary_from_def anchor_end_def
        has_suffix_def)
  from nomad_clone_tags [OF this] show ?thesis by (auto simp: primary_from_def)
qed

text \<open>
  Waiting for an unhealthy job does not report it: when the job is there and the wait
  times out, the client answers with no job and no error, and a promotion takes that for
  health, removes the primary and then panics, so neither version serves traffic.
\<close>

theorem nomad_promotion_panics:
  assumes "retry_documented (ne_retry env)"
    and "\<forall>w. \<exists>job w1. GetJob env (rs_candidate (rp_state p)) (rc_namespace (rp_config p)) w = ((Some job, None), w1)"
    and "ne_retry env (ne_timeout env) (ne_interval env)
           (job_attempt env (rs_candidate (rp_state p)) (rc_namespace (rp_config p))) (w, None, None) = (Some e, s1)"
    and "ne_is_timeout env e"
    and "DeleteJob env (rs_primary (rp_state p)) (rc_namespace (rp_config p)) (fst s1) = (None, w2)"
  shows "runtime_PromoteCandidate (on_nomad env store) p w = (Panicked, runtime_saveState (on_nomad env store) p w2)"
  using GetHealthyJob_timeout [OF assms(1-4)] assms(5)
  by (simp add: runtime_PromoteCandidate_def saving_def PromoteCandidate_body_def Let_def on_nomad_def nomad_client_def
      nomad_GetHealthyDeployment_def from_job_def nomad_DeleteDeployment_def)

lemma nomad_promotion_panics_witness:
  "runtime_PromoteCandidate (on_nomad stuck_nomad idle_store) nomad_plugin [] = (Panicked, [''web-primary''])"
proof -
  let ?att = "job_attempt stuck_nomad ''web'' ''default''"
  have att: "?att s = (Some (GoErr ''0 of 1 allocations healthy, retry''), fst s, Some (nomad_sample ''web''), None)" for s
    by (simp add: job_attempt_def stuck_GetJob desired_allocs_def healthy_allocs_def decimal.simps)
      (simp add: stuck_nomad_def desired_allocs_def healthy_allocs_def decimal.simps)
  have wait: "ne_retry stuck_nomad (ne_timeout stuck_nomad) (ne_interval stuck_nomad) ?att ([], None, None) =
      (Some (GoErr ''0 of 1 allocations healthy, retry''), [], Some (nomad_sample ''web''), None)"
    by (simp add: stuck_nomad_def [THEN arg_cong, of ne_retry] stuck_nomad_def [THEN arg_cong, of ne_timeout]
        stuck_nomad_def [THEN arg_cong, of ne_interval] reference_retry_def numeral_2_eq_2 att)
  have "runtime_PromoteCandidate (on_nomad stuck_nomad idle_store) nomad_plugin [] =
      (Panicked, runtime_saveState (on_nomad stuck_nomad idle_store) nomad_plugin [''web-primary''])"
  proof (rule nomad_promotion_panics)
    show "retry_documented (ne_retry stuck_nomad)" by (simp add: stuck_nomad_def reference_retry_documented)
    show "\<forall>w. \<exists>job w1. GetJob stuck_nomad (rs_candidate (rp_state nomad_plugin))
        (rc_namespace (rp_config nomad_plugin)) w = ((Some job, None), w1)"
      by (simp add: nomad_plugin_def stuck_GetJob)
    show "ne_retry stuck_nomad (ne_timeout stuck_nomad) (ne_interval stuck_nomad)
        (job_attempt stuck_nomad (rs_candidate (rp_state nomad_plugin)) (rc_namespace (rp_config nomad_plugin)))
        ([], None, None) = (Some (GoErr ''0 of 1 allocations healthy, retry''), [], Some (nomad_sample ''web''), None)"
      using wait by (simp add: nomad_plugin_def)
    show "ne_is_timeout stuck_nomad (GoErr ''0 of 1 allocations healthy, retry'')" by (simp add: stuck_nomad_def)
    show "DeleteJob stuck_nomad (rs_primary (rp_state nomad_plugin)) (rc_namespace (rp_config nomad_plugin))
        (fst ([], Some (nomad_sample ''web''), None)) = (None, [''web-primary''])"
      by (simp add: DeleteJob_def nomad_plugin_def stuck_GetJob) (simp add: stuck_nomad_def)
  qed
  then show ?thesis by (simp add: runtime_saveState_def on_nomad_def idle_store_def)
qed

text \<open>
  Scaling a job loses its version: the resource version is written in base ten and
  read in base two with the error ignored, so an update registers version 0 for every
  version with a digit above one.
\<close>

theorem nomad_update_loses_version:
  assumes "GetJob env (d_name d) (d_namespace d) w = ((Some job, None), w1)"
    and "d_resource_version d = decimal (unat (v :: 64 word))"
    and "c \<in> set (decimal (unat v))" and "c \<noteq> CHR ''0''" and "c \<noteq> CHR ''1''"
  shows "nomad_UpdateDeployment env d w =
      (case na_register (ne_api env) ''''
              (job\<lparr>nj_groups := map (tg_count_update (\<lambda>_. Some (d_instances d))) (nj_groups job),
                 nj_meta := d_meta d, nj_version := 0\<rparr>) w1 of
         (e, w2) \<Rightarrow> (Returned e, w2))"
  using assms(1,2) parse_base2_decimal [OF assms(3-5)]
  by (simp add: nomad_UpdateDeployment_def UpsertJob_def)

lemma nomad_update_loses_version_witness:
  "\<exists>job1. nomad_UpdateDeployment (reference_nomad ''running'')
      (NewDeployment\<lparr>d_name := ''web'', d_namespace := ''default'', d_resource_version := decimal (unat (12 :: 64 word))\<rparr>)
      [nomad_sample ''web''] = (Returned None, [job1]) \<and> nj_version job1 = 0"
proof -
  let ?d = "NewDeployment\<lparr>d_name := ''web'', d_namespace := ''default'', d_resource_version := decimal (unat (12 :: 64 word))\<rparr>"
  have two: "CHR ''2'' \<in> set (decimal (unat (12 :: 64 word)))" by (simp add: decimal.simps)
  have "GetJob (reference_nomad ''running'') (d_name ?d) (d_namespace ?d) [nomad_sample ''web''] =
      ((Some (nomad_sample ''web''), None), [nomad_sample ''web''])"
    by (simp add: GetJob_def GetJobWithSelector_def reference_nomad_def reference_nomad_api_def nomad_sample_def
        anchor_end_def has_suffix_def)
  from nomad_update_loses_version [OF this _ two] show ?thesis
    by (simp add: reference_nomad_def reference_nomad_api_def nomad_sample_def)
qed

end
