(* ===== verification/Monitor.thy ===== *)
theory Monitor
  imports Interfaces Complex_Main
begin

text \<open>
  The Prometheus monitor (\<open>pkg/plugins/prometheus/monitor.go\<close>, \<open>queries.go\<close>) and the
  client it queries the server with (\<open>pkg/clients/prometheus.go\<close>). The template language,
  the API library and the retry library are parameters. A sample is a floating point
  number: a rational here, or one of the values that are not numbers.
\<close>

subsection \<open>Preset queries\<close>

definition KubernetesEnvoyRequestSuccess :: string where
  \<open>KubernetesEnvoyRequestSuccess = text_lines
     ['''',
      ''sum('',
      [CHR 0x09] @ ''rate('',
      ''    envoy_cluster_upstream_rq{'',
      ''      namespace="{{ .Namespace }}",'',
      ''      pod!~"{{ .ReleaseName }}-primary.*",'',
      ''      pod=~"{{ .CandidateName }}.*",'',
      ''      envoy_cluster_name="local_app",'',
      ''      envoy_response_code!~"5.*"'',
      ''    }[{{ .Interval }}]'',
      ''  )'',
      '')'',
      ''/'',
      ''sum('',
      ''  rate('',
      ''    envoy_cluster_upstream_rq{'',
      ''      namespace="{{ .Namespace }}",'',
      ''      envoy_cluster_name="local_app",'',
      ''      pod!~"{{ .ReleaseName }}-primary.*",'',
      ''      pod=~"{{ .CandidateName }}.*",'',
      ''    }[{{ .Interval }}]'',
      ''  )'',
      '')'',
      ''* 100'']\<close>

definition KubernetesEnvoyRequestDuration :: string where
  \<open>KubernetesEnvoyRequestDuration = text_lines
     ['''',
      ''histogram_quantile('',
      ''  0.99,'',
      ''  sum('',
      ''    rate('',
      ''      envoy_cluster_upstream_rq_time_bucket{'',
      ''        namespace="{{ .Namespace }}",'',
      ''        envoy_cluster_name="local_app",'',
      ''      '' @ [CHR 0x09] @ ''pod!~"{{ .ReleaseName }}-primary.*",'',
      ''      '' @ [CHR 0x09] @ ''pod=~"{{ .CandidateName }}.*",'',
      ''      }[{{ .Interval }}]'',
      ''    )'',
      ''  ) by (le)'',
      '')'']\<close>

definition NomadEnvoyRequestSuccess :: string where
  \<open>NomadEnvoyRequestSuccess = text_lines
     ['''',
      ''sum('',
      [CHR 0x09] @ ''rate('',
      ''    envoy_cluster_upstream_rq{'',
      ''      job!~"{{ .ReleaseName }}-primary",'',
      ''      job=~"{{ .CandidateName }}",'',
      ''      envoy_cluster_name="local_app",'',
      ''      envoy_response_code!~"5.*"'',
      ''    }[{{ .Interval }}]'',
      ''  )'',
      '')'',
      ''/'',
      ''sum('',
      ''  rate('',
      ''    envoy_cluster_upstream_rq{'',
      ''      envoy_cluster_name="local_app",'',
      ''      job!~"{{ .ReleaseName }}-primary",'',
      ''      job=~"{{ .CandidateName }}",'',
      ''    }[{{ .Interval }}]'',
      ''  )'',
      '')'',
      ''* 100'']\<close>

definition NomadEnvoyRequestDuration :: string where
  \<open>NomadEnvoyRequestDuration = text_lines
     ['''',
      ''histogram_quantile('',
      ''  0.99,'',
      ''  sum('',
      ''    rate('',
      ''      envoy_cluster_upstream_rq_time_bucket{'',
      ''        envoy_cluster_name="local_app",'',
      ''      '' @ [CHR 0x09] @ ''job!~"{{ .ReleaseName }}-primary",'',
      ''      '' @ [CHR 0x09] @ ''job=~"{{ .CandidateName }}",'',
      ''      }[{{ .Interval }}]'',
      ''    )'',
      ''  ) by (le)'',
      '')'']\<close>

subsection \<open>Configuration\<close>

record monitor_query =
  mq_name :: string
  mq_preset :: string
  mq_query :: string
  mq_min :: "int option"
  mq_max :: "int option"

record monitor_config =
  mc_address :: string
  mc_queries :: "monitor_query list"

record monitor =
  mo_config :: monitor_config
  mo_runtime :: string
  mo_name :: string
  mo_namespace :: string

definition monitor_query_zero :: monitor_query where
  "monitor_query_zero = \<lparr>mq_name = '''', mq_preset = '''', mq_query = '''', mq_min = None, mq_max = None\<rparr>"

definition monitor_query_fields :: "(string \<times> monitor_query member_dec) list" where
  "monitor_query_fields =
     [(''name'', fld_str (\<lambda>s a. a\<lparr>mq_name := s\<rparr>)),
      (''preset'', fld_str (\<lambda>s a. a\<lparr>mq_preset := s\<rparr>)),
      (''query'', fld_str (\<lambda>s a. a\<lparr>mq_query := s\<rparr>)),
      (''min'', fld_int_ptr (\<lambda>n a. a\<lparr>mq_min := n\<rparr>)),
      (''max'', fld_int_ptr (\<lambda>n a. a\<lparr>mq_max := n\<rparr>))]"

definition monitor_config_zero :: monitor_config where
  "monitor_config_zero = \<lparr>mc_address = '''', mc_queries = []\<rparr>"

definition monitor_config_fields :: "(string \<times> monitor_config member_dec) list" where
  "monitor_config_fields =
     [(''address'', fld_str (\<lambda>s a. a\<lparr>mc_address := s\<rparr>)),
      (''queries'', fld_slice (\<lambda>j. dec_object monitor_query_fields j monitor_query_zero)
         (\<lambda>qs a. a\<lparr>mc_queries := qs\<rparr>))]"

definition monitor_New :: "string \<Rightarrow> string \<Rightarrow> string \<Rightarrow> monitor" where
  "monitor_New name namespace runtime =
     \<lparr>mo_config = monitor_config_zero, mo_runtime = runtime, mo_name = name, mo_namespace = namespace\<rparr>"

text \<open>The plugin keeps what was decoded before an error.\<close>

definition monitor_Configure :: "bytes \<Rightarrow> monitor \<Rightarrow> go_error option \<times> monitor" where
  "monitor_Configure data p =
     (case unmarshal monitor_config_fields data monitor_config_zero of
        (c, e) \<Rightarrow> (map_option (wrap_err ''unable to decode Monitoring config: '') e, p\<lparr>mo_config := c\<rparr>))"

subsection \<open>The client\<close>

datatype sample = Number rat | NaN | Infinite bool

datatype prom_value = NoValue | Vector "sample list" | OtherValue string

text \<open>
  \<open>pc_create\<close> is \<open>api.NewClient\<close>, \<open>pc_ctx\<close> the error of the context, \<open>pc_query\<close> the query
  of the API, which gives a value also with an error. The retried function assigns the
  value and the error variable of the enclosing one.
\<close>

type_synonym 'w query_attempt = "'w \<times> prom_value"

record 'w prom_env =
  pc_create :: "string \<Rightarrow> go_error option"
  pc_ctx :: "'w \<Rightarrow> go_error option"
  pc_is_timeout :: "go_error \<Rightarrow> bool"
  pc_query :: "string \<Rightarrow> string \<Rightarrow> 'w \<Rightarrow> (prom_value \<times> go_error option) \<times> 'w"
  pc_retry :: "'w query_attempt retry_lib"

definition query_once :: "'w prom_env \<Rightarrow> string \<Rightarrow> string \<Rightarrow> 'w query_attempt \<Rightarrow> go_error option \<times> 'w query_attempt" where
  "query_once env address query s =
     (case pc_ctx env (fst s) of
        Some e \<Rightarrow>
          (Some (if pc_is_timeout env e
                 then GoErr (''timeout while trying to query prometheus server: '' @ address) else e), s)
      | None \<Rightarrow>
          (case pc_query env address query (fst s) of
             ((v, Some e), w1) \<Rightarrow>
               (Some (wrap_err (''error querying prometheus server: '' @ address @ '', '') e), (w1, v))
           | ((v, None), w1) \<Rightarrow> (None, (w1, v))))"

definition prom_Query :: "'w prom_env \<Rightarrow> string \<Rightarrow> string \<Rightarrow> 'w \<Rightarrow> (prom_value \<times> go_error option) \<times> 'w" where
  "prom_Query env address query w =
     (case pc_create env address of
        Some e \<Rightarrow> ((NoValue, Some (wrap_err ''unable to create new Prometheus client: '' e)), w)
      | None \<Rightarrow>
          (case pc_retry env (30 * 1000000000) (1 * 1000000000) (query_once env address query) (w, NoValue) of
             (err, (w1, v)) \<Rightarrow> ((v, err), w1)))"

subsection \<open>The check\<close>

record query_context =
  qc_release :: string
  qc_candidate :: string
  qc_namespace :: string
  qc_interval :: string

text \<open>
  \<open>me_query\<close> is the client; \<open>me_template\<close> parses a template, which is then executed on the
  context; \<open>me_duration\<close> and \<open>me_show\<close> print a duration and a value. \<open>me_int\<close> is what the
  conversion of a sample to an integer gives where the language leaves it to the
  implementation.
\<close>

record 'w monitor_env =
  me_query :: "string \<Rightarrow> string \<Rightarrow> 'w \<Rightarrow> (prom_value \<times> go_error option) \<times> 'w"
  me_template :: "string \<Rightarrow> go_error + (query_context \<Rightarrow> go_error + string)"
  me_duration :: "int \<Rightarrow> string"
  me_show :: "prom_value \<Rightarrow> string"
  me_int :: "sample \<Rightarrow> int"

definition truncate_rat :: "rat \<Rightarrow> int" where
  "truncate_rat r = (if 0 \<le> r then \<lfloor>r\<rfloor> else \<lceil>r\<rceil>)"

text \<open>The conversion \<open>int(v)\<close>: towards zero, for the numbers in range.\<close>

definition sample_int :: "'w monitor_env \<Rightarrow> sample \<Rightarrow> int" where
  "sample_int env v =
     (case v of Number r \<Rightarrow> (if int64 (truncate_rat r) then truncate_rat r else me_int env v) | _ \<Rightarrow> me_int env v)"

definition preset_query :: "string \<Rightarrow> string option" where
  "preset_query preset =
     (if preset = ''kubernetes-envoy-request-success'' then Some KubernetesEnvoyRequestSuccess
      else if preset = ''kubernetes-envoy-request-duration'' then Some KubernetesEnvoyRequestDuration
      else if preset = ''nomad-envoy-request-success'' then Some NomadEnvoyRequestSuccess
      else if preset = ''nomad-envoy-request-duration'' then Some NomadEnvoyRequestDuration
      else None)"

text \<open>The first loop: the text of each query, or the first preset that does not exist.\<close>

fun resolve_queries :: "string \<Rightarrow> monitor_query list \<Rightarrow> go_error + string list" where
  "resolve_queries runtime [] = Inr []"
| "resolve_queries runtime (q # qs) =
     (let preset = runtime @ ''-'' @ mq_preset q
      in case (if mq_preset q \<noteq> '''' then preset_query preset else Some (mq_query q)) of
           None \<Rightarrow> Inl (GoErr (''preset query '' @ preset @ '', does not exist''))
         | Some sql \<Rightarrow>
             (case resolve_queries runtime qs of Inl e \<Rightarrow> Inl e | Inr sqls \<Rightarrow> Inr (sql # sqls)))"

definition decimal_int :: "int \<Rightarrow> string" where
  "decimal_int n = (if n < 0 then ''-'' @ decimal (nat (- n)) else decimal (nat n))"

definition judge :: "'w monitor_env \<Rightarrow> monitor_query \<Rightarrow> prom_value \<Rightarrow> check_result \<times> go_error option" where
  "judge env q val =
     (let failed = ''check failed for query '' @ mq_name q @ '' using preset '' @ mq_preset q
      in case val of
           Vector [] \<Rightarrow> (CheckNoMetrics, Some (GoErr (failed @ '', null value returned by query: '' @ me_show env val)))
         | Vector (v # vs) \<Rightarrow>
             (let value = sample_int env v;
                  below = (case mq_min q of None \<Rightarrow> False | Some n \<Rightarrow> value < n);
                  above = (case mq_max q of None \<Rightarrow> False | Some n \<Rightarrow> value > n)
              in if below \<or> above then (CheckFailed, Some (GoErr (failed @ '', got value '' @ decimal_int value)))
                 else (CheckSuccess, None))
         | _ \<Rightarrow> (CheckNoMetrics, Some (GoErr (failed @ '', got value '' @ me_show env val))))"

text \<open>One round of the second loop, for a query and its text.\<close>

definition run_query :: "'w monitor_env \<Rightarrow> string \<Rightarrow> query_context \<Rightarrow> monitor_query \<Rightarrow> string \<Rightarrow> 'w \<Rightarrow>
    (check_result \<times> go_error option) \<times> 'w" where
  "run_query env address ctx q sql w =
     (if sql = '''' then
        ((CheckError, Some (GoErr (''query '' @ mq_name q @ '' is empty, please specify a valid Prometheus query''))), w)
      else
        (case me_template env sql of
           Inl e \<Rightarrow> ((CheckError, Some (wrap_err ''unable to process query template: '' e)), w)
         | Inr render \<Rightarrow>
             (case render ctx of
                Inl e \<Rightarrow> ((CheckError, Some (wrap_err ''unable to process query template: '' e)), w)
              | Inr out \<Rightarrow>
                  (case me_query env address out w of
                     ((val, Some e), w1) \<Rightarrow> ((CheckError, Some (wrap_err ''unable to query prometheus: '' e)), w1)
                   | ((val, None), w1) \<Rightarrow> (judge env q val, w1)))))"

fun run_queries :: "'w monitor_env \<Rightarrow> string \<Rightarrow> query_context \<Rightarrow> (monitor_query \<times> string) list \<Rightarrow> 'w \<Rightarrow>
    (check_result \<times> go_error option) \<times> 'w" where
  "run_queries env address ctx [] w = ((CheckSuccess, None), w)"
| "run_queries env address ctx ((q, sql) # qs) w =
     (case run_query env address ctx q sql w of
        ((res, Some e), w1) \<Rightarrow> ((res, Some e), w1)
      | ((res, None), w1) \<Rightarrow> run_queries env address ctx qs w1)"

definition monitor_Check :: "'w monitor_env \<Rightarrow> monitor \<Rightarrow> string \<Rightarrow> int \<Rightarrow> 'w \<Rightarrow>
    (check_result \<times> go_error option) \<times> 'w" where
  "monitor_Check env p candidateName interval w =
     (case resolve_queries (mo_runtime p) (mc_queries (mo_config p)) of
        Inl e \<Rightarrow> ((CheckError, Some e), w)
      | Inr sqls \<Rightarrow>
          run_queries env (mc_address (mo_config p))
            \<lparr>qc_release = mo_name p, qc_candidate = candidateName, qc_namespace = mo_namespace p,
             qc_interval = me_duration env interval\<rparr>
            (zip (mc_queries (mo_config p)) sqls) w)"

subsection \<open>Outcomes of a check\<close>

definition in_range :: "'w monitor_env \<Rightarrow> monitor_query \<Rightarrow> sample \<Rightarrow> bool" where
  "in_range env q v \<longleftrightarrow>
     (\<forall>n. mq_min q = Some n \<longrightarrow> n \<le> sample_int env v) \<and> (\<forall>n. mq_max q = Some n \<longrightarrow> sample_int env v \<le> n)"

text \<open>
  Between two worlds of a run, only queries apart, the server answered one with a first
  sample in the bounds of \<open>q\<close>.
\<close>

definition asks :: "'w monitor_env \<Rightarrow> string \<Rightarrow> 'w \<Rightarrow> 'w \<Rightarrow> bool" where
  "asks env address w w' \<longleftrightarrow> (\<exists>out. w' = snd (me_query env address out w))"

definition answered_in_range :: "'w monitor_env \<Rightarrow> string \<Rightarrow> monitor_query \<Rightarrow> 'w \<Rightarrow> 'w \<Rightarrow> bool" where
  "answered_in_range env address q w w' \<longleftrightarrow>
     (\<exists>out w0 v vs w1. rtranclp (asks env address) w w0 \<and> me_query env address out w0 = ((Vector (v # vs), None), w1) \<and>
        rtranclp (asks env address) w1 w' \<and> in_range env q v)"

lemma answered_later:
  "asks env address w w0 \<Longrightarrow> answered_in_range env address q w0 w1 \<Longrightarrow> answered_in_range env address q w w1"
  unfolding answered_in_range_def by (meson converse_rtranclp_into_rtranclp)

lemma answered_before:
  "answered_in_range env address q w w0 \<Longrightarrow> rtranclp (asks env address) w0 w1 \<Longrightarrow> answered_in_range env address q w w1"
  unfolding answered_in_range_def by (meson rtranclp_trans)

lemma judge_iff:
  "judge env q val = (res, e) \<Longrightarrow>
     (e = None \<longleftrightarrow> res = CheckSuccess) \<and>
     (res = CheckSuccess \<longleftrightarrow> (\<exists>v vs. val = Vector (v # vs) \<and> in_range env q v))"
  by (auto simp: judge_def in_range_def Let_def split: prom_value.splits list.splits option.splits if_splits)

lemma run_query_iff:
  assumes "run_query env address ctx q sql w = ((res, e), w1)"
  shows "(e = None \<longleftrightarrow> res = CheckSuccess) \<and> (w1 = w \<or> asks env address w w1) \<and>
    (res = CheckSuccess \<longrightarrow> answered_in_range env address q w w1)"
proof -
  consider x where "e = Some x" "res = CheckError" "w1 = w \<or> asks env address w w1"
    | out val where "me_query env address out w = ((val, None), w1)" "judge env q val = (res, e)"
    using assms unfolding asks_def
    by (auto simp: run_query_def split: if_splits sum.splits prod.splits option.splits) (metis snd_conv)+
  then show ?thesis
  proof cases
    case 2
    then have "asks env address w w1" unfolding asks_def by (metis snd_conv)
    with 2 judge_iff [OF 2(2)] show ?thesis unfolding answered_in_range_def by blast
  qed simp
qed

lemma run_queries_iff:
  "run_queries env address ctx qs w = ((res, e), w1) \<Longrightarrow>
     (e = None \<longleftrightarrow> res = CheckSuccess) \<and> rtranclp (asks env address) w w1 \<and>
     (res = CheckSuccess \<longrightarrow> (\<forall>q \<in> set (map fst qs). answered_in_range env address q w w1))"
proof (induction env address ctx qs w rule: run_queries.induct)
  case (1 env address ctx w)
  then show ?case by simp
next
  case (2 env address ctx q sql qs w)
  obtain res' e' w' where r: "run_query env address ctx q sql w = ((res', e'), w')" by (metis prod.collapse)
  note one = run_query_iff [OF r]
  show ?case
  proof (cases e')
    case None
    with 2 r have "(e = None \<longleftrightarrow> res = CheckSuccess) \<and> rtranclp (asks env address) w' w1 \<and>
        (res = CheckSuccess \<longrightarrow> (\<forall>q \<in> set (map fst qs). answered_in_range env address q w' w1))" by simp
    with one None show ?thesis by (auto intro: answered_later answered_before converse_rtranclp_into_rtranclp)
  next
    case (Some x)
    with 2 r one show ?thesis by auto
  qed
qed

lemma resolve_queries_length: "resolve_queries runtime qs = Inr sqls \<Longrightarrow> length sqls = length qs"
  by (induction qs arbitrary: sqls) (auto simp: Let_def split: option.splits sum.splits if_splits)

text \<open>A monitor with one query, of a server that always gives the same samples.\<close>

definition ref_monitor :: "sample list \<Rightarrow> unit monitor_env" where
  "ref_monitor vs =
     \<lparr>me_query = (\<lambda>a q w. ((Vector vs, None), w)), me_template = (\<lambda>t. Inr (\<lambda>c. Inr t)),
      me_duration = (\<lambda>d. ''30s''), me_show = (\<lambda>v. ''vector''), me_int = (\<lambda>v. - (2 ^ 63))\<rparr>"

definition sample_query :: monitor_query where
  "sample_query =
     \<lparr>mq_name = ''request-success'', mq_preset = ''envoy-request-success'', mq_query = '''', mq_min = Some 99,
      mq_max = Some 100\<rparr>"

definition sample_monitor :: monitor where
  "sample_monitor =
     (monitor_New ''web'' ''default'' ''kubernetes'')
       \<lparr>mo_config := \<lparr>mc_address = ''http://localhost:9090'', mc_queries = [sample_query]\<rparr>\<rparr>"

lemma ref_monitor_passes:
  "monitor_Check (ref_monitor [Number (199 / 2)]) sample_monitor cand d () = ((CheckSuccess, None), ())"
proof -
  have "\<lfloor>199 / 2 :: rat\<rfloor> = 99" by (simp add: floor_eq_iff)
  then have i: "sample_int (ref_monitor [Number (199 / 2)]) (Number (199 / 2)) = 99"
    by (simp add: sample_int_def truncate_rat_def int64_def)
  have n: "KubernetesEnvoyRequestSuccess \<noteq> ''''" by (simp add: KubernetesEnvoyRequestSuccess_def text_lines_def)
  show ?thesis
    using i n
    by (simp add: monitor_Check_def sample_monitor_def sample_query_def monitor_New_def preset_query_def run_query_def
        judge_def Let_def) (simp add: ref_monitor_def judge_def)
qed

lemma monitor_Check_outcome:
  assumes "monitor_Check env p cand d w = ((res, e), w1)"
  shows "(e = None \<longleftrightarrow> res = CheckSuccess) \<and>
    (res = CheckSuccess \<longrightarrow>
       (\<forall>q \<in> set (mc_queries (mo_config p)). answered_in_range env (mc_address (mo_config p)) q w w1))"
proof (cases "resolve_queries (mo_runtime p) (mc_queries (mo_config p))")
  case (Inl x)
  with assms show ?thesis by (auto simp: monitor_Check_def)
next
  case (Inr sqls)
  then have m: "map fst (zip (mc_queries (mo_config p)) sqls) = mc_queries (mo_config p)"
    by (simp add: resolve_queries_length)
  from assms Inr obtain ctx where
    "run_queries env (mc_address (mo_config p)) ctx (zip (mc_queries (mo_config p)) sqls) w = ((res, e), w1)"
    by (auto simp: monitor_Check_def)
  from run_queries_iff [OF this] show ?thesis unfolding m by blast
qed

subsection \<open>Properties\<close>



text \<open>
  The bounds are compared after the value has been cut to an integer, so a value above
  the maximum passes as long as it is less than one above it: an error rate of 0.9 percent
  passes a maximum of 0.
\<close>

theorem monitor_truncates_value:
  assumes "mq_max q = Some n" and "mq_min q = None" and "0 \<le> n" and "n < 2 ^ 63"
    and "of_int n \<le> r" and "r < of_int n + 1"
  shows "judge env q (Vector (Number r # vs)) = (CheckSuccess, None)"
proof -
  have "0 \<le> r" using assms(3,5) by (meson of_int_0_le_iff order_trans)
  with assms(5,6) have "truncate_rat r = n" by (simp add: truncate_rat_def floor_eq_iff)
  with assms(3,4) have "sample_int env (Number r) = n" by (simp add: sample_int_def int64_def)
  with assms(1,2) show ?thesis by (simp add: judge_def Let_def)
qed

lemma monitor_truncates_value_witness:
  "judge (ref_monitor []) (sample_query\<lparr>mq_min := None, mq_max := Some 0\<rparr>) (Vector [Number (9 / 10)]) = (CheckSuccess, None)"
  by (rule monitor_truncates_value [where n = 0]) simp_all

end
