(* ===== verification/Hooks.thy ===== *)
theory Hooks
  imports Workers
begin

text \<open>
  The webhook plugins for Slack (\<open>pkg/plugins/slack/plugin.go\<close>) and Discord
  (\<open>pkg/plugins/discord/plugin.go\<close>). Both filter the messages by state, fill a template and
  hand the text to a client library. The template language and the two libraries are
  parameters. What the state machine relies on is a locale that both are instances of.
\<close>

subsection \<open>Texts\<close>

definition slack_defaultContent :: string where
  \<open>slack_defaultContent = text_lines
     ['''',
      ''{{ .Title }}'',
      '''',
      ''Consul Release Controller state has changed to "{{ .State }}" for'',
      ''the release "{{ .Name }}" in the namespace "{{ .Namespace }}".'',
      '''',
      ''Primary traffic: {{ .PrimaryTraffic }}'',
      ''Candidate traffic: {{ .CandidateTraffic }}'',
      '''',
      ''{{ if ne .Error "" }}'',
      ''An error occurred when processing: {{ .Error }}'',
      ''{{ else }}'',
      ''The outcome is "{{ .Outcome }}"'',
      ''{{ end }}'']\<close>

definition discord_defaultContent :: string where
  \<open>discord_defaultContent = text_lines
     ['''',
      ''Consul Release Controller state has changed to "{{ .State }}" for'',
      ''the release "{{ .Name }}" in the namespace "{{ .Namespace }}".'',
      '''',
      ''Primary traffic: {{ .PrimaryTraffic }}'',
      ''Candidate traffic: {{ .CandidateTraffic }}'',
      '''',
      ''{{ if ne .Error "" }}'',
      ''An error occurred when processing: {{ .Error }}'',
      ''{{ else }}'',
      ''The outcome is "{{ .Outcome }}"'',
      ''{{ end }}'']\<close>

definition ErrMissingURL :: string where
  \<open>ErrMissingURL =
     ''ID is a required field when configuring Discord webhooks, '' @ [CHR 0x0A] @
     [CHR 0x09] @ ''you can obtain this value from the webhook URL in the Discord UI ('' @ [CHR 0x27] @ ''https://discord.com/api/webhooks/{id}/{token}'' @ [CHR 0x27] @ '')''\<close>

definition ErrMissingID :: string where
  \<open>ErrMissingID =
     ''ID is a required field when configuring Discord webhooks, '' @ [CHR 0x0A] @
     [CHR 0x09] @ ''you can obtain this value from the webhook URL in the Discord UI ('' @ [CHR 0x27] @ ''https://discord.com/api/webhooks/{id}/{token}'' @ [CHR 0x27] @ '')''\<close>

definition ErrMissingToken :: string where
  \<open>ErrMissingToken =
     ''Token is a required field when configuring Discord webhooks, '' @ [CHR 0x0A] @
     [CHR 0x09] @ ''you can obtain this value from the webhook URL in the Discord UI ('' @ [CHR 0x27] @ ''https://discord.com/api/webhooks/{id}/{token}'' @ [CHR 0x27] @ '')''\<close>

subsection \<open>Configuration\<close>

record slack_config =
  sl_url :: string
  sl_template :: string
  sl_status :: "string list"

record discord_config =
  dc_id :: string
  dc_token :: string
  dc_template :: string
  dc_status :: "string list"

definition slack_config_zero :: slack_config where
  "slack_config_zero = \<lparr>sl_url = '''', sl_template = '''', sl_status = []\<rparr>"

definition slack_config_fields :: "(string \<times> slack_config member_dec) list" where
  "slack_config_fields =
     [(''url'', fld_str (\<lambda>s a. a\<lparr>sl_url := s\<rparr>)),
      (''template'', fld_str (\<lambda>s a. a\<lparr>sl_template := s\<rparr>)),
      (''status'', fld_slice elem_str (\<lambda>ss a. a\<lparr>sl_status := ss\<rparr>))]"

definition discord_config_zero :: discord_config where
  "discord_config_zero = \<lparr>dc_id = '''', dc_token = '''', dc_template = '''', dc_status = []\<rparr>"

definition discord_config_fields :: "(string \<times> discord_config member_dec) list" where
  "discord_config_fields =
     [(''id'', fld_str (\<lambda>s a. a\<lparr>dc_id := s\<rparr>)),
      (''token'', fld_str (\<lambda>s a. a\<lparr>dc_token := s\<rparr>)),
      (''template'', fld_str (\<lambda>s a. a\<lparr>dc_template := s\<rparr>)),
      (''status'', fld_slice elem_str (\<lambda>ss a. a\<lparr>dc_status := ss\<rparr>))]"

definition slack_Configure :: "validator \<Rightarrow> bytes \<Rightarrow> go_error + slack_config" where
  "slack_Configure v data =
     (case unmarshal slack_config_fields data slack_config_zero of
        (c, Some e) \<Rightarrow> Inl (wrap_err ''unable to decode Webhook config: '' e)
      | (c, None) \<Rightarrow>
          (let bad = v [(''PluginConfig.URL'', [VRequired], VStr (sl_url c))]
           in if bad \<noteq> [] then Inl (GoErr (validation_message [(''PluginConfig.URL'', ErrMissingURL)] bad))
              else Inr c))"

definition discord_Configure :: "validator \<Rightarrow> bytes \<Rightarrow> go_error + discord_config" where
  "discord_Configure v data =
     (case unmarshal discord_config_fields data discord_config_zero of
        (c, Some e) \<Rightarrow> Inl (wrap_err ''unable to decode Monitoring config: '' e)
      | (c, None) \<Rightarrow>
          (let bad = v [(''PluginConfig.ID'', [VRequired], VStr (dc_id c)),
                        (''PluginConfig.Token'', [VRequired], VStr (dc_token c))]
           in if bad \<noteq> [] then
                Inl (GoErr (validation_message
                  [(''PluginConfig.ID'', ErrMissingID), (''PluginConfig.Token'', ErrMissingToken)] bad))
              else Inr c))"

subsection \<open>Sending\<close>

text \<open>
  \<open>we_template\<close> parses a template, which is then executed on the message; \<open>we_slack\<close> posts
  a text to a URL and gives the errors met; \<open>we_embed\<close> posts an embed with a title and a
  description to the webhook of an id and token.
\<close>

record 'w hook_env =
  we_template :: "string \<Rightarrow> go_error + (webhook_message \<Rightarrow> go_error + string)"
  we_slack :: "string \<Rightarrow> string \<Rightarrow> 'w \<Rightarrow> go_error list \<times> 'w"
  we_embed :: "string \<Rightarrow> string \<Rightarrow> string \<Rightarrow> string \<Rightarrow> 'w \<Rightarrow> go_error option \<times> 'w"

text \<open>The loop over the configured states.\<close>

definition wanted :: "string list \<Rightarrow> webhook_message \<Rightarrow> bool" where
  "wanted status m \<longleftrightarrow> status = [] \<or> list_ex (\<lambda>s. s = wm_state m) status"

text \<open>The default text or the configured one, filled in.\<close>

definition message_text :: "'w hook_env \<Rightarrow> string \<Rightarrow> string \<Rightarrow> webhook_message \<Rightarrow> go_error + string" where
  "message_text env default_content tmpl m =
     (case we_template env (if tmpl \<noteq> '''' then tmpl else default_content) of
        Inl e \<Rightarrow> Inl (wrap_err ''unable to process message template for Webhook plugin: '' e)
      | Inr render \<Rightarrow>
          (case render m of
             Inl e \<Rightarrow> Inl (wrap_err ''unable to execute template for Webhook plugin: '' e)
           | Inr out \<Rightarrow> Inr out))"

text \<open>A slice of errors is printed in brackets, separated by spaces.\<close>

fun show_errors :: "go_error list \<Rightarrow> string" where
  "show_errors [] = ''''"
| "show_errors [e] = err_msg e"
| "show_errors (e # es) = err_msg e @ '' '' @ show_errors es"

definition slack_client_Send :: "'w hook_env \<Rightarrow> string \<Rightarrow> string \<Rightarrow> 'w \<Rightarrow> go_error option \<times> 'w" where
  "slack_client_Send env url content w =
     (case we_slack env url content w of
        (errs, w1) \<Rightarrow>
          (if errs \<noteq> [] then Some (GoErr (''unable to call Slack webhook: ['' @ show_errors errs @ '']'')) else None, w1))"

definition slack_Send :: "'w hook_env \<Rightarrow> slack_config \<Rightarrow> webhook_message \<Rightarrow> 'w \<Rightarrow> go_error option \<times> 'w" where
  "slack_Send env c m w =
     (if \<not> wanted (sl_status c) m then (None, w)
      else
        (case message_text env slack_defaultContent (sl_template c) m of
           Inl e \<Rightarrow> (Some e, w)
         | Inr out \<Rightarrow> slack_client_Send env (sl_url c) out w))"

definition discord_Send :: "'w hook_env \<Rightarrow> discord_config \<Rightarrow> webhook_message \<Rightarrow> 'w \<Rightarrow> go_error option \<times> 'w" where
  "discord_Send env c m w =
     (if \<not> wanted (dc_status c) m then (None, w)
      else
        (case message_text env discord_defaultContent (dc_template c) m of
           Inl e \<Rightarrow> (Some e, w)
         | Inr out \<Rightarrow>
             (case we_embed env (dc_id c) (dc_token c) (wm_title m) out w of
                (Some e, w1) \<Rightarrow> (Some (wrap_err ''unable to make Webhook call to Discord: '' e), w1)
              | (None, w1) \<Rightarrow> (None, w1))))"

subsection \<open>Contract of a webhook\<close>

text \<open>
  A message the webhook is not subscribed to is passed over without an error and without
  a call; the state machine's loop over the webhooks then does nothing for it.
\<close>

locale webhook_contract =
  fixes send :: "'c \<Rightarrow> webhook_message \<Rightarrow> 'w \<Rightarrow> go_error option \<times> 'w"
    and status :: "'c \<Rightarrow> string list"
  assumes send_unwanted: "\<not> wanted (status c) m \<Longrightarrow> send c m w = (None, w)"
begin

lemma unwanted_calls: "list_all (\<lambda>c. \<not> wanted (status c) m) cs \<Longrightarrow> callWebhooks (map send cs) m w = w"
  by (induction cs) (simp_all add: send_unwanted)

lemma calls_of_wanted:
  "callWebhooks (map send cs) m w = callWebhooks (map send (filter (\<lambda>c. wanted (status c) m) cs)) m w"
  by (induction cs arbitrary: w) (simp_all add: send_unwanted)

end

interpretation slack: webhook_contract "slack_Send env" sl_status
  by unfold_locales (simp add: slack_Send_def)

interpretation discord: webhook_contract "discord_Send env" dc_status
  by unfold_locales (simp add: discord_Send_def)

text \<open>A plugin of either kind, as the state machine holds them.\<close>

datatype hook = SlackHook slack_config | DiscordHook discord_config

fun hook_Send :: "'w hook_env \<Rightarrow> hook \<Rightarrow> webhook_message \<Rightarrow> 'w \<Rightarrow> go_error option \<times> 'w" where
  "hook_Send env (SlackHook c) m w = slack_Send env c m w"
| "hook_Send env (DiscordHook c) m w = discord_Send env c m w"

fun hook_status :: "hook \<Rightarrow> string list" where
  "hook_status (SlackHook c) = sl_status c"
| "hook_status (DiscordHook c) = dc_status c"

interpretation hooks: webhook_contract "hook_Send env" hook_status
proof
  show "hook_Send env c m w = (None, w)" if "\<not> wanted (hook_status c) m" for c m w
    using that by (cases c) (simp_all add: slack.send_unwanted discord.send_unwanted)
qed

subsection \<open>Properties\<close>


end
