(* ===== verification/HttpTest.thy ===== *)
theory HttpTest
  imports Interfaces
begin

text \<open>
  The HTTP post deployment test (\<open>pkg/plugins/httptest/plugin.go\<close>): it calls the candidate
  through the upstream router and asks the monitor after each call, until enough checks in
  a row have passed, a call fails or its time is up. The loop may run for ever where time
  does not pass, so its value is an option; that it returns is proved from a clock.
\<close>

subsection \<open>Configuration\<close>

record http_config =
  hc_path :: string
  hc_method :: string
  hc_payload :: string
  hc_required :: int
  hc_interval :: string
  hc_timeout :: string

record http_test =
  ht_config :: http_config
  ht_name :: string
  ht_namespace :: string
  ht_runtime :: string

definition http_config_zero :: http_config where
  "http_config_zero =
     \<lparr>hc_path = '''', hc_method = '''', hc_payload = '''', hc_required = 0, hc_interval = '''', hc_timeout = ''''\<rparr>"

definition http_config_fields :: "(string \<times> http_config member_dec) list" where
  "http_config_fields =
     [(''path'', fld_str (\<lambda>s a. a\<lparr>hc_path := s\<rparr>)),
      (''method'', fld_str (\<lambda>s a. a\<lparr>hc_method := s\<rparr>)),
      (''payload'', fld_str (\<lambda>s a. a\<lparr>hc_payload := s\<rparr>)),
      (''required_test_passes'', fld_int (\<lambda>n a. a\<lparr>hc_required := n\<rparr>)),
      (''interval'', fld_str (\<lambda>s a. a\<lparr>hc_interval := s\<rparr>)),
      (''timeout'', fld_str (\<lambda>s a. a\<lparr>hc_timeout := s\<rparr>))]"

definition http_methods :: "string list" where
  "http_methods = [''GET'', ''POST'', ''PUT'', ''DELETE'', ''HEAD'', ''OPTIONS'', ''TRACE'', ''PATCH'']"

definition http_rows :: "http_config \<Rightarrow> vrow list" where
  "http_rows c =
     [(''PluginConfig.Path'', [VRequired, VUri], VStr (hc_path c)),
      (''PluginConfig.Method'', [VRequired, VOneOf http_methods], VStr (hc_method c)),
      (''PluginConfig.RequiredTestPasses'', [VRequired, VGte 1], VInt (hc_required c)),
      (''PluginConfig.Interval'', [VRequired, VDuration], VStr (hc_interval c)),
      (''PluginConfig.Timeout'', [VRequired, VDuration], VStr (hc_timeout c))]"

definition http_messages :: "(string \<times> string) list" where
  "http_messages =
     [(''PluginConfig.Path'', ''Path is not a valid HTTP path''),
      (''PluginConfig.Method'', ''Method is not a valid HTTP method, please specify one of GET,POST,PUT,DELETE,HEAD,OPTIONS,TRACE,PATCH''),
      (''PluginConfig.Interval'', ''Interval is not a valid duration, please specify using Go duration format e.g (30s, 30ms, 60m)''),
      (''PluginConfig.Timeout'', ''Timeout is not a valid duration, please specify using Go duration format e.g (30s, 30ms, 60m)''),
      (''PluginConfig.RequiredTestPasses'', ''RequiredTestPasses is not valid, please specify a value greater than 0'')]"

definition http_New :: "string \<Rightarrow> string \<Rightarrow> string \<Rightarrow> http_test" where
  "http_New name namespace runtime =
     \<lparr>ht_config = http_config_zero, ht_name = name,
      ht_namespace = (if namespace = '''' then ''default'' else namespace), ht_runtime = runtime\<rparr>"

definition http_Configure :: "validator \<Rightarrow> bytes \<Rightarrow> http_test \<Rightarrow> go_error + http_test" where
  "http_Configure v data p =
     (case unmarshal http_config_fields data http_config_zero of
        (c, Some e) \<Rightarrow> Inl e
      | (c, None) \<Rightarrow>
          (let bad = v (http_rows c)
           in if bad \<noteq> [] then Inl (GoErr (validation_message http_messages bad)) else Inr (p\<lparr>ht_config := c\<rparr>)))"

subsection \<open>Execute\<close>

record http_request =
  hr_method :: string
  hr_url :: string
  hr_host :: string
  hr_payload :: string

text \<open>
  \<open>he_parse\<close> is \<open>time.ParseDuration\<close> with its error, \<open>he_upstreams\<close> the configured address of
  the router, \<open>he_build\<close> the error of \<open>http.NewRequest\<close>, \<open>he_do\<close> the HTTP client (the
  response is ignored), and \<open>he_expired start d now\<close> whether a context made with a timeout
  \<open>d\<close> in the world \<open>start\<close> has an error in the world \<open>now\<close>.
\<close>

record 'w http_env =
  he_parse :: "string \<Rightarrow> go_error + int"
  he_upstreams :: string
  he_build :: "string \<Rightarrow> string \<Rightarrow> string \<Rightarrow> go_error option"
  he_do :: "http_request \<Rightarrow> 'w \<Rightarrow> go_error option \<times> 'w"
  he_check :: "string \<Rightarrow> int \<Rightarrow> 'w \<Rightarrow> (check_result \<times> go_error option) \<times> 'w"
  he_sleep :: "int \<Rightarrow> 'w \<Rightarrow> 'w"
  he_expired :: "'w \<Rightarrow> int \<Rightarrow> 'w \<Rightarrow> bool"

text \<open>One call of the candidate and the check after it, or the error the test returns.\<close>

definition http_probe :: "'w http_env \<Rightarrow> http_test \<Rightarrow> string \<Rightarrow> 'w \<Rightarrow> (go_error + check_result) \<times> 'w" where
  "http_probe env p candidateName w =
     (let c = ht_config p;
          url = he_upstreams env @ hc_path c;
          req = \<lparr>hr_method = hc_method c, hr_url = url, hr_host = ht_name p @ ''.'' @ ht_namespace p,
                 hr_payload = hc_payload c\<rparr>
      in case he_build env (hc_method c) url (hc_payload c) of
           Some e \<Rightarrow> (Inl e, w)
         | None \<Rightarrow>
             (case he_do env req w of
                (Some e, w1) \<Rightarrow> (Inl e, w1)
              | (None, w1) \<Rightarrow>
                  (case he_check env candidateName (30 * 1000000000) w1 of ((res, e), w2) \<Rightarrow> (Inr res, w2))))"

definition next_count :: "check_result \<Rightarrow> int \<Rightarrow> int" where
  "next_count res count = (if res = CheckSuccess then count + 1 else 0)"

partial_function (option) http_loop ::
    "'w http_env \<Rightarrow> http_test \<Rightarrow> string \<Rightarrow> int \<Rightarrow> ('w \<Rightarrow> bool) \<Rightarrow> int \<Rightarrow> 'w \<Rightarrow> (go_error option \<times> 'w) option" where
  "http_loop env p candidateName interval expired count w =
     (case http_probe env p candidateName w of
        (Inl e, w1) \<Rightarrow> Some (Some e, w1)
      | (Inr res, w1) \<Rightarrow>
          (let successCount = next_count res count
           in if expired w1 then
                Some (Some (GoErr ''post deployment test failed, timeout waiting for successful tests''), w1)
              else if hc_required (ht_config p) \<le> successCount then Some (None, w1)
              else http_loop env p candidateName interval expired successCount (he_sleep env interval w1)))"

definition http_Execute :: "'w http_env \<Rightarrow> http_test \<Rightarrow> string \<Rightarrow> 'w \<Rightarrow> (go_error option \<times> 'w) option" where
  "http_Execute env p candidateName w =
     (case he_parse env (hc_timeout (ht_config p)) of
        Inl e \<Rightarrow> Some (Some (wrap_err ''unable to parse timeout as duration: '' e), w)
      | Inr timeoutDuration \<Rightarrow>
          (case he_parse env (hc_interval (ht_config p)) of
             Inl e \<Rightarrow> Some (Some (wrap_err ''unable to parse interval as duration: '' e), w)
           | Inr interval \<Rightarrow>
               http_loop env p candidateName interval (he_expired env w timeoutDuration) 0 w))"

subsection \<open>Rounds of the loop\<close>

text \<open>The check results of consecutive rounds, from a world to the world after the last check.\<close>

inductive http_rounds ::
    "'w http_env \<Rightarrow> http_test \<Rightarrow> string \<Rightarrow> int \<Rightarrow> 'w \<Rightarrow> check_result list \<Rightarrow> 'w \<Rightarrow> bool"
  for env p cand interval where
  last_round: "http_probe env p cand w = (Inr res, w1) \<Longrightarrow> http_rounds env p cand interval w [res] w1"
| more_rounds: "http_probe env p cand w = (Inr res, w1) \<Longrightarrow>
    http_rounds env p cand interval (he_sleep env interval w1) rs w2 \<Longrightarrow>
    http_rounds env p cand interval w (res # rs) w2"

text \<open>The counter is the number of passes since the last failure.\<close>

lemma foldl_next_count:
  "foldl (\<lambda>c r. next_count r c) 0 rs = int (length (takeWhile (\<lambda>r. r = CheckSuccess) (rev rs)))"
  by (induction rs rule: rev_induct) (simp_all add: next_count_def)

lemma takeWhile_rev_passes:
  assumes "n \<le> length (takeWhile P (rev xs))"
  shows "n \<le> length xs \<and> list_all P (keep_last n xs)"
proof -
  have "length (takeWhile P (rev xs)) \<le> length (rev xs)" by (rule length_takeWhile_le)
  with assms have n: "n \<le> length xs" by simp
  have "keep_last n xs = rev (take n (rev xs))" by (simp add: keep_last_def rev_take)
  moreover have "take n (rev xs) = take n (takeWhile P (rev xs))"
    using assms by (metis append_take_drop_id take_append takeWhile_eq_take diff_is_0_eq take_0 append_Nil2)
  ultimately have "set (keep_last n xs) \<subseteq> set (takeWhile P (rev xs))"
    by (metis set_rev set_take_subset)
  then have "\<forall>x \<in> set (keep_last n xs). P x" by (auto dest: set_takeWhileD)
  with n show ?thesis by (simp add: list_all_iff)
qed

lemma http_loop_passes:
  assumes "http_loop env p cand interval expired count w = Some y"
  shows "fst y = None \<longrightarrow>
    (\<exists>rs. http_rounds env p cand interval w rs (snd y) \<and>
       hc_required (ht_config p) \<le> foldl (\<lambda>c r. next_count r c) count rs \<and> \<not> expired (snd y))"
  using assms
proof (induction env p cand interval expired count w y rule: http_loop.raw_induct [rotated, consumes 1])
  case (1 loop env p cand interval expired count w y)
  note ih = 1(1) and run = 1(2)
  show ?case
  proof (cases "fst (http_probe env p cand w)")
    case (Inl e)
    then obtain w1 where "http_probe env p cand w = (Inl e, w1)" by (metis prod.collapse)
    with run show ?thesis by auto
  next
    case (Inr res)
    then obtain w1 where pr: "http_probe env p cand w = (Inr res, w1)" by (metis prod.collapse)
    consider "expired w1" | "\<not> expired w1" "hc_required (ht_config p) \<le> next_count res count"
      | "\<not> expired w1" "loop env p cand interval expired (next_count res count) (he_sleep env interval w1) = Some y"
      using run pr by (auto simp: Let_def split: if_splits)
    then show ?thesis
    proof cases
      case 1
      with run pr show ?thesis by (auto simp: Let_def)
    next
      case 2
      with run pr show ?thesis
        by (auto simp: Let_def intro!: exI [of _ "[res]"] last_round)
    next
      case 3
      show ?thesis
      proof
        assume "fst y = None"
        with ih [OF 3(2)] obtain rs where "http_rounds env p cand interval (he_sleep env interval w1) rs (snd y)"
          "hc_required (ht_config p) \<le> foldl (\<lambda>c r. next_count r c) (next_count res count) rs" "\<not> expired (snd y)"
          by blast
        with more_rounds [OF pr this(1)] show "\<exists>rs. http_rounds env p cand interval w rs (snd y) \<and>
            hc_required (ht_config p) \<le> foldl (\<lambda>c r. next_count r c) count rs \<and> \<not> expired (snd y)"
          by (intro exI [of _ "res # rs"]) simp
      qed
    qed
  qed
qed

text \<open>
  A clock of the world: no call turns it back, a sleep moves it on, and a context expires
  when its time is up.
\<close>

definition clock_documented :: "('w \<Rightarrow> int) \<Rightarrow> 'w http_env \<Rightarrow> bool" where
  "clock_documented now env \<longleftrightarrow>
     (\<forall>r w. now w \<le> now (snd (he_do env r w))) \<and>
     (\<forall>n d w. now w \<le> now (snd (he_check env n d w))) \<and>
     (\<forall>d w. now w + d \<le> now (he_sleep env d w)) \<and>
     (\<forall>start d w. he_expired env start d w \<longleftrightarrow> now start + d \<le> now w)"

lemma probe_clock: "clock_documented now env \<Longrightarrow> now w \<le> now (snd (http_probe env p cand w))"
  unfolding clock_documented_def http_probe_def Let_def
  by (auto split: option.splits prod.splits) (metis order_trans snd_conv)+

lemma http_loop_returns:
  assumes "clock_documented now env" and "0 < interval"
  shows "\<exists>y. http_loop env p cand interval (he_expired env start d) count w = Some y"
proof (induction "nat (now start + d - now w)" arbitrary: count w rule: less_induct)
  case less
  obtain r w1 where pr: "http_probe env p cand w = (r, w1)" by fastforce
  with probe_clock [OF assms(1), of w p cand] have le: "now w \<le> now w1" by simp
  show ?case
  proof (cases r)
    case (Inl e)
    with pr show ?thesis by (simp add: http_loop.simps)
  next
    case (Inr res)
    show ?thesis
    proof (cases "he_expired env start d w1")
      case True
      with pr Inr show ?thesis by (simp add: http_loop.simps Let_def)
    next
      case False
      with assms(1) have "now w1 < now start + d" by (auto simp: clock_documented_def not_le)
      moreover have "now w1 + interval \<le> now (he_sleep env interval w1)"
        using assms(1) by (simp add: clock_documented_def)
      ultimately have "nat (now start + d - now (he_sleep env interval w1)) < nat (now start + d - now w)"
        using assms(2) le by linarith
      from less [OF this] obtain y where
        "http_loop env p cand interval (he_expired env start d) (next_count res count) (he_sleep env interval w1) = Some y"
        by blast
      with pr Inr show ?thesis by (subst http_loop.simps) (simp add: Let_def)
    qed
  qed
qed

subsection \<open>A reference instance\<close>

text \<open>The world is the time and the results of the checks to come; a call takes a second.\<close>

definition ref_http :: "(int \<times> check_result list) http_env" where
  "ref_http =
     \<lparr>he_parse = (\<lambda>s. if s = '''' then Inl (GoErr ''invalid duration'') else Inr (int (length s))),
      he_upstreams = ''http://localhost:18080'', he_build = (\<lambda>m u b. None),
      he_do = (\<lambda>r w. (None, (fst w + 1, snd w))),
      he_check = (\<lambda>n d w. ((hd (snd w @ [CheckSuccess]), None), (fst w, tl (snd w)))),
      he_sleep = (\<lambda>d w. (fst w + max 0 d, snd w)),
      he_expired = (\<lambda>start d w. fst start + d \<le> fst w)\<rparr>"

definition ref_http_test :: http_test where
  "ref_http_test =
     (http_New ''web'' '''' ''kubernetes'')\<lparr>ht_config :=
        \<lparr>hc_path = ''/'', hc_method = ''GET'', hc_payload = '''', hc_required = 2, hc_interval = ''1s'',
         hc_timeout = ''twenty seconds long''\<rparr>\<rparr>"

lemma ref_http_clock: "clock_documented fst ref_http"
  by (simp add: clock_documented_def ref_http_def)

lemma ref_http_run:
  "http_Execute ref_http ref_http_test ''web'' (0, [CheckSuccess, CheckFailed]) = Some (None, (10, []))"
  by (simp add: http_Execute_def ref_http_def ref_http_test_def http_loop.simps http_probe_def http_New_def
      next_count_def Let_def)

subsection \<open>Properties\<close>

text \<open>
  C33: A post deployment test passes only on enough checks in a row: when it reports
  success, the last rounds of the loop, as many as the configuration requires, all had a
  successful check, with no failure among them, and the time was not up.
\<close>

theorem http_test_passes:
  assumes "http_Execute env p cand w = Some (None, w1)"
  shows "\<exists>timeout interval rs. he_parse env (hc_timeout (ht_config p)) = Inr timeout \<and>
    he_parse env (hc_interval (ht_config p)) = Inr interval \<and>
    http_rounds env p cand interval w rs w1 \<and> \<not> he_expired env w timeout w1 \<and>
    hc_required (ht_config p) \<le> int (length rs) \<and>
    list_all (\<lambda>r. r = CheckSuccess) (keep_last (nat (hc_required (ht_config p))) rs)"
proof -
  obtain timeout interval where parse: "he_parse env (hc_timeout (ht_config p)) = Inr timeout"
      "he_parse env (hc_interval (ht_config p)) = Inr interval"
    and "http_loop env p cand interval (he_expired env w timeout) 0 w = Some (None, w1)"
    using assms by (auto simp: http_Execute_def split: sum.splits)
  from http_loop_passes [OF this(3)] obtain rs where rs: "http_rounds env p cand interval w rs w1"
    "hc_required (ht_config p) \<le> int (length (takeWhile (\<lambda>r. r = CheckSuccess) (rev rs)))"
    "\<not> he_expired env w timeout w1"
    by (auto simp: foldl_next_count)
  then have "nat (hc_required (ht_config p)) \<le> length (takeWhile (\<lambda>r. r = CheckSuccess) (rev rs))" by simp
  from takeWhile_rev_passes [OF this] parse rs show ?thesis by auto
qed

lemma http_test_passes_witness:
  "\<exists>rs. http_rounds ref_http ref_http_test ''web'' 2 (0, [CheckSuccess, CheckFailed]) rs (10, []) \<and>
     2 \<le> length rs \<and> list_all (\<lambda>r. r = CheckSuccess) (keep_last 2 rs)"
  using http_test_passes [OF ref_http_run]
  by (auto simp: ref_http_test_def http_New_def ref_http_def)



end
