(* ===== verification/Provider.thy ===== *)
theory Provider
  imports StateMachine Canary Releaser Runtime Monitor Hooks HttpTest
begin

text \<open>
  The plugin provider (\<open>pkg/plugins/provider.go\<close>) and the construction of a state machine
  with its plugins (\<open>New\<close> of \<open>pkg/plugins/statemachine/statemachine.go\<close>). The provider
  keeps the machines in a map under a key made of the release's name and namespace. What
  the controllers and the API rely on is a locale over the operations they call, met by
  the model of the provider.
\<close>

subsection \<open>Creating plugins\<close>

text \<open>
  \<open>pe_kubernetes\<close> and \<open>pe_nomad\<close> are the errors of the two client constructors, \<open>pe_consul\<close>
  that of the Consul client; \<open>pe_store\<close> is the plugin state store of a release and a plugin.
\<close>

record 'w provider_env =
  pe_kubernetes :: "go_error option"
  pe_nomad :: "go_error option"
  pe_consul :: "consul_options \<Rightarrow> go_error option"
  pe_validator :: validator
  pe_store :: "release \<Rightarrow> string \<Rightarrow> 'w state_store"

datatype platform = KubernetesPlatform | NomadPlatform

datatype hook_kind = DiscordKind | SlackKind

definition PluginRuntimeTypeKubernetes :: string where "PluginRuntimeTypeKubernetes = ''kubernetes''"

definition PluginRuntimeTypeNomad :: string where "PluginRuntimeTypeNomad = ''nomad''"

definition PluginMonitorTypePrometheus :: string where "PluginMonitorTypePrometheus = ''prometheus''"

definition PluginStrategyTypeCanary :: string where "PluginStrategyTypeCanary = ''canary''"

definition PluginWebhookTypeDiscord :: string where "PluginWebhookTypeDiscord = ''discord''"

definition PluginWebhookTypeSlack :: string where "PluginWebhookTypeSlack = ''slack''"

definition PluginDeploymentTestTypeHTTP :: string where "PluginDeploymentTestTypeHTTP = ''http''"

definition GetRuntimeClient :: "'w provider_env \<Rightarrow> string \<Rightarrow> go_error + platform" where
  "GetRuntimeClient env runtime =
     (if runtime = PluginRuntimeTypeKubernetes then
        (case pe_kubernetes env of
           Some e \<Rightarrow> Inl (wrap_err ''unable to create Kubernetes client: '' e)
         | None \<Rightarrow> Inr KubernetesPlatform)
      else if runtime = PluginRuntimeTypeNomad then
        (case pe_nomad env of
           Some e \<Rightarrow> Inl (wrap_err ''unable to create Nomad client: '' e)
         | None \<Rightarrow> Inr NomadPlatform)
      else Inl (GoErr (''runtime '' @ runtime @ '' not implemented'')))"

text \<open>The releaser is the Consul one whatever name is asked for.\<close>

definition CreateReleaser :: "string \<Rightarrow> go_error option" where
  "CreateReleaser pluginName = None"

definition CreateRuntime :: "'w provider_env \<Rightarrow> string \<Rightarrow> go_error + platform" where
  "CreateRuntime env pluginName =
     (case GetRuntimeClient env pluginName of
        Inl e \<Rightarrow> Inl (wrap_err ''unable to create runtime client: '' e)
      | Inr rc \<Rightarrow>
          if pluginName = PluginRuntimeTypeKubernetes \<or> pluginName = PluginRuntimeTypeNomad then Inr rc
          else Inl (GoErr (''invalid Runtime plugin type: '' @ pluginName)))"

definition CreateMonitor :: "string \<Rightarrow> string \<Rightarrow> string \<Rightarrow> string \<Rightarrow> go_error + monitor" where
  "CreateMonitor pluginName name namespace runtime =
     (if pluginName = PluginMonitorTypePrometheus then Inr (monitor_New name namespace runtime)
      else Inl (GoErr (''invalid Monitor plugin type: '' @ pluginName)))"

definition CreateStrategy :: "string \<Rightarrow> go_error option" where
  "CreateStrategy pluginName =
     (if pluginName = PluginStrategyTypeCanary then None
      else Some (GoErr (''invalid Strategy plugin type: '' @ pluginName)))"

definition CreateWebhook :: "string \<Rightarrow> go_error + hook_kind" where
  "CreateWebhook pluginName =
     (if pluginName = PluginWebhookTypeDiscord then Inr DiscordKind
      else if pluginName = PluginWebhookTypeSlack then Inr SlackKind
      else Inl (GoErr (''invalid Webhook plugin type: '' @ pluginName)))"

definition CreatePostDeploymentTest :: "string \<Rightarrow> string \<Rightarrow> string \<Rightarrow> string \<Rightarrow> go_error + http_test" where
  "CreatePostDeploymentTest pluginName name namespace runtime =
     (if pluginName = PluginDeploymentTestTypeHTTP then Inr (http_New name namespace runtime)
      else Inl (GoErr (''invalid Post deployment test plugin type: '' @ pluginName)))"

subsection \<open>A state machine with its plugins\<close>

text \<open>
  \<open>New\<close> looks at the error of the configuration of the webhooks and of the test only. A
  releaser, runtime or strategy whose configuration failed is kept as it is, here \<open>None\<close>:
  it has no client or no state, and its first use panics.
\<close>

record sm_plugins =
  sp_releaser :: "releaser option"
  sp_platform :: platform
  sp_runtime :: "runtime_plugin option"
  sp_monitor :: monitor
  sp_strategy :: "canary option"
  sp_hooks :: "hook list"
  sp_test :: "http_test option"

fun right_option :: "'e + 'a \<Rightarrow> 'a option" where
  "right_option (Inl e) = None"
| "right_option (Inr x) = Some x"

definition configure_hook :: "validator \<Rightarrow> hook_kind \<Rightarrow> bytes \<Rightarrow> go_error + hook" where
  "configure_hook v k data =
     (case k of
        SlackKind \<Rightarrow> (case slack_Configure v data of Inl e \<Rightarrow> Inl e | Inr c \<Rightarrow> Inr (SlackHook c))
      | DiscordKind \<Rightarrow> (case discord_Configure v data of Inl e \<Rightarrow> Inl e | Inr c \<Rightarrow> Inr (DiscordHook c)))"

fun new_hooks :: "validator \<Rightarrow> plugin_config option list \<Rightarrow> (go_error + hook list) res" where
  "new_hooks v [] = Returned (Inr [])"
| "new_hooks v (None # ws) = Panicked"
| "new_hooks v (Some p # ws) =
     (case CreateWebhook (pc_name p) of
        Inl e \<Rightarrow> Returned (Inl e)
      | Inr k \<Rightarrow>
          (case configure_hook v k (pc_config p) of
             Inl e \<Rightarrow> Returned (Inl e)
           | Inr h \<Rightarrow>
               (case new_hooks v ws of
                  Panicked \<Rightarrow> Panicked
                | Returned (Inl e) \<Rightarrow> Returned (Inl e)
                | Returned (Inr hs) \<Rightarrow> Returned (Inr (h # hs)))))"

definition new_test :: "validator \<Rightarrow> releaser_base_config \<Rightarrow> string \<Rightarrow> plugin_config option \<Rightarrow> go_error + http_test option" where
  "new_test v base runtime t =
     (case t of
        None \<Rightarrow> Inr None
      | Some p \<Rightarrow>
          (case CreatePostDeploymentTest (pc_name p) (rb_service base) (rb_namespace base) runtime of
             Inl e \<Rightarrow> Inl e
           | Inr plugin \<Rightarrow>
               (case http_Configure v (pc_config p) plugin of Inl e \<Rightarrow> Inl e | Inr q \<Rightarrow> Inr (Some q))))"

text \<open>The base configurations are what was decoded, also where the configuration failed.\<close>

definition releaser_base :: "bytes \<Rightarrow> releaser_base_config" where
  "releaser_base data = fst (unmarshal releaser_config_fields data releaser_config_zero)"

definition runtime_namespace :: "bytes \<Rightarrow> go_error + runtime_plugin \<Rightarrow> string" where
  "runtime_namespace data rp =
     rc_namespace (case rp of Inr p \<Rightarrow> rp_config p | Inl e \<Rightarrow> fst (unmarshal runtime_config_fields data runtime_config_zero))"

text \<open>A step of the construction ends it with an error or a panic; reading through a nil pointer panics.\<close>

definition bind_new :: "(go_error + 'a) res \<times> 'w \<Rightarrow> ('a \<Rightarrow> 'w \<Rightarrow> (go_error + 'b) res \<times> 'w) \<Rightarrow> (go_error + 'b) res \<times> 'w" where
  "bind_new x f =
     (case x of
        (Panicked, w) \<Rightarrow> (Panicked, w)
      | (Returned (Inl e), w) \<Rightarrow> (Returned (Inl e), w)
      | (Returned (Inr y), w) \<Rightarrow> f y w)"

definition deref :: "'a option \<Rightarrow> (go_error + 'a) res" where
  "deref x = (case x of None \<Rightarrow> Panicked | Some y \<Rightarrow> Returned (Inr y))"

definition sm_New :: "'w provider_env \<Rightarrow> release \<Rightarrow> 'w \<Rightarrow> (go_error + sm_plugins) res \<times> 'w" where
  "sm_New env r w =
     (let v = pe_validator env
      in bind_new (deref (r_releaser r), w) (\<lambda>rl w.
         bind_new (deref (r_runtime r), w) (\<lambda>rt w.
         bind_new (Returned (CreateRuntime env (pc_name rt)), w) (\<lambda>platform w.
         case runtime_Configure (pc_config rt) (pe_store env r ''runtime'') w of (rp, w) \<Rightarrow>
         bind_new (deref (r_monitor r), w) (\<lambda>mo w.
         bind_new (Returned (CreateMonitor (pc_name mo) (r_name r) (runtime_namespace (pc_config rt) rp) (pc_name rt)), w) (\<lambda>m w.
         bind_new (deref (r_strategy r), w) (\<lambda>st w.
         bind_new (Returned (case CreateStrategy (pc_name st) of None \<Rightarrow> Inr () | Some e \<Rightarrow> Inl e), w) (\<lambda>_ w.
         case canary_Configure v (pc_config st) (pe_store env r ''strategy'') w of (cp, w) \<Rightarrow>
         bind_new (new_hooks v (r_webhooks r), w) (\<lambda>hs w.
         bind_new (Returned (new_test v (releaser_base (pc_config rl)) (pc_name rt) (r_post_test r)), w) (\<lambda>t w.
           (Returned (Inr
              \<lparr>sp_releaser = right_option (releaser_Configure v (pe_consul env) (pc_config rl)),
               sp_platform = platform, sp_runtime = right_option rp,
               sp_monitor = snd (monitor_Configure (pc_config mo) m),
               sp_strategy = right_option cp, sp_hooks = hs, sp_test = t\<rparr>), w)))))))))))"

subsection \<open>The machines\<close>

text \<open>
  The machines made so far, in order, and the map from keys to them. A machine that was
  dropped from the map may still be held by a goroutine, so it stays in the list; a
  handle is a position in it.
\<close>

record 'w machines =
  ms_world :: 'w
  ms_objects :: "(config \<times> sm_plugins) list"
  ms_cache :: "string \<rightharpoonup> nat"

definition getReleaseKey :: "release \<Rightarrow> string" where
  "getReleaseKey r = r_name r @ ''-'' @ r_namespace r"

definition GetStateMachine :: "'w provider_env \<Rightarrow> release \<Rightarrow> 'w machines \<Rightarrow> (go_error + nat) res \<times> 'w machines" where
  "GetStateMachine env r s =
     (case ms_cache s (getReleaseKey r) of
        Some h \<Rightarrow> (Returned (Inr h), s)
      | None \<Rightarrow>
          (case sm_New env r (ms_world s) of
             (Panicked, w1) \<Rightarrow> (Panicked, s\<lparr>ms_world := w1\<rparr>)
           | (Returned (Inl e), w1) \<Rightarrow>
               (Returned (Inl (wrap_err ''unable to create new statemachine: '' e)), s\<lparr>ms_world := w1\<rparr>)
           | (Returned (Inr pl), w1) \<Rightarrow>
               (let h = length (ms_objects s)
                in (Returned (Inr h),
                    s\<lparr>ms_world := w1, ms_objects := ms_objects s @ [((initial_state r, new_machine r), pl)],
                      ms_cache := (ms_cache s)(getReleaseKey r \<mapsto> h)\<rparr>))))"

definition DeleteStateMachine :: "release \<Rightarrow> 'w machines \<Rightarrow> 'w machines" where
  "DeleteStateMachine r s = s\<lparr>ms_cache := (ms_cache s)(getReleaseKey r := None)\<rparr>"

definition object_state :: "'w machines \<Rightarrow> nat \<Rightarrow> sm_state" where
  "object_state s h = fst (fst (ms_objects s ! h))"

definition fire_object :: "machine fsm_lib \<Rightarrow> sm_event \<Rightarrow> nat \<Rightarrow> 'w machines \<Rightarrow> fsm_error option \<times> 'w machines" where
  "fire_object lib e h s =
     (case ms_objects s ! h of
        (c, pl) \<Rightarrow> (case Event lib e [] c of (err, c1) \<Rightarrow> (err, s\<lparr>ms_objects := (ms_objects s)[h := (c1, pl)]\<rparr>)))"

text \<open>Every handle of the map is a machine that was made.\<close>

definition machines_inv :: "'w machines \<Rightarrow> bool" where
  "machines_inv s \<longleftrightarrow> (\<forall>h \<in> ran (ms_cache s). h < length (ms_objects s))"

subsection \<open>Contract of the provider\<close>

text \<open>
  The operations the controllers and the API call: the data store, the machine of a
  release, dropping it, and on a machine its state, the three events and \<open>Resume\<close>.
\<close>

record ('h, 'w) provider =
  pv_store :: "'w release_store"
  pv_get :: "release \<Rightarrow> 'w \<Rightarrow> (go_error + 'h) res \<times> 'w"
  pv_drop :: "release \<Rightarrow> 'w \<Rightarrow> 'w"
  pv_state :: "'h \<Rightarrow> 'w \<Rightarrow> sm_state \<times> 'w"
  pv_fire :: "sm_event \<Rightarrow> 'h \<Rightarrow> 'w \<Rightarrow> go_error option \<times> 'w"
  pv_resume :: "'h \<Rightarrow> 'w \<Rightarrow> 'w"

text \<open>
  Between two calls no goroutine runs here; reading the state changes nothing, a machine
  that was got is got again until it is dropped, whatever events are fired, a new one starts in the initial state of
  its release, and an event is taken exactly when the event table has a row for it.
\<close>

locale provider_contract =
  fixes P :: "('h, 'w) provider" and inv :: "'w \<Rightarrow> bool" and valid :: "'h \<Rightarrow> 'w \<Rightarrow> bool"
  assumes state_pure: "snd (pv_state P h w) = w"
    and drop_inv: "inv w \<Longrightarrow> inv (pv_drop P r w)"
    and get_ok: "inv w \<Longrightarrow> pv_get P r w = (Returned (Inr h), w1) \<Longrightarrow>
      inv w1 \<and> valid h w1 \<and> pv_get P r w1 = (Returned (Inr h), w1)"
    and get_fresh: "inv w \<Longrightarrow> pv_get P r (pv_drop P r w) = (Returned (Inr h), w1) \<Longrightarrow>
      fst (pv_state P h w1) = initial_state r"
    and fire_ok: "inv w \<Longrightarrow> valid h w \<Longrightarrow> pv_fire P e h w = (None, w1) \<Longrightarrow>
      inv w1 \<and> next_state (fst (pv_state P h w)) e = Some (fst (pv_state P h w1))"
    and fire_error: "inv w \<Longrightarrow> valid h w \<Longrightarrow> pv_fire P e h w = (Some x, w1) \<Longrightarrow>
      next_state (fst (pv_state P h w)) e = None \<and> fst (pv_state P h w1) = fst (pv_state P h w)"
    and fire_keeps: "pv_fire P e h w = (y, w1) \<Longrightarrow> pv_get P r w = (Returned (Inr k), w) \<Longrightarrow>
      pv_get P r w1 = (Returned (Inr k), w1)"
begin

text \<open>A new machine takes a deployment exactly when its release was last seen idle or failed.\<close>

lemma fresh_deploy:
  assumes "inv w" and "pv_get P r (pv_drop P r w) = (Returned (Inr h), w1)" and "pv_fire P EventDeploy h w1 = (e, w2)"
  shows "(e = None \<longleftrightarrow> initial_state r \<in> {StateIdle, StateFail}) \<and> (e = None \<longrightarrow> fst (pv_state P h w2) = StateDeploy)"
proof -
  have "inv w1" "valid h w1" using get_ok [OF drop_inv [OF assms(1)] assms(2)] by simp_all
  with fire_ok [of w1 h EventDeploy w2] fire_error [of w1 h EventDeploy _ w2] get_fresh [OF assms(1,2)] assms(3)
  show ?thesis by (cases e) (auto split: if_splits)
qed

lemma fresh_configure:
  assumes "inv w" and "pv_get P r (pv_drop P r w) = (Returned (Inr h), w1)" and "pv_fire P EventConfigure h w1 = (e, w2)"
  shows "(e = None \<longleftrightarrow> initial_state r \<in> {StateStart, StateIdle, StateFail}) \<and>
    (e = None \<longrightarrow> fst (pv_state P h w2) = StateConfigure)"
proof -
  have "inv w1" "valid h w1" using get_ok [OF drop_inv [OF assms(1)] assms(2)] by simp_all
  with fire_ok [of w1 h EventConfigure w2] fire_error [of w1 h EventConfigure _ w2] get_fresh [OF assms(1,2)] assms(3)
  show ?thesis by (cases e) (auto split: if_splits)
qed

end

subsection \<open>The provider meets it\<close>

definition on_world :: "('w \<Rightarrow> 'a \<times> 'w) \<Rightarrow> 'w machines \<Rightarrow> 'a \<times> 'w machines" where
  "on_world f s = (case f (ms_world s) of (x, w1) \<Rightarrow> (x, s\<lparr>ms_world := w1\<rparr>))"

definition machines_store :: "'w release_store \<Rightarrow> 'w machines release_store" where
  "machines_store st =
     \<lparr>rs_upsert_release = (\<lambda>r. on_world (rs_upsert_release st r)),
      rs_list_releases = (\<lambda>o'. on_world (rs_list_releases st o')),
      rs_get_release = (\<lambda>n. on_world (rs_get_release st n)),
      rs_delete_release = (\<lambda>n. on_world (rs_delete_release st n)),
      rs_plugin_store = (\<lambda>r n. \<lparr>ss_upsert = (\<lambda>d. on_world (ss_upsert (rs_plugin_store st r n) d)),
                                ss_get = on_world (ss_get (rs_plugin_store st r n))\<rparr>)\<rparr>"

definition resume_object :: "nat \<Rightarrow> 'w machines \<Rightarrow> 'w machines" where
  "resume_object h s = s\<lparr>ms_objects := (ms_objects s)[h := map_prod Resume id (ms_objects s ! h)]\<rparr>"

definition controller_provider ::
    "machine fsm_lib \<Rightarrow> (fsm_error \<Rightarrow> go_error) \<Rightarrow> 'w provider_env \<Rightarrow> 'w release_store \<Rightarrow> (nat, 'w machines) provider" where
  "controller_provider lib show_fsm env st =
     \<lparr>pv_store = machines_store st, pv_get = GetStateMachine env, pv_drop = DeleteStateMachine,
      pv_state = (\<lambda>h s. (object_state s h, s)),
      pv_fire = (\<lambda>e h s. apfst (map_option show_fsm) (fire_object lib e h s)), pv_resume = resume_object\<rparr>"

lemma controller_provider_sel [simp]:
  "pv_store (controller_provider lib show_fsm env st) = machines_store st"
  "pv_get (controller_provider lib show_fsm env st) = GetStateMachine env"
  "pv_drop (controller_provider lib show_fsm env st) = DeleteStateMachine"
  "fst (pv_state (controller_provider lib show_fsm env st) h s) = object_state s h"
  "pv_resume (controller_provider lib show_fsm env st) = resume_object"
  by (simp_all add: controller_provider_def)

lemma machines_store_sel [simp]:
  "rs_upsert_release (machines_store st) r = on_world (rs_upsert_release st r)"
  "rs_list_releases (machines_store st) q = on_world (rs_list_releases st q)"
  "rs_get_release (machines_store st) n = on_world (rs_get_release st n)"
  "rs_delete_release (machines_store st) n = on_world (rs_delete_release st n)"
  "ss_get (rs_plugin_store (machines_store st) r n) = on_world (ss_get (rs_plugin_store st r n))"
  "ss_upsert (rs_plugin_store (machines_store st) r n) d = on_world (ss_upsert (rs_plugin_store st r n) d)"
  by (simp_all add: machines_store_def)

lemma on_world_eq [simp]: "f (ms_world s) = (x, w1) \<Longrightarrow> on_world f s = (x, s\<lparr>ms_world := w1\<rparr>)"
  by (simp add: on_world_def)

lemma machines_inv_world [simp]: "machines_inv (s\<lparr>ms_world := w\<rparr>) = machines_inv s"
  by (simp add: machines_inv_def)

lemma GetStateMachine_made:
  assumes "ms_cache s (getReleaseKey r) = None" and "GetStateMachine env r s = (Returned (Inr h), s1)"
  shows "\<exists>pl w1. sm_New env r (ms_world s) = (Returned (Inr pl), w1) \<and> h = length (ms_objects s) \<and>
    s1 = s\<lparr>ms_world := w1, ms_objects := ms_objects s @ [((initial_state r, new_machine r), pl)],
           ms_cache := (ms_cache s)(getReleaseKey r \<mapsto> length (ms_objects s))\<rparr>"
proof -
  obtain x w1 where n: "sm_New env r (ms_world s) = (x, w1)" by fastforce
  from assms n obtain pl where "x = Returned (Inr pl)"
    by (cases x; cases "case x of Returned y \<Rightarrow> y") (auto simp: GetStateMachine_def split: res.splits sum.splits)
  with assms n show ?thesis by (auto simp: GetStateMachine_def Let_def)
qed

lemma GetStateMachine_hit:
  "GetStateMachine env r s = (Returned (Inr h), s1) \<Longrightarrow> ms_cache s1 (getReleaseKey r) = Some h"
  using GetStateMachine_made [of s r env h s1] by (cases "ms_cache s (getReleaseKey r)") (auto simp: GetStateMachine_def)

lemma GetStateMachine_ok:
  assumes inv: "machines_inv s" and got: "GetStateMachine env r s = (Returned (Inr h), s1)"
  shows "machines_inv s1 \<and> h < length (ms_objects s1) \<and> GetStateMachine env r s1 = (Returned (Inr h), s1)"
proof (cases "ms_cache s (getReleaseKey r)")
  case (Some k)
  with got have "s1 = s" "h = k" by (simp_all add: GetStateMachine_def)
  with Some inv show ?thesis by (auto simp: GetStateMachine_def machines_inv_def ran_def)
next
  case None
  from GetStateMachine_made [OF None got] obtain pl w1 where h: "h = length (ms_objects s)"
    and s1: "s1 = s\<lparr>ms_world := w1, ms_objects := ms_objects s @ [((initial_state r, new_machine r), pl)],
                ms_cache := (ms_cache s)(getReleaseKey r \<mapsto> length (ms_objects s))\<rparr>" by blast
  have "ran (ms_cache s1) = insert h (ran (ms_cache s))" using None by (simp add: s1 h)
  with inv show ?thesis by (auto simp: machines_inv_def s1 h less_Suc_eq GetStateMachine_def)
qed

lemma DeleteStateMachine_inv: "machines_inv s \<Longrightarrow> machines_inv (DeleteStateMachine r s)"
  by (auto simp: DeleteStateMachine_def machines_inv_def ran_def)

lemma GetStateMachine_fresh:
  assumes "GetStateMachine env r (DeleteStateMachine r s) = (Returned (Inr h), s1)"
  shows "object_state s1 h = initial_state r \<and> h = length (ms_objects s)"
  using GetStateMachine_made [OF _ assms] by (auto simp: DeleteStateMachine_def object_state_def)

lemma fire_object_cache: "ms_cache (snd (fire_object lib e h s)) = ms_cache s"
  by (simp add: fire_object_def split: prod.split)

lemma GetStateMachine_cached:
  "ms_cache s (getReleaseKey r) = Some h \<Longrightarrow> GetStateMachine env r s = (Returned (Inr h), s)"
  by (simp add: GetStateMachine_def)

lemma fire_object_event:
  assumes "fsm_documented lib" and "h < length (ms_objects s)"
  shows "case next_state (object_state s h) e of
      Some d \<Rightarrow> \<exists>s1. fire_object lib e h s = (None, s1) \<and> object_state s1 h = d \<and>
        ms_cache s1 = ms_cache s \<and> length (ms_objects s1) = length (ms_objects s)
    | None \<Rightarrow> \<exists>x s1. fire_object lib e h s = (Some x, s1) \<and> object_state s1 h = object_state s h"
proof -
  obtain st m pl where o: "ms_objects s ! h = ((st, m), pl)" by (metis prod.collapse)
  show ?thesis
  proof (cases "next_state st e")
    case None
    from Event_rejected [OF assms(1) this] obtain x where "Event lib e [] (st, m) = (Some x, st, m)" by blast
    with None o assms(2) show ?thesis by (simp add: fire_object_def object_state_def)
  next
    case (Some d)
    with Event_accepted [OF assms(1) Some] o assms(2) show ?thesis by (simp add: fire_object_def object_state_def)
  qed
qed

locale controller =
  fixes lib :: "machine fsm_lib" and show_fsm :: "fsm_error \<Rightarrow> go_error"
    and env :: "'w provider_env" and st :: "'w release_store"
  assumes lib: "fsm_documented lib"
begin

lemma fire_cases:
  assumes "h < length (ms_objects s)" and "pv_fire (controller_provider lib show_fsm env st) e h s = (x, s1)"
  shows "(x = None \<longrightarrow> next_state (object_state s h) e = Some (object_state s1 h) \<and> ms_cache s1 = ms_cache s \<and>
            length (ms_objects s1) = length (ms_objects s)) \<and>
         (x \<noteq> None \<longrightarrow> next_state (object_state s h) e = None \<and> object_state s1 h = object_state s h)"
  using fire_object_event [OF lib assms(1), of e] assms(2)
  by (cases "next_state (object_state s h) e") (auto simp: controller_provider_def apfst_def)

end

sublocale controller \<subseteq> machines: provider_contract "controller_provider lib show_fsm env st" machines_inv
    "\<lambda>h s. h < length (ms_objects s)"
proof
  fix h and w w1 :: "'w machines" and r e x
  let ?P = "controller_provider lib show_fsm env st"
  show "snd (pv_state ?P h w) = w" by (simp add: controller_provider_def)
  show "machines_inv (pv_drop ?P r w)" if "machines_inv w"
    using DeleteStateMachine_inv [OF that] by (simp add: controller_provider_def)
  show "machines_inv w1 \<and> h < length (ms_objects w1) \<and> pv_get ?P r w1 = (Returned (Inr h), w1)"
    if "machines_inv w" "pv_get ?P r w = (Returned (Inr h), w1)"
    using GetStateMachine_ok [OF that(1), of env r h w1] that(2) by (simp add: controller_provider_def)
  show "fst (pv_state ?P h w1) = initial_state r"
    if "machines_inv w" "pv_get ?P r (pv_drop ?P r w) = (Returned (Inr h), w1)"
  proof -
    have "object_state w1 h = initial_state r"
      by (rule conjunct1 [OF GetStateMachine_fresh [of env r w h w1]])
        (use that(2) in \<open>simp add: controller_provider_def\<close>)
    then show ?thesis by (simp add: controller_provider_def)
  qed
  show "machines_inv w1 \<and> next_state (fst (pv_state ?P h w)) e = Some (fst (pv_state ?P h w1))"
    if "machines_inv w" "h < length (ms_objects w)" "pv_fire ?P e h w = (None, w1)"
    using fire_cases [OF that(2,3)] that(1) by (auto simp: machines_inv_def controller_provider_def)
  show "next_state (fst (pv_state ?P h w)) e = None \<and> fst (pv_state ?P h w1) = fst (pv_state ?P h w)"
    if "machines_inv w" "h < length (ms_objects w)" "pv_fire ?P e h w = (Some x, w1)"
    using fire_cases [OF that(2,3)] by (simp add: controller_provider_def)
  show "pv_get ?P r w1 = (Returned (Inr k), w1)"
    if "pv_fire ?P e h w = (y, w1)" "pv_get ?P r w = (Returned (Inr k), w)" for y k
  proof -
    have "ms_cache w (getReleaseKey r) = Some k"
      using that(2) by (simp add: controller_provider_def GetStateMachine_hit)
    moreover have "ms_cache w1 = ms_cache w"
      using that(1) fire_object_cache [of lib e h w]
      by (cases "fire_object lib e h w") (simp add: controller_provider_def)
    ultimately show ?thesis by (simp add: controller_provider_def GetStateMachine_cached)
  qed
qed

context controller begin

lemmas contract = machines.provider_contract_axioms

end

text \<open>The contract as a fact, for the theories that use it.\<close>

lemma controller_contract:
  assumes "fsm_documented lib"
  shows "provider_contract (controller_provider lib show_fsm env st) machines_inv (\<lambda>h s. h < length (ms_objects s))"
  using controller.intro [OF assms] by (rule controller.contract)

interpretation ref_controller: controller reference_fsm show_fsm env st for show_fsm env st
  by unfold_locales (rule reference_fsm_documented)

subsection \<open>Properties\<close>

text \<open>A release with the four mandatory plugins, for the examples.\<close>

definition demo_plugin :: "string \<Rightarrow> (string \<times> json) list \<Rightarrow> plugin_config option" where
  "demo_plugin name ms = Some \<lparr>pc_name = name, pc_config = Text (JObj ms)\<rparr>"

definition demo_release :: "string \<Rightarrow> string \<Rightarrow> sm_state list \<Rightarrow> release" where
  "demo_release name namespace sts =
     new_release\<lparr>r_history := map (\<lambda>st. \<lparr>sh_time = 0, sh_state = st\<rparr>) sts, r_name := name, r_namespace := namespace,
       r_releaser := demo_plugin ''consul'' [(''consul_service'', JStr ''api'')],
       r_runtime := demo_plugin ''kubernetes'' [(''deployment'', JStr ''api''), (''namespace'', JStr namespace)],
       r_monitor := demo_plugin ''prometheus'' [],
       r_strategy := demo_plugin ''canary'' [(''interval'', JStr ''30s'')]\<rparr>"

lemma demo_release_plugins [simp]:
  "r_releaser (demo_release a b sts) = Some \<lparr>pc_name = ''consul'', pc_config = Text (JObj [(''consul_service'', JStr ''api'')])\<rparr>"
  "r_runtime (demo_release a b sts) = Some \<lparr>pc_name = ''kubernetes'', pc_config = Text (JObj [(''deployment'', JStr ''api''), (''namespace'', JStr b)])\<rparr>"
  "r_monitor (demo_release a b sts) = Some \<lparr>pc_name = ''prometheus'', pc_config = Text (JObj [])\<rparr>"
  "r_strategy (demo_release a b sts) = Some \<lparr>pc_name = ''canary'', pc_config = Text (JObj [(''interval'', JStr ''30s'')])\<rparr>"
  "r_webhooks (demo_release a b sts) = []" "r_post_test (demo_release a b sts) = None"
  "r_name (demo_release a b sts) = a" "r_namespace (demo_release a b sts) = b" "CurrentState (demo_release a b sts) = (if sts = [] then StateOther '''' else last sts)"
  by (simp_all add: demo_release_def demo_plugin_def new_release_def CurrentState_def last_map)

definition demo_env :: "'w provider_env" where
  "demo_env =
     \<lparr>pe_kubernetes = None, pe_nomad = None, pe_consul = (\<lambda>_. None),
      pe_validator = reference_validator (\<lambda>s. if s = ''30s'' then Some 30000000000 else None) (\<lambda>_. True),
      pe_store = (\<lambda>_ _. \<lparr>ss_upsert = (\<lambda>_ w. (None, w)), ss_get = (\<lambda>w. ((Empty, Some PluginStateNotFound), w))\<rparr>)\<rparr>"

text \<open>A store that holds the releases and one plugin state, and never fails.\<close>

type_synonym demo_world = "release list \<times> bytes"

definition demo_store :: "demo_world release_store" where
  "demo_store =
     \<lparr>rs_upsert_release = (\<lambda>r w. (None, (r # filter (\<lambda>x. r_name x \<noteq> r_name r) (fst w), snd w))),
      rs_list_releases = (\<lambda>_ w. ((fst w, None), w)),
      rs_get_release = (\<lambda>n w. (case find (\<lambda>x. r_name x = n) (fst w) of
         None \<Rightarrow> (None, Some ReleaseNotFound) | Some r \<Rightarrow> (Some r, None), w)),
      rs_delete_release = (\<lambda>n w. (None, (filter (\<lambda>x. r_name x \<noteq> n) (fst w), snd w))),
      rs_plugin_store = (\<lambda>r n.
        \<lparr>ss_upsert = (\<lambda>d w. (None, (fst w, d))),
         ss_get = (\<lambda>w. ((snd w, if snd w = Empty then Some PluginStateNotFound else None), w))\<rparr>)\<rparr>"

definition demo_provider :: "(nat, demo_world machines) provider" where
  "demo_provider = controller_provider reference_fsm (\<lambda>_. GoErr ''inappropriate event'') demo_env demo_store"

definition demo_start :: "release list \<Rightarrow> demo_world machines" where
  "demo_start rs = \<lparr>ms_world = (rs, Empty), ms_objects = [], ms_cache = Map.empty\<rparr>"

lemma demo_start_world: "demo_start rs\<lparr>ms_world := (rs, Empty)\<rparr> = demo_start rs"
  by (simp add: demo_start_def)

lemma demo_start_inv: "machines_inv (demo_start rs)"
  by (simp add: machines_inv_def demo_start_def)

definition no_machines :: "unit machines" where
  "no_machines = \<lparr>ms_world = (), ms_objects = [], ms_cache = Map.empty\<rparr>"

text \<open>What a machine of a release is made of, where every plugin has a known name.\<close>

lemma sm_New_runs:
  assumes "r_releaser r = Some rl" and "r_runtime r = Some rt" and "r_monitor r = Some mo" and "r_strategy r = Some st"
    and "CreateRuntime env (pc_name rt) = Inr platform"
    and "pc_name mo = PluginMonitorTypePrometheus" and "pc_name st = PluginStrategyTypeCanary"
    and "new_hooks (pe_validator env) (r_webhooks r) = Returned (Inr hs)"
    and "new_test (pe_validator env) (releaser_base (pc_config rl)) (pc_name rt) (r_post_test r) = Inr t"
    and "runtime_Configure (pc_config rt) (pe_store env r ''runtime'') w = (rp, w1)"
    and "canary_Configure (pe_validator env) (pc_config st) (pe_store env r ''strategy'') w1 = (cp, w2)"
  shows "\<exists>pl. sm_New env r w = (Returned (Inr pl), w2) \<and> sp_strategy pl = right_option cp \<and>
    sp_platform pl = platform \<and> sp_hooks pl = hs \<and> sp_test pl = t"
  using assms by (simp add: sm_New_def Let_def bind_new_def deref_def CreateMonitor_def CreateStrategy_def)

lemma demo_canary_rejected:
  "\<exists>e. canary_Configure (pe_validator (demo_env :: 'w provider_env)) (Text (JObj [(''interval'', JStr ''30s'')])) store w = (Inl e, w)"
  by (simp add: canary_Configure_def unmarshal_def dec_object_def canary_config_fields_def canary_config_zero_def
      demo_env_def canary_rows_def reference_validator_def ValidateDuration_def)

lemma demo_runtime:
  "\<exists>rp. runtime_Configure (Text (JObj [(''deployment'', JStr ''api''), (''namespace'', JStr b)])) (pe_store demo_env r n) w = (rp, w)"
  by (simp add: runtime_Configure_def unmarshal_def dec_object_def runtime_config_fields_def runtime_config_zero_def demo_env_def)

lemma demo_kinds:
  "CreateRuntime demo_env ''kubernetes'' = Inr KubernetesPlatform"
  "''prometheus'' = PluginMonitorTypePrometheus" "''canary'' = PluginStrategyTypeCanary"
  "new_hooks v [] = Returned (Inr [])" "new_test v base rt None = Inr None"
  by (simp_all add: CreateRuntime_def GetRuntimeClient_def demo_env_def PluginRuntimeTypeKubernetes_def
      PluginMonitorTypePrometheus_def PluginStrategyTypeCanary_def new_test_def)

lemma demo_machine: "\<exists>pl. sm_New demo_env (demo_release a b sts) (w :: 'w) = (Returned (Inr pl), w)"
proof -
  let ?r = "demo_release a b sts"
  obtain rp where rp: "runtime_Configure (Text (JObj [(''deployment'', JStr ''api''), (''namespace'', JStr b)])) (pe_store demo_env ?r ''runtime'') w = (rp, w)"
    by (rule exE [OF demo_runtime])
  obtain e where cp: "canary_Configure (pe_validator (demo_env :: 'w provider_env)) (Text (JObj [(''interval'', JStr ''30s'')]))
      (pe_store demo_env ?r ''strategy'') w = (Inl e, w)" by (rule exE [OF demo_canary_rejected])
  have "\<exists>pl. sm_New demo_env ?r w = (Returned (Inr pl), w) \<and> sp_strategy pl = right_option (Inl e) \<and>
      sp_platform pl = KubernetesPlatform \<and> sp_hooks pl = [] \<and> sp_test pl = None"
    by (rule sm_New_runs [OF demo_release_plugins(1-4)]) (use rp cp in \<open>simp_all add: demo_kinds [symmetric] demo_kinds(1,4,5)\<close>)
  then show ?thesis by blast
qed

lemma demo_get:
  assumes "ms_cache s (getReleaseKey (demo_release a b sts)) = None"
  shows "\<exists>pl. GetStateMachine demo_env (demo_release a b sts) s =
    (Returned (Inr (length (ms_objects s))),
     s\<lparr>ms_objects := ms_objects s @ [((initial_state (demo_release a b sts), new_machine (demo_release a b sts)), pl)],
       ms_cache := (ms_cache s)(getReleaseKey (demo_release a b sts) \<mapsto> length (ms_objects s))\<rparr>)"
proof -
  obtain pl where "sm_New demo_env (demo_release a b sts) (ms_world s) = (Returned (Inr pl), ms_world s)"
    by (rule exE [OF demo_machine])
  with assms show ?thesis by (auto simp: GetStateMachine_def Let_def)
qed

text \<open>
  Two different releases can have one key, the name and the namespace being joined by
  a dash: after the first got its machine the second is handed the very same machine, with
  the first one's state, release and plugins, and dropping the second's machine drops the
  first's.
\<close>

theorem colliding_releases_share_machine:
  assumes "r_name r1 = n @ ''-'' @ m" and "r_namespace r1 = k"
    and "r_name r2 = n" and "r_namespace r2 = m @ ''-'' @ k"
    and "GetStateMachine env r1 s = (Returned (Inr h), s1)" and "machines_inv s"
  shows "GetStateMachine env r2 s1 = (Returned (Inr h), s1) \<and>
    ms_cache (DeleteStateMachine r2 s1) (getReleaseKey r1) = None"
proof -
  have key: "getReleaseKey r2 = getReleaseKey r1" using assms(1-4) by (simp add: getReleaseKey_def)
  have "GetStateMachine env r1 s1 = (Returned (Inr h), s1)"
    using GetStateMachine_ok [OF assms(6,5)] by simp
  then have "GetStateMachine env r2 s1 = (Returned (Inr h), s1)"
    using key GetStateMachine_ok [OF assms(6,5)] GetStateMachine_hit [OF assms(5)]
    by (simp add: GetStateMachine_def)
  with key show ?thesis by (simp add: DeleteStateMachine_def)
qed

theorem colliding_releases_share_machine_witness:
  "\<exists>s1. GetStateMachine demo_env (demo_release ''api-v1'' ''default'' []) no_machines = (Returned (Inr 0), s1) \<and>
     GetStateMachine demo_env (demo_release ''api'' ''v1-default'' []) s1 = (Returned (Inr 0), s1)"
proof -
  let ?r = "demo_release ''api-v1'' ''default'' []"
  obtain pl where "sm_New demo_env ?r () = (Returned (Inr pl), ())" using demo_machine [of "''api-v1''" "''default''" "[]" "()"] by blast
  then obtain s1 where got: "GetStateMachine demo_env ?r no_machines = (Returned (Inr 0), s1)"
    by (simp add: GetStateMachine_def no_machines_def)
  have "GetStateMachine demo_env (demo_release ''api'' ''v1-default'' []) s1 = (Returned (Inr 0), s1)"
    by (rule conjunct1 [OF colliding_releases_share_machine [OF _ _ _ _ got, where n = "''api''" and m = "''v1''" and k = "''default''"]])
      (simp_all add: no_machines_def machines_inv_def)
  with got show ?thesis by blast
qed

text \<open>
  The construction of a machine ignores what the configuration of its strategy says:
  where every other plugin is in order, a release whose canary configuration is rejected
  gets a machine all the same, with a strategy that cannot run.
\<close>

theorem rejected_strategy_still_gets_machine:
  assumes "r_releaser r = Some rl" and "r_runtime r = Some rt" and "r_monitor r = Some mo" and "r_strategy r = Some st"
    and "CreateRuntime env (pc_name rt) = Inr platform"
    and "pc_name mo = PluginMonitorTypePrometheus" and "pc_name st = PluginStrategyTypeCanary"
    and "new_hooks (pe_validator env) (r_webhooks r) = Returned (Inr hs)"
    and "new_test (pe_validator env) (releaser_base (pc_config rl)) (pc_name rt) (r_post_test r) = Inr t"
    and "\<And>w. \<exists>e w1. canary_Configure (pe_validator env) (pc_config st) (pe_store env r ''strategy'') w = (Inl e, w1)"
  shows "\<exists>pl w1. sm_New env r w = (Returned (Inr pl), w1) \<and> sp_strategy pl = None \<and>
    sp_platform pl = platform \<and> sp_hooks pl = hs \<and> sp_test pl = t"
proof -
  obtain rp w1 where rp: "runtime_Configure (pc_config rt) (pe_store env r ''runtime'') w = (rp, w1)" by fastforce
  obtain e w2 where "canary_Configure (pe_validator env) (pc_config st) (pe_store env r ''strategy'') w1 = (Inl e, w2)"
    using assms(10) by blast
  from sm_New_runs [OF assms(1-9) rp this] show ?thesis by auto
qed

theorem rejected_strategy_still_gets_machine_witness:
  "\<exists>pl w1. sm_New demo_env (demo_release ''api'' ''default'' []) () = (Returned (Inr pl), w1) \<and> sp_strategy pl = None"
proof -
  have "\<exists>pl w1. sm_New demo_env (demo_release ''api'' ''default'' []) () = (Returned (Inr pl), w1) \<and> sp_strategy pl = None \<and>
      sp_platform pl = KubernetesPlatform \<and> sp_hooks pl = [] \<and> sp_test pl = None"
    by (rule rejected_strategy_still_gets_machine [OF demo_release_plugins(1-4)])
      (use demo_canary_rejected in \<open>simp_all add: demo_kinds [symmetric] demo_kinds(1,4,5)\<close>)
  then show ?thesis by blast
qed

end
