(* ===== verification/Admission.thy ===== *)
theory Admission
  imports Provider Nomad
begin

text \<open>
  The admission check of a deployment (\<open>pkg/controllers/admission.go\<close>), which the
  Kubernetes webhook and the Nomad event loop call, and those two callers
  (\<open>pkg/controllers/kubernetes/validatingwebhook.go\<close>, \<open>pkg/controllers/nomad/nomad.go\<close>).
  It is stated over the operations of a provider; the properties hold for every provider
  that meets its contract.
\<close>

subsection \<open>Check\<close>

datatype admission_response = AdmissionError | AdmissionGranted | AdmissionRejected

text \<open>The compiler of regular expressions is a parameter: a pattern it accepts is a test on names.\<close>

type_synonym regex_lib = "string \<Rightarrow> (string \<Rightarrow> bool) option"

text \<open>An inactive release: the candidate is recorded, the machine replaced, a deployment started.\<close>

definition start_deployment :: "('h, 'w) provider \<Rightarrow> string \<Rightarrow> release \<Rightarrow> 'w \<Rightarrow>
    (admission_response \<times> go_error option) res \<times> 'w" where
  "start_deployment P name rel w =
     (let ds = rs_plugin_store (pv_store P) rel ''runtime''
      in case ss_get ds w of
           ((d, _), w1) \<Rightarrow>
             (let ps = (fst (unmarshal runtime_state_fields d runtime_state_zero))\<lparr>rs_candidate := name\<rparr>
              in case ss_upsert ds (Text (enc_runtime_state ps)) w1 of
                   (Some e, w2) \<Rightarrow> (Returned (AdmissionError, Some e), w2)
                 | (None, w2) \<Rightarrow>
                     (case pv_get P rel (pv_drop P rel w2) of
                        (Panicked, w3) \<Rightarrow> (Panicked, w3)
                      | (Returned (Inl e), w3) \<Rightarrow> (Returned (AdmissionError, Some e), w3)
                      | (Returned (Inr sm), w3) \<Rightarrow>
                          (case pv_fire P EventDeploy sm w3 of
                             (Some e, w4) \<Rightarrow> (Returned (AdmissionError, Some e), w4)
                           | (None, w4) \<Rightarrow> (Returned (AdmissionGranted, None), w4)))))"

text \<open>Each \<open>CurrentState()\<close> in the code is a read of its own, those of the log lines too.\<close>

definition inactive :: "('h, 'w) provider \<Rightarrow> 'h \<Rightarrow> 'w \<Rightarrow> bool \<times> 'w" where
  "inactive P sm w =
     (case pv_state P sm w of
        (s, w1) \<Rightarrow>
          if s = StateIdle then (True, w1)
          else (case pv_state P sm w1 of (s1, w2) \<Rightarrow> (s1 = StateFail, w2)))"

definition active_message :: "string \<Rightarrow> sm_state \<Rightarrow> string" where
  "active_message name s = ''A release for the deployment '' @ name @ '' currently active, state: '' @ state_str s"

definition admit_release :: "('h, 'w) provider \<Rightarrow> string \<Rightarrow> release \<Rightarrow> 'w \<Rightarrow>
    (admission_response \<times> go_error option) res \<times> 'w" where
  "admit_release P name rel w =
     (case pv_get P rel w of
        (Panicked, w1) \<Rightarrow> (Panicked, w1)
      | (Returned (Inl e), w1) \<Rightarrow> (Returned (AdmissionError, Some e), w1)
      | (Returned (Inr sm), w1) \<Rightarrow>
          (case pv_state P sm w1 of
             (_, w2) \<Rightarrow>
               (case pv_state P sm w2 of
                  (s, w3) \<Rightarrow>
                    if s = StateDestroy then (Returned (AdmissionGranted, None), w3)
                    else
                      (case inactive P sm w3 of
                         (True, w4) \<Rightarrow> start_deployment P name rel w4
                       | (False, w4) \<Rightarrow>
                           (case pv_state P sm w4 of
                              (_, w5) \<Rightarrow>
                                (case pv_state P sm w5 of
                                   (s1, w6) \<Rightarrow>
                                     (Returned (AdmissionRejected, Some (GoErr (active_message name s1))), w6)))))))"

fun check_releases :: "('h, 'w) provider \<Rightarrow> regex_lib \<Rightarrow> string \<Rightarrow> string \<Rightarrow> release list \<Rightarrow> 'w \<Rightarrow>
    (admission_response \<times> go_error option) res \<times> 'w" where
  "check_releases P re name ns [] w = (Returned (AdmissionGranted, None), w)"
| "check_releases P re name ns (rel # rels) w =
     (case r_runtime rel of
        None \<Rightarrow> (Panicked, w)
      | Some rt \<Rightarrow>
          (let conf = fst (unmarshal runtime_config_fields (pc_config rt) runtime_config_zero)
           in case re (anchor_end (rc_selector conf)) of
                None \<Rightarrow> check_releases P re name ns rels w
              | Some matches \<Rightarrow>
                  if matches name \<and> rc_namespace conf = ns then admit_release P name rel w
                  else check_releases P re name ns rels w))"

definition Check :: "('h, 'w) provider \<Rightarrow> regex_lib \<Rightarrow> string \<Rightarrow> string \<Rightarrow> (string \<rightharpoonup> string) option \<Rightarrow> string \<Rightarrow> string \<Rightarrow>
    'w \<Rightarrow> (admission_response \<times> go_error option) res \<times> 'w" where
  "Check P re name ns labels version runtime w =
     (if labels \<noteq> None \<and> meta_get labels RuntimeDeploymentVersionLabel \<noteq> '''' \<and>
         meta_get labels RuntimeDeploymentVersionLabel = version
      then (Returned (AdmissionGranted, None), w)
      else
        (case rs_list_releases (pv_store P) (Some runtime) w of
           ((rels, Some e), w1) \<Rightarrow> (Returned (AdmissionError, Some e), w1)
         | ((rels, None), w1) \<Rightarrow> check_releases P re name ns rels w1))"

subsection \<open>The callers\<close>

text \<open>
  The webhook of Kubernetes: the request decodes to a deployment or not. Where the check
  neither grants nor has an error, the error read is nil.
\<close>

record deployment_request =
  dq_name :: string
  dq_namespace :: string
  dq_labels :: "(string \<rightharpoonup> string) option"
  dq_version :: string

datatype webhook_reply = Errored nat go_error | Allowed string | Denied string

definition admission_Handle :: "('h, 'w) provider \<Rightarrow> regex_lib \<Rightarrow> go_error + deployment_request \<Rightarrow> 'w \<Rightarrow>
    webhook_reply res \<times> 'w" where
  "admission_Handle P re decoded w =
     (case decoded of
        Inl e \<Rightarrow> (Returned (Errored 400 e), w)
      | Inr d \<Rightarrow>
          (case Check P re (dq_name d) (dq_namespace d) (dq_labels d) (dq_version d) RuntimePlatformKubernetes w of
             (Panicked, w1) \<Rightarrow> (Panicked, w1)
           | (Returned (resp, err), w1) \<Rightarrow>
               (case err of
                  Some e \<Rightarrow>
                    (Returned (if resp = AdmissionError then Errored 500 e
                               else if resp = AdmissionGranted then Allowed '''' else Denied (err_msg e)), w1)
                | None \<Rightarrow> (if resp = AdmissionGranted then Returned (Allowed '''') else Panicked, w1))))"

text \<open>
  The events of Nomad: the job of an event is nil where it does not decode. A batch comes
  with what the rest of the process did before it arrived. An error of the check is logged.
\<close>

record nomad_event =
  nv_type :: string
  nv_job :: "nomad_job option"

definition nomad_event_step :: "('h, 'w) provider \<Rightarrow> regex_lib \<Rightarrow> nomad_event \<Rightarrow> 'w \<Rightarrow> unit res \<times> 'w" where
  "nomad_event_step P re evt w =
     (if nv_type evt = ''JobRegistered'' then
        (case nv_job evt of
           None \<Rightarrow> (Panicked, w)
         | Some j \<Rightarrow>
             (case nj_status j of
                None \<Rightarrow> (Panicked, w)
              | Some status \<Rightarrow>
                  if status = ''pending'' then
                    (case Check P re (nj_name j) (nj_namespace j) (nj_meta j) (decimal (unat (nj_version j)))
                            RuntimePlatformNomad w of
                       (Panicked, w1) \<Rightarrow> (Panicked, w1)
                     | (Returned _, w1) \<Rightarrow> (Returned (), w1))
                  else (Returned (), w)))
      else (Returned (), w))"

fun nomad_events :: "('h, 'w) provider \<Rightarrow> regex_lib \<Rightarrow> nomad_event list \<Rightarrow> 'w \<Rightarrow> unit res \<times> 'w" where
  "nomad_events P re [] w = (Returned (), w)"
| "nomad_events P re (evt # evts) w =
     bind_res (nomad_event_step P re evt w) (\<lambda>_. nomad_events P re evts)"

fun nomad_batches :: "('h, 'w) provider \<Rightarrow> regex_lib \<Rightarrow> (('w \<Rightarrow> 'w) \<times> nomad_event list) list \<Rightarrow> 'w \<Rightarrow> unit res \<times> 'w" where
  "nomad_batches P re [] w = (Returned (), w)"
| "nomad_batches P re ((others, evts) # bs) w =
     bind_res (nomad_events P re evts (others w)) (\<lambda>_. nomad_batches P re bs)"

text \<open>The stream of events until it is closed, or the error of registering for it.\<close>

definition nomad_Start :: "('h, 'w) provider \<Rightarrow> regex_lib \<Rightarrow>
    ('w \<Rightarrow> (go_error + (('w \<Rightarrow> 'w) \<times> nomad_event list) list) \<times> 'w) \<Rightarrow> 'w \<Rightarrow> go_error option res \<times> 'w" where
  "nomad_Start P re get_events w =
     (case get_events w of
        (Inl e, w1) \<Rightarrow> (Returned (Some (wrap_err ''unable to register for Nomad events: '' e)), w1)
      | (Inr bs, w1) \<Rightarrow> bind_res (nomad_batches P re bs w1) (\<lambda>_ w2. (Returned None, w2)))"

subsection \<open>The first release that matches\<close>

text \<open>Whether a release is about the deployment, by its selector and its namespace.\<close>

definition about :: "regex_lib \<Rightarrow> string \<Rightarrow> string \<Rightarrow> release \<Rightarrow> bool" where
  "about re name ns rel =
     (case r_runtime rel of
        None \<Rightarrow> False
      | Some rt \<Rightarrow>
          (let conf = fst (unmarshal runtime_config_fields (pc_config rt) runtime_config_zero)
           in case re (anchor_end (rc_selector conf)) of
                None \<Rightarrow> False
              | Some matches \<Rightarrow> matches name \<and> rc_namespace conf = ns))"

lemma check_releases_skips:
  "list_all (\<lambda>r. r_runtime r \<noteq> None \<and> \<not> about re name ns r) pre \<Longrightarrow>
   check_releases P re name ns (pre @ rels) w = check_releases P re name ns rels w"
  by (induction pre) (auto simp: about_def Let_def split: option.splits)

lemma check_releases_first:
  assumes "list_all (\<lambda>r. r_runtime r \<noteq> None \<and> \<not> about re name ns r) pre" and "about re name ns rel"
  shows "check_releases P re name ns (pre @ rel # post) w = admit_release P name rel w"
  unfolding check_releases_skips [OF assms(1)]
  using assms(2) by (auto simp: about_def Let_def split: option.splits)

text \<open>A deployment the controller itself made is let through unread.\<close>

definition own_change :: "(string \<rightharpoonup> string) option \<Rightarrow> string \<Rightarrow> bool" where
  "own_change labels version \<longleftrightarrow>
     meta_get labels RuntimeDeploymentVersionLabel \<noteq> '''' \<and> meta_get labels RuntimeDeploymentVersionLabel = version"

lemma Check_own: "own_change labels version \<Longrightarrow> Check P re name ns labels version runtime w = (Returned (AdmissionGranted, None), w)"
  by (cases labels) (auto simp: Check_def own_change_def meta_get_def)

lemma Check_first:
  assumes "\<not> own_change labels version"
    and "rs_list_releases (pv_store P) (Some runtime) w = ((pre @ rel # post, None), w1)"
    and "list_all (\<lambda>r. r_runtime r \<noteq> None \<and> \<not> about re name ns r) pre" and "about re name ns rel"
  shows "Check P re name ns labels version runtime w = admit_release P name rel w1"
  using assms by (auto simp: Check_def own_change_def check_releases_first)

lemma Check_none:
  assumes "\<not> own_change labels version"
    and "rs_list_releases (pv_store P) (Some runtime) w = ((rels, None), w1)"
    and "list_all (\<lambda>r. r_runtime r \<noteq> None \<and> \<not> about re name ns r) rels"
  shows "Check P re name ns labels version runtime w = (Returned (AdmissionGranted, None), w1)"
  using assms check_releases_skips [OF assms(3), of P "[]" w1] by (auto simp: Check_def own_change_def)

context provider_contract begin

lemma state_read: "pv_state P h w = (fst (pv_state P h w), w)"
  by (metis state_pure prod.collapse)

lemma inactive_eq: "inactive P h w = (fst (pv_state P h w) \<in> {StateIdle, StateFail}, w)"
  unfolding inactive_def using state_read [of h w] by (auto split: prod.splits)

lemma admit_release_eq:
  assumes "pv_get P rel w = (Returned (Inr h), w1)"
  shows "admit_release P name rel w =
    (case fst (pv_state P h w1) of
       StateDestroy \<Rightarrow> (Returned (AdmissionGranted, None), w1)
     | StateIdle \<Rightarrow> start_deployment P name rel w1
     | StateFail \<Rightarrow> start_deployment P name rel w1
     | s \<Rightarrow> (Returned (AdmissionRejected, Some (GoErr (active_message name s))), w1))"
proof -
  obtain s where s: "pv_state P h w1 = (s, w1)" using state_read by metis
  show ?thesis using assms s inactive_eq [of h w1] by (cases s) (simp_all add: admit_release_def)
qed

lemma start_deployment_eq:
  assumes "ss_get (rs_plugin_store (pv_store P) rel ''runtime'') w = ((d, e), w1)"
    and "ss_upsert (rs_plugin_store (pv_store P) rel ''runtime'')
      (Text (enc_runtime_state ((fst (unmarshal runtime_state_fields d runtime_state_zero))\<lparr>rs_candidate := name\<rparr>))) w1 = (None, w2)"
    and "inv w2" and "pv_get P rel (pv_drop P rel w2) = (Returned (Inr h), w3)"
  shows "\<exists>x w4. pv_fire P EventDeploy h w3 = (x, w4) \<and>
    start_deployment P name rel w = (Returned (if x = None then AdmissionGranted else AdmissionError, x), w4) \<and>
    (x = None \<longleftrightarrow> initial_state rel \<in> {StateIdle, StateFail}) \<and>
    (x = None \<longrightarrow> fst (pv_state P h w4) = StateDeploy) \<and> pv_get P rel w4 = (Returned (Inr h), w4)"
proof -
  obtain x w4 where f: "pv_fire P EventDeploy h w3 = (x, w4)" by fastforce
  have "pv_get P rel w4 = (Returned (Inr h), w4)"
    using fire_keeps [OF f] get_ok [OF drop_inv [OF assms(3)] assms(4)] by blast
  with f fresh_deploy [OF assms(3,4) f] assms(1,2,4) show ?thesis
    by (cases x) (simp_all add: start_deployment_def Let_def)
qed

end

text \<open>What the check answers for the first release that matches, by the state of its machine.\<close>

lemma Check_by_state:
  assumes "fsm_documented lib" and "\<not> own_change labels version"
    and "rs_list_releases st (Some runtime) (ms_world s) = ((pre @ rel # post, None), w1)"
    and "list_all (\<lambda>r. r_runtime r \<noteq> None \<and> \<not> about re name ns r) pre" and "about re name ns rel"
    and "GetStateMachine env rel (s\<lparr>ms_world := w1\<rparr>) = (Returned (Inr h), s1)"
  shows "Check (controller_provider lib show_fsm env st) re name ns labels version runtime s =
    (case object_state s1 h of
       StateDestroy \<Rightarrow> (Returned (AdmissionGranted, None), s1)
     | StateIdle \<Rightarrow> start_deployment (controller_provider lib show_fsm env st) name rel s1
     | StateFail \<Rightarrow> start_deployment (controller_provider lib show_fsm env st) name rel s1
     | x \<Rightarrow> (Returned (AdmissionRejected, Some (GoErr (active_message name x))), s1))"
proof -
  let ?P = "controller_provider lib show_fsm env st"
  have "Check ?P re name ns labels version runtime s = admit_release ?P name rel (s\<lparr>ms_world := w1\<rparr>)"
    by (rule Check_first [OF assms(2) _ assms(4,5)]) (simp add: assms(3))
  with provider_contract.admit_release_eq [OF controller_contract [OF assms(1), of show_fsm env st],
      of rel "s\<lparr>ms_world := w1\<rparr>" h s1 name] assms(6)
  show ?thesis by simp
qed

subsection \<open>One release\<close>

text \<open>The properties on one release, with a deployment of the name and namespace it is about.\<close>

definition demo_regex :: regex_lib where
  "demo_regex pattern = Some (\<lambda>n. pattern = n @ ''$'')"

abbreviation demo_check :: "sm_state \<Rightarrow> (admission_response \<times> go_error option) res \<times> demo_world machines" where
  "demo_check st0 \<equiv> Check demo_provider demo_regex ''api'' ''default'' None ''7'' ''kubernetes''
     (demo_start [demo_release ''api'' ''default'' [st0]])"

lemma demo_about: "about demo_regex ''api'' b (demo_release a b sts)"
  by (simp add: about_def demo_regex_def unmarshal_def dec_object_def runtime_config_fields_def runtime_config_zero_def
      anchor_end_def has_suffix_def)

lemma demo_not_own: "\<not> own_change None v"
  by (simp add: own_change_def meta_get_def)

lemma demo_list: "rs_list_releases demo_store q (ms_world (demo_start rs)) = (([] @ rs, None), (rs, Empty))"
  by (simp add: demo_store_def demo_start_def)

lemma demo_first_machine:
  assumes "st0 \<noteq> StateOther ''''"
  shows "\<exists>s1. GetStateMachine demo_env (demo_release a b [st0]) (demo_start rs\<lparr>ms_world := (rs, Empty)\<rparr>) = (Returned (Inr 0), s1) \<and>
    object_state s1 0 = st0 \<and> ms_world s1 = (rs, Empty)"
proof -
  have "ms_cache (demo_start rs) (getReleaseKey (demo_release a b [st0])) = None" by (simp add: demo_start_def)
  from demo_get [OF this] obtain pl where "GetStateMachine demo_env (demo_release a b [st0]) (demo_start rs) =
      (Returned (Inr (length (ms_objects (demo_start rs)))),
       demo_start rs\<lparr>ms_objects := ms_objects (demo_start rs) @
           [((initial_state (demo_release a b [st0]), new_machine (demo_release a b [st0])), pl)],
         ms_cache := (ms_cache (demo_start rs))(getReleaseKey (demo_release a b [st0]) \<mapsto> length (ms_objects (demo_start rs)))\<rparr>)"
    by (elim exE)
  with assms show ?thesis
    by (simp add: demo_start_world) (simp add: demo_start_def object_state_def initial_state_def)
qed

subsection \<open>Properties\<close>





text \<open>
  A deployment is let through while its release is being destroyed, although the
  interface promises a rejection in every state but idle; nothing is started for it.
\<close>

theorem admission_during_destroy:
  assumes "fsm_documented lib" and "\<not> own_change labels version"
    and "rs_list_releases st (Some runtime) (ms_world s) = ((pre @ rel # post, None), w1)"
    and "list_all (\<lambda>r. r_runtime r \<noteq> None \<and> \<not> about re name ns r) pre" and "about re name ns rel"
    and "GetStateMachine env rel (s\<lparr>ms_world := w1\<rparr>) = (Returned (Inr h), s1)"
    and "object_state s1 h = StateDestroy"
  shows "Check (controller_provider lib show_fsm env st) re name ns labels version runtime s =
    (Returned (AdmissionGranted, None), s1)"
  using Check_by_state [OF assms(1-6)] assms(7) by simp

theorem admission_during_destroy_witness:
  "\<exists>s1. demo_check StateDestroy = (Returned (AdmissionGranted, None), s1)"
proof -
  obtain s1 where s1: "GetStateMachine demo_env (demo_release ''api'' ''default'' [StateDestroy])
      (demo_start [demo_release ''api'' ''default'' [StateDestroy]]\<lparr>ms_world := ([demo_release ''api'' ''default'' [StateDestroy]], Empty)\<rparr>) =
        (Returned (Inr 0), s1)" "object_state s1 0 = StateDestroy"
    using demo_first_machine [of StateDestroy] by blast
  from admission_during_destroy [OF reference_fsm_documented demo_not_own demo_list _ demo_about s1(1)] s1(2)
  show ?thesis unfolding demo_provider_def by simp
qed

text \<open>
  The namespace a release leaves out is read in two ways: the runtime plugin takes it
  for the default one, the check compares it as it is, so that a deployment in the default
  namespace is let through without the release that runs it being consulted.
\<close>

theorem admission_namespace_not_defaulted:
  assumes "\<not> own_change labels version"
    and "rs_list_releases (pv_store P) (Some runtime) w = (([rel], None), w1)"
    and "r_runtime rel = Some rt" and "unmarshal runtime_config_fields (pc_config rt) runtime_config_zero = (c, None)"
    and "rc_namespace c = ''''"
  shows "Check P re name ''default'' labels version runtime w = (Returned (AdmissionGranted, None), w1) \<and>
    (\<exists>p v1. runtime_Configure (pc_config rt) store v = (Inr p, v1) \<and> rc_namespace (rp_config p) = ''default'')"
proof
  show "Check P re name ''default'' labels version runtime w = (Returned (AdmissionGranted, None), w1)"
    by (rule Check_none [OF assms(1,2)]) (simp add: assms(3-5) about_def Let_def split: option.split)
  show "\<exists>p v1. runtime_Configure (pc_config rt) store v = (Inr p, v1) \<and> rc_namespace (rp_config p) = ''default''"
    using assms(4,5) by (auto simp: runtime_Configure_def Let_def split: prod.split)
qed

theorem admission_namespace_not_defaulted_witness:
  "Check demo_provider demo_regex ''api'' ''default'' None ''7'' ''kubernetes'' (demo_start [demo_release ''api'' '''' []]) =
     (Returned (AdmissionGranted, None), demo_start [demo_release ''api'' '''' []]) \<and>
   (\<exists>p. runtime_Configure (Text (JObj [(''deployment'', JStr ''api''), (''namespace'', JStr '''')]))
      (rs_plugin_store demo_store (demo_release ''api'' '''' []) ''runtime'') ([], Empty) = (Inr p, ([], Empty)) \<and>
      rc_namespace (rp_config p) = ''default'')"
proof -
  let ?d = "Text (JObj [(''deployment'', JStr ''api''), (''namespace'', JStr '''')])"
  let ?store = "rs_plugin_store demo_store (demo_release ''api'' '''' []) ''runtime''"
  have u: "unmarshal runtime_config_fields ?d runtime_config_zero = (\<lparr>rc_selector = ''api'', rc_namespace = ''''\<rparr>, None)"
    by (simp add: unmarshal_def dec_object_def runtime_config_fields_def runtime_config_zero_def)
  have "Check demo_provider demo_regex ''api'' ''default'' None ''7'' ''kubernetes'' (demo_start [demo_release ''api'' '''' []]) =
      (Returned (AdmissionGranted, None), demo_start [demo_release ''api'' '''' []]) \<and>
    (\<exists>p v1. runtime_Configure ?d ?store ([], Empty) = (Inr p, v1) \<and> rc_namespace (rp_config p) = ''default'')"
    using admission_namespace_not_defaulted [OF demo_not_own _ demo_release_plugins(2) [of "''api''" "''''" "[]"], where P = demo_provider and
        w = "demo_start [demo_release ''api'' '''' []]" and ?w1.0 = "demo_start [demo_release ''api'' '''' []]" and
        c = "\<lparr>rc_selector = ''api'', rc_namespace = ''''\<rparr>" and store = ?store]
      u demo_list by (simp add: demo_provider_def demo_start_world)
  moreover have "snd (runtime_Configure ?d ?store ([], Empty)) = ([], Empty)"
    by (simp add: runtime_Configure_def u demo_store_def)
  ultimately show ?thesis by (metis snd_conv)
qed

end
