(* ===== verification/ReleaseApi.thy ===== *)
theory ReleaseApi
  imports Provider
begin

text \<open>
  The HTTP handlers of the releases (\<open>pkg/api/handlers/release.go\<close>): create or update,
  list, read, delete, and the goroutine that removes a release once its machine has
  finished destroying it, which the Kubernetes controller starts in the same form. A
  handler gives what it writes to the client and to the metrics, in order; a handler that
  panics is recovered by the HTTP server and gives nothing.
\<close>

datatype 'h api_effect =
    Metric nat
  | HttpError string nat
  | WriteHeader nat
  | Body json
  | StartRemoval 'h release

type_synonym ('h, 'w) handled = "'h api_effect list res \<times> 'w"

subsection \<open>Post\<close>

text \<open>The branch of a rejected event has no return: its answer is followed by the final one.\<close>

definition api_Post :: "('h, 'w) provider \<Rightarrow> bytes option \<Rightarrow> 'w \<Rightarrow> ('h, 'w) handled" where
  "api_Post P body w =
     (case FromJsonBody body new_release of
        (rel, Some e) \<Rightarrow> (Returned [Metric 400, HttpError ''invalid request body'' 400], w)
      | (rel, None) \<Rightarrow>
          (case rs_upsert_release (pv_store P) rel w of
             (Some e, w1) \<Rightarrow> (Returned [Metric 500, HttpError ''unable to save release'' 500], w1)
           | (None, w1) \<Rightarrow>
               (case pv_get P rel w1 of
                  (Panicked, w2) \<Rightarrow> (Panicked, w2)
                | (Returned (Inl e), w2) \<Rightarrow> (Returned [Metric 500, HttpError ''unable to create statemachine'' 500], w2)
                | (Returned (Inr sm), w2) \<Rightarrow>
                    (case pv_fire P EventConfigure sm w2 of
                       (Some e, w3) \<Rightarrow>
                         (Returned [Metric 500, HttpError ''unable to configure release'' 500, Metric 200], w3)
                     | (None, w3) \<Rightarrow> (Returned [Metric 200], w3)))))"

subsection \<open>GetAll\<close>

record release_summary =
  rsum_name :: string
  rsum_status :: string
  rsum_last_status :: string
  rsum_traffic :: int
  rsum_version :: string

definition enc_summary :: "release_summary \<Rightarrow> json" where
  "enc_summary s =
     JObj [(''name'', JStr (rsum_name s)), (''status'', JStr (rsum_status s)),
           (''last_deployment_status'', JStr (rsum_last_status s)),
           (''candidate_traffic'', JNum (rsum_traffic s)), (''version'', JStr (rsum_version s))]"

text \<open>
  The saved state of the strategy, read into a generic map: a later member replaces an
  earlier one of its name, and one of another type is passed over. \<open>num\<close> is what a number
  token becomes as a float and then an integer.
\<close>

definition strategy_summary :: "(json \<Rightarrow> int) \<Rightarrow> bytes \<Rightarrow> int \<times> string" where
  "strategy_summary num d =
     (case d of
        Text (JObj ms) \<Rightarrow>
          ((case map_of (rev ms) ''candidate_traffic'' of
              Some (JNum n) \<Rightarrow> num (JNum n) | Some (JFrac q) \<Rightarrow> num (JFrac q) | _ \<Rightarrow> 0),
           (case map_of (rev ms) ''status'' of Some (JStr s) \<Rightarrow> s | _ \<Rightarrow> ''''))
      | _ \<Rightarrow> (0, ''''))"

definition summarise :: "('h, 'w) provider \<Rightarrow> (json \<Rightarrow> int) \<Rightarrow> release \<Rightarrow> 'w \<Rightarrow> release_summary res \<times> 'w" where
  "summarise P num rel w =
     (case pv_get P rel w of
        (Panicked, w1) \<Rightarrow> (Panicked, w1)
      | (Returned x, w1) \<Rightarrow>
          (case (case x of Inl e \<Rightarrow> (''unknown'', w1) | Inr sm \<Rightarrow> apfst state_str (pv_state P sm w1)) of
             (s, w2) \<Rightarrow>
               (case ss_get (rs_plugin_store (pv_store P) rel ''strategy'') w2 of
                  ((d, e), w3) \<Rightarrow>
                    (case (if e = None then strategy_summary num d else (0, '''')) of
                       (traffic, last_status) \<Rightarrow>
                         (Returned \<lparr>rsum_name = r_name rel, rsum_status = s, rsum_last_status = last_status,
                                    rsum_traffic = traffic, rsum_version = r_version rel\<rparr>, w3)))))"

fun summarise_all :: "('h, 'w) provider \<Rightarrow> (json \<Rightarrow> int) \<Rightarrow> release list \<Rightarrow> 'w \<Rightarrow> release_summary list res \<times> 'w" where
  "summarise_all P num [] w = (Returned [], w)"
| "summarise_all P num (rel # rels) w =
     bind_res (summarise P num rel w) (\<lambda>s w1.
       bind_res (summarise_all P num rels w1) (\<lambda>ss w2. (Returned (s # ss), w2)))"

definition api_GetAll :: "('h, 'w) provider \<Rightarrow> (json \<Rightarrow> int) \<Rightarrow> 'w \<Rightarrow> ('h, 'w) handled" where
  "api_GetAll P num w =
     (case rs_list_releases (pv_store P) None w of
        ((rels, Some e), w1) \<Rightarrow> (Returned [Metric 500, HttpError ''unable to fetch releases'' 500], w1)
      | ((rels, None), w1) \<Rightarrow>
          bind_res (summarise_all P num rels w1) (\<lambda>ss w2.
            (Returned [Body (JArr (map enc_summary ss)), Metric 200], w2)))"

subsection \<open>GetSingle\<close>

text \<open>
  The embedded release without its history, whose name the outer field takes, then the
  two fields of the response. A plugin configuration that is not JSON makes the encoder
  fail, which is not looked at.
\<close>

definition enc_single :: "release \<Rightarrow> json option" where
  "enc_single d =
     (case marshal_release d of
        Some (JObj ms) \<Rightarrow>
          Some (JObj (filter (\<lambda>m. fst m \<noteq> ''state_history'') ms @
            [(''current_state'', JStr (state_str (CurrentState d))),
             (''state_history'', JArr (map enc_sh (StateHistory d)))]))
      | _ \<Rightarrow> None)"

text \<open>Only the missing release is looked for among the errors; with any other the release is nil.\<close>

definition api_GetSingle :: "('h, 'w) provider \<Rightarrow> string \<Rightarrow> 'w \<Rightarrow> ('h, 'w) handled" where
  "api_GetSingle P name w =
     (case rs_get_release (pv_store P) name w of
        ((rel, err), w1) \<Rightarrow>
          if err = Some ReleaseNotFound then (Returned [WriteHeader 404, Metric 404], w1)
          else
            (case rel of
               None \<Rightarrow> (Panicked, w1)
             | Some d \<Rightarrow>
                 (Returned ((case enc_single d of None \<Rightarrow> [] | Some j \<Rightarrow> [Body j]) @ [Metric 200]), w1)))"

subsection \<open>Delete and the removal\<close>

definition api_Delete :: "('h, 'w) provider \<Rightarrow> string \<Rightarrow> 'w \<Rightarrow> ('h, 'w) handled" where
  "api_Delete P name w =
     (case rs_get_release (pv_store P) name w of
        ((rel, err), w1) \<Rightarrow>
          if err = Some ReleaseNotFound then
            (Returned [Metric 404, HttpError (''release '' @ name @ '' not found'') 404], w1)
          else if err \<noteq> None then (Returned [Metric 500, HttpError ''unable to delete release'' 500], w1)
          else
            (case rel of
               None \<Rightarrow> (Panicked, w1)
             | Some d \<Rightarrow>
                 (case pv_get P d w1 of
                    (Panicked, w2) \<Rightarrow> (Panicked, w2)
                  | (Returned (Inl e), w2) \<Rightarrow>
                      (Returned [Metric 500, HttpError ''unable to find state machine for release'' 500], w2)
                  | (Returned (Inr sm), w2) \<Rightarrow>
                      (case pv_fire P EventDestroy sm w2 of
                         (Some e, w3) \<Rightarrow> (Returned [Metric 500, HttpError ''unable to cleanup release'' 500], w3)
                       | (None, w3) \<Rightarrow> (Returned [StartRemoval sm d, Metric 200], w3)))))"

text \<open>
  The goroutine: \<open>sleep\<close> is what the rest of the process does while it waits, \<open>expired\<close> the
  context it made with a timeout. The errors of the two deletions are logged.
\<close>

definition remove_release :: "('h, 'w) provider \<Rightarrow> release \<Rightarrow> 'w \<Rightarrow> 'w" where
  "remove_release P d w = snd (rs_delete_release (pv_store P) (r_name d) (pv_drop P d w))"

partial_function (option) await_removal ::
    "('h, 'w) provider \<Rightarrow> (int \<Rightarrow> 'w \<Rightarrow> 'w) \<Rightarrow> ('w \<Rightarrow> bool) \<Rightarrow> 'h \<Rightarrow> release \<Rightarrow> 'w \<Rightarrow> 'w option" where
  "await_removal P sleep expired sm d w =
     (if expired w then Some w
      else
        (case pv_state P sm w of
           (s, w1) \<Rightarrow>
             if s = StateIdle then Some (remove_release P d w1)
             else
               (case pv_state P sm w1 of
                  (s1, w2) \<Rightarrow>
                    if s1 = StateFail then Some w2
                    else
                      (case pv_state P sm w2 of
                         (_, w3) \<Rightarrow> await_removal P sleep expired sm d (sleep (2 * 1000000000) w3)))))"

definition removal :: "('h, 'w) provider \<Rightarrow> (int \<Rightarrow> 'w \<Rightarrow> 'w) \<Rightarrow> ('w \<Rightarrow> int \<Rightarrow> 'w \<Rightarrow> bool) \<Rightarrow> 'h \<Rightarrow> release \<Rightarrow> 'w \<Rightarrow> 'w option" where
  "removal P sleep expired sm d w = await_removal P sleep (expired w (300 * 1000000000)) sm d w"

subsection \<open>The removal loop\<close>

text \<open>Where reading the state changes nothing, a round either stops or sleeps and goes on.\<close>

lemma await_removal_step:
  assumes "\<And>v. pv_state P sm v = (state v, v)"
  shows "await_removal P sleep expired sm d w =
    (if expired w then Some w
     else if state w = StateIdle then Some (remove_release P d w)
     else if state w = StateFail then Some w
     else await_removal P sleep expired sm d (sleep (2 * 1000000000) w))"
  by (subst await_removal.simps) (simp add: assms)

lemma await_removal_rounds:
  assumes "\<And>v. pv_state P sm v = (state v, v)"
    and "\<And>i. i < n \<Longrightarrow> \<not> expired ((sleep (2 * 1000000000) ^^ i) w) \<and>
      state ((sleep (2 * 1000000000) ^^ i) w) \<notin> {StateIdle, StateFail}"
  shows "await_removal P sleep expired sm d w = await_removal P sleep expired sm d ((sleep (2 * 1000000000) ^^ n) w)"
  using assms(2)
proof (induction n)
  case 0
  then show ?case by simp
next
  case (Suc n)
  then have "await_removal P sleep expired sm d w = await_removal P sleep expired sm d ((sleep (2 * 1000000000) ^^ n) w)"
    by simp
  also have "\<dots> = await_removal P sleep expired sm d ((sleep (2 * 1000000000) ^^ Suc n) w)"
    by (subst await_removal_step [where state = state, OF assms(1)]) (use Suc.prems [of n] in simp)
  finally show ?case .
qed

lemma clock_after_sleeps:
  assumes "\<And>t v. now v + t \<le> now (sleep t v)"
  shows "now w + int n * t \<le> (now ((sleep t ^^ n) w) :: int)"
proof (induction n)
  case 0
  then show ?case by simp
next
  case (Suc n)
  with assms [of "(sleep t ^^ n) w" t] show ?case by (simp add: algebra_simps)
qed

subsection \<open>Reading a release back\<close>

lemma no_current_state_field: "find_field release_fields ''current_state'' = None"
proof -
  have "Option.is_none (find_field release_fields ''current_state'')" by code_simp
  then show ?thesis by (simp add: Option.is_none_def)
qed

lemma marshal_release_members:
  assumes "marshal_release d = Some j"
  obtains ms where "j = JObj (ms @ [(''state_history'', JArr (map enc_sh (r_history d)))])"
    and "filter (\<lambda>m. fst m \<noteq> ''state_history'') ms = ms"
proof -
  from assms obtain rl rt st mo wh pt where
    "j = JObj
      ([(''name'', JStr (r_name d)), (''namespace'', JStr (r_namespace d)),
        (''version'', JStr (r_version d)), (''created'', JTime (r_created d)),
        (''last_updated'', JTime (r_last_updated d)), (''releaser'', rl), (''runtime'', rt),
        (''strategy'', st), (''monitor'', mo), (''webhooks'', JArr wh),
        (''post_deployment_test'', pt)] @ [(''state_history'', JArr (map enc_sh (r_history d)))])"
    by (auto simp: marshal_release_def split: option.splits)
  then show thesis by (rule that) simp
qed

text \<open>For the examples: one release with a machine, and its JSON form as a request body.\<close>

definition one_machine :: "sm_state \<Rightarrow> sm_plugins \<Rightarrow> 'w \<Rightarrow> 'w machines" where
  "one_machine x pl w =
     (let d = demo_release ''api'' ''default'' [x]
      in \<lparr>ms_world = w, ms_objects = [((x, new_machine d), pl)], ms_cache = [getReleaseKey d \<mapsto> 0]\<rparr>)"

definition demo_body :: "bytes option" where
  "demo_body = ToJson (demo_release ''api'' ''default'' [])"

lemma one_machine_sel [simp]:
  "ms_world (one_machine x pl w) = w" "length (ms_objects (one_machine x pl w)) = 1"
  "ms_objects (one_machine x pl w) ! 0 = ((x, new_machine (demo_release ''api'' ''default'' [x])), pl)"
  "ms_cache (one_machine x pl w) (getReleaseKey (demo_release ''api'' ''default'' sts)) = Some 0"
  "object_state (one_machine x pl w) 0 = x"
  by (simp_all add: one_machine_def Let_def object_state_def getReleaseKey_def)

lemma demo_release_wf: "list_all canonical_state sts \<Longrightarrow> release_wf (demo_release a b sts)"
  by (auto simp: release_wf_def) (simp add: demo_release_def list_all_iff)

lemma demo_body_reads: "FromJsonBody demo_body new_release = (demo_release ''api'' ''default'' [], None)"
proof -
  let ?d = "demo_release ''api'' ''default'' []"
  have wf: "release_wf ?d" by (rule demo_release_wf) simp
  obtain j where "marshal_release ?d = Some j" using marshal_release_wf [OF wf] by blast
  with unmarshal_marshal_release [OF wf this] show ?thesis by (simp add: demo_body_def ToJson_def FromJsonBody_def)
qed

lemma demo_upsert: "rs_upsert_release demo_store d ([], b) = (None, ([d], b))"
  by (simp add: demo_store_def)

subsection \<open>Properties\<close>

text \<open>
  C22: The goroutine that removes a release ends, after at most 150 sleeps, and by the
  state it then finds: the release leaves the store, and its machine the provider, only
  where the machine was seen idle after every earlier look had found it busy; a machine
  that failed, or is still busy after five minutes, is left with everything in place.
\<close>

theorem removal_ends:
  assumes "\<And>t v. now v + t \<le> now (sleep t v)" and "\<And>start t v. expired start t v \<longleftrightarrow> now start + t \<le> (now v :: int)"
  shows "\<exists>n \<le> 150. let v = (\<lambda>i. (sleep (2 * 1000000000) ^^ i) s) in
    (\<forall>i < n. object_state (v i) h \<notin> {StateIdle, StateFail}) \<and>
    removal (controller_provider lib show_fsm env st) sleep expired h d s =
      Some (if \<not> expired s (300 * 1000000000) (v n) \<and> object_state (v n) h = StateIdle
            then remove_release (controller_provider lib show_fsm env st) d (v n) else v n) \<and>
    (expired s (300 * 1000000000) (v n) \<or> object_state (v n) h \<in> {StateIdle, StateFail})"
proof -
  let ?P = "controller_provider lib show_fsm env st"
  let ?v = "\<lambda>i. (sleep (2 * 1000000000) ^^ i) s"
  let ?stop = "\<lambda>i. expired s (300 * 1000000000) (?v i) \<or> object_state (?v i) h \<in> {StateIdle, StateFail}"
  have pure: "pv_state ?P h v = (object_state v h, v)" for v by (simp add: controller_provider_def)
  have "now s + int 150 * (2 * 1000000000) \<le> now (?v 150)" by (rule clock_after_sleeps [OF assms(1)])
  then have "?stop 150" by (simp add: assms(2))
  define n where "n = (LEAST i. ?stop i)"
  have stop: "?stop n" and le: "n \<le> 150" unfolding n_def
    by (rule LeastI [of ?stop 150], fact, rule Least_le, fact)
  have busy: "\<not> ?stop i" if "i < n" for i using not_less_Least [of i ?stop] that unfolding n_def by blast
  have "removal ?P sleep expired h d s = await_removal ?P sleep (expired s (300 * 1000000000)) h d (?v n)"
    unfolding removal_def by (rule await_removal_rounds [where state = "\<lambda>v. object_state v h", OF pure]) (use busy in auto)
  also have "\<dots> = Some (if \<not> expired s (300 * 1000000000) (?v n) \<and> object_state (?v n) h = StateIdle
      then remove_release ?P d (?v n) else ?v n)"
    by (subst await_removal_step [where state = "\<lambda>v. object_state v h", OF pure]) (use stop in auto)
  finally show ?thesis using le stop busy by (intro exI [of _ n]) (auto simp: Let_def)
qed

theorem removal_ends_witness:
  "\<forall>pl show_fsm st. removal (controller_provider reference_fsm show_fsm demo_env st)
     (\<lambda>t v. v\<lparr>ms_world := ms_world v + max 0 t\<rparr>) (\<lambda>start t v. ms_world start + t \<le> ms_world v) 0
     (demo_release ''api'' ''default'' []) (one_machine StateDestroy pl (0 :: int)) =
   Some (one_machine StateDestroy pl 300000000000)"
proof (intro allI)
  fix pl show_fsm and st :: "int release_store"
  let ?sleep = "\<lambda>t (v :: int machines). v\<lparr>ms_world := ms_world v + max 0 t\<rparr>"
  have v: "((\<lambda>v. v\<lparr>ms_world := ms_world v + 2000000000\<rparr>) ^^ i) (one_machine StateDestroy pl (0 :: int)) = one_machine StateDestroy pl (int i * 2000000000)" for i
    by (induction i) (simp_all add: one_machine_def Let_def)
  obtain n where n: "n \<le> 150" "removal (controller_provider reference_fsm show_fsm demo_env st) ?sleep
      (\<lambda>start t v. ms_world start + t \<le> ms_world v) 0 (demo_release ''api'' ''default'' []) (one_machine StateDestroy pl 0) =
      Some (one_machine StateDestroy pl (int n * 2000000000))" "300000000000 \<le> int n * 2000000000"
    using removal_ends [where now = ms_world and sleep = ?sleep and expired = "\<lambda>start t v. ms_world start + t \<le> ms_world v"
        and s = "one_machine StateDestroy pl 0" and h = 0 and d = "demo_release ''api'' ''default'' []" and lib = reference_fsm
        and show_fsm = show_fsm and env = demo_env and st = st]
    by (auto simp: Let_def v)
  then have "n = 150" by linarith
  with n(2) show "removal (controller_provider reference_fsm show_fsm demo_env st) ?sleep
      (\<lambda>start t v. ms_world start + t \<le> ms_world v) 0 (demo_release ''api'' ''default'' []) (one_machine StateDestroy pl 0) =
      Some (one_machine StateDestroy pl 300000000000)" by simp
qed

text \<open>
  C32: What the API gives for a release can be posted back: the body of a read release
  decodes to the very release that is stored, history and all.
\<close>

theorem get_single_round_trip:
  assumes "rs_get_release (pv_store P) name w = ((Some d, None), w1)" and "release_wf d"
  shows "\<exists>j. api_GetSingle P name w = (Returned [Body j, Metric 200], w1) \<and>
    FromJsonBody (Some (Text j)) new_release = (d, None)"
proof -
  obtain j0 where j0: "marshal_release d = Some j0" using marshal_release_wf [OF assms(2)] by blast
  obtain ms where ms: "j0 = JObj (ms @ [(''state_history'', JArr (map enc_sh (r_history d)))])"
    "filter (\<lambda>m. fst m \<noteq> ''state_history'') ms = ms" by (rule marshal_release_members [OF j0])
  have "dec_members release_fields (ms @ [(''state_history'', JArr (map enc_sh (r_history d)))]) new_release = (d, False)"
    using unmarshal_marshal_release [OF assms(2) j0] by (simp add: ms(1) unmarshal_def dec_object_def split: prod.splits if_splits)
  then obtain b where b: "dec_members release_fields ms new_release = (b, False)"
    "dec_members release_fields [(''state_history'', JArr (map enc_sh (r_history d)))] b = (d, False)"
    by (auto simp: dec_members_append split: prod.splits)
  have e: "enc_single d = Some (JObj (ms @ [(''current_state'', JStr (state_str (CurrentState d))),
      (''state_history'', JArr (map enc_sh (r_history d)))]))"
    using j0 ms by (simp add: enc_single_def StateHistory_def)
  have "dec_members release_fields (ms @ [(''current_state'', JStr (state_str (CurrentState d))),
      (''state_history'', JArr (map enc_sh (r_history d)))]) new_release = (d, False)"
    using b no_current_state_field by (simp add: dec_members_append)
  from unmarshal_members [OF this] e assms(1) show ?thesis
    by (simp add: api_GetSingle_def FromJsonBody_def)
qed

theorem get_single_round_trip_witness:
  "\<exists>j. api_GetSingle demo_provider ''api'' (demo_start [demo_release ''api'' ''default'' [StateIdle]]) =
      (Returned [Body j, Metric 200], demo_start [demo_release ''api'' ''default'' [StateIdle]]) \<and>
    FromJsonBody (Some (Text j)) new_release = (demo_release ''api'' ''default'' [StateIdle], None)"
  by (rule get_single_round_trip, simp add: demo_provider_def demo_store_def demo_start_def on_world_def,
      rule demo_release_wf, simp)

text \<open>
  An update over the API does not reach a release that has a machine: the posted
  release is stored, but the machine, which holds the release and the plugins it was made
  with, is the one configured, and the first thing it does is to store its own release
  again, over the update. The answer is a success.
\<close>

theorem post_update_is_overwritten:
  assumes "fsm_documented lib" and "FromJsonBody body new_release = (rel, None)"
    and "rs_upsert_release st rel (ms_world s) = (None, w1)"
    and "ms_cache s (getReleaseKey rel) = Some h" and "h < length (ms_objects s)"
    and "ms_objects s ! h = ((x, m), pl)" and "x \<in> {StateStart, StateIdle, StateFail}"
  shows "\<exists>s1 m1. api_Post (controller_provider lib show_fsm env st) body s = (Returned [Metric 200], s1) \<and>
    ms_world s1 = w1 \<and> ms_objects s1 ! h = ((StateConfigure, m1), pl) \<and>
    m_release m1 = UpdateState (m_clock m) StateConfigure (m_release m) \<and>
    last (m_effects m1) = StoreUpsert (m_release m1)"
proof -
  have "next_state x EventConfigure = Some StateConfigure" using assms(7) by auto
  from Event_accepted [OF assms(1) this] have f: "fire_object lib EventConfigure h (s\<lparr>ms_world := w1\<rparr>) =
      (None, s\<lparr>ms_world := w1, ms_objects := (ms_objects s)[h := ((StateConfigure, enter_machine x StateConfigure [] m), pl)]\<rparr>)"
    using assms(6) by (simp add: fire_object_def)
  have g: "GetStateMachine env rel (s\<lparr>ms_world := w1\<rparr>) = (Returned (Inr h), s\<lparr>ms_world := w1\<rparr>)"
    by (rule GetStateMachine_cached) (simp add: assms(4))
  show ?thesis
    using assms(2,3,5) f g
    by (simp add: api_Post_def) (simp add: controller_provider_def enter_machine_fields)
qed

theorem post_update_is_overwritten_witness:
  "\<forall>pl. \<exists>s1 m1. api_Post demo_provider demo_body (one_machine StateIdle pl ([], Empty)) = (Returned [Metric 200], s1) \<and>
     ms_world s1 = ([demo_release ''api'' ''default'' []], Empty) \<and> ms_objects s1 ! 0 = ((StateConfigure, m1), pl) \<and>
     last (m_effects m1) = StoreUpsert (m_release m1)"
proof
  fix pl
  from post_update_is_overwritten [OF reference_fsm_documented demo_body_reads, of demo_store "one_machine StateIdle pl ([], Empty)"
      _ 0 StateIdle _ pl "\<lambda>_. GoErr ''inappropriate event''" demo_env] demo_upsert
  show "\<exists>s1 m1. api_Post demo_provider demo_body (one_machine StateIdle pl ([], Empty)) = (Returned [Metric 200], s1) \<and>
     ms_world s1 = ([demo_release ''api'' ''default'' []], Empty) \<and> ms_objects s1 ! 0 = ((StateConfigure, m1), pl) \<and>
     last (m_effects m1) = StoreUpsert (m_release m1)"
    unfolding demo_provider_def by fastforce
qed

text \<open>
  A posted release whose machine is busy is answered twice: the store has taken the new
  version, the event is refused, the client is told of an error, and the metrics count both
  the error and a success; the machine goes on as it was.
\<close>

theorem post_to_active_release:
  assumes "fsm_documented lib" and "FromJsonBody body new_release = (rel, None)"
    and "rs_upsert_release st rel (ms_world s) = (None, w1)"
    and "ms_cache s (getReleaseKey rel) = Some h" and "h < length (ms_objects s)"
    and "object_state s h \<notin> {StateStart, StateIdle, StateFail}"
  shows "\<exists>s1. api_Post (controller_provider lib show_fsm env st) body s =
      (Returned [Metric 500, HttpError ''unable to configure release'' 500, Metric 200], s1) \<and>
    ms_world s1 = w1 \<and> object_state s1 h = object_state s h"
proof -
  obtain x m pl where o: "ms_objects s ! h = ((x, m), pl)" by (metis prod.collapse)
  then have "next_state x EventConfigure = None" using assms(6) by (auto simp: object_state_def)
  from Event_rejected [OF assms(1) this] obtain err where "Event lib EventConfigure [] (x, m) = (Some err, x, m)" by blast
  then have f: "fire_object lib EventConfigure h (s\<lparr>ms_world := w1\<rparr>) = (Some err, s\<lparr>ms_world := w1\<rparr>)"
    using o list_update_id [of "ms_objects s" h] by (simp add: fire_object_def)
  have g: "GetStateMachine env rel (s\<lparr>ms_world := w1\<rparr>) = (Returned (Inr h), s\<lparr>ms_world := w1\<rparr>)"
    by (rule GetStateMachine_cached) (simp add: assms(4))
  show ?thesis
    using assms(2,3) f g by (simp add: api_Post_def) (simp add: controller_provider_def object_state_def)
qed

theorem post_to_active_release_witness:
  "\<forall>pl. \<exists>s1. api_Post demo_provider demo_body (one_machine StateScale pl ([], Empty)) =
      (Returned [Metric 500, HttpError ''unable to configure release'' 500, Metric 200], s1) \<and>
     ms_world s1 = ([demo_release ''api'' ''default'' []], Empty) \<and> object_state s1 0 = StateScale"
proof
  fix pl
  from post_to_active_release [OF reference_fsm_documented demo_body_reads, of demo_store "one_machine StateScale pl ([], Empty)"
      _ 0 "\<lambda>_. GoErr ''inappropriate event''" demo_env] demo_upsert
  show "\<exists>s1. api_Post demo_provider demo_body (one_machine StateScale pl ([], Empty)) =
      (Returned [Metric 500, HttpError ''unable to configure release'' 500, Metric 200], s1) \<and>
     ms_world s1 = ([demo_release ''api'' ''default'' []], Empty) \<and> object_state s1 0 = StateScale"
    unfolding demo_provider_def by fastforce
qed

text \<open>
  A store that fails is told apart from a missing release when a release is deleted,
  which is then answered with an error, but not when it is read: the handler goes on with a
  nil release and panics.
\<close>

theorem get_single_panics_on_store_error:
  assumes "rs_get_release (pv_store P) name w = ((None, Some e), w1)" and "e \<noteq> ReleaseNotFound"
  shows "api_GetSingle P name w = (Panicked, w1) \<and>
    api_Delete P name w = (Returned [Metric 500, HttpError ''unable to delete release'' 500], w1)"
  using assms by (simp add: api_GetSingle_def api_Delete_def)

theorem get_single_panics_on_store_error_witness:
  "api_GetSingle (demo_provider\<lparr>pv_store := (machines_store demo_store)
      \<lparr>rs_get_release := (\<lambda>n w. ((None, Some (GoErr ''connection refused'')), w))\<rparr>\<rparr>) ''api'' (demo_start []) =
   (Panicked, demo_start [])"
  by (rule conjunct1 [OF get_single_panics_on_store_error]) (simp, simp)

end
