(* ===== verification/Reconciler.thy ===== *)
theory Reconciler
  imports ReleaseApi
begin

text \<open>
  The controller of the release resources of Kubernetes
  (\<open>pkg/controllers/kubernetes/controllers/release_controller.go\<close>, \<open>helpers.go\<close>) and the
  conversion of a resource into a release (\<open>pkg/controllers/kubernetes/api/v1/convert.go\<close>,
  \<open>release_types.go\<close>). The conversion goes through the JSON form of the configurations,
  in which members with a zero value are left out.
\<close>

subsection \<open>The resource\<close>

record cr_webhook =
  cw_plugin :: string
  cw_id :: string
  cw_token :: string
  cw_url :: string
  cw_template :: string
  cw_status :: "string list"

record cr_releaser =
  crel_plugin :: string
  crel_service :: string
  crel_namespace :: string
  crel_partition :: string

record cr_runtime =
  crt_plugin :: string
  crt_deployment :: string

record cr_strategy =
  cst_plugin :: string
  cst_initial_delay :: string
  cst_interval :: string
  cst_initial_traffic :: int
  cst_traffic_step :: int
  cst_max_traffic :: int
  cst_error_threshold :: int

record cr_query =
  cq_name :: string
  cq_preset :: string
  cq_min :: int
  cq_max :: int
  cq_query :: string

record cr_monitor =
  cm_plugin :: string
  cm_address :: string
  cm_queries :: "cr_query list"

record cr_test =
  ct_plugin :: string
  ct_path :: string
  ct_method :: string
  ct_payload :: string
  ct_required :: int
  ct_interval :: string
  ct_timeout :: string

record kube_release =
  kr_name :: string
  kr_namespace :: string
  kr_generation :: int
  kr_deleting :: bool
  kr_finalizers :: "string list"
  kr_webhooks :: "cr_webhook list"
  kr_releaser :: cr_releaser
  kr_runtime :: cr_runtime
  kr_strategy :: cr_strategy
  kr_monitor :: cr_monitor
  kr_test :: cr_test

subsection \<open>Conversion\<close>

definition omit_list :: "string \<Rightarrow> json list \<Rightarrow> (string \<times> json) list" where
  "omit_list k js = (if js = [] then [] else [(k, JArr js)])"

definition releaserConfigSnake :: "cr_releaser \<Rightarrow> json" where
  "releaserConfigSnake c =
     JObj ([(''consul_service'', JStr (crel_service c))] @ omit_str ''namespace'' (crel_namespace c) @
       omit_str ''partition'' (crel_partition c))"

definition runtimeConfigSnake :: "string \<Rightarrow> string \<Rightarrow> json" where
  "runtimeConfigSnake deployment namespace = JObj (omit_str ''deployment'' deployment @ omit_str ''namespace'' namespace)"

definition strategyConfigSnake :: "cr_strategy \<Rightarrow> json" where
  "strategyConfigSnake c =
     JObj (omit_str ''initial_delay'' (cst_initial_delay c) @ omit_str ''interval'' (cst_interval c) @
       omit_int ''initial_traffic'' (cst_initial_traffic c) @ omit_int ''traffic_step'' (cst_traffic_step c) @
       omit_int ''max_traffic'' (cst_max_traffic c) @ omit_int ''error_threshold'' (cst_error_threshold c))"

definition monitorQuerySnake :: "cr_query \<Rightarrow> json" where
  "monitorQuerySnake q =
     JObj (omit_str ''name'' (cq_name q) @ omit_str ''preset'' (cq_preset q) @ omit_int ''min'' (cq_min q) @
       omit_int ''max'' (cq_max q) @ omit_str ''query'' (cq_query q))"

definition monitorConfigSnake :: "cr_monitor \<Rightarrow> json" where
  "monitorConfigSnake c =
     JObj (omit_str ''address'' (cm_address c) @ omit_list ''queries'' (map monitorQuerySnake (cm_queries c)))"

definition webhookConfigSnake :: "cr_webhook \<Rightarrow> json" where
  "webhookConfigSnake c =
     JObj ([(''id'', JStr (cw_id c)), (''token'', JStr (cw_token c)), (''url'', JStr (cw_url c)),
            (''template'', JStr (cw_template c))] @ omit_list ''status'' (map JStr (cw_status c)))"

definition testConfigSnake :: "cr_test \<Rightarrow> json" where
  "testConfigSnake c =
     JObj ([(''path'', JStr (ct_path c)), (''method'', JStr (ct_method c))] @ omit_str ''payload'' (ct_payload c) @
       [(''required_test_passes'', JNum (ct_required c)), (''interval'', JStr (ct_interval c)),
        (''timeout'', JStr (ct_timeout c))])"

definition ConvertToModel :: "kube_release \<Rightarrow> release" where
  "ConvertToModel r =
     new_release\<lparr>r_name := kr_name r, r_namespace := kr_namespace r, r_version := decimal_int (kr_generation r),
       r_releaser := Some \<lparr>pc_name = crel_plugin (kr_releaser r), pc_config = Text (releaserConfigSnake (kr_releaser r))\<rparr>,
       r_runtime := Some \<lparr>pc_name = crt_plugin (kr_runtime r),
         pc_config = Text (runtimeConfigSnake (crt_deployment (kr_runtime r)) (kr_namespace r))\<rparr>,
       r_strategy := Some \<lparr>pc_name = cst_plugin (kr_strategy r), pc_config = Text (strategyConfigSnake (kr_strategy r))\<rparr>,
       r_monitor := Some \<lparr>pc_name = cm_plugin (kr_monitor r), pc_config = Text (monitorConfigSnake (kr_monitor r))\<rparr>,
       r_webhooks := map (\<lambda>w. Some \<lparr>pc_name = cw_plugin w, pc_config = Text (webhookConfigSnake w)\<rparr>) (kr_webhooks r),
       r_post_test :=
         (if ct_plugin (kr_test r) \<noteq> '''' then
            Some \<lparr>pc_name = ct_plugin (kr_test r), pc_config = Text (testConfigSnake (kr_test r))\<rparr>
          else None)\<rparr>"

subsection \<open>The reconciler\<close>

definition finalizerName :: string where
  "finalizerName = ''release.finalizers.consul-release-controller''"

fun ContainsString :: "string list \<Rightarrow> string \<Rightarrow> bool" where
  "ContainsString [] s = False"
| "ContainsString (item # items) s = (item = s \<or> ContainsString items s)"

fun RemoveString :: "string list \<Rightarrow> string \<Rightarrow> string list" where
  "RemoveString [] s = []"
| "RemoveString (item # items) s = (if item = s then RemoveString items s else item # RemoveString items s)"

text \<open>
  The client of the resources: reading one may find none, which is not an error of the
  reconciliation. The result of an operation is its error and the removal it started.
\<close>

datatype get_result = Found kube_release | Missing | Unreadable go_error

record 'w kube_resources =
  ks_get :: "string \<Rightarrow> string \<Rightarrow> 'w \<Rightarrow> get_result \<times> 'w"
  ks_update :: "kube_release \<Rightarrow> 'w \<Rightarrow> go_error option \<times> 'w"

definition apply_release :: "('h, 'w) provider \<Rightarrow> kube_release \<Rightarrow> 'w \<Rightarrow> go_error option res \<times> 'w" where
  "apply_release P rc w =
     (let rm = ConvertToModel rc
      in case rs_upsert_release (pv_store P) rm w of
           (Some e, w1) \<Rightarrow> (Returned (Some e), w1)
         | (None, w1) \<Rightarrow>
             (case pv_get P rm (pv_drop P rm w1) of
                (Panicked, w2) \<Rightarrow> (Panicked, w2)
              | (Returned (Inl e), w2) \<Rightarrow> (Returned (Some e), w2)
              | (Returned (Inr sm), w2) \<Rightarrow>
                  (case pv_fire P EventConfigure sm w2 of
                     (Some e, w3) \<Rightarrow> (Returned (Some e), w3)
                   | (None, w3) \<Rightarrow>
                       (case pv_state P sm w3 of
                          (s, w4) \<Rightarrow>
                            (Returned None, if s = StateIdle then snd (pv_fire P EventDeploy sm w4) else w4)))))"

definition updateRelease :: "('h, 'w) provider \<Rightarrow> kube_release \<Rightarrow> 'w \<Rightarrow> go_error option res \<times> 'w" where
  "updateRelease P rc w =
     (case rs_get_release (pv_store P) (kr_name rc) w of
        ((_, Some e), w1) \<Rightarrow> apply_release P rc w1
      | ((None, None), w1) \<Rightarrow> (Panicked, w1)
      | ((Some rel, None), w1) \<Rightarrow>
          if r_version rel = decimal_int (kr_generation rc) then (Returned None, w1)
          else if CurrentState rel \<noteq> StateIdle \<and> CurrentState rel \<noteq> StateFail then
            (Returned (Some (GoErr ''unable to update release, release currently active'')), w1)
          else apply_release P rc w1)"

definition deleteRelease :: "('h, 'w) provider \<Rightarrow> kube_release \<Rightarrow> 'w \<Rightarrow>
    (go_error option \<times> ('h \<times> release) option) res \<times> 'w" where
  "deleteRelease P rc w =
     (case rs_get_release (pv_store P) (kr_name rc) w of
        ((rel, err), w1) \<Rightarrow>
          if err = Some ReleaseNotFound then (Returned (None, None), w1)
          else if err \<noteq> None then (Returned (err, None), w1)
          else
            (case rel of
               None \<Rightarrow> (Panicked, w1)
             | Some rm \<Rightarrow>
                 (case pv_get P rm w1 of
                    (Panicked, w2) \<Rightarrow> (Panicked, w2)
                  | (Returned (Inl e), w2) \<Rightarrow> (Returned (Some e, None), w2)
                  | (Returned (Inr sm), w2) \<Rightarrow>
                      (case pv_fire P EventDestroy sm w2 of
                         (Some e, w3) \<Rightarrow> (Returned (Some e, None), w3)
                       | (None, w3) \<Rightarrow> (Returned (None, Some (sm, rm)), w3)))))"

definition Reconcile :: "('h, 'w) provider \<Rightarrow> 'w kube_resources \<Rightarrow> string \<Rightarrow> string \<Rightarrow> 'w \<Rightarrow>
    (go_error option \<times> ('h \<times> release) option) res \<times> 'w" where
  "Reconcile P ks namespace name w =
     (case ks_get ks namespace name w of
        (Missing, w1) \<Rightarrow> (Returned (None, None), w1)
      | (Unreadable e, w1) \<Rightarrow> (Returned (Some e, None), w1)
      | (Found rc, w1) \<Rightarrow>
          if \<not> kr_deleting rc then
            if \<not> ContainsString (kr_finalizers rc) finalizerName then
              (case ks_update ks (rc\<lparr>kr_finalizers := kr_finalizers rc @ [finalizerName]\<rparr>) w1 of
                 (e, w2) \<Rightarrow> (Returned (e, None), w2))
            else bind_res (updateRelease P rc w1) (\<lambda>e w2. (Returned (e, None), w2))
          else if ContainsString (kr_finalizers rc) finalizerName then
            bind_res (deleteRelease P rc w1) (\<lambda>(_, started) w2.
              (case ks_update ks (rc\<lparr>kr_finalizers := RemoveString (kr_finalizers rc) finalizerName\<rparr>) w2 of
                 (e, w3) \<Rightarrow> (Returned (e, started), w3)))
          else (Returned (None, None), w1))"

text \<open>
  The goroutine a deletion starts is the loop of the API handler again, over the machine and
  the release the deletion has found.
\<close>

definition finish_deletion :: "('h, 'w) provider \<Rightarrow> (int \<Rightarrow> 'w \<Rightarrow> 'w) \<Rightarrow> ('w \<Rightarrow> int \<Rightarrow> 'w \<Rightarrow> bool) \<Rightarrow>
    ('h \<times> release) option \<Rightarrow> 'w \<Rightarrow> 'w option" where
  "finish_deletion P sleep expired started w =
     (case started of None \<Rightarrow> Some w | Some (sm, rm) \<Rightarrow> removal P sleep expired sm rm w)"

text \<open>The index over the resources: the deployment one names, or nothing.\<close>

definition deploymentIndex :: "kube_release \<Rightarrow> string list" where
  "deploymentIndex r = (if crt_deployment (kr_runtime r) = '''' then [] else [crt_deployment (kr_runtime r)])"

subsection \<open>Reading the converted configurations\<close>

lemmas decoding = unmarshal_def dec_object_def dec_members_append omit_str_def omit_int_def omit_list_def

lemma ContainsString_iff [simp]: "ContainsString xs s \<longleftrightarrow> s \<in> set xs"
  by (induction xs) auto

lemma RemoveString_filter [simp]: "RemoveString xs s = filter (\<lambda>x. x \<noteq> s) xs"
  by (induction xs) auto

lemma releaser_reads_back:
  "unmarshal releaser_config_fields (Text (releaserConfigSnake c)) releaser_config_zero =
    (\<lparr>rb_service = crel_service c, rb_namespace = crel_namespace c, rb_partition = crel_partition c\<rparr>, None)"
  by (auto simp: decoding releaserConfigSnake_def releaser_config_fields_def releaser_config_zero_def)

lemma runtime_reads_back:
  "unmarshal runtime_config_fields (Text (runtimeConfigSnake d n)) runtime_config_zero =
    (\<lparr>rc_selector = d, rc_namespace = n\<rparr>, None)"
  by (auto simp: decoding runtimeConfigSnake_def runtime_config_fields_def runtime_config_zero_def)

lemma strategy_reads_back:
  assumes "list_all int64 [cst_initial_traffic c, cst_traffic_step c, cst_max_traffic c, cst_error_threshold c]"
  shows "unmarshal canary_config_fields (Text (strategyConfigSnake c)) canary_config_zero =
    (\<lparr>cc_initial_delay = cst_initial_delay c, cc_interval = cst_interval c, cc_initial_traffic = cst_initial_traffic c,
      cc_traffic_step = cst_traffic_step c, cc_max_traffic = cst_max_traffic c, cc_error_threshold = cst_error_threshold c,
      cc_delete_on_failed = False, cc_manual_promotion = False\<rparr>, None)"
  using assms by (auto simp: decoding strategyConfigSnake_def canary_config_fields_def canary_config_zero_def)

lemma test_reads_back:
  assumes "int64 (ct_required c)"
  shows "unmarshal http_config_fields (Text (testConfigSnake c)) http_config_zero =
    (\<lparr>hc_path = ct_path c, hc_method = ct_method c, hc_payload = ct_payload c, hc_required = ct_required c,
      hc_interval = ct_interval c, hc_timeout = ct_timeout c\<rparr>, None)"
  using assms by (auto simp: decoding testConfigSnake_def http_config_fields_def http_config_zero_def)

text \<open>A bound of zero is not told from a missing one.\<close>

definition read_query :: "cr_query \<Rightarrow> monitor_query" where
  "read_query q =
     \<lparr>mq_name = cq_name q, mq_preset = cq_preset q, mq_query = cq_query q,
      mq_min = (if cq_min q = 0 then None else Some (cq_min q)),
      mq_max = (if cq_max q = 0 then None else Some (cq_max q))\<rparr>"

lemma query_reads_back:
  assumes "int64 (cq_min q)" and "int64 (cq_max q)"
  shows "dec_object monitor_query_fields (monitorQuerySnake q) monitor_query_zero = (read_query q, False)"
  using assms by (auto simp: decoding monitorQuerySnake_def monitor_query_fields_def monitor_query_zero_def read_query_def)

lemma queries_read_back:
  "list_all (\<lambda>q. int64 (cq_min q) \<and> int64 (cq_max q)) qs \<Longrightarrow>
   dec_elems (\<lambda>j. dec_object monitor_query_fields j monitor_query_zero) (map monitorQuerySnake qs) = (map read_query qs, False)"
  by (induction qs) (simp_all add: query_reads_back)

subsection \<open>A resource for the examples\<close>

definition demo_resource :: "int \<Rightarrow> string list \<Rightarrow> bool \<Rightarrow> kube_release" where
  "demo_resource generation finalizers deleting =
     \<lparr>kr_name = ''api'', kr_namespace = ''default'', kr_generation = generation, kr_deleting = deleting,
      kr_finalizers = finalizers, kr_webhooks = [],
      kr_releaser = \<lparr>crel_plugin = ''consul'', crel_service = ''api'', crel_namespace = '''', crel_partition = ''''\<rparr>,
      kr_runtime = \<lparr>crt_plugin = ''kubernetes'', crt_deployment = ''api-deployment''\<rparr>,
      kr_strategy = \<lparr>cst_plugin = ''canary'', cst_initial_delay = '''', cst_interval = ''30s'', cst_initial_traffic = 10,
        cst_traffic_step = 20, cst_max_traffic = 100, cst_error_threshold = 5\<rparr>,
      kr_monitor = \<lparr>cm_plugin = ''prometheus'', cm_address = ''http://prometheus:9090'',
        cm_queries = [\<lparr>cq_name = ''errors'', cq_preset = '''', cq_min = 0, cq_max = 0, cq_query = ''sum(errors)''\<rparr>]\<rparr>,
      kr_test = \<lparr>ct_plugin = '''', ct_path = '''', ct_method = '''', ct_payload = '''', ct_required = 0,
        ct_interval = '''', ct_timeout = ''''\<rparr>\<rparr>"

lemma demo_resource_sel [simp]:
  "kr_name (demo_resource g fs d) = ''api''" "kr_namespace (demo_resource g fs d) = ''default''"
  "kr_generation (demo_resource g fs d) = g" "kr_finalizers (demo_resource g fs d) = fs"
  "kr_deleting (demo_resource g fs d) = d"
  by (simp_all add: demo_resource_def)

lemma ConvertToModel_sel [simp]:
  "r_name (ConvertToModel rc) = kr_name rc" "r_namespace (ConvertToModel rc) = kr_namespace rc"
  "r_version (ConvertToModel rc) = decimal_int (kr_generation rc)" "r_history (ConvertToModel rc) = []"
  "initial_state (ConvertToModel rc) = StateStart"
  by (simp_all add: ConvertToModel_def new_release_def initial_state_def CurrentState_def)

lemma demo_resource_machine:
  "\<exists>pl. sm_New demo_env (ConvertToModel (demo_resource g fs d)) (w :: 'w) = (Returned (Inr pl), w)"
proof -
  let ?r = "ConvertToModel (demo_resource g fs d)"
  let ?env = "demo_env :: 'w provider_env"
  have store: "ss_get (pe_store ?env r n) w = ((Empty, Some PluginStateNotFound), w)" for r n by (simp add: demo_env_def)
  obtain rl rt mo st where p: "r_releaser ?r = Some rl" "r_runtime ?r = Some rt" "r_monitor ?r = Some mo"
      "r_strategy ?r = Some st" "pc_name rt = ''kubernetes''" "pc_name mo = ''prometheus''" "pc_name st = ''canary''"
      "r_webhooks ?r = []" "r_post_test ?r = None"
    by (simp add: ConvertToModel_def demo_resource_def)
  have "snd (runtime_Configure (pc_config rt) (pe_store ?env ?r ''runtime'') w) = w"
    by (simp add: runtime_Configure_def Let_def store split: prod.split option.split)
  then obtain rp where rp: "runtime_Configure (pc_config rt) (pe_store ?env ?r ''runtime'') w = (rp, w)"
    by (metis prod.collapse)
  have "snd (canary_Configure (pe_validator ?env) (pc_config st) (pe_store ?env ?r ''strategy'') w) = w"
    by (simp add: canary_Configure_def canary_load_def Let_def store split: prod.split option.split)
  then obtain cp where cp: "canary_Configure (pe_validator ?env) (pc_config st) (pe_store ?env ?r ''strategy'') w = (cp, w)"
    by (metis prod.collapse)
  have "\<exists>pl. sm_New demo_env ?r w = (Returned (Inr pl), w) \<and> sp_strategy pl = right_option cp \<and>
      sp_platform pl = KubernetesPlatform \<and> sp_hooks pl = [] \<and> sp_test pl = None"
    by (rule sm_New_runs [OF p(1-4) _ _ _ _ _ rp cp]) (use p(5-9) in \<open>simp_all add: demo_kinds [symmetric] demo_kinds(1,4,5)\<close>)
  then show ?thesis by blast
qed

text \<open>Applying a resource leaves a new machine that is configuring.\<close>

lemma apply_release_configures:
  assumes "fsm_documented lib" and "machines_inv s"
    and "rs_upsert_release st (ConvertToModel rc) (ms_world s) = (None, w1)"
    and "GetStateMachine env (ConvertToModel rc) (DeleteStateMachine (ConvertToModel rc) (s\<lparr>ms_world := w1\<rparr>)) = (Returned (Inr h), s2)"
  shows "\<exists>s3. apply_release (controller_provider lib show_fsm env st) rc s = (Returned None, s3) \<and>
    object_state s3 h = StateConfigure \<and> GetStateMachine env (ConvertToModel rc) s3 = (Returned (Inr h), s3)"
proof -
  let ?P = "controller_provider lib show_fsm env st"
  note contract = controller_contract [OF assms(1), of show_fsm env st]
  obtain x s3 where f: "pv_fire ?P EventConfigure h s2 = (x, s3)" by fastforce
  have inv: "machines_inv (s\<lparr>ms_world := w1\<rparr>)" using assms(2) by simp
  have got: "pv_get ?P (ConvertToModel rc) (pv_drop ?P (ConvertToModel rc) (s\<lparr>ms_world := w1\<rparr>)) = (Returned (Inr h), s2)"
    using assms(4) by simp
  have x: "x = None" "object_state s3 h = StateConfigure"
    using provider_contract.fresh_configure [OF contract inv got f] by simp_all
  have "pv_get ?P (ConvertToModel rc) s3 = (Returned (Inr h), s3)"
    using provider_contract.fire_keeps [OF contract f]
      provider_contract.get_ok [OF contract provider_contract.drop_inv [OF contract inv] got] by blast
  moreover have "pv_state ?P h s3 = (StateConfigure, s3)" using x(2) by (simp add: controller_provider_def)
  ultimately show ?thesis using assms(3) got f x by (simp add: apply_release_def Let_def)
qed

lemma demo_resource_got:
  assumes "ms_objects s = []" and "ms_cache s (getReleaseKey (ConvertToModel (demo_resource g fs d))) = None"
  shows "\<exists>s2. GetStateMachine demo_env (ConvertToModel (demo_resource g fs d)) s = (Returned (Inr 0), s2)"
proof -
  obtain pl where "sm_New demo_env (ConvertToModel (demo_resource g fs d)) (ms_world s) = (Returned (Inr pl), ms_world s)"
    by (rule exE [OF demo_resource_machine])
  with assms show ?thesis by (simp add: GetStateMachine_def Let_def)
qed

subsection \<open>Properties\<close>



text \<open>
  The queries of the monitor come through the conversion but for a bound of zero: a
  query that allows no more than nothing, with a maximum of zero, or no less, is read by
  the monitor as one without that bound, so that any value passes it.
\<close>

theorem convert_drops_zero_bounds:
  assumes "list_all (\<lambda>q. int64 (cq_min q) \<and> int64 (cq_max q)) (cm_queries (kr_monitor rc))"
  shows "\<exists>mo. r_monitor (ConvertToModel rc) = Some mo \<and>
    unmarshal monitor_config_fields (pc_config mo) monitor_config_zero =
      (\<lparr>mc_address = cm_address (kr_monitor rc), mc_queries = map read_query (cm_queries (kr_monitor rc))\<rparr>, None) \<and>
    (\<forall>q \<in> set (cm_queries (kr_monitor rc)). cq_min q = 0 \<and> cq_max q = 0 \<longrightarrow>
       (\<forall>env x xs. judge env (read_query q) (Vector (x # xs)) = (CheckSuccess, None)))"
  using queries_read_back [OF assms]
  by (auto simp: ConvertToModel_def decoding monitorConfigSnake_def monitor_config_fields_def monitor_config_zero_def
      judge_def read_query_def Let_def)

theorem convert_drops_zero_bounds_witness:
  "\<exists>mo q. r_monitor (ConvertToModel (demo_resource 1 [] False)) = Some mo \<and>
    mc_queries (fst (unmarshal monitor_config_fields (pc_config mo) monitor_config_zero)) = [q] \<and> mq_max q = None"
  using convert_drops_zero_bounds [of "demo_resource 1 [] False"] by (auto simp: demo_resource_def int64_def read_query_def)

text \<open>
  A resource that was not changed since its release was stored leaves everything as it
  is, whatever the release is doing: a restarted controller, which is sent every resource
  again, resets none. A changed one is refused, again with nothing done, while the stored
  release is in any state but idle and failed.
\<close>

theorem update_leaves_active_release:
  assumes "rs_get_release (pv_store P) (kr_name rc) w = ((Some rel, None), w1)"
    and "r_version rel = decimal_int (kr_generation rc) \<or> CurrentState rel \<notin> {StateIdle, StateFail}"
  shows "updateRelease P rc w =
    (Returned (if r_version rel = decimal_int (kr_generation rc) then None
               else Some (GoErr ''unable to update release, release currently active'')), w1)"
  using assms by (auto simp: updateRelease_def)

theorem update_leaves_active_release_witness:
  "updateRelease demo_provider (demo_resource 1 [] False) (demo_start [demo_release ''api'' ''default'' [StateScale]]) =
    (Returned (Some (GoErr ''unable to update release, release currently active'')),
     demo_start [demo_release ''api'' ''default'' [StateScale]])"
proof -
  have v: "r_version (demo_release ''api'' ''default'' [StateScale]) = ''''" by (simp add: demo_release_def new_release_def)
  have "decimal_int 1 \<noteq> ''''" by (simp add: decimal_int_def)
  with update_leaves_active_release [of demo_provider "demo_resource 1 [] False"
      "demo_start [demo_release ''api'' ''default'' [StateScale]]" "demo_release ''api'' ''default'' [StateScale]"
      "demo_start [demo_release ''api'' ''default'' [StateScale]]"]
  show ?thesis by (simp add: v demo_provider_def demo_store_def demo_start_def on_world_def)
qed



text \<open>
  A store that cannot be read is taken for one without the release: the refusal to
  update an active release is skipped, and the resource is applied as if it were new,
  although the release that could not be read may be in the middle of a roll-out.
\<close>

theorem update_on_store_error:
  assumes "fsm_documented lib" and "machines_inv s"
    and "rs_get_release st (kr_name rc) (ms_world s) = ((x, Some e), w0)" and "e \<noteq> ReleaseNotFound"
    and "rs_upsert_release st (ConvertToModel rc) w0 = (None, w1)"
    and "GetStateMachine env (ConvertToModel rc) (DeleteStateMachine (ConvertToModel rc) (s\<lparr>ms_world := w1\<rparr>)) = (Returned (Inr h), s2)"
  shows "\<exists>s3. updateRelease (controller_provider lib show_fsm env st) rc s = (Returned None, s3) \<and>
    object_state s3 h = StateConfigure"
proof -
  have "updateRelease (controller_provider lib show_fsm env st) rc s =
      apply_release (controller_provider lib show_fsm env st) rc (s\<lparr>ms_world := w0\<rparr>)"
    using assms(3) by (simp add: updateRelease_def split: option.split)
  moreover have "\<exists>s3. apply_release (controller_provider lib show_fsm env st) rc (s\<lparr>ms_world := w0\<rparr>) = (Returned None, s3) \<and>
      object_state s3 h = StateConfigure \<and> GetStateMachine env (ConvertToModel rc) s3 = (Returned (Inr h), s3)"
    by (rule apply_release_configures [OF assms(1), where ?w1.0 = w1 and ?s2.0 = s2]) (use assms(2,5,6) in simp_all)
  ultimately show ?thesis by auto
qed

theorem update_on_store_error_witness:
  "\<exists>s3. updateRelease (controller_provider reference_fsm (\<lambda>_. GoErr ''inappropriate event'') demo_env
       (demo_store\<lparr>rs_get_release := (\<lambda>n w. ((None, Some (GoErr ''connection refused'')), w))\<rparr>))
       (demo_resource 1 [] False) (demo_start [demo_release ''api'' ''default'' [StateScale]]) =
      (Returned None, s3) \<and> object_state s3 0 = StateConfigure"
proof -
  let ?rc = "demo_resource 1 [] False" and ?d = "demo_release ''api'' ''default'' [StateScale]"
  let ?s = "DeleteStateMachine (ConvertToModel ?rc) (demo_start [?d]\<lparr>ms_world := ([ConvertToModel ?rc], Empty)\<rparr>)"
  obtain s2 where s2: "GetStateMachine demo_env (ConvertToModel ?rc) ?s = (Returned (Inr 0), s2)"
    by (rule exE [OF demo_resource_got [of ?s]]) (simp_all add: DeleteStateMachine_def demo_start_def)
  show ?thesis
    by (rule update_on_store_error [OF reference_fsm_documented demo_start_inv _ _ _ s2, where ?w0.0 = "([?d], Empty)"
        and e = "GoErr ''connection refused''" and x = None]) (simp_all add: demo_store_def demo_start_def)
qed

text \<open>
  C21: The deletion of a resource ends with the removal of its release: where a machine is
  found that takes the event, it is destroying when the deletion returns, and once the
  goroutine, looking every two seconds, sees it idle in time, the provider forgets the
  machine and the store is asked to delete the release, and nothing else changes.
\<close>

theorem deletion_removes_release:
  assumes "fsm_documented lib" and "machines_inv s"
    and "rs_get_release st (kr_name rc) (ms_world s) = ((Some rm, None), w1)"
    and "GetStateMachine env rm (s\<lparr>ms_world := w1\<rparr>) = (Returned (Inr h), s1)"
    and "next_state (object_state s1 h) EventDestroy \<noteq> None"
  shows "\<exists>s2. deleteRelease (controller_provider lib show_fsm env st) rc s = (Returned (None, Some (h, rm)), s2) \<and>
    object_state s2 h = StateDestroy \<and>
    (\<forall>sleep expired n. let v = (\<lambda>i. (sleep (2 * 1000000000) ^^ i) s2) in
       (\<forall>i < n. object_state (v i) h = StateDestroy) \<and> object_state (v n) h = StateIdle \<and>
       (\<forall>i \<le> n. \<not> expired s2 (300 * 1000000000) (v i)) \<longrightarrow>
       finish_deletion (controller_provider lib show_fsm env st) sleep expired (Some (h, rm)) s2 =
         Some ((v n)\<lparr>ms_cache := (ms_cache (v n))(getReleaseKey rm := None),
           ms_world := snd (rs_delete_release st (r_name rm) (ms_world (v n)))\<rparr>))"
proof -
  let ?P = "controller_provider lib show_fsm env st"
  have pure: "pv_state ?P h v = (object_state v h, v)" for v by (simp add: controller_provider_def)
  have "h < length (ms_objects s1)" using GetStateMachine_ok [OF _ assms(4)] assms(2) by simp
  from fire_object_event [OF assms(1) this, of EventDestroy] assms(5)
  obtain s2 where f: "fire_object lib EventDestroy h s1 = (None, s2)" "object_state s2 h = StateDestroy"
    by (cases "object_state s1 h") auto
  then have "deleteRelease ?P rc s = (Returned (None, Some (h, rm)), s2)"
    using assms(3,4) by (simp add: deleteRelease_def on_world_def controller_provider_def)
  moreover have "finish_deletion ?P sleep expired (Some (h, rm)) s2 = Some (remove_release ?P rm ((sleep (2 * 1000000000) ^^ n) s2))"
    if "\<forall>i < n. object_state ((sleep (2 * 1000000000) ^^ i) s2) h = StateDestroy" and "object_state ((sleep (2 * 1000000000) ^^ n) s2) h = StateIdle"
      and "\<forall>i \<le> n. \<not> expired s2 (300 * 1000000000) ((sleep (2 * 1000000000) ^^ i) s2)" for sleep expired n
  proof -
    have "removal ?P sleep expired h rm s2 =
        await_removal ?P sleep (expired s2 (300 * 1000000000)) h rm ((sleep (2 * 1000000000) ^^ n) s2)"
      unfolding removal_def by (rule await_removal_rounds [where state = "\<lambda>v. object_state v h", OF pure]) (use that in auto)
    then show ?thesis
      using that(2,3) by (simp add: finish_deletion_def await_removal_step [where state = "\<lambda>v. object_state v h", OF pure])
  qed
  moreover have "remove_release ?P rm v = v\<lparr>ms_cache := (ms_cache v)(getReleaseKey rm := None),
      ms_world := snd (rs_delete_release st (r_name rm) (ms_world v))\<rparr>" for v
    by (simp add: remove_release_def DeleteStateMachine_def on_world_def split: prod.split)
  ultimately show ?thesis using f(2) by (intro exI [of _ s2]) (simp add: Let_def)
qed

text \<open>The machine is done when the goroutine looks for the second time.\<close>

theorem deletion_removes_release_witness:
  "\<forall>pl show_fsm. \<exists>s2 s3. deleteRelease (controller_provider reference_fsm show_fsm demo_env demo_store) (demo_resource 1 [] True)
       (one_machine StateIdle pl ([demo_release ''api'' ''default'' []], Empty)) =
         (Returned (None, Some (0, demo_release ''api'' ''default'' [])), s2) \<and>
     finish_deletion (controller_provider reference_fsm show_fsm demo_env demo_store)
       (\<lambda>t v. one_machine StateIdle pl ([demo_release ''api'' ''default'' []], Empty)) (\<lambda>_ _ _. False)
       (Some (0, demo_release ''api'' ''default'' [])) s2 = Some s3 \<and>
     ms_cache s3 ''api-default'' = None"
proof (intro allI)
  fix pl show_fsm
  let ?d = "demo_release ''api'' ''default'' []" and ?rc = "demo_resource 1 [] True"
  let ?s = "one_machine StateIdle pl ([?d], Empty)" and ?P = "controller_provider reference_fsm show_fsm demo_env demo_store"
  have w: "?s\<lparr>ms_world := ([?d], Empty)\<rparr> = ?s" by (simp add: one_machine_def Let_def)
  have got: "GetStateMachine demo_env ?d (?s\<lparr>ms_world := ([?d], Empty)\<rparr>) = (Returned (Inr 0), ?s)"
    unfolding w by (rule GetStateMachine_cached) simp
  have store: "rs_get_release demo_store (kr_name ?rc) (ms_world ?s) = ((Some ?d, None), ([?d], Empty))"
    by (simp add: demo_store_def demo_release_def)
  have inv: "machines_inv ?s" by (simp add: machines_inv_def one_machine_def Let_def)
  have "next_state (object_state ?s 0) EventDestroy \<noteq> None" by simp
  from deletion_removes_release [OF reference_fsm_documented inv store got this, of show_fsm]
  obtain s2 where s2: "deleteRelease ?P ?rc ?s = (Returned (None, Some (0, ?d)), s2)" "object_state s2 0 = StateDestroy"
    and f: "\<forall>sleep expired n. let v = (\<lambda>i. (sleep (2 * 1000000000) ^^ i) s2) in
       (\<forall>i < n. object_state (v i) 0 = StateDestroy) \<and> object_state (v n) 0 = StateIdle \<and>
       (\<forall>i \<le> n. \<not> expired s2 (300 * 1000000000) (v i)) \<longrightarrow>
       finish_deletion ?P sleep expired (Some (0, ?d)) s2 =
         Some ((v n)\<lparr>ms_cache := (ms_cache (v n))(getReleaseKey ?d := None),
           ms_world := snd (rs_delete_release demo_store (r_name ?d) (ms_world (v n)))\<rparr>)" by blast
  from f [THEN spec, of "\<lambda>t v. ?s", THEN spec, of "\<lambda>_ _ _. False", THEN spec, of 1] s2
  show "\<exists>s2 s3. deleteRelease ?P ?rc ?s = (Returned (None, Some (0, ?d)), s2) \<and>
     finish_deletion ?P (\<lambda>t v. ?s) (\<lambda>_ _ _. False) (Some (0, ?d)) s2 = Some s3 \<and> ms_cache s3 ''api-default'' = None"
    by (auto simp: Let_def getReleaseKey_def demo_release_def)
qed

text \<open>
  A resource is let go whatever became of its release: when the deletion of the release
  fails, because the store, the machine or the event does, its error is dropped, the
  finalizer is removed as after a success and nothing is tried again, so that the
  configuration in Consul stays behind.
\<close>

theorem reconcile_forgets_failed_deletion:
  assumes "ks_get ks namespace name w = (Found rc, w1)" and "kr_deleting rc" and "finalizerName \<in> set (kr_finalizers rc)"
    and "deleteRelease P rc w1 = (Returned (Some e, None), w2)"
    and "ks_update ks (rc\<lparr>kr_finalizers := filter (\<lambda>f. f \<noteq> finalizerName) (kr_finalizers rc)\<rparr>) w2 = (None, w3)"
  shows "Reconcile P ks namespace name w = (Returned (None, None), w3)"
  using assms by (simp add: Reconcile_def)

theorem reconcile_forgets_failed_deletion_witness:
  "Reconcile (demo_provider\<lparr>pv_store := (machines_store demo_store)
      \<lparr>rs_get_release := (\<lambda>n w. ((None, Some (GoErr ''connection refused'')), w))\<rparr>\<rparr>)
     \<lparr>ks_get = (\<lambda>ns n w. (Found (demo_resource 1 [finalizerName] True), w)), ks_update = (\<lambda>rc w. (None, w))\<rparr>
     ''default'' ''api'' (demo_start []) = (Returned (None, None), demo_start [])"
  by (rule reconcile_forgets_failed_deletion [where rc = "demo_resource 1 [finalizerName] True" and
        e = "GoErr ''connection refused''" and ?w1.0 = "demo_start []" and ?w2.0 = "demo_start []"])
    (simp_all add: deleteRelease_def)

end
