(* ===== verification/Startup.thy ===== *)
theory Startup
  imports ReleaseApi Storage
begin

text \<open>
  The start of the server (\<open>rehydrateReleases\<close> of \<open>pkg/server/release.go\<close>) over the Consul
  store, and what a restart of the controller makes of a release: which machines are
  resumed, in which state a machine is made again, and what can still happen to it.
\<close>

subsection \<open>Rehydration\<close>

text \<open>The machines whose \<open>Resume\<close> was started, each on a goroutine of its own, and the error.\<close>

fun resume_all :: "('h, 'w) provider \<Rightarrow> release list \<Rightarrow> 'w \<Rightarrow> (go_error option \<times> 'h list) res \<times> 'w" where
  "resume_all P [] w = (Returned (None, []), w)"
| "resume_all P (r # rels) w =
     (case pv_get P r w of
        (Panicked, w1) \<Rightarrow> (Panicked, w1)
      | (Returned (Inl e), w1) \<Rightarrow>
          (Returned (Some (GoErr (''unable to get statemachine for release: '' @ r_name r @ '', '' @ err_msg e)), []), w1)
      | (Returned (Inr sm), w1) \<Rightarrow>
          bind_res (resume_all P rels w1) (\<lambda>(e, sms) w2. (Returned (e, sm # sms), w2)))"

definition rehydrateReleases :: "('h, 'w) provider \<Rightarrow> 'w \<Rightarrow> (go_error option \<times> 'h list) res \<times> 'w" where
  "rehydrateReleases P w =
     (case rs_list_releases (pv_store P) (Some '''') w of
        ((rels, Some e), w1) \<Rightarrow> (Returned (Some (wrap_err ''unable to list releases: '' e), []), w1)
      | ((rels, None), w1) \<Rightarrow> resume_all P rels w1)"

subsection \<open>The Consul store of the server\<close>

definition consul_store :: "'w consul_api \<Rightarrow> 'w release_store" where
  "consul_store api =
     \<lparr>rs_upsert_release = UpsertRelease api, rs_list_releases = ListReleases api, rs_get_release = GetRelease api,
      rs_delete_release = DeleteRelease api, rs_plugin_store = (\<lambda>r n. plugin_store api (CreatePluginStateStore r n))\<rparr>"

definition fresh_process :: "'w \<Rightarrow> 'w machines" where
  "fresh_process w = \<lparr>ms_world = w, ms_objects = [], ms_cache = Map.empty\<rparr>"

text \<open>No machine can be made for a release whose runtime has no name.\<close>

lemma nameless_runtime_no_machine:
  assumes "r_runtime r = Some p" and "pc_name p = ''''"
  shows "\<nexists>pl. fst (sm_New env r w) = Returned (Inr pl)"
  using assms
  by (cases "r_releaser r")
    (simp_all add: sm_New_def Let_def bind_new_def deref_def CreateRuntime_def GetRuntimeClient_def
      PluginRuntimeTypeKubernetes_def PluginRuntimeTypeNomad_def)

lemma nameless_runtime_no_handle:
  assumes "r_runtime r = Some p" and "pc_name p = ''''" and "ms_cache s = Map.empty"
  shows "\<nexists>h s1. GetStateMachine env r s = (Returned (Inr h), s1)"
proof
  assume "\<exists>h s1. GetStateMachine env r s = (Returned (Inr h), s1)"
  then obtain h s1 where "GetStateMachine env r s = (Returned (Inr h), s1)" by blast
  from GetStateMachine_made [OF _ this] assms(3)
  obtain pl w1 where "sm_New env r (ms_world s) = (Returned (Inr pl), w1)" by auto
  with nameless_runtime_no_machine [OF assms(1,2), of env "ms_world s"] show False by simp
qed

lemma resume_all_nameless:
  assumes "\<And>r. r \<in> set rels \<Longrightarrow> \<exists>p. r_runtime r = Some p \<and> pc_name p = ''''" and "ms_cache s = Map.empty"
    and "resume_all (controller_provider lib show_fsm env st) rels s = (Returned (e, started), s1)"
  shows "started = []"
proof (cases rels)
  case Nil
  with assms(3) show ?thesis by simp
next
  case (Cons r rs)
  with assms(1) obtain p where "r_runtime r = Some p" "pc_name p = ''''" by auto
  from nameless_runtime_no_handle [OF this assms(2), of env]
  have "\<nexists>h s1. GetStateMachine env r s = (Returned (Inr h), s1)" .
  with assms(3) Cons show ?thesis by (auto split: prod.splits res.splits sum.splits)
qed

subsection \<open>Properties\<close>

text \<open>
  The controller resumes no release when it starts: whatever the Consul store holds, the
  listing with an empty runtime gives at most releases that name no runtime, for which no
  machine can be made, so that not one machine is resumed.
\<close>

theorem startup_resumes_nothing:
  assumes "kv_documented kv api"
    and "rehydrateReleases (controller_provider lib show_fsm env (consul_store api)) (fresh_process w) = (Returned (e, started), s1)"
  shows "started = []"
proof -
  obtain rels e1 w1 where l: "ListReleases api (Some '''') w = ((rels, e1), w1)" by (metis prod.collapse)
  show ?thesis
  proof (cases e1)
    case (Some x)
    with assms(2) l show ?thesis by (simp add: rehydrateReleases_def consul_store_def fresh_process_def)
  next
    case None
    with l have "\<exists>p. r_runtime r = Some p \<and> pc_name p = ''''" if "r \<in> set rels" for r
      using ListReleases_ok(3) [OF assms(1), of "Some ''''" w rels w1] that by (auto simp: runtime_matches_def split: option.splits)
    then show ?thesis
      by (rule resume_all_nameless [where s = "fresh_process w1" and rels = rels and st = "consul_store api"])
        (use assms(2) l None in \<open>simp_all add: rehydrateReleases_def consul_store_def fresh_process_def\<close>)
  qed
qed

theorem startup_resumes_nothing_witness:
  "\<exists>w1. UpsertRelease reference_consul (demo_release ''api'' ''default'' [StateMonitor]) empty_world = (None, w1) \<and>
     rehydrateReleases (controller_provider reference_fsm (\<lambda>_. GoErr ''inappropriate event'') demo_env (consul_store reference_consul))
       (fresh_process w1) = (Returned (None, []), fresh_process w1)"
proof -
  let ?r = "demo_release ''api'' ''default'' [StateMonitor]" and ?p = "releaseConfigPath ''api''"
  have wf: "release_wf ?r" by (rule demo_release_wf) simp
  obtain j where j: "marshal_release ?r = Some j" using marshal_release_wf [OF wf] by blast
  let ?w1 = "(Map.empty, [(?p, Text j)]) :: ref_world"
  have w1: "UpsertRelease reference_consul ?r empty_world = (None, ?w1)"
    by (simp add: UpsertRelease_def j SetKV_def reference_consul_def empty_world_def)
  have "getRelease reference_consul ?p ?w1 = ((Some ?r, None), ?w1)"
    using ref_get [of ?w1 "''api''" ?r] upsert_release_stored [OF reference_kv_documented wf w1] by (simp add: GetRelease_def)
  then have l: "ListReleases reference_consul (Some '''') ?w1 = (([], None), ?w1)"
    by (simp add: ListReleases_def ListKV_def reference_consul_def config_path_base config_path_suffix runtime_matches_def)
  then have run: "rehydrateReleases (controller_provider reference_fsm (\<lambda>_. GoErr ''inappropriate event'') demo_env
      (consul_store reference_consul)) (fresh_process ?w1) = (Returned (None, []), fresh_process ?w1)"
    by (simp add: rehydrateReleases_def consul_store_def fresh_process_def)
  from startup_resumes_nothing [OF reference_kv_documented run] run w1 show ?thesis by blast
qed

text \<open>
  C14: A restart finds a release where it was: the state a machine enters is stored with the
  release, and the machine made for the release read back from Consul, by a process that
  has no machine yet, starts in that state, with the whole history.
\<close>

theorem restart_recovers_state:
  assumes "kv_documented kv api" and "release_wf d" and "canonical_state x" and "x \<noteq> StateOther ''''"
    and "UpsertRelease api (UpdateState now x d) w = (None, w1)"
    and "GetRelease api (r_name d) w1 = ((Some r, None), w2)"
    and "GetStateMachine env r (fresh_process w2) = (Returned (Inr h), s1)"
  shows "object_state s1 h = x \<and> r = UpdateState now x d \<and>
    (\<exists>pl. ms_objects s1 ! h = ((x, new_machine r), pl))"
proof -
  have wf: "release_wf (UpdateState now x d)" using assms(2,3) by (rule release_wf_UpdateState)
  have "stored_releases (kv w1) (r_name d) = Some (UpdateState now x d)"
    using upsert_release_stored [OF assms(1) wf assms(5)] by simp
  moreover have "Some r = stored_releases (kv w1) (r_name d)"
    using getRelease_documented(2) [OF assms(1), of "releaseConfigPath (r_name d)" w1 "Some r" None w2] assms(6)
    by (simp add: GetRelease_def stored_releases_def)
  ultimately have r: "r = UpdateState now x d" by simp
  have "ms_cache (fresh_process w2) (getReleaseKey r) = None" by (simp add: fresh_process_def)
  from GetStateMachine_made [OF this assms(7)] obtain pl where "ms_objects s1 ! h = ((initial_state r, new_machine r), pl)"
    by (auto simp: fresh_process_def)
  moreover have "initial_state r = x" using assms(4) by (simp add: r initial_state_def)
  ultimately show ?thesis using r by (simp add: object_state_def)
qed

theorem restart_recovers_state_witness:
  "\<exists>w1 s1. UpsertRelease reference_consul (UpdateState 0 StateMonitor (demo_release ''api'' ''default'' [])) empty_world = (None, w1) \<and>
     GetStateMachine demo_env (demo_release ''api'' ''default'' [StateMonitor]) (fresh_process w1) = (Returned (Inr 0), s1) \<and>
     object_state s1 0 = StateMonitor"
proof -
  let ?d = "demo_release ''api'' ''default'' []" and ?p = "releaseConfigPath ''api''"
  have r: "UpdateState 0 StateMonitor ?d = demo_release ''api'' ''default'' [StateMonitor]" (is "_ = ?r")
    by (simp add: UpdateState_def Let_def demo_release_def new_release_def)
  have wf: "release_wf ?d" "release_wf ?r" by (rule demo_release_wf, simp)+
  obtain j where j: "marshal_release ?r = Some j" using marshal_release_wf [OF wf(2)] by blast
  let ?w1 = "(Map.empty, [(?p, Text j)]) :: ref_world"
  have w1: "UpsertRelease reference_consul (UpdateState 0 StateMonitor ?d) empty_world = (None, ?w1)"
    by (simp add: r UpsertRelease_def j SetKV_def reference_consul_def empty_world_def)
  have g: "GetRelease reference_consul (r_name ?d) ?w1 = ((Some ?r, None), ?w1)"
    using ref_get [of ?w1 "''api''" ?r] upsert_release_stored [OF reference_kv_documented wf(2), of empty_world ?w1] w1 by (simp add: r)
  obtain pl where "sm_New demo_env ?r ?w1 = (Returned (Inr pl), ?w1)" by (rule exE [OF demo_machine])
  then obtain s1 where s1: "GetStateMachine demo_env ?r (fresh_process ?w1) = (Returned (Inr 0), s1)"
    by (simp add: GetStateMachine_def Let_def fresh_process_def)
  from restart_recovers_state [OF reference_kv_documented wf(1) _ _ w1 g s1] s1 w1 show ?thesis by auto
qed



end
