(* ===== verification/Config.thy ===== *)
theory Config
  imports CRC_Prelude
begin

text \<open>
  The settings of the controller (\<open>pkg/config/config.go\<close>): environment variables with
  defaults. The environment is the function \<open>os.Getenv\<close>, whose value is empty for a
  variable that is not set.
\<close>

type_synonym environ = "string \<Rightarrow> string"

subsection \<open>\<open>strconv\<close>\<close>

definition digit_value :: "char \<Rightarrow> int option" where
  "digit_value c = (if 48 \<le> (of_char c :: nat) \<and> (of_char c :: nat) \<le> 57 then Some (int (of_char c) - 48) else None)"

fun digits_value :: "int \<Rightarrow> string \<Rightarrow> int option" where
  "digits_value n [] = Some n"
| "digits_value n (c # s) = (case digit_value c of None \<Rightarrow> None | Some d \<Rightarrow> digits_value (10 * n + d) s)"

definition unsigned_value :: "string \<Rightarrow> int option" where
  "unsigned_value s = (if s = [] then None else digits_value 0 s)"

definition in_int64 :: "int \<Rightarrow> bool" where
  "in_int64 n \<longleftrightarrow> - (2 ^ 63) \<le> n \<and> n < 2 ^ 63"

text \<open>\<open>Atoi\<close>: a sign and digits, as far as the number fits the 64 bits of an \<open>int\<close>.\<close>

definition Atoi :: "string \<Rightarrow> int option" where
  "Atoi s =
     (case (if has_prefix s ''-'' then map_option uminus (unsigned_value (tl s))
            else if has_prefix s ''+'' then unsigned_value (tl s)
            else unsigned_value s) of
        Some n \<Rightarrow> if in_int64 n then Some n else None
      | None \<Rightarrow> None)"

definition ParseBool :: "string \<Rightarrow> bool option" where
  "ParseBool s =
     (if s \<in> set [''1'', ''t'', ''T'', ''TRUE'', ''true'', ''True''] then Some True
      else if s \<in> set [''0'', ''f'', ''F'', ''FALSE'', ''false'', ''False''] then Some False
      else None)"

text \<open>\<open>fmt.Sprintf\<close> with \<open>%d\<close> of an \<open>int\<close>, and an address with its port.\<close>

definition show_int :: "int \<Rightarrow> string" where
  "show_int n = (if n < 0 then ''-'' @ decimal (nat (- n)) else decimal (nat n))"

definition host_port :: "string \<Rightarrow> int \<Rightarrow> string" where
  "host_port a p = a @ '':'' @ show_int p"

subsection \<open>Settings\<close>

text \<open>The three forms of a setting: a text, a number and a switch, each with its default.\<close>

definition env_text :: "environ \<Rightarrow> string \<Rightarrow> string \<Rightarrow> string" where
  "env_text env name d = (if env name \<noteq> '''' then env name else d)"

definition env_int :: "environ \<Rightarrow> string \<Rightarrow> int \<Rightarrow> int" where
  "env_int env name d = (if env name \<noteq> '''' then case Atoi (env name) of Some p \<Rightarrow> p | None \<Rightarrow> d else d)"

definition env_bool :: "environ \<Rightarrow> string \<Rightarrow> bool" where
  "env_bool env name = (if env name \<noteq> '''' then case ParseBool (env name) of Some b \<Rightarrow> b | None \<Rightarrow> False else False)"

definition TLSCertificate :: "environ \<Rightarrow> string" where "TLSCertificate env = env ''TLS_CERT''"

definition TLSKey :: "environ \<Rightarrow> string" where "TLSKey env = env ''TLS_KEY''"

definition KubeConfig :: "environ \<Rightarrow> string" where "KubeConfig env = env ''KUBECONFIG''"

definition ConsulServiceUpstreams :: "environ \<Rightarrow> string" where "ConsulServiceUpstreams env = env ''UPSTREAMS''"

definition TLSAPIBindAddress :: "environ \<Rightarrow> string" where
  "TLSAPIBindAddress env = env_text env ''TLS_API_BIND_ADDRESS'' ''0.0.0.0''"

definition TLSAPIPort :: "environ \<Rightarrow> int" where
  "TLSAPIPort env = env_int env ''TLS_API_PORT'' 9443"

definition HTTPAPIBindAddress :: "environ \<Rightarrow> string" where
  "HTTPAPIBindAddress env = env_text env ''HTTP_API_BIND_ADDRESS'' ''''"

definition HTTPAPIPort :: "environ \<Rightarrow> int" where
  "HTTPAPIPort env = env_int env ''HTTP_API_PORT'' 8080"

definition EnableKubernetes :: "environ \<Rightarrow> bool" where
  "EnableKubernetes env = env_bool env ''ENABLE_KUBERNETES''"

definition EnableNomad :: "environ \<Rightarrow> bool" where
  "EnableNomad env = env_bool env ''ENABLE_NOMAD''"

definition MetricsBindAddress :: "environ \<Rightarrow> string" where
  "MetricsBindAddress env = env_text env ''METRICS_BIND_ADDRESS'' ''0.0.0.0''"

definition MetricsPort :: "environ \<Rightarrow> int" where
  "MetricsPort env = env_int env ''METRICS_PORT'' 9102"

definition KubernetesControllerBindAddress :: "environ \<Rightarrow> string" where
  "KubernetesControllerBindAddress env = env_text env ''K8S_CONTROLLER_ADDRESS'' ''0.0.0.0''"

definition KubernetesControllerPort :: "environ \<Rightarrow> int" where
  "KubernetesControllerPort env = env_int env ''K8S_CONTROLLER_PORT'' 19443"

subsection \<open>Facts\<close>

lemma TLS_always_bound [simp]: "TLSAPIBindAddress env \<noteq> ''''"
  by (simp add: TLSAPIBindAddress_def env_text_def)

lemma digits_value_append:
  "digits_value n (s @ t) = (case digits_value n s of None \<Rightarrow> None | Some m \<Rightarrow> digits_value m t)"
  by (induction n s rule: digits_value.induct) (auto split: option.splits)

lemma digit_value_nth: "d < 10 \<Longrightarrow> digit_value (''0123456789'' ! d) = Some (int d)"
  by (auto simp: digit_value_def less_Suc_eq numeral_eq_Suc)

lemma digits_value_decimal: "digits_value 0 (decimal n) = Some (int n)"
proof (induction n rule: decimal.induct)
  case (1 n)
  show ?case
  proof (cases "n < 10")
    case True
    then show ?thesis by (subst decimal.simps) (simp add: digit_value_nth)
  next
    case False
    with 1 have "digits_value 0 (decimal (n div 10)) = Some (int (n div 10))" by simp
    with False show ?thesis
      by (subst decimal.simps) (simp add: digits_value_append digit_value_nth zdiv_int zmod_int)
  qed
qed

lemma decimal_no_sign: "\<not> has_prefix (decimal n) ''-'' \<and> \<not> has_prefix (decimal n) ''+''"
proof -
  obtain c s where d: "decimal n = c # s" by (cases "decimal n") auto
  with digits_value_decimal [of n] have "digit_value c \<noteq> None" by (auto split: option.splits)
  then have "c \<noteq> CHR ''-'' \<and> c \<noteq> CHR ''+''" by (auto simp: digit_value_def)
  with d show ?thesis by (simp add: has_prefix_def)
qed

text \<open>Every port that fits an \<open>int\<close> can be set by writing it out.\<close>

lemma Atoi_show_int:
  assumes "in_int64 n"
  shows "Atoi (show_int n) = Some n"
  using assms decimal_no_sign [of "nat n"]
  by (auto simp: Atoi_def show_int_def unsigned_value_def digits_value_decimal has_prefix_def)

lemma show_int_nonempty: "show_int n \<noteq> ''''"
  by (simp add: show_int_def)

lemma env_int_set: "in_int64 n \<Longrightarrow> env name = show_int n \<Longrightarrow> env_int env name d = n"
  using Atoi_show_int [of n] by (simp add: env_int_def show_int_nonempty)

end
