(* ===== verification/Goroutines.thy ===== *)
theory Goroutines
  imports CRC_Prelude
begin

text \<open>
  Goroutines that talk over unbuffered channels, as the server has them: each is a program
  (the tree of what it does, over the answers it gets), a process is a pool of them with
  the fields they share, and a message is passed when one goroutine sends on a channel
  another selects on. \<open>keeps\<close> is the condition under which a goroutine can be looked at
  alone: what it sends, what it relies on receiving, and how it may end.
\<close>

subsection \<open>Programs\<close>

text \<open>
  \<open>'c\<close> are the channels, \<open>'s\<close> the shared fields, \<open>'a\<close> the calls into libraries and other
  packages, answered with an error or \<open>nil\<close>. \<open>Finish\<close> is the end of a goroutine with the
  result of its function, \<open>Quit\<close> the end of the process with a code, \<open>Select cs k\<close> waits for
  a message on one of the channels \<open>cs\<close>.
\<close>

datatype ('c, 's, 'a) gopro =
    Finish "go_error option"
  | Quit nat
  | Assign "'s \<Rightarrow> 's" "('c, 's, 'a) gopro"
  | Look "'s \<Rightarrow> ('c, 's, 'a) gopro"
  | Invoke 'a "go_error option \<Rightarrow> ('c, 's, 'a) gopro"
  | Spawn "('c, 's, 'a) gopro" "('c, 's, 'a) gopro"
  | Send 'c "go_error option" "('c, 's, 'a) gopro"
  | Select "'c list" "'c \<Rightarrow> go_error option \<Rightarrow> ('c, 's, 'a) gopro"

text \<open>\<open>if err != nil { return ... }\<close>: on with the first on an error, with the second without.\<close>

definition on_error :: "(go_error \<Rightarrow> 'p) \<Rightarrow> 'p \<Rightarrow> go_error option \<Rightarrow> 'p" where
  "on_error f k e = (case e of Some x \<Rightarrow> f x | None \<Rightarrow> k)"

lemma on_error_simps [simp]: "on_error f k (Some x) = f x" "on_error f k None = k"
  by (simp_all add: on_error_def)

subsection \<open>Processes\<close>

type_synonym ('c, 's, 'a) process = "('c, 's, 'a) gopro list \<times> 's"

datatype ('c, 'a) go_label =
    GLocal nat
  | GInvoke nat 'a "go_error option"
  | GMeet nat nat 'c "go_error option"
  | GOutside nat 'c "go_error option"
  | GExit nat

text \<open>
  One step of a process. A call may be answered with anything; a goroutine may receive from
  outside only on the channels \<open>ext\<close>, those of timers and signals. After the end of the
  process nothing is left.
\<close>

inductive go_step ::
    "'c set \<Rightarrow> ('c, 's, 'a) process \<Rightarrow> ('c, 'a) go_label \<Rightarrow> ('c, 's, 'a) process \<Rightarrow> bool" for ext where
  assign: "i < length ps \<Longrightarrow> ps ! i = Assign f k \<Longrightarrow> go_step ext (ps, s) (GLocal i) (ps[i := k], f s)"
| look: "i < length ps \<Longrightarrow> ps ! i = Look k \<Longrightarrow> go_step ext (ps, s) (GLocal i) (ps[i := k s], s)"
| spawn: "i < length ps \<Longrightarrow> ps ! i = Spawn p k \<Longrightarrow> go_step ext (ps, s) (GLocal i) (ps[i := k] @ [p], s)"
| invoke: "i < length ps \<Longrightarrow> ps ! i = Invoke a k \<Longrightarrow> go_step ext (ps, s) (GInvoke i a e) (ps[i := k e], s)"
| meet: "i < length ps \<Longrightarrow> j < length ps \<Longrightarrow> i \<noteq> j \<Longrightarrow> ps ! i = Send c v p \<Longrightarrow> ps ! j = Select cs k \<Longrightarrow> c \<in> set cs \<Longrightarrow>
    go_step ext (ps, s) (GMeet i j c v) (ps[i := p, j := k c v], s)"
| outside: "j < length ps \<Longrightarrow> ps ! j = Select cs k \<Longrightarrow> c \<in> set cs \<Longrightarrow> c \<in> ext \<Longrightarrow>
    go_step ext (ps, s) (GOutside j c v) (ps[j := k c v], s)"
| quit: "i < length ps \<Longrightarrow> ps ! i = Quit n \<Longrightarrow> go_step ext (ps, s) (GExit n) ([], s)"

inductive_cases go_stepE: "go_step ext c l c'"

text \<open>Runs in which the world outside sends only what \<open>S\<close> allows.\<close>

fun outside_ok :: "('c \<Rightarrow> go_error option \<Rightarrow> bool) \<Rightarrow> ('c, 'a) go_label \<Rightarrow> bool" where
  "outside_ok S (GOutside j c v) = S c v"
| "outside_ok S _ = True"

inductive go_reach ::
    "'c set \<Rightarrow> ('c \<Rightarrow> go_error option \<Rightarrow> bool) \<Rightarrow> ('c, 's, 'a) process \<Rightarrow> ('c, 's, 'a) process \<Rightarrow> bool" for ext S c0 where
  go_start: "go_reach ext S c0 c0"
| go_next: "go_reach ext S c0 c \<Longrightarrow> outside_ok S l \<Longrightarrow> go_step ext c l c' \<Longrightarrow> go_reach ext S c0 c'"

lemma go_reach_invariant [consumes 1, case_names start step]:
  assumes "go_reach ext S c0 c" and "I c0"
    and "\<And>c l c'. I c \<Longrightarrow> outside_ok S l \<Longrightarrow> go_step ext c l c' \<Longrightarrow> I c'"
  shows "I c"
  using assms(1) by (induction rule: go_reach.induct) (use assms(2,3) in blast)+

subsection \<open>A goroutine alone\<close>

text \<open>
  \<open>keeps S D Q R p\<close>: relying on messages that satisfy \<open>S\<close>, the goroutine sends only such
  messages, never selects on the channels \<open>D\<close>, quits only with codes \<open>Q\<close>, and ends only with
  results \<open>R\<close>; so do, but for their results, the goroutines it starts.
\<close>

primrec keeps :: "('c \<Rightarrow> go_error option \<Rightarrow> bool) \<Rightarrow> 'c set \<Rightarrow> nat set \<Rightarrow> (go_error option \<Rightarrow> bool) \<Rightarrow> ('c, 's, 'a) gopro \<Rightarrow> bool" where
  "keeps S D Q R (Finish r) = R r"
| "keeps S D Q R (Quit n) = (n \<in> Q)"
| "keeps S D Q R (Assign f k) = keeps S D Q R k"
| "keeps S D Q R (Look k) = (\<forall>s. keeps S D Q R (k s))"
| "keeps S D Q R (Invoke a k) = (\<forall>e. keeps S D Q R (k e))"
| "keeps S D Q R (Spawn p k) = (keeps S D Q (\<lambda>_. True) p \<and> keeps S D Q R k)"
| "keeps S D Q R (Send c v k) = (S c v \<and> keeps S D Q R k)"
| "keeps S D Q R (Select cs k) = (\<forall>c. c \<in> set cs \<longrightarrow> c \<notin> D \<and> (\<forall>v. S c v \<longrightarrow> keeps S D Q R (k c v)))"

lemma keeps_on_error [simp]:
  "keeps S D Q R (on_error f k e) \<longleftrightarrow> (\<forall>x. e = Some x \<longrightarrow> keeps S D Q R (f x)) \<and> (e = None \<longrightarrow> keeps S D Q R k)"
  by (cases e) simp_all

lemma keeps_mono: "keeps S D Q R p \<Longrightarrow> (\<And>r. R r \<Longrightarrow> R' r) \<Longrightarrow> keeps S D Q R' p"
  by (induction p) auto

text \<open>The pool: goroutine \<open>i\<close> ends with results \<open>R i\<close>, those started later with any.\<close>

definition all_keep ::
    "('c \<Rightarrow> go_error option \<Rightarrow> bool) \<Rightarrow> 'c set \<Rightarrow> nat set \<Rightarrow> (nat \<Rightarrow> go_error option \<Rightarrow> bool) \<Rightarrow> ('c, 's, 'a) gopro list \<Rightarrow> bool" where
  "all_keep S D Q R ps \<longleftrightarrow> (\<forall>i < length ps. keeps S D Q (R i) (ps ! i))"

text \<open>A started goroutine gets an index no result is asked of.\<close>

lemma all_keep_step:
  assumes "all_keep S D Q R ps" and "go_step ext (ps, s) l (ps', s')" and "outside_ok S l"
    and "\<And>i. length ps \<le> i \<Longrightarrow> R i = (\<lambda>_. True)"
  shows "all_keep S D Q R ps'"
  using assms(2)
proof cases
  case (meet i j c v p cs k)
  with assms(1) have "S c v" "keeps S D Q (R i) p" "keeps S D Q (R j) (k c v)"
    by (auto simp: all_keep_def) (metis keeps.simps(7,8))+
  with assms(1) meet show ?thesis by (auto simp: all_keep_def nth_list_update)
qed (use assms in \<open>fastforce simp: all_keep_def nth_list_update nth_append\<close>)+

lemma go_reach_trans: "go_reach ext S c1 c2 \<Longrightarrow> go_reach ext S c0 c1 \<Longrightarrow> go_reach ext S c0 c2"
  by (induction rule: go_reach.induct) (auto intro: go_next)

lemma go_reach_first: "go_step ext c0 l c1 \<Longrightarrow> outside_ok S l \<Longrightarrow> go_reach ext S c1 c2 \<Longrightarrow> go_reach ext S c0 c2"
  by (rule go_reach_trans) (auto intro: go_start go_next)

lemma go_step_length: "go_step ext (ps, s) l (ps', s') \<Longrightarrow> ps' = [] \<or> length ps \<le> length ps'"
  by (cases rule: go_step.cases) auto

lemma quit_stays:
  "go_step ext (ps, s) l (ps', s') \<Longrightarrow> i < length ps \<Longrightarrow> ps ! i = Quit n \<Longrightarrow> ps' = [] \<or> i < length ps' \<and> ps' ! i = Quit n"
  by (cases rule: go_step.cases) (auto simp: nth_list_update nth_append split: if_splits)

lemma all_keep_reach:
  assumes "go_reach ext S (ps, s) (ps', s')" and "all_keep S D Q R ps" and "\<And>i. length ps \<le> i \<Longrightarrow> R i = (\<lambda>_. True)"
  shows "all_keep S D Q R ps'"
proof -
  let ?I = "\<lambda>(qs, t). qs = [] \<or> length ps \<le> length qs \<and> all_keep S D Q R qs"
  have "?I (ps', s')" using assms(1)
  proof (induction rule: go_reach_invariant)
    case (step x l y)
    obtain qs t qs' t' where x: "x = (qs, t)" "y = (qs', t')" by (metis surj_pair)
    show ?case
    proof (cases "qs = []")
      case True
      with step.hyps(2) show ?thesis by (auto simp: x elim: go_step.cases)
    next
      case False
      with step.IH have "length ps \<le> length qs" "all_keep S D Q R qs" by (auto simp: x)
      with step.hyps x go_step_length [of ext qs t l qs' t'] all_keep_step [of S D Q R qs ext t l qs' t'] assms(3)
      show ?thesis by auto
    qed
  qed (simp add: assms(2))
  then show ?thesis by (auto simp: all_keep_def)
qed

text \<open>So a process quits only with the codes, and passes only the messages, of its goroutines.\<close>

lemma quits_with:
  assumes "go_reach ext S (ps, s) (ps', s')" and "\<And>p. p \<in> set ps \<Longrightarrow> keeps S D Q (\<lambda>_. True) p"
    and "go_step ext (ps', s') (GExit n) c"
  shows "n \<in> Q"
proof -
  have "all_keep S D Q (\<lambda>_ _. True) ps'"
    by (rule all_keep_reach [OF assms(1)]) (simp_all add: all_keep_def assms(2))
  with assms(3) show ?thesis by (fastforce simp: all_keep_def elim: go_step.cases)
qed

lemma meets_with:
  assumes "go_reach ext S (ps, s) (ps', s')" and "\<And>p. p \<in> set ps \<Longrightarrow> keeps S D Q (\<lambda>_. True) p"
    and "go_step ext (ps', s') (GMeet i j c v) x"
  shows "S c v"
proof -
  have "all_keep S D Q (\<lambda>_ _. True) ps'"
    by (rule all_keep_reach [OF assms(1)]) (simp_all add: all_keep_def assms(2))
  with assms(3) show ?thesis by (fastforce simp: all_keep_def elim: go_step.cases)
qed

subsection \<open>A step by its label\<close>

text \<open>A label says everything about a step: what it leads to can be computed.\<close>

fun go_do :: "'c set \<Rightarrow> ('c, 'a) go_label \<Rightarrow> ('c, 's, 'a) process \<Rightarrow> ('c, 's, 'a) process option" where
  "go_do ext (GLocal i) (ps, s) =
     (if i < length ps then
        case ps ! i of
          Assign f k \<Rightarrow> Some (ps[i := k], f s)
        | Look k \<Rightarrow> Some (ps[i := k s], s)
        | Spawn p k \<Rightarrow> Some (ps[i := k] @ [p], s)
        | _ \<Rightarrow> None
      else None)"
| "go_do ext (GInvoke i a e) (ps, s) =
     (if i < length ps then case ps ! i of Invoke b k \<Rightarrow> if b = a then Some (ps[i := k e], s) else None | _ \<Rightarrow> None else None)"
| "go_do ext (GMeet i j c v) (ps, s) =
     (if i < length ps \<and> j < length ps \<and> i \<noteq> j then
        case (ps ! i, ps ! j) of
          (Send d u p, Select cs k) \<Rightarrow> if d = c \<and> u = v \<and> c \<in> set cs then Some (ps[i := p, j := k c v], s) else None
        | _ \<Rightarrow> None
      else None)"
| "go_do ext (GOutside j c v) (ps, s) =
     (if j < length ps then
        case ps ! j of Select cs k \<Rightarrow> if c \<in> set cs \<and> c \<in> ext then Some (ps[j := k c v], s) else None | _ \<Rightarrow> None
      else None)"
| "go_do ext (GExit n) (ps, s) = (if Quit n \<in> set ps then Some ([], s) else None)"

lemma quit_member: "Quit n \<in> set ps \<Longrightarrow> go_step ext (ps, s) (GExit n) ([], s)"
  by (auto simp: in_set_conv_nth intro: go_step.quit)

lemma go_do_step: "go_step ext (ps, s) l c' \<longleftrightarrow> go_do ext l (ps, s) = Some c'"
proof
  assume "go_step ext (ps, s) l c'"
  then show "go_do ext l (ps, s) = Some c'"
    by cases (auto dest: nth_mem)
next
  assume "go_do ext l (ps, s) = Some c'"
  then show "go_step ext (ps, s) l c'"
    by (cases l) (auto split: if_splits gopro.splits intro: go_step.intros quit_member)
qed

text \<open>A run by its labels.\<close>

fun go_run :: "'c set \<Rightarrow> ('c, 'a) go_label list \<Rightarrow> ('c, 's, 'a) process \<Rightarrow> ('c, 's, 'a) process option" where
  "go_run ext [] c = Some c"
| "go_run ext (l # ls) c = (case go_do ext l c of Some c' \<Rightarrow> go_run ext ls c' | None \<Rightarrow> None)"

lemma go_run_reach: "go_run ext ls c = Some c' \<Longrightarrow> list_all (outside_ok S) ls \<Longrightarrow> go_reach ext S c c'"
proof (induction ls arbitrary: c)
  case Nil
  then show ?case by (simp add: go_start)
next
  case (Cons l ls)
  then obtain c1 where "go_do ext l c = Some c1" "go_run ext ls c1 = Some c'" by (auto split: option.splits)
  then have "go_reach ext S c1 c'" "go_step ext c l c1"
    using Cons go_do_step [of ext "fst c" "snd c" l c1] by auto
  with Cons.prems(2) show ?case by (auto intro: go_reach_first)
qed

subsection \<open>The one receiver of a channel\<close>

text \<open>\<open>deaf c p\<close>: neither the goroutine nor one it starts ever selects on \<open>c\<close>.\<close>

abbreviation deaf :: "'c \<Rightarrow> ('c, 's, 'a) gopro \<Rightarrow> bool" where
  "deaf c \<equiv> keeps (\<lambda>_ _. True) {c} UNIV (\<lambda>_. True)"

text \<open>At no time do two of the goroutine and those it starts select on \<open>c\<close>.\<close>

primrec one_receiver :: "'c \<Rightarrow> ('c, 's, 'a) gopro \<Rightarrow> bool" where
  "one_receiver c (Finish r) = True"
| "one_receiver c (Quit n) = True"
| "one_receiver c (Assign f k) = one_receiver c k"
| "one_receiver c (Look k) = (\<forall>s. one_receiver c (k s))"
| "one_receiver c (Invoke a k) = (\<forall>e. one_receiver c (k e))"
| "one_receiver c (Spawn p k) = (deaf c p \<and> one_receiver c k \<or> one_receiver c p \<and> deaf c k)"
| "one_receiver c (Send d v k) = one_receiver c k"
| "one_receiver c (Select cs k) = (\<forall>d v. d \<in> set cs \<longrightarrow> one_receiver c (k d v))"

definition sole_receiver :: "'c \<Rightarrow> ('c, 's, 'a) gopro list \<Rightarrow> bool" where
  "sole_receiver c ps \<longleftrightarrow>
     (\<exists>i < length ps. one_receiver c (ps ! i) \<and> (\<forall>j < length ps. j \<noteq> i \<longrightarrow> deaf c (ps ! j))) \<or> ps = []"

lemma deaf_one_receiver: "deaf c p \<Longrightarrow> one_receiver c p"
  by (induction p) auto

lemma sole_receiverI:
  "n < length ps \<Longrightarrow> one_receiver c (ps ! n) \<Longrightarrow> (\<And>j. j < length ps \<Longrightarrow> j \<noteq> n \<Longrightarrow> deaf c (ps ! j)) \<Longrightarrow> sole_receiver c ps"
  by (auto simp: sole_receiver_def)

lemma sole_receiver_step:
  assumes "go_step ext (ps, s) l (ps', s')" and "sole_receiver c ps"
  shows "sole_receiver c ps'"
proof (cases "ps' = []")
  case False
  with assms obtain n where n: "n < length ps" "one_receiver c (ps ! n)" "\<And>j. j < length ps \<Longrightarrow> j \<noteq> n \<Longrightarrow> deaf c (ps ! j)"
    by (auto simp: sole_receiver_def elim: go_step.cases)
  from assms(1) show ?thesis
  proof cases
    case (spawn i p k)
    with n(2) n(3) [of i] have k: "i = n \<Longrightarrow> deaf c p \<and> one_receiver c k \<or> one_receiver c p \<and> deaf c k"
      "i \<noteq> n \<Longrightarrow> deaf c p \<and> deaf c k" by auto
    show ?thesis
    proof (cases "i = n \<and> \<not> deaf c p")
      case True
      with k n spawn show ?thesis
        by (intro sole_receiverI [of "length ps"]) (auto simp: nth_append nth_list_update)
    next
      case i: False
      with k n spawn show ?thesis
        by (intro sole_receiverI [of n]) (auto simp: nth_append nth_list_update deaf_one_receiver)
    qed
  next
    case (meet i j d v p cs k)
    with n(3) [of i] n(3) [of j] n show ?thesis
      by (intro sole_receiverI [of n]) (auto simp: nth_list_update split: if_splits)
  next
    case (outside j cs k d v)
    with n(3) [of j] n show ?thesis
      by (intro sole_receiverI [of n]) (auto simp: nth_list_update)
  qed (use n False in \<open>fastforce intro!: sole_receiverI [of n] simp: nth_list_update\<close>)+
qed (simp add: sole_receiver_def)

text \<open>
  A goroutine that sends on a channel it alone receives from is stuck for good: nobody can
  take the message, and it never gets to the point of taking it.
\<close>

lemma self_send_stuck:
  assumes "go_reach ext S (ps, s) (ps', s')" and "i < length ps" and "ps ! i = Send c v q"
    and "\<And>j. j < length ps \<Longrightarrow> j \<noteq> i \<Longrightarrow> deaf c (ps ! j)" and "ps' \<noteq> []"
  shows "i < length ps' \<and> ps' ! i = Send c v q"
proof -
  let ?I = "\<lambda>(qs, t). qs = [] \<or> i < length qs \<and> qs ! i = Send c v q \<and> (\<forall>j < length qs. j \<noteq> i \<longrightarrow> deaf c (qs ! j))"
  have "?I (ps', s')" using assms(1)
  proof (induction rule: go_reach_invariant)
    case (step x l y)
    obtain qs t qs' t' where x: "x = (qs, t)" "y = (qs', t')" by (metis surj_pair)
    with step have I: "qs \<noteq> [] \<Longrightarrow> i < length qs" "qs \<noteq> [] \<Longrightarrow> qs ! i = Send c v q" "\<And>j. j < length qs \<Longrightarrow> j \<noteq> i \<Longrightarrow> deaf c (qs ! j)"
      by auto
    from step.hyps(2) show ?case unfolding x(1)
    proof cases
      case (meet m j d u p cs k)
      then have "qs \<noteq> []" by auto
      with I(1,2) I(3) [of m] I(3) [of j] I(3) meet show ?thesis by (auto simp: x nth_list_update split: if_splits)
    qed (use I in \<open>fastforce simp: x nth_list_update nth_append\<close>)+
  qed (use assms in auto)
  with assms(5) show ?thesis by auto
qed

lemma sole_receiver_reach:
  "go_reach ext S (ps, s) (ps', s') \<Longrightarrow> sole_receiver c ps \<Longrightarrow> sole_receiver c ps'"
proof (induction "(ps', s')" arbitrary: ps' s' rule: go_reach.induct)
  case (go_next x l)
  then show ?case by (cases x) (auto dest: sole_receiver_step)
qed simp

lemma sole_receiver_others:
  "sole_receiver c ps \<Longrightarrow> i < length ps \<Longrightarrow> \<not> deaf c (ps ! i) \<Longrightarrow> j < length ps \<Longrightarrow> j \<noteq> i \<Longrightarrow> deaf c (ps ! j)"
  by (auto simp: sole_receiver_def)

end
