(* ===== verification/Server.thy ===== *)
theory Server
  imports Config Goroutines
begin

text \<open>
  The process: \<open>cmd/main.go\<close>, \<open>New\<close>, \<open>Start\<close> and \<open>Shutdown\<close> of \<open>pkg/server/release.go\<close>, and what
  they start and stop: the API server (\<open>pkg/api/server.go\<close>), the metrics server
  (\<open>pkg/plugins/prometheus/metrics.go\<close>), the Kubernetes controller
  (\<open>pkg/controllers/kubernetes/controller.go\<close>) and the Nomad controller
  (\<open>pkg/controllers/nomad/nomad.go\<close>). Each function is a program over its continuation.
\<close>

subsection \<open>Channels, shared fields and calls\<close>

text \<open>Every channel is made once in a process; the last two are written from outside.\<close>

datatype chan =
    ApiErrChan          \<comment> \<open>\<open>errChan\<close> of the API server\<close>
  | DoneChan
  | MetricsErrChan
  | ApiErrorChan        \<comment> \<open>\<open>apiError\<close> and the next two of the server\<close>
  | KubernetesErrorChan
  | NomadErrorChan
  | ShutdownChan
  | TimeoutChan
  | SignalChan

text \<open>A listener is known by its address. \<open>False\<close> and \<open>None\<close> stand for \<open>nil\<close>.\<close>

record wiring =
  wi_global_metrics :: bool
  wi_metrics_server :: bool
  wi_kubernetes :: bool
  wi_nomad :: bool
  wi_nomad_cancel :: bool
  wi_api :: bool
  wi_https_listener :: "string option"
  wi_https_server :: bool
  wi_http_listener :: "string option"
  wi_http_server :: bool

definition no_wiring :: wiring where
  "no_wiring =
     \<lparr>wi_global_metrics = False, wi_metrics_server = False, wi_kubernetes = False, wi_nomad = False,
      wi_nomad_cancel = False, wi_api = False, wi_https_listener = None, wi_https_server = False,
      wi_http_listener = None, wi_http_server = False\<rparr>"

datatype http_server = HttpsServer | HttpServer | MetricsServer

record manager_config =
  mgr_cert_dir :: string
  mgr_cert_name :: string
  mgr_key_name :: string
  mgr_port :: int

datatype sysop =
    NewPrometheusSink
  | NewGoMetrics string
  | ServiceStarting
  | NewStorage
  | RehydrateReleases
  | NewNomadClient
  | GetNomadEvents
  | NomadEventLoop
  | NomadCancel
  | GetConfig
  | NewManager manager_config
  | IndexField string
  | CompleteController
  | RegisterWebhook string
  | ManagerStart
  | ManagerCancel
  | LoadX509KeyPair string string
  | NetListen string
  | Serve http_server "string option"
  | ListenAndServe string
  | ListenerFile string
  | ServerShutdown http_server
  | CloseFile string

type_synonym prog_of = "(chan, wiring, sysop) gopro"

type_synonym cont = "go_error option \<Rightarrow> prog_of"

definition ErrServerClosed :: go_error where
  "ErrServerClosed = GoErr ''http: Server closed''"

subsection \<open>The metrics server\<close>

definition NewMetrics :: "cont \<Rightarrow> prog_of" where
  "NewMetrics k =
     Look (\<lambda>s.
       if \<not> wi_global_metrics s then
         Invoke NewPrometheusSink (on_error (\<lambda>x. k (Some (wrap_err ''unable to create Prometheus metrics sink: '' x)))
           (Invoke (NewGoMetrics ''consul_release_controller'')
             (on_error (\<lambda>x. k (Some (wrap_err ''unable to intiialzie new metrics server: '' x)))
               (Assign (\<lambda>s. s\<lparr>wi_global_metrics := True\<rparr>) (k None)))))
       else k None)"

text \<open>The server is given a second and a half to fail; the timer runs outside.\<close>

definition metrics_StartServer :: "string \<Rightarrow> int \<Rightarrow> cont \<Rightarrow> prog_of" where
  "metrics_StartServer addr port k =
     Assign (\<lambda>s. s\<lparr>wi_metrics_server := True\<rparr>)
       (Spawn (Invoke (ListenAndServe (host_port addr port)) (\<lambda>e. Send MetricsErrChan e (Finish None)))
         (Select [TimeoutChan, MetricsErrChan] (\<lambda>c e. if c = TimeoutChan then k None else k e)))"

definition metrics_StopServer :: "cont \<Rightarrow> prog_of" where
  "metrics_StopServer k =
     Look (\<lambda>s. if \<not> wi_metrics_server s then k None else Invoke (ServerShutdown MetricsServer) k)"

text \<open>
  The samples written for a request and for a state. \<open>args\<close> are the entries of the map of
  further labels, in the order its iteration takes; the function that is returned is called
  with the status at the end; \<open>f32\<close> makes a \<open>float32\<close> of an integer.
\<close>

type_synonym labels = "(string \<times> string) list"

datatype 'f sample =
    IncrCounter "string list"
  | SetGauge "string list" 'f labels
  | MeasureSince "string list" int labels

definition metrics_ServiceStarting :: "'f sample list" where
  "metrics_ServiceStarting = [IncrCounter [''starting'']]"

definition metrics_HandleRequest :: "string \<Rightarrow> labels \<Rightarrow> int \<Rightarrow> int \<Rightarrow> 'f sample list" where
  "metrics_HandleRequest handler args started status =
     [MeasureSince [handler] started (args @ [(''response_code'', show_int status)])]"

definition metrics_StateChanged ::
    "(int \<Rightarrow> 'f) \<Rightarrow> string \<Rightarrow> string \<Rightarrow> labels \<Rightarrow> int \<Rightarrow> int \<Rightarrow> 'f sample list \<times> (int \<Rightarrow> 'f sample list)" where
  "metrics_StateChanged f32 release state args started now =
     (let labs = [(''release'', release), (''state'', state)] @ args in
      ([SetGauge [''state_changed_start_seconds''] (f32 now) labs],
       (\<lambda>status. [MeasureSince [''state_change_duration''] started (labs @ [(''response_code'', show_int status)])])))"

subsection \<open>The Kubernetes controller\<close>

text \<open>\<open>path.Base\<close>, \<open>path.Split\<close> and \<open>path.Clean\<close>.\<close>

definition path_Base :: "string \<Rightarrow> string" where
  "path_Base p =
     (if p = '''' then ''.''
      else
        let q = rev (dropWhile (\<lambda>c. c = CHR ''/'') (rev p)) in
        if q = '''' then ''/'' else rev (takeWhile (\<lambda>c. c \<noteq> CHR ''/'') (rev q)))"

fun path_elements :: "string \<Rightarrow> string \<Rightarrow> string list" where
  "path_elements e [] = [rev e]"
| "path_elements e (c # s) = (if c = CHR ''/'' then rev e # path_elements '''' s else path_elements (c # e) s)"

fun clean_elements :: "bool \<Rightarrow> string list \<Rightarrow> string list \<Rightarrow> string list" where
  "clean_elements rooted out [] = rev out"
| "clean_elements rooted out (e # es) =
     (if e = '''' \<or> e = ''.'' then clean_elements rooted out es
      else if e = ''..'' then
        (if out \<noteq> [] \<and> hd out \<noteq> ''..'' then clean_elements rooted (tl out) es
         else if rooted then clean_elements rooted out es
         else clean_elements rooted (e # out) es)
      else clean_elements rooted (e # out) es)"

fun join_path :: "string list \<Rightarrow> string" where
  "join_path [] = ''''"
| "join_path [e] = e"
| "join_path (e # es) = e @ ''/'' @ join_path es"

definition path_Clean :: "string \<Rightarrow> string" where
  "path_Clean p =
     (let rooted = has_prefix p ''/''; q = join_path (clean_elements rooted [] (path_elements '''' p)) in
      if rooted then ''/'' @ q else if q = '''' then ''.'' else q)"

definition path_Dir :: "string \<Rightarrow> string" where
  "path_Dir p = path_Clean (rev (dropWhile (\<lambda>c. c \<noteq> CHR ''/'') (rev p)))"

definition kubernetes_manager :: "string \<Rightarrow> string \<Rightarrow> int \<Rightarrow> manager_config" where
  "kubernetes_manager cert key port =
     \<lparr>mgr_cert_dir = path_Dir cert, mgr_cert_name = path_Base cert, mgr_key_name = path_Base key, mgr_port = port\<rparr>"

text \<open>
  The reconciler joins the manager: an index over the resources by the deployment they name,
  and the controller. What the index holds for a resource is \<open>Reconciler.deploymentIndex\<close>.
\<close>

definition SetupWithManager :: "cont \<Rightarrow> prog_of" where
  "SetupWithManager k =
     Invoke (IndexField ''.spec.runtime.config.deployment'') (on_error (\<lambda>x. k (Some x)) (Invoke CompleteController k))"

text \<open>\<open>GetConfigOrDie\<close> ends the process with code 1 as well.\<close>

definition kubernetes_Start :: "string \<Rightarrow> string \<Rightarrow> int \<Rightarrow> cont \<Rightarrow> prog_of" where
  "kubernetes_Start cert key port k =
     Invoke GetConfig (on_error (\<lambda>x. Quit 1)
       (Invoke (NewManager (kubernetes_manager cert key port)) (on_error (\<lambda>x. Quit 1)
         (SetupWithManager (on_error (\<lambda>x. k (Some x))
           (Invoke (RegisterWebhook ''/validate-v1-deployment'') (\<lambda>_.
             Invoke ManagerStart (on_error (\<lambda>x. k (Some x)) (k None)))))))))"

definition kubernetes_Stop :: "cont \<Rightarrow> prog_of" where
  "kubernetes_Stop k = Invoke ManagerCancel (\<lambda>_. k None)"

subsection \<open>The Nomad controller\<close>

text \<open>The loop over the events is \<open>nomad_Start\<close> of \<open>Admission\<close>.\<close>

definition nomad_New :: "cont \<Rightarrow> prog_of" where
  "nomad_New k = Invoke NewNomadClient (on_error (\<lambda>x. k (Some x)) (k None))"

definition nomad_Start_prog :: "cont \<Rightarrow> prog_of" where
  "nomad_Start_prog k =
     Assign (\<lambda>s. s\<lparr>wi_nomad_cancel := True\<rparr>)
       (Invoke GetNomadEvents (on_error (\<lambda>x. k (Some (wrap_err ''unable to register for Nomad events: '' x)))
         (Invoke NomadEventLoop (\<lambda>_. k None))))"

text \<open>The field \<open>cancel\<close> is set by \<open>Start\<close>; the call of a nil function ends the process with code 2.\<close>

definition nomad_Stop :: "cont \<Rightarrow> prog_of" where
  "nomad_Stop k = Look (\<lambda>s. if wi_nomad_cancel s then Invoke NomadCancel (\<lambda>_. k None) else Quit 2)"

subsection \<open>The API server\<close>

record server_config =
  sc_tls_address :: string
  sc_tls_port :: int
  sc_http_address :: string
  sc_http_port :: int
  sc_tls_cert :: string
  sc_tls_key :: string

definition api_New :: "server_config \<Rightarrow> cont \<Rightarrow> prog_of" where
  "api_New c k =
     Invoke (LoadX509KeyPair (sc_tls_cert c) (sc_tls_key c))
       (on_error (\<lambda>x. k (Some (wrap_err (''unable to load TLS certificates:'' @ [CHR 0x09]) x))) (k None))"

text \<open>The goroutine of a listening server; \<open>None\<close> is the nil listener.\<close>

definition api_serve :: "http_server \<Rightarrow> string option \<Rightarrow> string \<Rightarrow> prog_of" where
  "api_serve srv l msg =
     Invoke (Serve srv l) (on_error
       (\<lambda>x. if x \<noteq> ErrServerClosed then Send ApiErrChan (Some (wrap_err msg x)) (Finish None) else Finish None)
       (Finish None))"

definition api_await :: "cont \<Rightarrow> prog_of" where
  "api_await k = Select [ApiErrChan, DoneChan] (\<lambda>c e. if c = ApiErrChan then k e else k None)"

definition api_serve_http :: "string option \<Rightarrow> cont \<Rightarrow> prog_of" where
  "api_serve_http l k =
     Assign (\<lambda>s. s\<lparr>wi_http_listener := l\<rparr>)
       (Assign (\<lambda>s. s\<lparr>wi_http_server := True\<rparr>)
         (Spawn (api_serve HttpServer l ''unable to start HTTP server: '') (api_await k)))"

definition api_start_http :: "server_config \<Rightarrow> cont \<Rightarrow> prog_of" where
  "api_start_http c k =
     (if sc_http_address c \<noteq> '''' then
        let addr = host_port (sc_http_address c) (sc_http_port c) in
        Invoke (NetListen addr) (on_error
          (\<lambda>x. Send ApiErrChan (Some (wrap_err ''unable to create TCP listener: '' x)) (api_serve_http None k))
          (api_serve_http (Some addr) k))
      else api_await k)"

definition api_Start :: "server_config \<Rightarrow> cont \<Rightarrow> prog_of" where
  "api_Start c k =
     (if sc_tls_address c \<noteq> '''' then
        let addr = host_port (sc_tls_address c) (sc_tls_port c) in
        Invoke (NetListen addr) (on_error
          (\<lambda>x. k (Some (wrap_err ''unable to create TCP listener: '' x)))
          (Assign (\<lambda>s. s\<lparr>wi_https_listener := Some addr\<rparr>)
            (Assign (\<lambda>s. s\<lparr>wi_https_server := True\<rparr>)
              (Spawn (api_serve HttpsServer (Some addr) ''unable to start TLS server: '') (api_start_http c k)))))
      else api_start_http c k)"

text \<open>
  \<open>Shutdown\<close>: the files of the two listeners are duplicates made here. \<open>https\<close> and \<open>http\<close> are
  the local variables \<open>httpsFile\<close> and \<open>httpFile\<close>; the second is never assigned.
\<close>

definition api_close_files :: "string option \<Rightarrow> string option \<Rightarrow> cont \<Rightarrow> prog_of" where
  "api_close_files https http k =
     (let close_http =
        (case http of
           Some f \<Rightarrow> Invoke (CloseFile f) (on_error (\<lambda>x. k (Some (wrap_err ''unable to shutdown HTTP listener: '' x))) (k None))
         | None \<Rightarrow> k None) in
      case https of
        Some f \<Rightarrow> Invoke (CloseFile f) (on_error (\<lambda>x. k (Some (wrap_err ''unable to shutdown HTTPS listener: '' x))) close_http)
      | None \<Rightarrow> close_http)"

definition api_stop_servers :: "string option \<Rightarrow> string option \<Rightarrow> cont \<Rightarrow> prog_of" where
  "api_stop_servers https http k =
     Look (\<lambda>s.
       let stop_http =
         Look (\<lambda>s.
           if wi_http_server s then
             Invoke (ServerShutdown HttpServer)
               (on_error (\<lambda>x. k (Some (wrap_err ''unable to shutdown HTTP server: '' x))) (api_close_files https http k))
           else api_close_files https http k) in
       if wi_https_server s then
         Invoke (ServerShutdown HttpsServer) (on_error (\<lambda>x. k (Some (wrap_err ''unable to shutdown HTTPS server: '' x))) stop_http)
       else stop_http)"

definition api_Shutdown :: "cont \<Rightarrow> prog_of" where
  "api_Shutdown k =
     Look (\<lambda>s.
       let http_file = (\<lambda>https.
         Look (\<lambda>s.
           case wi_http_listener s of
             Some l \<Rightarrow>
               Invoke (ListenerFile l)
                 (on_error (\<lambda>x. k (Some (wrap_err ''unable to get file for HTTPS listener: '' x))) (api_stop_servers (Some l) None k))
           | None \<Rightarrow> api_stop_servers https None k)) in
       case wi_https_listener s of
         Some l \<Rightarrow>
           Invoke (ListenerFile l)
             (on_error (\<lambda>x. k (Some (wrap_err ''unable to get file for HTTPS listener: '' x))) (http_file (Some l)))
       | None \<Rightarrow> http_file None)"

subsection \<open>The server\<close>

definition server_New :: "cont \<Rightarrow> prog_of" where
  "server_New k = NewMetrics (on_error (\<lambda>x. k (Some x)) (k None))"

definition api_config :: "environ \<Rightarrow> server_config" where
  "api_config env =
     \<lparr>sc_tls_address = TLSAPIBindAddress env, sc_tls_port = TLSAPIPort env, sc_http_address = HTTPAPIBindAddress env,
      sc_http_port = HTTPAPIPort env, sc_tls_cert = TLSCertificate env, sc_tls_key = TLSKey env\<rparr>"

text \<open>\<open>if err != nil { ch <- err }\<close> at the end of a goroutine.\<close>

definition report :: "chan \<Rightarrow> cont" where
  "report c = on_error (\<lambda>x. Send c (Some x) (Finish None)) (Finish None)"

definition server_await :: "cont \<Rightarrow> prog_of" where
  "server_await k =
     Select [ShutdownChan, KubernetesErrorChan, NomadErrorChan, ApiErrorChan]
       (\<lambda>c e. if c = ShutdownChan then k None else k e)"

definition server_start_api :: "environ \<Rightarrow> cont \<Rightarrow> prog_of" where
  "server_start_api env k =
     api_New (api_config env) (on_error (\<lambda>x. k (Some (wrap_err ''unable to create API server: '' x)))
       (Assign (\<lambda>s. s\<lparr>wi_api := True\<rparr>)
         (Spawn (api_Start (api_config env) (report ApiErrorChan)) (server_await k))))"

definition server_start_nomad :: "environ \<Rightarrow> cont \<Rightarrow> prog_of" where
  "server_start_nomad env k =
     (if EnableNomad env then
        nomad_New (on_error (\<lambda>x. k (Some (wrap_err ''Unable to create Nomad controller: '' x)))
          (Assign (\<lambda>s. s\<lparr>wi_nomad := True\<rparr>)
            (Spawn (nomad_Start_prog (report KubernetesErrorChan)) (server_start_api env k))))
      else server_start_api env k)"

definition server_start_kubernetes :: "environ \<Rightarrow> cont \<Rightarrow> prog_of" where
  "server_start_kubernetes env k =
     (if EnableKubernetes env then
        Assign (\<lambda>s. s\<lparr>wi_kubernetes := True\<rparr>)
          (Spawn (kubernetes_Start (TLSCertificate env) (TLSKey env) (KubernetesControllerPort env) (report KubernetesErrorChan))
            (server_start_nomad env k))
      else server_start_nomad env k)"

text \<open>The error of the metrics server is not looked at. \<open>RehydrateReleases\<close> is \<open>Startup.rehydrateReleases\<close>.\<close>

definition server_Start :: "environ \<Rightarrow> cont \<Rightarrow> prog_of" where
  "server_Start env k =
     metrics_StartServer (MetricsBindAddress env) (MetricsPort env) (\<lambda>_.
       Invoke ServiceStarting (\<lambda>_.
         Invoke NewStorage (on_error (\<lambda>x. k (Some x))
           (Invoke RehydrateReleases (on_error (\<lambda>x. k (Some (wrap_err ''Unable to rehydrate releases: '' x)))
             (server_start_kubernetes env k))))))"

definition shutdown_signal :: "cont \<Rightarrow> prog_of" where
  "shutdown_signal k = Send ShutdownChan None (k None)"

definition shutdown_nomad :: "cont \<Rightarrow> prog_of" where
  "shutdown_nomad k = Look (\<lambda>s. if wi_nomad s then nomad_Stop (\<lambda>_. shutdown_signal k) else shutdown_signal k)"

definition shutdown_controllers :: "cont \<Rightarrow> prog_of" where
  "shutdown_controllers k =
     Look (\<lambda>s. if wi_kubernetes s then kubernetes_Stop (\<lambda>_. shutdown_nomad k) else shutdown_nomad k)"

definition shutdown_metrics :: "cont \<Rightarrow> prog_of" where
  "shutdown_metrics k =
     metrics_StopServer (on_error (\<lambda>x. k (Some (wrap_err ''unable to shutdown metrics server: '' x))) (shutdown_controllers k))"

definition server_Shutdown :: "cont \<Rightarrow> prog_of" where
  "server_Shutdown k =
     Look (\<lambda>s.
       if wi_api s then
         api_Shutdown (on_error (\<lambda>x. k (Some (wrap_err ''unable to shutdown API server: '' x))) (shutdown_metrics k))
       else shutdown_metrics k)"

subsection \<open>The program\<close>

text \<open>The goroutine of \<open>Start\<close>, and what \<open>main\<close> does once it is started: its end is the end of the process.\<close>

definition start_goroutine :: "environ \<Rightarrow> prog_of" where
  "start_goroutine env = server_Start env (on_error (\<lambda>x. Quit 1) (Finish None))"

definition main_await :: prog_of where
  "main_await = Select [SignalChan] (\<lambda>_ _. server_Shutdown (\<lambda>_. Quit 0))"

definition main_prog :: "environ \<Rightarrow> prog_of" where
  "main_prog env = server_New (on_error (\<lambda>x. Quit 1) (Spawn (start_goroutine env) main_await))"

lemmas server_programs =
  NewMetrics_def metrics_StartServer_def metrics_StopServer_def SetupWithManager_def kubernetes_Start_def kubernetes_Stop_def nomad_New_def
  nomad_Start_prog_def nomad_Stop_def api_New_def api_serve_def api_await_def api_serve_http_def api_start_http_def api_Start_def
  api_close_files_def api_stop_servers_def api_Shutdown_def server_New_def report_def server_await_def server_start_api_def
  server_start_nomad_def server_start_kubernetes_def server_Start_def shutdown_signal_def shutdown_nomad_def
  shutdown_controllers_def shutdown_metrics_def server_Shutdown_def start_goroutine_def main_await_def main_prog_def

abbreviation outside_chans :: "chan set" where
  "outside_chans \<equiv> {TimeoutChan, SignalChan}"

subsection \<open>What is sent while no shutdown has been asked for\<close>

text \<open>
  Errors only on the channels of the parts; nothing at all on the channels of the end, and
  nothing on \<open>nomadError\<close> and \<open>doneChan\<close>, which no code ever sends on.
\<close>

fun running_messages :: "chan \<Rightarrow> go_error option \<Rightarrow> bool" where
  "running_messages ApiErrChan v = (v \<noteq> None)"
| "running_messages ApiErrorChan v = (v \<noteq> None)"
| "running_messages KubernetesErrorChan v = (v \<noteq> None)"
| "running_messages MetricsErrChan v = True"
| "running_messages TimeoutChan v = True"
| "running_messages _ v = False"

lemma keeps_report:
  "c \<in> {ApiErrorChan, KubernetesErrorChan} \<Longrightarrow> keeps running_messages D Q (\<lambda>_. True) (report c e)"
  by (auto simp: report_def)

lemma keeps_api_await:
  assumes "\<And>e. e \<noteq> None \<Longrightarrow> keeps running_messages D Q R (k e)" and "ApiErrChan \<notin> D" "DoneChan \<notin> D"
  shows "keeps running_messages D Q R (api_await k)"
  using assms by (simp add: api_await_def)

lemma keeps_api_serve: "keeps running_messages D Q (\<lambda>_. True) (api_serve srv l msg)"
  by (simp add: api_serve_def)

text \<open>The start of the API server goes on with an error, or not at all.\<close>

lemma keeps_api_Start:
  assumes "\<And>e. e \<noteq> None \<Longrightarrow> keeps running_messages D Q R (k e)" and "ApiErrChan \<notin> D" "DoneChan \<notin> D"
  shows "keeps running_messages D Q R (api_Start c k)"
  using keeps_api_await [OF assms]
  by (simp add: assms(1) api_Start_def api_start_http_def api_serve_http_def Let_def keeps_api_serve)

lemma keeps_kubernetes_Start:
  assumes "\<And>e. keeps running_messages D Q R (k e)" and "1 \<in> Q"
  shows "keeps running_messages D Q R (kubernetes_Start cert key port k)"
  using assms by (simp add: kubernetes_Start_def SetupWithManager_def)

lemma keeps_nomad_Start:
  "(\<And>e. keeps running_messages D Q R (k e)) \<Longrightarrow> keeps running_messages D Q R (nomad_Start_prog k)"
  by (simp add: nomad_Start_prog_def)

text \<open>And so does the start of the server.\<close>

lemma keeps_server_Start:
  assumes "\<And>e. e \<noteq> None \<Longrightarrow> keeps running_messages D Q R (k e)" and "1 \<in> Q"
    and "D \<inter> {ApiErrChan, DoneChan, MetricsErrChan, ApiErrorChan, KubernetesErrorChan, NomadErrorChan, ShutdownChan, TimeoutChan} = {}"
  shows "keeps running_messages D Q R (server_Start env k)"
proof -
  have "keeps running_messages D Q R (server_await k)"
    using assms(1,3) by (auto simp: server_await_def)
  then have "keeps running_messages D Q R (server_start_api env k)"
    using assms keeps_report by (auto simp: server_start_api_def api_New_def keeps_api_Start)
  then have "keeps running_messages D Q R (server_start_nomad env k)"
    using assms(1) keeps_report by (auto simp: server_start_nomad_def nomad_New_def keeps_nomad_Start)
  then have "keeps running_messages D Q R (server_start_kubernetes env k)"
    using assms(2) keeps_report by (auto simp: server_start_kubernetes_def keeps_kubernetes_Start)
  with assms(1,3) show ?thesis
    by (auto simp: server_Start_def metrics_StartServer_def)
qed

lemma keeps_start_goroutine:
  assumes "1 \<in> Q" and "D \<inter> {ApiErrChan, DoneChan, MetricsErrChan, ApiErrorChan, KubernetesErrorChan, NomadErrorChan, ShutdownChan, TimeoutChan} = {}"
  shows "keeps running_messages D Q (\<lambda>_. False) (start_goroutine env)"
  unfolding start_goroutine_def using assms by (intro keeps_server_Start) (auto)

subsection \<open>A shutdown meets the start\<close>

text \<open>
  \<open>responsive\<close>: the goroutine goes on by itself until it takes the shutdown message or ends
  the process; it neither returns before, nor waits for anything but a timer.
\<close>

primrec responsive :: "prog_of \<Rightarrow> bool" where
  "responsive (Finish r) = False"
| "responsive (Quit n) = True"
| "responsive (Assign f k) = responsive k"
| "responsive (Look k) = (\<forall>s. responsive (k s))"
| "responsive (Invoke a k) = (\<forall>e. responsive (k e))"
| "responsive (Spawn p k) = responsive k"
| "responsive (Send c v k) = False"
| "responsive (Select cs k) =
     ((ShutdownChan \<in> set cs \<or> TimeoutChan \<in> set cs) \<and>
      (\<forall>c v. c \<in> set cs \<and> c \<noteq> ShutdownChan \<and> running_messages c v \<longrightarrow> responsive (k c v)))"

text \<open>\<open>pending\<close>: it waits for the signal, and sends the shutdown message last of all.\<close>

primrec pending :: "prog_of \<Rightarrow> bool" where
  "pending (Finish r) = False"
| "pending (Quit n) = True"
| "pending (Assign f k) = pending k"
| "pending (Look k) = (\<forall>s. pending (k s))"
| "pending (Invoke a k) = (\<forall>e. pending (k e))"
| "pending (Spawn p k) = False"
| "pending (Send c v k) = (c = ShutdownChan \<and> k = Quit 0)"
| "pending (Select cs k) = (cs = [SignalChan] \<and> (\<forall>v. pending (k SignalChan v)))"

text \<open>\<open>starting\<close>: it will start the goroutine of \<open>Start\<close> and nothing before.\<close>

primrec starting :: "environ \<Rightarrow> prog_of \<Rightarrow> bool" where
  "starting env (Finish r) = False"
| "starting env (Quit n) = True"
| "starting env (Assign f k) = starting env k"
| "starting env (Look k) = (\<forall>s. starting env (k s))"
| "starting env (Invoke a k) = (\<forall>e. starting env (k e))"
| "starting env (Spawn p k) = (p = start_goroutine env \<and> k = main_await)"
| "starting env (Send c v k) = False"
| "starting env (Select cs k) = False"

lemma responsive_on_error [simp]:
  "responsive (on_error f k e) \<longleftrightarrow> (\<forall>x. e = Some x \<longrightarrow> responsive (f x)) \<and> (e = None \<longrightarrow> responsive k)"
  by (cases e) simp_all

lemma pending_on_error [simp]:
  "pending (on_error f k e) \<longleftrightarrow> (\<forall>x. e = Some x \<longrightarrow> pending (f x)) \<and> (e = None \<longrightarrow> pending k)"
  by (cases e) simp_all

lemma starting_on_error [simp]:
  "starting env (on_error f k e) \<longleftrightarrow> (\<forall>x. e = Some x \<longrightarrow> starting env (f x)) \<and> (e = None \<longrightarrow> starting env k)"
  by (cases e) simp_all

lemma responsive_start_goroutine: "responsive (start_goroutine env)"
proof -
  let ?k = "on_error (\<lambda>x. Quit 1) (Finish None)"
  have "responsive (server_await ?k)"
    by (auto simp: server_await_def elim: running_messages.elims)
  then have "responsive (server_start_api env ?k)" by (simp add: server_start_api_def api_New_def)
  then have "responsive (server_start_nomad env ?k)" by (simp add: server_start_nomad_def nomad_New_def)
  then have "responsive (server_start_kubernetes env ?k)" by (simp add: server_start_kubernetes_def)
  then show ?thesis by (simp add: start_goroutine_def server_Start_def metrics_StartServer_def)
qed

lemma pending_main_await: "pending main_await"
proof -
  let ?k = "\<lambda>_ :: go_error option. Quit 0 :: prog_of"
  have "pending (shutdown_nomad ?k)"
    by (simp add: shutdown_nomad_def nomad_Stop_def shutdown_signal_def)
  then have "pending (shutdown_controllers ?k)" by (simp add: shutdown_controllers_def kubernetes_Stop_def)
  then have m: "pending (shutdown_metrics ?k)" by (simp add: shutdown_metrics_def metrics_StopServer_def)
  have f: "pending (api_close_files a b k)" if "\<And>e. pending (k e)" for a b k
    using that by (simp add: api_close_files_def Let_def split: option.split)
  then have s: "pending (api_stop_servers a b k)" if "\<And>e. pending (k e)" for a b k
    using that by (simp add: api_stop_servers_def Let_def)
  have "pending (api_Shutdown k)" if "\<And>e. pending (k e)" for k
    using that s [OF that] by (simp add: api_Shutdown_def Let_def split: option.split)
  with m show ?thesis by (simp add: main_await_def server_Shutdown_def)
qed

lemma starting_main: "starting env (main_prog env)"
  by (simp add: main_prog_def server_New_def NewMetrics_def)

text \<open>The phases of the process, up to the passing of the shutdown message.\<close>

definition shutting :: "environ \<Rightarrow> prog_of list \<Rightarrow> bool" where
  "shutting env ps \<longleftrightarrow>
     ps = [] \<or> (\<exists>p. ps = [p] \<and> starting env p) \<or> ps ! 0 = Quit 0 \<or>
     (2 \<le> length ps \<and> pending (ps ! 0) \<and> responsive (ps ! 1) \<and>
      (\<forall>i < length ps. 0 < i \<longrightarrow> keeps running_messages {SignalChan} UNIV (\<lambda>_. True) (ps ! i)))"

abbreviation settled :: "prog_of \<Rightarrow> bool" where
  "settled \<equiv> keeps running_messages {SignalChan} UNIV (\<lambda>_. True)"

lemma shuttingI:
  "2 \<le> length ps \<Longrightarrow> pending (ps ! 0) \<Longrightarrow> responsive (ps ! 1) \<Longrightarrow>
   (\<And>i. i < length ps \<Longrightarrow> 0 < i \<Longrightarrow> settled (ps ! i)) \<Longrightarrow> shutting env ps"
  by (simp add: shutting_def)

lemma update_shutting:
  "2 \<le> length ps \<Longrightarrow> pending (ps ! 0) \<Longrightarrow> responsive (ps ! 1) \<Longrightarrow> \<forall>j < length ps. 0 < j \<longrightarrow> settled (ps ! j) \<Longrightarrow>
   (i = 0 \<Longrightarrow> pending k) \<Longrightarrow> (i = 1 \<Longrightarrow> responsive k) \<Longrightarrow> (0 < i \<Longrightarrow> settled k) \<Longrightarrow> shutting env (ps[i := k])"
  by (cases "i < length ps") (auto intro!: shuttingI simp: nth_list_update)

lemma running_step:
  assumes "go_step outside_chans (ps, s) l (ps', s')" and "2 \<le> length ps" "pending (ps ! 0)" "responsive (ps ! 1)"
    and o: "\<And>i. i < length ps \<Longrightarrow> 0 < i \<Longrightarrow> settled (ps ! i)"
  shows "shutting env ps'"
  using assms(1)
proof cases
  case (meet i j c v p cs k)
  show ?thesis
  proof (cases "i = 0")
    case True
    with assms(3) meet show ?thesis by (auto simp: shutting_def)
  next
    case i: False
    with o [of i] meet have v: "running_messages c v" "settled p" by auto
    then have c: "c \<noteq> SignalChan" "c \<noteq> ShutdownChan" by auto
    have j: "j \<noteq> 0"
    proof
      assume "j = 0"
      with assms(3) meet have "cs = [SignalChan]" by simp
      with meet c show False by simp
    qed
    with o [of j] meet v have "settled (k c v)" by auto
    moreover have "i \<noteq> 1" "j = 1 \<Longrightarrow> responsive (k c v)" using assms(4) meet v c by auto
    ultimately show ?thesis using assms o meet i j v
      by (cases "i < length ps") (auto intro!: shuttingI simp: nth_list_update)
  qed
next
  case (outside j cs k c v)
  show ?thesis
  proof (cases "j = 0")
    case True
    with assms outside show ?thesis by (cases "i < length ps") (auto intro!: shuttingI simp: nth_list_update)
  next
    case j: False
    with o [of j] outside have "c = TimeoutChan" "settled (k c v)" by auto
    with j assms o outside show ?thesis by (cases "i < length ps") (auto intro!: shuttingI simp: nth_list_update)
  qed
next
  case (spawn i p k)
  with assms(3) have "i \<noteq> 0" by (cases "i = 0") auto
  with o [of i] spawn have "settled p" "settled k" by auto
  with assms o spawn \<open>i \<noteq> 0\<close> show ?thesis by (intro shuttingI) (auto simp: nth_list_update nth_append)
next
  case (invoke i a k e)
  with assms o [of i] show ?thesis by (auto intro!: update_shutting)
next
  case (look i k)
  with assms o [of i] show ?thesis by (auto intro!: update_shutting)
next
  case (assign i f k)
  with assms o [of i] show ?thesis by (auto intro!: update_shutting)
qed (simp add: shutting_def)

lemma all_less_two: "(\<forall>i < Suc (Suc 0). P i) \<longleftrightarrow> P 0 \<and> P 1"
  by (auto simp: less_Suc_eq)

lemma starting_step:
  assumes "go_step outside_chans ([p], s) l (ps', s')" and "starting env p"
  shows "shutting env ps'"
  using assms(1)
proof cases
  case (spawn i q k)
  with assms(2) have "ps' = [main_await, start_goroutine env]" by simp
  moreover have "settled (start_goroutine env)"
    by (rule keeps_mono [OF keeps_start_goroutine]) simp_all
  ultimately show ?thesis
    using pending_main_await responsive_start_goroutine [of env] by (simp add: shutting_def all_less_two)
qed (use assms(2) in \<open>auto simp: shutting_def\<close>)

lemma shutting_step:
  assumes "go_step outside_chans (ps, s) l (ps', s')" and "shutting env ps"
  shows "shutting env ps'"
proof -
  consider "ps = []" | p where "ps = [p]" "starting env p" | "ps \<noteq> []" "ps ! 0 = Quit 0"
    | "2 \<le> length ps" "pending (ps ! 0)" "responsive (ps ! 1)" "\<And>i. i < length ps \<Longrightarrow> 0 < i \<Longrightarrow> settled (ps ! i)"
    using assms(2) by (auto simp: shutting_def)
  then show ?thesis
  proof cases
    case 3
    with quit_stays [OF assms(1), of 0] show ?thesis by (auto simp: shutting_def)
  qed (use assms(1) starting_step running_step in \<open>auto elim: go_step.cases\<close>)
qed

text \<open>From a waiting shutdown, the steps of the goroutine of \<open>Start\<close> lead to the message.\<close>

fun by_start :: "(chan, sysop) go_label \<Rightarrow> bool" where
  "by_start (GLocal i) = (i = 1)"
| "by_start (GInvoke i a e) = (i = 1)"
| "by_start (GMeet i j c v) = (i = 0 \<and> j = 1 \<and> c = ShutdownChan)"
| "by_start (GOutside j c v) = (j = 1 \<and> c = TimeoutChan)"
| "by_start (GExit n) = True"

definition passes :: "(chan, wiring, sysop) process \<Rightarrow> bool" where
  "passes c \<longleftrightarrow> (\<exists>ls c'. list_all by_start ls \<and> go_run outside_chans ls c = Some c' \<and> (fst c' = [] \<or> fst c' ! 0 = Quit 0))"

lemma passes_done: "fst c = [] \<or> fst c ! 0 = Quit 0 \<Longrightarrow> passes c"
  unfolding passes_def by (rule exI [of _ "[]"]) simp

lemma passes_step: "by_start l \<Longrightarrow> go_do outside_chans l c = Some c1 \<Longrightarrow> passes c1 \<Longrightarrow> passes c"
  unfolding passes_def by (elim exE conjE, rule_tac x = "l # ls" in exI, rule_tac x = c' in exI) simp

lemma responsive_passes:
  assumes "responsive p" and "2 \<le> length ps" and "ps ! 1 = p" and "ps ! 0 = Send ShutdownChan v (Quit 0)"
  shows "passes (ps, s)"
  using assms
proof (induction p arbitrary: ps s)
  case (Quit n)
  then have "Quit n \<in> set ps" using nth_mem [of 1 ps] by simp
  then show ?case by - (rule passes_step [of "GExit n" _ "([], s)"], simp_all add: passes_done)
next
  case (Assign f k)
  then have "passes (ps[1 := k], f s)" by simp
  with Assign.prems show ?case by - (rule passes_step [of "GLocal 1" _ "(ps[1 := k], f s)"], simp_all)
next
  case (Look k)
  then have "passes (ps[1 := k s], s)" using Look.IH [of "k s"] by simp
  with Look.prems show ?case by - (rule passes_step [of "GLocal 1" _ "(ps[1 := k s], s)"], simp_all)
next
  case (Spawn q k)
  then have "(ps[1 := k] @ [q]) ! 1 = k" "(ps[1 := k] @ [q]) ! 0 = Send ShutdownChan v (Quit 0)"
    by (auto simp: nth_append)
  with Spawn have "passes (ps[1 := k] @ [q], s)" by simp
  with Spawn.prems show ?case by - (rule passes_step [of "GLocal 1" _ "(ps[1 := k] @ [q], s)"], simp_all)
next
  case (Invoke a k)
  then have "passes (ps[1 := k None], s)" using Invoke.IH [of "k None"] by simp
  with Invoke.prems show ?case by - (rule passes_step [of "GInvoke 1 a None" _ "(ps[1 := k None], s)"], simp_all)
next
  case (Select cs k)
  show ?case
  proof (cases "ShutdownChan \<in> set cs")
    case True
    from Select.prems(2) have "ps \<noteq> []" "1 < length ps" by auto
    moreover from this have "passes (ps[0 := Quit 0, 1 := k ShutdownChan v], s)" by (simp add: passes_done)
    ultimately show ?thesis using True Select.prems
      by - (rule passes_step [of "GMeet 0 1 ShutdownChan v" _ "(ps[0 := Quit 0, 1 := k ShutdownChan v], s)"], simp_all)
  next
    case False
    with Select.prems have "TimeoutChan \<in> set cs" "responsive (k TimeoutChan None)" by auto
    moreover from this Select.prems have "passes (ps[1 := k TimeoutChan None], s)"
      using Select.IH [of "k TimeoutChan" "k TimeoutChan None"] by simp
    ultimately show ?thesis
      using Select.prems by - (rule passes_step [of "GOutside 1 TimeoutChan None" _ "(ps[1 := k TimeoutChan None], s)"], simp_all)
  qed
qed simp_all

lemma shutting_reach:
  "go_reach outside_chans S ([main_prog env], s0) (ps, s) \<Longrightarrow> shutting env ps"
proof (induction "(ps, s)" arbitrary: ps s rule: go_reach.induct)
  case go_start
  then show ?case using starting_main by (simp add: shutting_def)
next
  case (go_next x l)
  then show ?case by (cases x) (auto intro: shutting_step)
qed

subsection \<open>The one that waits for the errors of the API server\<close>

lemma deaf_report [simp]: "deaf c (report d e)"
  by (simp add: report_def)

lemma deaf_api_serve [simp]: "deaf c (api_serve srv l msg)"
  by (simp add: api_serve_def)

lemma one_receiver_on_error [simp]:
  "one_receiver c (on_error f k e) \<longleftrightarrow> (\<forall>x. e = Some x \<longrightarrow> one_receiver c (f x)) \<and> (e = None \<longrightarrow> one_receiver c k)"
  by (cases e) simp_all

lemma one_receiver_api_Start: "one_receiver ApiErrChan (api_Start c (report d))"
proof -
  have r: "one_receiver ApiErrChan (report d e)" for e by (rule deaf_one_receiver) simp
  then have "one_receiver ApiErrChan (api_await (report d))" by (simp add: api_await_def)
  with r show ?thesis
    by (simp add: api_Start_def api_start_http_def api_serve_http_def Let_def)
qed

text \<open>The server itself does not select on the channel of the API server.\<close>

lemma deaf_server_await: "(\<And>e. deaf ApiErrChan (k e)) \<Longrightarrow> deaf ApiErrChan (server_await k)"
  by (simp add: server_await_def)

lemma one_receiver_main: "one_receiver ApiErrChan (main_prog env)"
proof -
  let ?k = "on_error (\<lambda>x. Quit 1) (Finish None)"
  have "deaf ApiErrChan (server_await ?k)" by (rule deaf_server_await) simp
  then have "one_receiver ApiErrChan (server_start_api env ?k)"
    by (simp add: server_start_api_def api_New_def one_receiver_api_Start)
  then have "one_receiver ApiErrChan (server_start_nomad env ?k)"
    by (simp add: server_start_nomad_def nomad_New_def nomad_Start_prog_def)
  then have "one_receiver ApiErrChan (server_start_kubernetes env ?k)"
    by (simp add: server_start_kubernetes_def kubernetes_Start_def SetupWithManager_def)
  then have s: "one_receiver ApiErrChan (start_goroutine env)"
    by (simp add: start_goroutine_def server_Start_def metrics_StartServer_def)
  have "deaf ApiErrChan (shutdown_metrics (\<lambda>_. Quit 0))"
    by (simp add: shutdown_metrics_def metrics_StopServer_def shutdown_controllers_def kubernetes_Stop_def
      shutdown_nomad_def nomad_Stop_def shutdown_signal_def)
  moreover have f: "deaf ApiErrChan (api_close_files a b k)" if "\<And>e. deaf ApiErrChan (k e)" for a b k
    using that by (simp add: api_close_files_def Let_def split: option.split)
  have t: "deaf ApiErrChan (api_stop_servers a b k)" if "\<And>e. deaf ApiErrChan (k e)" for a b k
    using that f [OF that] by (simp add: api_stop_servers_def Let_def)
  have "deaf ApiErrChan (api_Shutdown k)" if "\<And>e. deaf ApiErrChan (k e)" for k
    using that t [OF that] by (simp add: api_Shutdown_def Let_def split: option.split)
  ultimately have "deaf ApiErrChan main_await"
    by (simp add: main_await_def server_Shutdown_def)
  with s show ?thesis by (simp add: main_prog_def server_New_def NewMetrics_def)
qed

lemma main_sole_receiver:
  "go_reach ext S ([main_prog env], s0) (ps, s) \<Longrightarrow> sole_receiver ApiErrChan ps"
  by (erule sole_receiver_reach) (simp add: sole_receiver_def one_receiver_main)

subsection \<open>A goroutine alone, up to its first message\<close>

text \<open>The calls it makes, where it stops, and the shared fields then; \<open>rep\<close> answers the calls.\<close>

primrec alone :: "('a \<Rightarrow> go_error option) \<Rightarrow> ('c, 's, 'a) gopro \<Rightarrow> 's \<Rightarrow> 'a list \<times> ('c, 's, 'a) gopro \<times> 's" where
  "alone rep (Finish r) s = ([], Finish r, s)"
| "alone rep (Quit n) s = ([], Quit n, s)"
| "alone rep (Assign f k) s = alone rep k (f s)"
| "alone rep (Look k) s = alone rep (k s) s"
| "alone rep (Invoke a k) s = (case alone rep (k (rep a)) s of (as, p, t) \<Rightarrow> (a # as, p, t))"
| "alone rep (Spawn p k) s = ([], Spawn p k, s)"
| "alone rep (Send c v k) s = ([], Send c v k, s)"
| "alone rep (Select cs k) s = ([], Select cs k, s)"

text \<open>What was started is stopped: the fields, and the call that stops each part.\<close>

definition to_stop :: "wiring \<Rightarrow> sysop list" where
  "to_stop s =
     (if wi_api s then
        (case wi_https_listener s of Some l \<Rightarrow> [ListenerFile l] | None \<Rightarrow> []) @
        (case wi_http_listener s of Some l \<Rightarrow> [ListenerFile l] | None \<Rightarrow> []) @
        (if wi_https_server s then [ServerShutdown HttpsServer] else []) @
        (if wi_http_server s then [ServerShutdown HttpServer] else []) @
        (case wi_http_listener s of
           Some l \<Rightarrow> [CloseFile l]
         | None \<Rightarrow> case wi_https_listener s of Some l \<Rightarrow> [CloseFile l] | None \<Rightarrow> [])
      else []) @
     (if wi_metrics_server s then [ServerShutdown MetricsServer] else []) @
     (if wi_kubernetes s then [ManagerCancel] else []) @ (if wi_nomad s then [NomadCancel] else [])"

lemma alone_shutdown_nomad:
  "alone rep (shutdown_nomad k) s = (cs, Send c v p, t) \<Longrightarrow>
   cs = (if wi_nomad s then [NomadCancel] else []) \<and> c = ShutdownChan \<and> t = s"
  by (auto simp: shutdown_nomad_def nomad_Stop_def shutdown_signal_def split: if_splits)

lemma alone_shutdown_metrics:
  assumes "alone rep (shutdown_metrics (\<lambda>_. Quit 0)) s = (cs, Send c v p, t)"
  shows "cs = (if wi_metrics_server s then [ServerShutdown MetricsServer] else []) @
     (if wi_kubernetes s then [ManagerCancel] else []) @ (if wi_nomad s then [NomadCancel] else []) \<and> c = ShutdownChan \<and> t = s"
  using assms alone_shutdown_nomad [of rep "\<lambda>_. Quit 0" s]
  by (cases "rep (ServerShutdown MetricsServer)")
    (auto simp: shutdown_metrics_def metrics_StopServer_def shutdown_controllers_def kubernetes_Stop_def
      split: if_splits prod.splits)

lemma alone_on_error:
  "alone rep (on_error f k e) s = (case e of Some x \<Rightarrow> alone rep (f x) s | None \<Rightarrow> alone rep k s)"
  by (cases e) simp_all

text \<open>A process to look at: everything but the HTTP address has its default.\<close>

definition demo_environ :: environ where
  "demo_environ = (\<lambda>name. if name = ''HTTP_API_BIND_ADDRESS'' then ''127.0.0.1'' else '''')"

definition demo_wiring :: wiring where
  "demo_wiring = no_wiring\<lparr>wi_global_metrics := True\<rparr>"

lemma demo_settings [simp]:
  "EnableKubernetes demo_environ = False" "EnableNomad demo_environ = False" "HTTPAPIBindAddress demo_environ = ''127.0.0.1''"
  by (simp_all add: EnableKubernetes_def EnableNomad_def env_bool_def HTTPAPIBindAddress_def env_text_def demo_environ_def)

text \<open>\<open>main\<close> up to the start of the goroutine.\<close>

definition main_labels :: "(chan, sysop) go_label list" where
  "main_labels = [GLocal 0, GLocal 0]"

lemma main_runs:
  "go_run outside_chans main_labels ([main_prog env], demo_wiring) = Some ([main_await, start_goroutine env], demo_wiring)"
  by (simp add: main_labels_def main_prog_def server_New_def NewMetrics_def demo_wiring_def)

subsection \<open>Properties\<close>



text \<open>
  C23: A shutdown is not left waiting: whenever it comes to send its last message, in
  whatever state the rest of the process is, the goroutine of \<open>Start\<close> alone can still be
  run, without a message from another part, to the point where it takes the message, or
  has failed and ends the process.
\<close>

theorem shutdown_gets_through:
  assumes "go_reach outside_chans (\<lambda>_ _. True) ([main_prog env], s0) (ps, s)"
    and "ps \<noteq> []" and "ps ! 0 = Send c v k"
  shows "c = ShutdownChan \<and> (\<exists>ls c'. list_all by_start ls \<and> go_run outside_chans ls (ps, s) = Some c' \<and>
    (fst c' = [] \<or> fst c' ! 0 = Quit 0))"
proof -
  from shutting_reach [OF assms(1)] assms(2,3) have p: "2 \<le> length ps" "pending (ps ! 0)" "responsive (ps ! 1)"
    by (auto simp: shutting_def)
  with assms(3) have c: "c = ShutdownChan" "k = Quit 0" by simp_all
  with responsive_passes [OF p(3,1) refl, of v s] assms(3) show ?thesis by (simp add: passes_def)
qed

theorem shutdown_gets_through_witness:
  "\<exists>ps s. go_reach outside_chans (\<lambda>_ _. True) ([main_prog demo_environ], demo_wiring) (ps, s) \<and>
     ps = [Send ShutdownChan None (Quit 0), start_goroutine demo_environ] \<and>
     (\<exists>ls c'. list_all by_start ls \<and> go_run outside_chans ls (ps, s) = Some c' \<and> (fst c' = [] \<or> fst c' ! 0 = Quit 0))"
proof -
  let ?ls = "GOutside 0 SignalChan None # replicate 4 (GLocal 0) :: (chan, sysop) go_label list"
  let ?ps = "[Send ShutdownChan None (Quit 0), start_goroutine demo_environ] :: prog_of list"
  have "go_run outside_chans ?ls ([main_await, start_goroutine demo_environ], demo_wiring) = Some (?ps, demo_wiring)"
    by (simp add: main_await_def server_Shutdown_def shutdown_metrics_def metrics_StopServer_def shutdown_controllers_def
      shutdown_nomad_def shutdown_signal_def demo_wiring_def no_wiring_def numeral_eq_Suc)
  from go_reach_trans [OF go_run_reach [OF this] go_run_reach [OF main_runs]]
  have r: "go_reach outside_chans (\<lambda>_ _. True) ([main_prog demo_environ], demo_wiring) (?ps, demo_wiring)"
    by (simp add: main_labels_def numeral_eq_Suc)
  from shutdown_gets_through [OF r] r show ?thesis by auto
qed

text \<open>
  C25: When the plain HTTP address cannot be listened on, the API server hangs: its
  goroutine sends the error on the channel only it reads, so it neither serves HTTP nor
  returns the error, as long as the process lives.
\<close>

theorem failed_http_listen_hangs:
  assumes "go_reach outside_chans S ([main_prog env], s0) (ps, s)"
    and "i < length ps" and "ps ! i = api_start_http (api_config env) k" and "HTTPAPIBindAddress env \<noteq> ''''"
    and "go_step outside_chans (ps, s) (GInvoke i a (Some x)) (ps1, s1)"
    and "go_reach outside_chans S (ps1, s1) (ps', s')" and "ps' \<noteq> []"
  shows "ps' ! i = Send ApiErrChan (Some (wrap_err ''unable to create TCP listener: '' x)) (api_serve_http None k)"
proof -
  let ?p = "Send ApiErrChan (Some (wrap_err ''unable to create TCP listener: '' x)) (api_serve_http None k)"
  from assms(5) assms(2-4) have ps1: "ps1 = ps[i := ?p]"
    by cases (simp add: api_start_http_def api_config_def Let_def)
  have "\<not> deaf ApiErrChan (ps1 ! i)" using assms(2) by (auto simp: ps1 api_serve_http_def api_await_def)
  moreover have "sole_receiver ApiErrChan ps1"
    using sole_receiver_step [OF assms(5)] main_sole_receiver [OF assms(1)] by blast
  ultimately have "deaf ApiErrChan (ps1 ! j)" if "j < length ps1" "j \<noteq> i" for j
    using sole_receiver_others that assms(2) ps1 by (metis length_list_update)
  from self_send_stuck [OF assms(6) _ _ this assms(7)] assms(2) ps1 show ?thesis by auto
qed

theorem failed_http_listen_hangs_witness:
  "\<exists>ps s x. go_reach outside_chans (\<lambda>_ _. True) ([main_prog demo_environ], demo_wiring) (ps, s) \<and>
     (\<forall>ps' s'. go_reach outside_chans (\<lambda>_ _. True) (ps, s) (ps', s') \<longrightarrow> ps' \<noteq> [] \<longrightarrow>
       ps' ! 3 = Send ApiErrChan (Some x) (api_serve_http None (report ApiErrorChan)))"
proof -
  let ?c = "api_config demo_environ" and ?k = "on_error (\<lambda>x. Quit 1) (Finish None) :: cont"
  let ?start = "[GLocal 1, GLocal 1, GOutside 1 TimeoutChan None, GInvoke 1 ServiceStarting None, GInvoke 1 NewStorage None,
      GInvoke 1 RehydrateReleases None, GInvoke 1 (LoadX509KeyPair (sc_tls_cert ?c) (sc_tls_key ?c)) None, GLocal 1, GLocal 1]
      :: (chan, sysop) go_label list"
  let ?api = "[GInvoke 3 (NetListen (host_port (sc_tls_address ?c) (sc_tls_port ?c))) None, GLocal 3, GLocal 3, GLocal 3]
      :: (chan, sysop) go_label list"
  have "\<exists>m s. go_run outside_chans ?start ([main_await, start_goroutine demo_environ], demo_wiring) =
      Some ([main_await, server_await ?k, m, api_Start ?c (report ApiErrorChan)], s)"
    by (simp add: start_goroutine_def server_Start_def metrics_StartServer_def server_start_kubernetes_def
      server_start_nomad_def server_start_api_def api_New_def)
  then obtain m s where start: "go_run outside_chans ?start ([main_await, start_goroutine demo_environ], demo_wiring) =
      Some ([main_await, server_await ?k, m, api_Start ?c (report ApiErrorChan)], s)" by blast
  have "\<exists>p s'. go_run outside_chans ?api ([main_await, server_await ?k, m, api_Start ?c (report ApiErrorChan)], s) =
      Some ([main_await, server_await ?k, m, api_start_http ?c (report ApiErrorChan), p], s')"
    by (simp add: api_Start_def api_config_def Let_def numeral_eq_Suc)
  then obtain p s' where api: "go_run outside_chans ?api ([main_await, server_await ?k, m, api_Start ?c (report ApiErrorChan)], s) =
      Some ([main_await, server_await ?k, m, api_start_http ?c (report ApiErrorChan), p], s')" by blast
  let ?ps = "[main_await, server_await ?k, m, api_start_http ?c (report ApiErrorChan), p]"
  have r: "go_reach outside_chans (\<lambda>_ _. True) ([main_prog demo_environ], demo_wiring) (?ps, s')"
    by (rule go_reach_trans [OF go_run_reach [OF api] go_reach_trans [OF go_run_reach [OF start] go_run_reach [OF main_runs]]])
      (simp_all add: main_labels_def)
  let ?a = "NetListen (host_port (sc_http_address ?c) (sc_http_port ?c))" and ?x = "GoErr ''address already in use''"
  have "\<exists>ps1. go_step outside_chans (?ps, s') (GInvoke 3 ?a (Some ?x)) (ps1, s')"
    by (simp add: go_do_step api_start_http_def api_config_def Let_def numeral_eq_Suc)
  then obtain ps1 where st: "go_step outside_chans (?ps, s') (GInvoke 3 ?a (Some ?x)) (ps1, s')" by blast
  have "go_reach outside_chans (\<lambda>_ _. True) ([main_prog demo_environ], demo_wiring) (ps1, s')"
    by (rule go_next [OF r _ st]) simp
  moreover have "ps' ! 3 = Send ApiErrChan (Some (wrap_err ''unable to create TCP listener: '' ?x)) (api_serve_http None (report ApiErrorChan))"
    if "go_reach outside_chans (\<lambda>_ _. True) (ps1, s') (ps', t)" "ps' \<noteq> []" for ps' t
    by (rule failed_http_listen_hangs [OF r _ _ _ st that]) (simp_all add: numeral_eq_Suc)
  ultimately show ?thesis by blast
qed

text \<open>
  A shutdown that gets to its message has stopped every part that was started, in
  order, and no other; but of the two files it duplicates from the listeners only one is
  closed: with both listeners there, that of HTTPS stays open.
\<close>

theorem shutdown_stops_parts:
  assumes "alone rep (server_Shutdown (\<lambda>_. Quit 0)) s = (cs, Send c v k, t)"
  shows "cs = to_stop s \<and>
    (wi_api s \<and> wi_https_listener s = Some l \<and> wi_http_listener s = Some m \<and> l \<noteq> m \<longrightarrow>
      ListenerFile l \<in> set cs \<and> CloseFile l \<notin> set cs)"
proof -
  have "cs = to_stop s"
    using assms alone_shutdown_metrics [of rep s]
    by (auto simp: server_Shutdown_def api_Shutdown_def api_stop_servers_def api_close_files_def Let_def to_stop_def alone_on_error
      split: if_splits option.splits prod.splits)
  then show ?thesis by (auto simp: to_stop_def split: if_splits)
qed

theorem shutdown_stops_parts_witness:
  "\<exists>cs v k. alone (\<lambda>_. None) (server_Shutdown (\<lambda>_. Quit 0))
       (demo_wiring\<lparr>wi_api := True, wi_https_listener := Some ''0.0.0.0:9443'', wi_http_listener := Some ''0.0.0.0:8080''\<rparr>) =
     (cs, Send ShutdownChan v k, demo_wiring\<lparr>wi_api := True, wi_https_listener := Some ''0.0.0.0:9443'', wi_http_listener := Some ''0.0.0.0:8080''\<rparr>) \<and>
     CloseFile ''0.0.0.0:9443'' \<notin> set cs"
proof -
  let ?s = "demo_wiring\<lparr>wi_api := True, wi_https_listener := Some ''0.0.0.0:9443'', wi_http_listener := Some ''0.0.0.0:8080''\<rparr>"
  have "\<exists>cs v k. alone (\<lambda>_. None) (server_Shutdown (\<lambda>_. Quit 0)) ?s = (cs, Send ShutdownChan v k, ?s)"
    by (simp add: server_Shutdown_def api_Shutdown_def api_stop_servers_def api_close_files_def Let_def shutdown_metrics_def
      metrics_StopServer_def shutdown_controllers_def shutdown_nomad_def shutdown_signal_def demo_wiring_def no_wiring_def)
  then obtain cs v k where a: "alone (\<lambda>_. None) (server_Shutdown (\<lambda>_. Quit 0)) ?s = (cs, Send ShutdownChan v k, ?s)" by blast
  from shutdown_stops_parts [OF a, of "''0.0.0.0:9443''" "''0.0.0.0:8080''"] a show ?thesis by (auto simp: demo_wiring_def)
qed

end
