(* ===== verification/Routes.thy ===== *)
theory Routes
  imports ReleaseApi
begin

text \<open>
  The requests of the HTTP API: the routes that \<open>New\<close> of \<open>pkg/api/server.go\<close> registers with
  the router, and the handlers behind them (\<open>pkg/api/handlers\<close>). The router is the \<open>chi\<close>
  library, a parameter.
\<close>

subsection \<open>Patterns\<close>

fun split_slash :: "string \<Rightarrow> string list" where
  "split_slash [] = ['''']"
| "split_slash (c # s) =
     (if c = CHR ''/'' then '''' # split_slash s
      else case split_slash s of e # es \<Rightarrow> (c # e) # es | [] \<Rightarrow> [[c]])"

text \<open>A placeholder in braces takes a segment that is not empty; anything else is itself.\<close>

definition match_segment :: "string \<Rightarrow> string \<Rightarrow> (string \<times> string) list option" where
  "match_segment pat seg =
     (if has_prefix pat ''{'' \<and> has_suffix pat ''}'' then
        if seg = '''' then None else Some [(butlast (tl pat), seg)]
      else if pat = seg then Some [] else None)"

fun match_segments :: "string list \<Rightarrow> string list \<Rightarrow> (string \<times> string) list option" where
  "match_segments [] [] = Some []"
| "match_segments (p # ps) (s # ss) =
     (case (match_segment p s, match_segments ps ss) of (Some xs, Some ys) \<Rightarrow> Some (xs @ ys) | _ \<Rightarrow> None)"
| "match_segments _ _ = None"

definition pattern_match :: "string \<Rightarrow> string \<Rightarrow> (string \<times> string) list option" where
  "pattern_match pat path = match_segments (split_slash pat) (split_slash path)"

subsection \<open>The router\<close>

datatype http_handler = HealthHandler | ReadyHandler | PostHandler | GetAllHandler | GetSingleHandler | DeleteHandler

type_synonym route = "string \<times> string \<times> http_handler"

type_synonym router = "route list \<Rightarrow> string \<Rightarrow> string \<Rightarrow> (http_handler \<times> (string \<times> string) list) option"

text \<open>
  A request goes to the one route of its method whose pattern its path matches, with the
  values of the placeholders; where there is none, the library answers it.
\<close>

definition chi_documented :: "router \<Rightarrow> bool" where
  "chi_documented chi \<longleftrightarrow>
     (\<forall>tbl verb path.
       (\<forall>pat h vs. (verb, pat, h) \<in> set tbl \<and> pattern_match pat path = Some vs \<and>
          (\<forall>(m, p, g) \<in> set tbl. m = verb \<and> pattern_match p path \<noteq> None \<longrightarrow> p = pat \<and> g = h) \<longrightarrow>
          chi tbl verb path = Some (h, vs)) \<and>
       ((\<forall>(m, p, g) \<in> set tbl. m = verb \<longrightarrow> pattern_match p path = None) \<longrightarrow> chi tbl verb path = None))"

fun reference_chi :: router where
  "reference_chi [] verb path = None"
| "reference_chi ((m, pat, h) # tbl) verb path =
     (if m = verb then
        case pattern_match pat path of Some vs \<Rightarrow> Some (h, vs) | None \<Rightarrow> reference_chi tbl verb path
      else reference_chi tbl verb path)"

lemma reference_chi_some:
  "(verb, pat, h) \<in> set tbl \<Longrightarrow> pattern_match pat path = Some vs \<Longrightarrow>
   \<forall>(m, p, g) \<in> set tbl. m = verb \<and> pattern_match p path \<noteq> None \<longrightarrow> p = pat \<and> g = h \<Longrightarrow>
   reference_chi tbl verb path = Some (h, vs)"
  by (induction tbl verb path rule: reference_chi.induct) (auto split: option.splits)

lemma reference_chi_none:
  "\<forall>(m, p, g) \<in> set tbl. m = verb \<longrightarrow> pattern_match p path = None \<Longrightarrow> reference_chi tbl verb path = None"
  by (induction tbl verb path rule: reference_chi.induct) auto

lemma reference_chi_documented: "chi_documented reference_chi"
  unfolding chi_documented_def
  by (intro allI conjI impI; (elim conjE)?) (rule reference_chi_some reference_chi_none; assumption)+

subsection \<open>The routes of the API\<close>

definition api_routes :: "route list" where
  "api_routes =
     [(''GET'', ''/v1/health'', HealthHandler), (''GET'', ''/v1/ready'', ReadyHandler),
      (''POST'', ''/v1/releases'', PostHandler), (''GET'', ''/v1/releases'', GetAllHandler),
      (''GET'', ''/v1/releases/{name}'', GetSingleHandler), (''DELETE'', ''/v1/releases/{name}'', DeleteHandler)]"

datatype ('h, 'w) api_answer = Plain string | Handled "('h, 'w) handled"

text \<open>\<open>chi.URLParam\<close>: the empty string where there is no such placeholder.\<close>

definition URLParam :: "(string \<times> string) list \<Rightarrow> string \<Rightarrow> string" where
  "URLParam vs name = (case map_of vs name of Some v \<Rightarrow> v | None \<Rightarrow> '''')"

definition health_Health :: string where "health_Health = ''OK''"

definition health_Ready :: string where "health_Ready = ''OK''"

definition api_request ::
    "('h, 'w) provider \<Rightarrow> (json \<Rightarrow> int) \<Rightarrow> router \<Rightarrow> string \<Rightarrow> string \<Rightarrow> bytes option \<Rightarrow> 'w \<Rightarrow> ('h, 'w) api_answer option" where
  "api_request P num chi verb path body w =
     (case chi api_routes verb path of
        None \<Rightarrow> None
      | Some (h, vs) \<Rightarrow>
          Some (case h of
              HealthHandler \<Rightarrow> Plain health_Health
            | ReadyHandler \<Rightarrow> Plain health_Ready
            | PostHandler \<Rightarrow> Handled (api_Post P body w)
            | GetAllHandler \<Rightarrow> Handled (api_GetAll P num w)
            | GetSingleHandler \<Rightarrow> Handled (api_GetSingle P (URLParam vs ''name'') w)
            | DeleteHandler \<Rightarrow> Handled (api_Delete P (URLParam vs ''name'') w)))"

subsection \<open>Which path matches which pattern\<close>

lemma split_slash_nonempty [simp]: "split_slash s \<noteq> []"
  by (induction s rule: split_slash.induct) (auto split: list.splits)

lemma split_slash_append: "split_slash (s @ CHR ''/'' # t) = split_slash s @ split_slash t"
  by (induction s rule: split_slash.induct) (auto split: list.splits)

lemma split_slash_plain: "CHR ''/'' \<notin> set s \<Longrightarrow> split_slash s = [s]"
  by (induction s rule: split_slash.induct) auto

lemma split_slash_member: "CHR ''/'' \<in> set s \<Longrightarrow> 2 \<le> length (split_slash s)"
proof -
  assume "CHR ''/'' \<in> set s"
  then obtain a b where "s = a @ CHR ''/'' # b" by (metis in_set_conv_decomp)
  moreover have "1 \<le> length (split_slash a)" "1 \<le> length (split_slash b)"
    by (cases "split_slash a"; simp)(cases "split_slash b"; simp)
  ultimately show ?thesis by (simp add: split_slash_append)
qed

lemma split_release_path: "split_slash (''/v1/releases/'' @ n) = ['''', ''v1'', ''releases''] @ split_slash n"
  using split_slash_append [of "''/v1/releases''" n] by simp

lemma match_segments_length: "match_segments ps ss = Some vs \<Longrightarrow> length ps = length ss"
  by (induction ps ss arbitrary: vs rule: match_segments.induct) (auto split: option.splits)

text \<open>The path of a release: only the patterns with a placeholder match it, and only if the name is one segment.\<close>

lemma match_release_path:
  "pattern_match ''/v1/health'' (''/v1/releases/'' @ n) = None"
  "pattern_match ''/v1/ready'' (''/v1/releases/'' @ n) = None"
  "pattern_match ''/v1/releases'' (''/v1/releases/'' @ n) = None"
  "n \<noteq> '''' \<Longrightarrow> CHR ''/'' \<notin> set n \<Longrightarrow> pattern_match ''/v1/releases/{name}'' (''/v1/releases/'' @ n) = Some [(''name'', n)]"
  "n = '''' \<or> CHR ''/'' \<in> set n \<Longrightarrow> pattern_match ''/v1/releases/{name}'' (''/v1/releases/'' @ n) = None"
proof -
  have l: "pattern_match p (''/v1/releases/'' @ n) = None" if "length (split_slash p) \<noteq> 3 + length (split_slash n)" for p
    using match_segments_length [of "split_slash p"] that unfolding pattern_match_def split_release_path
    by (cases "match_segments (split_slash p) (['''', ''v1'', ''releases''] @ split_slash n)") fastforce+
  have "length (split_slash n) \<noteq> 0" by simp
  then show "pattern_match ''/v1/health'' (''/v1/releases/'' @ n) = None" "pattern_match ''/v1/ready'' (''/v1/releases/'' @ n) = None"
    "pattern_match ''/v1/releases'' (''/v1/releases/'' @ n) = None"
    by (intro l; simp)+
  show "pattern_match ''/v1/releases/{name}'' (''/v1/releases/'' @ n) = Some [(''name'', n)]" if "n \<noteq> ''''" "CHR ''/'' \<notin> set n"
    unfolding pattern_match_def split_release_path
    using that by (simp add: split_slash_plain match_segment_def has_prefix_def has_suffix_def)
  show "pattern_match ''/v1/releases/{name}'' (''/v1/releases/'' @ n) = None" if "n = '''' \<or> CHR ''/'' \<in> set n"
  proof (cases "n = ''''")
    case True
    then show ?thesis unfolding pattern_match_def split_release_path
      by (simp add: match_segment_def has_prefix_def has_suffix_def)
  next
    case False
    with that split_slash_member [of n] show ?thesis by (intro l) simp
  qed
qed

lemma match_fixed_path:
  "pattern_match ''/v1/releases'' ''/v1/releases'' = Some []" "pattern_match ''/v1/health'' ''/v1/health'' = Some []"
  "pattern_match ''/v1/health'' ''/v1/releases'' = None" "pattern_match ''/v1/ready'' ''/v1/releases'' = None"
  "pattern_match ''/v1/releases/{name}'' ''/v1/releases'' = None"
  by (simp_all add: pattern_match_def match_segment_def has_prefix_def has_suffix_def)

subsection \<open>Properties\<close>

lemma chi_some:
  "chi_documented chi \<Longrightarrow> (verb, pat, h) \<in> set tbl \<Longrightarrow> pattern_match pat path = Some vs \<Longrightarrow>
   \<forall>(m, p, g) \<in> set tbl. m = verb \<and> pattern_match p path \<noteq> None \<longrightarrow> p = pat \<and> g = h \<Longrightarrow> chi tbl verb path = Some (h, vs)"
  unfolding chi_documented_def by blast

lemma chi_none:
  "chi_documented chi \<Longrightarrow> \<forall>(m, p, g) \<in> set tbl. m = verb \<longrightarrow> pattern_match p path = None \<Longrightarrow> chi tbl verb path = None"
  unfolding chi_documented_def by blast

text \<open>
  C37: Every request of the API gets to its handler: the collection is listed and posted to,
  and a release is read and deleted under its name. A release whose name is empty or has a
  slash in it can be posted, but no path leads to it.
\<close>

theorem api_dispatch:
  assumes "chi_documented chi"
  shows "api_request P num chi ''POST'' ''/v1/releases'' body w = Some (Handled (api_Post P body w)) \<and>
    api_request P num chi ''GET'' ''/v1/releases'' body w = Some (Handled (api_GetAll P num w)) \<and>
    (if n \<noteq> '''' \<and> CHR ''/'' \<notin> set n then
       api_request P num chi ''GET'' (''/v1/releases/'' @ n) body w = Some (Handled (api_GetSingle P n w)) \<and>
       api_request P num chi ''DELETE'' (''/v1/releases/'' @ n) body w = Some (Handled (api_Delete P n w))
     else \<forall>verb. api_request P num chi verb (''/v1/releases/'' @ n) body w = None)"
proof -
  note m = match_release_path [of n] match_fixed_path
  have "chi api_routes ''POST'' ''/v1/releases'' = Some (PostHandler, [])"
    "chi api_routes ''GET'' ''/v1/releases'' = Some (GetAllHandler, [])"
    by (rule chi_some [OF assms]; simp add: api_routes_def match_fixed_path)+
  moreover have "chi api_routes ''GET'' (''/v1/releases/'' @ n) = Some (GetSingleHandler, [(''name'', n)])"
    "chi api_routes ''DELETE'' (''/v1/releases/'' @ n) = Some (DeleteHandler, [(''name'', n)])"
    if "n \<noteq> '''' \<and> CHR ''/'' \<notin> set n"
    by (rule chi_some [OF assms]; use that m in \<open>simp add: api_routes_def del: append.simps\<close>)+
  moreover have "chi api_routes verb (''/v1/releases/'' @ n) = None" if "\<not> (n \<noteq> '''' \<and> CHR ''/'' \<notin> set n)" for verb
    by (rule chi_none [OF assms]) (use that m in \<open>simp add: api_routes_def del: append.simps\<close>)
  ultimately show ?thesis by (simp add: api_request_def URLParam_def del: append.simps)
qed

theorem api_dispatch_witness:
  "api_request demo_provider (\<lambda>_. 0) reference_chi ''DELETE'' ''/v1/releases/api'' None (demo_start []) =
    Some (Handled (api_Delete demo_provider ''api'' (demo_start [])))"
  using api_dispatch [OF reference_chi_documented, of demo_provider "\<lambda>_. 0" None "demo_start []" "''api''"] by simp

end
