(* ===== verification/Rollout.thy ===== *)
theory Rollout
  imports Interleaving Canary
begin

text \<open>
  A release from a request to rest: the machine with its goroutines and the strategy
  together. The strategy is the one of the contract \<open>strategy_contract\<close>; its state moves
  with every execution a goroutine makes of it. The number of steps is bounded by a
  potential: what the goroutines can still do, and what the state can still start.
\<close>

subsection \<open>Runs without requests\<close>

text \<open>
  A step of the machine by itself, with the state of the strategy: a goroutine that runs
  the strategy gets what an execution returns, in whatever world it takes place.
\<close>

fun reply_step ::
    "('p \<Rightarrow> 'w \<Rightarrow> (strategy_status \<times> int \<times> go_error option) \<times> 'p \<times> 'w) \<Rightarrow> 'p \<Rightarrow> label \<Rightarrow> 'p \<Rightarrow> bool" where
  "reply_step strat p (LAct (Some (OStrategy st t e))) p1 = (\<exists>w w1. strat p w = ((st, t, e), p1, w1))"
| "reply_step strat p (LApi ev) p1 = False"
| "reply_step strat p LResume p1 = False"
| "reply_step strat p l p1 = (p1 = p)"

inductive strategy_run ::
    "machine fsm_lib \<Rightarrow> ('p \<Rightarrow> 'w \<Rightarrow> (strategy_status \<times> int \<times> go_error option) \<times> 'p \<times> 'w) \<Rightarrow>
     config \<Rightarrow> 'p \<Rightarrow> label list \<Rightarrow> config \<Rightarrow> 'p \<Rightarrow> bool" for lib strat where
  run_end: "strategy_run lib strat c p [] c p"
| run_step: "sm_step lib c l c1 \<Longrightarrow> reply_step strat p l p1 \<Longrightarrow> strategy_run lib strat c1 p1 ls c2 p2 \<Longrightarrow>
    strategy_run lib strat c p (l # ls) c2 p2"

text \<open>The passing of time is not counted.\<close>

definition work :: "label \<Rightarrow> bool" where
  "work l \<longleftrightarrow> l \<noteq> LTick"

subsection \<open>What a goroutine can still do\<close>

definition internal_events :: "sm_event set" where
  "internal_events =
     {EventConfigured, EventDeployed, EventHealthy, EventScaled, EventComplete, EventPromoted, EventUnhealthy, EventFail}"

text \<open>
  \<open>cost p n h r\<close>: the goroutine performs at most \<open>n\<close> actions, runs the strategy at most \<open>r\<close>
  times, fires no external event, and fires the healthy event at most \<open>h\<close> times and once
  for every success of the strategy.
\<close>

primrec cost :: "prog \<Rightarrow> nat \<Rightarrow> nat \<Rightarrow> nat \<Rightarrow> bool" where
  "cost Done n h r = True"
| "cost (Sleep t k) n h r = (0 < n \<and> cost k (n - 1) h r)"
| "cost (Call c k) n h r = (0 < n \<and> (\<forall>e. cost (k e) (n - 1) h r))"
| "cost (StatusCall c k) n h r = (0 < n \<and> (\<forall>s e. cost (k s e) (n - 1) h r))"
| "cost (RunStrategy k) n h r =
     (0 < n \<and> 0 < r \<and> (\<forall>s t e. cost (k s t e) (n - 1) (if s = StrategyStatusSuccess then Suc h else h) (r - 1)))"
| "cost (ReadTraffic k) n h r = (0 < n \<and> (\<forall>p c. cost (k p c) (n - 1) h r))"
| "cost (Webhooks title st ev p c err k) n h r = (0 < n \<and> cost k (n - 1) h r)"
| "cost (Fire ev args k) n h r =
     (0 < n \<and> ev \<in> internal_events \<and>
      (if ev = EventHealthy then 0 < h \<and> cost k (n - 1) (h - 1) r else cost k (n - 1) h r))"

lemma cost_fail_with: "3 \<le> n \<Longrightarrow> cost (fail_with title st p c err) n h r"
  by (simp add: fail_with_def internal_events_def)

lemma cost_handlers:
  "cost (doConfigure name) 9 0 0" "cost (doDeploy name) 9 0 0" "cost (doMonitor has_test) 9 0 1" "cost (doScale args) 9 0 0"
  "cost doPromote 9 0 0" "cost doRollback 9 0 0" "cost doDestroy 9 0 0"
  by (auto simp: doConfigure_def doDeploy_def doMonitor_def monitor_strategy_def monitor_switch_def doScale_def doPromote_def
    doRollback_def doDestroy_def fail_with_def internal_events_def Let_def split: option.split strategy_status.split)

lemma handler_cost:
  "handler name has_test s args = Some p \<Longrightarrow> cost p 9 0 (if s = StateMonitor then 1 else 0)"
  by (cases s) (use cost_handlers in auto)

subsection \<open>What a state can still start\<close>

text \<open>
  \<open>weight s h r k\<close>: how many more states the machine can enter from \<open>s\<close>, when its goroutines
  can still fire \<open>h\<close> healthy events and run the strategy \<open>r\<close> times, and \<open>k\<close> is the rank of
  the strategy.
\<close>

fun weight :: "sm_state \<Rightarrow> nat \<Rightarrow> nat \<Rightarrow> nat \<Rightarrow> nat" where
  "weight StateDeploy h r k = 2 * k + 4"
| "weight StateScale h r k = 2 * k + 4"
| "weight StateMonitor h r k = (if r \<noteq> 0 then 2 * k + 3 else if h \<noteq> 0 then 2 * k + 5 else 3)"
| "weight StateIdle h r k = 1"
| "weight StateStart h r k = 1"
| "weight StateFail h r k = 0"
| "weight (StateOther x) h r k = 0"
| "weight _ h r k = 2"

text \<open>The strategy is run, or its success reported, in one goroutine at most, and only while the machine monitors.\<close>

definition one_strategy :: "sm_state \<Rightarrow> nat \<Rightarrow> nat \<Rightarrow> bool" where
  "one_strategy s h r \<longleftrightarrow> h + r \<le> 1 \<and> (s = StateDeploy \<or> s = StateScale \<longrightarrow> h + r = 0)"

lemma weight_enter:
  assumes "next_state s ev = Some d" and "ev \<in> internal_events" and "one_strategy s h r" and "ev = EventHealthy \<Longrightarrow> 0 < h"
  shows "one_strategy d (if ev = EventHealthy then h - 1 else h) (r + (if d = StateMonitor then 1 else 0)) \<and>
    weight d (if ev = EventHealthy then h - 1 else h) (r + (if d = StateMonitor then 1 else 0)) k < weight s h r k"
  using assms by (cases ev) (auto simp: one_strategy_def internal_events_def split: if_splits)

lemma weight_ignored:
  assumes "next_state s EventHealthy = None" and "one_strategy s h r"
  shows "one_strategy s (h - 1) r \<and> weight s (h - 1) r k = weight s h r k"
  using assms by (cases s) (auto simp: one_strategy_def)

lemma weight_shrink:
  "one_strategy s h r \<Longrightarrow> h' \<le> h \<Longrightarrow> r' \<le> r \<Longrightarrow> one_strategy s h' r' \<and> weight s h' r' k \<le> weight s h r k"
  by (cases s) (auto simp: one_strategy_def)

lemma weight_success:
  "one_strategy s h r \<Longrightarrow> 0 < r \<Longrightarrow> k' < k \<Longrightarrow> one_strategy s (Suc h) (r - 1) \<and> weight s (Suc h) (r - 1) k' \<le> weight s h r k"
  by (cases s) (auto simp: one_strategy_def)

lemma weight_verdict:
  "one_strategy s h r \<Longrightarrow> 0 < r \<Longrightarrow> one_strategy s h (r - 1) \<and> weight s h (r - 1) k' \<le> weight s h r k"
  by (cases s) (auto simp: one_strategy_def)

subsection \<open>The potential\<close>

type_synonym costs = "(nat \<times> nat \<times> nat) list"

definition pool_cost :: "prog list \<Rightarrow> costs \<Rightarrow> bool" where
  "pool_cost ps cs \<longleftrightarrow> list_all2 (\<lambda>p (n, h, r). cost p n h r) ps cs"

definition actions :: "costs \<Rightarrow> nat" where "actions cs = (\<Sum>(n, h, r) \<leftarrow> cs. n + 1)"

definition healthies :: "costs \<Rightarrow> nat" where "healthies cs = (\<Sum>(n, h, r) \<leftarrow> cs. h)"

definition strategies :: "costs \<Rightarrow> nat" where "strategies cs = (\<Sum>(n, h, r) \<leftarrow> cs. r)"

lemmas cost_sums = actions_def healthies_def strategies_def

lemma pool_cost_split:
  assumes "pool_cost (xs @ p # ys) cs"
  obtains as n h r bs where "cs = as @ (n, h, r) # bs" "pool_cost xs as" "cost p n h r" "pool_cost ys bs"
  using assms by (auto simp: pool_cost_def list_all2_append1 list_all2_Cons1)

lemma pool_cost_join:
  "pool_cost xs as \<Longrightarrow> cost p n h r \<Longrightarrow> pool_cost ys bs \<Longrightarrow> pool_cost (xs @ p # ys) (as @ (n, h, r) # bs)"
  by (simp add: pool_cost_def list_all2_appendI)

definition potential :: "sm_state \<Rightarrow> nat \<Rightarrow> costs \<Rightarrow> nat" where
  "potential s k cs = actions cs + 10 * weight s (healthies cs) (strategies cs) k"

definition priced :: "config \<Rightarrow> costs \<Rightarrow> bool" where
  "priced c cs \<longleftrightarrow> pool_cost (m_pool (snd c)) cs \<and> one_strategy (fst c) (healthies cs) (strategies cs)"

text \<open>Entering a state pays for the goroutine it starts.\<close>

lemma priced_enter:
  assumes "next_state s ev = Some d" and "ev \<in> internal_events"
    and "pool_cost (m_pool m) cs" and "one_strategy s h (strategies cs)"
    and "healthies cs = (if ev = EventHealthy then h - 1 else h)" and "ev = EventHealthy \<Longrightarrow> 0 < h"
  shows "\<exists>ds. priced (d, enter_machine s d args m) ds \<and> potential d k ds \<le> actions cs + 10 * weight s h (strategies cs) k"
proof -
  let ?new = "handler (r_name (m_release m)) (m_has_test m) d args"
  let ?ds = "case ?new of None \<Rightarrow> cs | Some p \<Rightarrow> cs @ [(9, 0, if d = StateMonitor then 1 else 0)]"
  have w: "one_strategy d (healthies cs) (strategies cs + (if d = StateMonitor then 1 else 0))"
    "weight d (healthies cs) (strategies cs + (if d = StateMonitor then 1 else 0)) k < weight s h (strategies cs) k"
    using weight_enter [OF assms(1,2,4,6)] assms(5) by auto
  have "d = StateMonitor \<Longrightarrow> ?new \<noteq> None" by simp
  with w handler_cost [of "r_name (m_release m)" "m_has_test m" d args] assms(3)
  have "priced (d, enter_machine s d args m) ?ds"
    by (auto simp: priced_def enter_machine_fields pool_cost_def cost_sums list_all2_appendI split: option.split)
  moreover have "potential d k ?ds \<le> actions cs + 10 * weight s h (strategies cs) k"
    using w(2) \<open>d = StateMonitor \<Longrightarrow> ?new \<noteq> None\<close>
    by (auto simp: potential_def cost_sums split: option.split)
  ultimately show ?thesis by blast
qed

lemma priced_split:
  assumes "priced (s, m) cs" and "m_pool m = xs @ p # ys"
  obtains as n h r bs where "cs = as @ (n, h, r) # bs" "pool_cost xs as" "cost p n h r" "pool_cost ys bs"
    "one_strategy s (healthies cs) (strategies cs)"
proof -
  from assms have "pool_cost (xs @ p # ys) cs" "one_strategy s (healthies cs) (strategies cs)" by (auto simp: priced_def)
  then show thesis by (elim pool_cost_split that)
qed

lemma act_cost:
  assumes "act p ob q" and "cost p n h r"
  shows "0 < n \<and> (case ob of Some (OStrategy st t e) \<Rightarrow> 0 < r \<and> cost q (n - 1) (if st = StrategyStatusSuccess then Suc h else h) (r - 1)
    | _ \<Rightarrow> cost q (n - 1) h r)"
  using assms by (cases rule: act.cases) auto

text \<open>The states a request can lead through.\<close>

definition resting :: "sm_state \<Rightarrow> bool" where
  "resting s \<longleftrightarrow> s \<in> set active_states \<or> s = StateIdle \<or> s = StateFail"

context strategy_contract
begin

lemma action_pays:
  assumes "inv p" and "priced (s, m) cs" and "m_pool m = xs @ g # ys" and "act g ob g1"
    and "reply_step exec p (LAct ob) p1"
  shows "\<exists>ds. priced (s, m\<lparr>m_pool := xs @ g1 # ys\<rparr>) ds \<and> potential s (rank p1) ds < potential s (rank p) cs"
proof -
  from assms(2,3) obtain as n h r bs where cs: "cs = as @ (n, h, r) # bs" and
    c: "pool_cost xs as" "cost g n h r" "pool_cost ys bs" and o: "one_strategy s (healthies cs) (strategies cs)"
    by (rule priced_split)
  note a = act_cost [OF assms(4) c(2)]
  show ?thesis
  proof (cases "\<exists>st t e. ob = Some (OStrategy st t e)")
    case True
    then obtain st t e where ob: "ob = Some (OStrategy st t e)" by blast
    let ?h = "if st = StrategyStatusSuccess then Suc h else h"
    let ?ds = "as @ (n - 1, ?h, r - 1) # bs"
    from a ob have n: "0 < n" "0 < r" "cost g1 (n - 1) ?h (r - 1)" by auto
    from assms(5) ob obtain w w1 where x: "exec p w = ((st, t, e), p1, w1)" by auto
    have "one_strategy s (healthies ?ds) (strategies ?ds) \<and>
        weight s (healthies ?ds) (strategies ?ds) (rank p1) \<le> weight s (healthies cs) (strategies cs) (rank p)"
    proof (cases "st = StrategyStatusSuccess")
      case True
      with exec_rank [OF assms(1)] x have "rank p1 < rank p" by auto
      from weight_success [OF o _ this] n True show ?thesis by (simp add: cs cost_sums)
    next
      case False
      from weight_verdict [OF o, of "rank p1" "rank p"] n False show ?thesis by (simp add: cs cost_sums)
    qed
    moreover have "actions ?ds < actions cs" using n by (simp add: cs cost_sums)
    ultimately show ?thesis
      using pool_cost_join [OF c(1) n(3) c(3)] by (intro exI [of _ ?ds]) (auto simp: priced_def potential_def)
  next
    case False
    then have "cost g1 (n - 1) h r" "0 < n" and p: "p1 = p"
      using a assms(5) by (cases ob; auto split: observation.splits; cases "the ob"; auto)+
    then show ?thesis
      using pool_cost_join [OF c(1) _ c(3), of g1 "n - 1" h r] o
      by (intro exI [of _ "as @ (n - 1, h, r) # bs"]) (auto simp: priced_def potential_def cs cost_sums)
  qed
qed

lemma fire_pays:
  assumes "fsm_documented lib" and "priced (s, m) cs" and "m_pool m = xs @ Fire ev args g # ys"
  shows "\<exists>ds. priced (snd (Event lib ev args (s, m\<lparr>m_pool := xs @ g # ys\<rparr>))) ds \<and>
    potential (fst (snd (Event lib ev args (s, m\<lparr>m_pool := xs @ g # ys\<rparr>)))) k ds < potential s k cs"
proof -
  from assms(2,3) obtain as n h r bs where cs: "cs = as @ (n, h, r) # bs" and
    c: "pool_cost xs as" "cost (Fire ev args g) n h r" "pool_cost ys bs" and o: "one_strategy s (healthies cs) (strategies cs)"
    by (rule priced_split)
  let ?h = "if ev = EventHealthy then h - 1 else h"
  let ?ds = "as @ (n - 1, ?h, r) # bs" and ?m = "m\<lparr>m_pool := xs @ g # ys\<rparr>"
  from c(2) have n: "0 < n" "ev \<in> internal_events" "cost g (n - 1) ?h r" "ev = EventHealthy \<Longrightarrow> 0 < h" by (auto split: if_splits)
  have pool: "pool_cost (m_pool ?m) ?ds" using pool_cost_join [OF c(1) n(3) c(3)] by simp
  have sums: "strategies ?ds = strategies cs" "actions ?ds < actions cs"
    "healthies ?ds = (if ev = EventHealthy then healthies cs - 1 else healthies cs)" "ev = EventHealthy \<Longrightarrow> 0 < healthies cs"
    using n by (auto simp: cs cost_sums)
  show ?thesis
  proof (cases "next_state s ev")
    case None
    then obtain err where e: "Event lib ev args (s, ?m) = (Some err, s, ?m)" using Event_rejected [OF assms(1)] by blast
    have "one_strategy s (healthies ?ds) (strategies ?ds) \<and>
        weight s (healthies ?ds) (strategies ?ds) k = weight s (healthies cs) (strategies cs) k"
      using o None weight_ignored [of s "healthies cs" "strategies cs" k] sums by (auto split: if_splits)
    with pool sums e show ?thesis by (intro exI [of _ ?ds]) (simp add: priced_def potential_def)
  next
    case (Some d)
    from priced_enter [OF Some n(2) pool, of "healthies cs" args k] o sums obtain ds where
      "priced (d, enter_machine s d args ?m) ds" "potential d k ds \<le> actions ?ds + 10 * weight s (healthies cs) (strategies cs) k"
      by auto
    with sums Event_accepted [OF assms(1) Some, of args ?m] show ?thesis
      by (intro exI [of _ ds]) (simp add: potential_def)
  qed
qed

lemma exit_pays:
  assumes "priced (s, m) cs" and "m_pool m = xs @ Done # ys"
  shows "\<exists>ds. priced (s, m\<lparr>m_pool := xs @ ys\<rparr>) ds \<and> potential s k ds < potential s k cs"
proof -
  from assms obtain as n h r bs where cs: "cs = as @ (n, h, r) # bs" and
    c: "pool_cost xs as" "cost Done n h r" "pool_cost ys bs" and o: "one_strategy s (healthies cs) (strategies cs)"
    by (rule priced_split)
  have "one_strategy s (healthies (as @ bs)) (strategies (as @ bs)) \<and>
      weight s (healthies (as @ bs)) (strategies (as @ bs)) k \<le> weight s (healthies cs) (strategies cs) k"
    by (rule weight_shrink [OF o]) (simp_all add: cs cost_sums)
  moreover have "pool_cost (xs @ ys) (as @ bs)" "actions (as @ bs) < actions cs"
    using c by (simp_all add: pool_cost_def list_all2_appendI cs cost_sums)
  ultimately show ?thesis by (intro exI [of _ "as @ bs"]) (simp add: priced_def potential_def)
qed

lemma step_pays:
  assumes "fsm_documented lib" and "inv p" and "priced c cs" and "sm_step lib c l c1" and "reply_step exec p l p1"
  shows "inv p1 \<and> (\<exists>ds. priced c1 ds \<and>
    potential (fst c1) (rank p1) ds + (if work l then 1 else 0) \<le> potential (fst c) (rank p) cs)"
proof -
  have i: "inv p1"
    using assms(5) exec_inv [OF assms(2)] assms(2) by (cases rule: reply_step.elims(2)) auto
  from assms(4) show ?thesis
  proof (cases rule: sm_step.cases)
    case (action m xs g ys ob g1 s)
    with action_pays [OF assms(2), of s m cs xs g ys ob g1 p1] assms(3,5) i show ?thesis
      by (auto simp: work_def Suc_le_eq)
  next
    case (fire m xs ev args g ys s)
    with fire_pays [OF assms(1), of s m cs xs ev args g ys "rank p"] assms(3,5) i show ?thesis
      by (auto simp: work_def Suc_le_eq)
  next
    case (exit m xs ys s)
    with exit_pays [of s m cs xs ys "rank p"] assms(3,5) i show ?thesis
      by (auto simp: work_def Suc_le_eq)
  next
    case (tick m t s)
    with assms(3,5) i show ?thesis by (auto simp: work_def priced_def)
  qed (use assms(5) in simp_all)
qed

lemma run_pays:
  assumes "fsm_documented lib" and "strategy_run lib exec c p ls c1 p1" and "inv p" and "priced c cs"
  shows "length (filter work ls) \<le> potential (fst c) (rank p) cs"
  using assms(2-4)
proof (induction arbitrary: cs rule: strategy_run.induct)
  case (run_step c l c1 p p1 ls c2 p2)
  from step_pays [OF assms(1) run_step.prems run_step.hyps(1,2)] obtain ds where
    "inv p1" "priced c1 ds" "potential (fst c1) (rank p1) ds + (if work l then 1 else 0) \<le> potential (fst c) (rank p) cs"
    by blast
  with run_step.IH [of ds] show ?case by (simp split: if_splits)
qed simp

text \<open>The replies of the strategy are those of a serial client, so a state stays driven.\<close>

lemma reply_serial:
  assumes "inv p" and "reply_step exec p l p1"
  shows "serial_client c l \<and> inv p1"
  using assms(2)
proof (cases rule: reply_step.elims(2))
  case (1 q st t e q1)
  then obtain w w1 where x: "exec p w = ((st, t, e), p1, w1)" by auto
  then have "e \<noteq> None \<Longrightarrow> st = StrategyStatusFailed" using exec_error [OF assms(1)] by (cases e) auto
  with x 1 show ?thesis using exec_handled [OF assms(1) x] exec_inv [OF assms(1) x] by (simp add: strategy_reply_ok_def)
qed (use assms(1) in auto)

lemma step_resting:
  assumes "fsm_documented lib" and "sm_step lib c l c1" and "reply_step exec p l p1" and "resting (fst c)"
  shows "resting (fst c1)"
  using assms(2)
proof (cases rule: sm_step.cases)
  case (fire m xs ev args k ys s)
  show ?thesis
  proof (cases "next_state s ev")
    case None
    with fire assms(4) Event_rejected [OF assms(1) None, of args] show ?thesis by (metis fst_conv snd_conv)
  next
    case (Some d)
    with fire next_state_target [OF Some] show ?thesis by (simp add: Event_accepted [OF assms(1)] resting_def)
  qed
qed (use assms(3,4) in auto)

lemma run_keeps:
  assumes "fsm_documented lib" and "strategy_run lib exec c p ls c1 p1" and "inv p" and "driven c" and "resting (fst c)"
  shows "inv p1 \<and> driven c1 \<and> resting (fst c1)"
  using assms(2-)
proof (induction rule: strategy_run.induct)
  case (run_step c l c1 p p1 ls c2 p2)
  from reply_serial [OF run_step.prems(1) run_step.hyps(2), of c] have "serial_client c l" "inv p1" by auto
  with run_step driven_step [OF assms(1), of c l c1] step_resting [OF assms(1) run_step.hyps(1,2)] show ?case by blast
qed simp

text \<open>A goroutine that is not finished can go on, whatever the others do.\<close>

lemma act_possible:
  assumes "g \<noteq> Done" and "\<And>ev args k. g \<noteq> Fire ev args k"
  shows "\<exists>ob g1 p1. act g ob g1 \<and> reply_step exec p (LAct ob) p1"
proof (cases g)
  case (RunStrategy k)
  obtain st t e p1 w1 where "exec p undefined = ((st, t, e), p1, w1)" by (metis prod.collapse)
  then have "act g (Some (OStrategy st t e)) (k st t e)" "reply_step exec p (LAct (Some (OStrategy st t e))) p1"
    by (auto simp: RunStrategy act_Strategy intro: exI [of _ undefined])
  then show ?thesis by blast
next
  case (ReadTraffic k)
  have "act g None (k 0 0)" by (simp add: ReadTraffic act_Traffic)
  then show ?thesis by (intro exI [of _ None] exI [of _ "k 0 0"] exI [of _ p]) simp
next
  case (Sleep n k)
  have "act g (Some (OSleep n)) k" by (simp add: Sleep act_Sleep)
  then show ?thesis by (intro exI [of _ "Some (OSleep n)"] exI [of _ k] exI [of _ p]) simp
next
  case (Call c k)
  have "act g (Some (OCall c None)) (k None)" by (simp add: Call act_Call)
  then show ?thesis by (intro exI [of _ "Some (OCall c None)"] exI [of _ "k None"] exI [of _ p]) simp
next
  case (StatusCall c k)
  have "act g (Some (OStatus c RuntimeDeploymentUpdate None)) (k RuntimeDeploymentUpdate None)" by (simp add: StatusCall act_Status)
  then show ?thesis
    by (intro exI [of _ "Some (OStatus c RuntimeDeploymentUpdate None)"] exI [of _ "k RuntimeDeploymentUpdate None"] exI [of _ p]) simp
next
  case (Webhooks title st ev pt ct err k)
  have "act g (Some (OHook title st ev pt ct err)) k" by (simp add: Webhooks act_Hook)
  then show ?thesis by (intro exI [of _ "Some (OHook title st ev pt ct err)"] exI [of _ k] exI [of _ p]) simp
qed (use assms in auto)

lemma pool_steps:
  assumes "m_pool m \<noteq> []"
  shows "\<exists>l c1 p1. work l \<and> sm_step lib (s, m) l c1 \<and> reply_step exec p l p1"
proof -
  obtain g gs where g: "m_pool m = [] @ g # gs" using assms by (cases "m_pool m") auto
  show ?thesis
  proof (cases "g = Done \<or> (\<exists>ev args k. g = Fire ev args k)")
    case True
    then consider "g = Done" | ev args k where "g = Fire ev args k" by blast
    then obtain l c1 where "work l" "sm_step lib (s, m) l c1" "reply_step exec p l p"
    proof cases
      case 1
      with g exit [of m "[]" gs lib s] that [of LExit] show ?thesis by (simp add: work_def)
    next
      case 2
      with g fire [of m "[]" ev args k gs lib s] that [of "LFire ev"] show ?thesis by (simp add: work_def)
    qed
    then show ?thesis by blast
  next
    case False
    then obtain ob g1 p1 where "act g ob g1" "reply_step exec p (LAct ob) p1" using act_possible [of g p] by blast
    with action [OF g, of ob g1 lib s] show ?thesis by (auto simp: work_def)
  qed
qed

end

subsection \<open>A roll-out in which nothing fails\<close>

text \<open>No plugin call returns an error, and the strategy asks for more or is complete.\<close>

fun no_failure :: "label \<Rightarrow> bool" where
  "no_failure (LAct (Some (OCall c e))) = (e = None)"
| "no_failure (LAct (Some (OStatus c s e))) = (e = None)"
| "no_failure (LAct (Some (OStrategy st t e))) = (e = None \<and> (st = StrategyStatusSuccess \<or> st = StrategyStatusComplete))"
| "no_failure _ = True"

text \<open>Then the goroutine neither fails nor rolls back, and a scale is told its percentage.\<close>

primrec clean :: "prog \<Rightarrow> bool" where
  "clean Done = True"
| "clean (Sleep t k) = clean k"
| "clean (Call c k) = clean (k None)"
| "clean (StatusCall c k) = (\<forall>s. clean (k s None))"
| "clean (RunStrategy k) = (\<forall>t. clean (k StrategyStatusSuccess t None) \<and> clean (k StrategyStatusComplete t None))"
| "clean (ReadTraffic k) = (\<forall>p c. clean (k p c))"
| "clean (Webhooks title st ev p c err k) = clean k"
| "clean (Fire ev args k) =
     (ev \<in> internal_events \<and> ev \<notin> {EventFail, EventUnhealthy} \<and> (ev = EventHealthy \<longrightarrow> length args = 1) \<and> clean k)"

lemma handler_clean:
  "handler name has_test s args = Some p \<Longrightarrow> (s = StateScale \<Longrightarrow> length args = 1) \<Longrightarrow> clean p"
  by (cases s)
    (auto simp: doConfigure_def doDeploy_def doMonitor_def monitor_strategy_def monitor_switch_def doScale_def doPromote_def
      doRollback_def doDestroy_def internal_events_def Let_def)

lemma act_clean: "act p ob q \<Longrightarrow> no_failure (LAct ob) \<Longrightarrow> clean p \<Longrightarrow> clean q"
  by (cases rule: act.cases) auto

lemma enter_clean:
  assumes "list_all clean (m_pool m)" and "d = StateScale \<Longrightarrow> length args = 1"
  shows "list_all clean (m_pool (enter_machine s d args m))"
  using assms handler_clean [of "r_name (m_release m)" "m_has_test m" d args]
  by (auto simp: enter_machine_fields split: option.split)

lemma driven_fire_accepted:
  assumes "driven (s, m)" and "m_pool m = xs @ Fire ev args k # ys" and "s \<noteq> StateFail"
  shows "next_state s ev \<noteq> None"
  using assms by (cases "s \<in> set active_states") (auto simp: driven_def one_live_append enabled_def)

text \<open>
  Where the deployment is: \<open>deployed\<close> and \<open>promoted\<close> say whether those events have been
  fired.
\<close>

definition on_course :: "bool \<Rightarrow> bool \<Rightarrow> config \<Rightarrow> bool" where
  "on_course deployed promoted c \<longleftrightarrow>
     list_all clean (m_pool (snd c)) \<and> fst c \<in> {StateDeploy, StateMonitor, StateScale, StatePromote, StateIdle} \<and>
     (deployed \<longleftrightarrow> fst c \<in> {StateMonitor, StateScale, StatePromote} \<or> promoted) \<and> (promoted \<longrightarrow> fst c = StateIdle)"

lemma on_course_fire:
  assumes "fsm_documented lib" and "driven (s, m)" and "on_course dep pro (s, m)" and "m_pool m = xs @ Fire ev args k # ys"
  shows "on_course (dep \<or> ev = EventDeployed) (pro \<or> ev = EventPromoted)
    (snd (Event lib ev args (s, m\<lparr>m_pool := xs @ k # ys\<rparr>)))"
proof -
  let ?m = "m\<lparr>m_pool := xs @ k # ys\<rparr>"
  from assms(3,4) have pool: "list_all clean (m_pool ?m)" and ev: "ev \<in> internal_events" "ev \<notin> {EventFail, EventUnhealthy}"
    "ev = EventHealthy \<Longrightarrow> length args = 1" by (auto simp: on_course_def)
  from assms(3) driven_fire_accepted [OF assms(2,4)] obtain d where d: "next_state s ev = Some d" by (auto simp: on_course_def)
  then have "d = StateScale \<Longrightarrow> ev = EventHealthy" by (cases ev) (auto split: if_splits)
  with ev pool have "list_all clean (m_pool (enter_machine s d args ?m))" by (intro enter_clean) auto
  moreover have "snd (Event lib ev args (s, ?m)) = (d, enter_machine s d args ?m)" by (simp add: Event_accepted [OF assms(1) d])
  ultimately show ?thesis
    using assms(3) d ev by (cases ev) (auto simp: on_course_def internal_events_def split: if_splits)
qed

context strategy_contract
begin

lemma run_on_course:
  assumes "fsm_documented lib" and "strategy_run lib exec c p ls c1 p1" and "inv p" and "driven c" and "list_all no_failure ls"
    and "on_course dep pro c"
  shows "on_course (dep \<or> LFire EventDeployed \<in> set ls) (pro \<or> LFire EventPromoted \<in> set ls) c1"
  using assms(2-)
proof (induction arbitrary: dep pro rule: strategy_run.induct)
  case (run_step c l c1 p p1 ls c2 p2)
  from reply_serial [OF run_step.prems(1) run_step.hyps(2), of c] have r: "serial_client c l" "inv p1" by auto
  have d: "driven c1" by (rule driven_step [OF assms(1) run_step.prems(2) r(1) run_step.hyps(1)])
  have "on_course (dep \<or> l = LFire EventDeployed) (pro \<or> l = LFire EventPromoted) c1"
    using run_step.hyps(1)
  proof (cases rule: sm_step.cases)
    case (action m xs g ys ob g1 s)
    with run_step.prems act_clean show ?thesis by (auto simp: on_course_def)
  next
    case (fire m xs ev args k ys s)
    with on_course_fire [OF assms(1), of s m dep pro xs ev args k ys] run_step.prems show ?thesis by simp
  qed (use run_step in \<open>auto simp: on_course_def\<close>)
  from run_step.IH [OF r(2) d _ this] run_step.prems(3) show ?case by (auto simp: disj_assoc eq_commute)
qed simp

end

subsection \<open>Runs of one goroutine\<close>

text \<open>What the goroutine becomes by an observed action; traffic is read as zero.\<close>

fun advance :: "prog \<Rightarrow> observation option \<Rightarrow> prog option" where
  "advance (Sleep n k) (Some (OSleep n')) = (if n' = n then Some k else None)"
| "advance (Call c k) (Some (OCall c' e)) = (if c' = c then Some (k e) else None)"
| "advance (StatusCall c k) (Some (OStatus c' s e)) = (if c' = c then Some (k s e) else None)"
| "advance (ReadTraffic k) None = Some (k 0 0)"
| "advance (Webhooks title st ev p c err k) (Some ob) = (if ob = OHook title st ev p c err then Some k else None)"
| "advance _ _ = None"

fun advance_all :: "prog \<Rightarrow> observation option list \<Rightarrow> prog option" where
  "advance_all g [] = Some g"
| "advance_all g (ob # obs) = (case advance g ob of Some g1 \<Rightarrow> advance_all g1 obs | None \<Rightarrow> None)"

lemma advance_act:
  "advance g ob = Some g1 \<Longrightarrow> act g ob g1 \<and> (\<forall>st t e. ob \<noteq> Some (OStrategy st t e))"
  by (cases "(g, ob)" rule: advance.cases) (auto split: if_splits intro: act.intros)

lemma run_trans:
  "strategy_run lib strat c p ls c1 p1 \<Longrightarrow> strategy_run lib strat c1 p1 ls' c2 p2 \<Longrightarrow> strategy_run lib strat c p (ls @ ls') c2 p2"
  by (induction rule: strategy_run.induct) (auto intro: strategy_run.intros)

lemma run_phase:
  assumes "advance_all g obs = Some (Fire ev args k)" and "m_pool m = xs @ [g]" and "fsm_documented lib" and "next_state s ev = Some d"
  shows "strategy_run lib strat (s, m) p (map LAct obs @ [LFire ev]) (d, enter_machine s d args (m\<lparr>m_pool := xs @ [k]\<rparr>)) p"
  using assms(1,2)
proof (induction obs arbitrary: g m)
  case Nil
  with fire [of m xs ev args k "[]" lib s]
  have "sm_step lib (s, m) (LFire ev) (d, enter_machine s d args (m\<lparr>m_pool := xs @ [k]\<rparr>))"
    by (simp add: Event_accepted [OF assms(3,4)])
  from run_step [OF this _ run_end] show ?case by simp
next
  case (Cons ob obs)
  then obtain g1 where g1: "advance g ob = Some g1" "advance_all g1 obs = Some (Fire ev args k)" by (auto split: option.splits)
  from Cons.IH [OF g1(2), of "m\<lparr>m_pool := xs @ [g1]\<rparr>"]
  have "strategy_run lib strat (s, m\<lparr>m_pool := xs @ [g1]\<rparr>) p (map LAct obs @ [LFire ev])
      (d, enter_machine s d args (m\<lparr>m_pool := xs @ [k]\<rparr>)) p" by simp
  moreover have "reply_step strat p (LAct ob) p"
    using advance_act [OF g1(1)] by (cases "(strat, p, LAct ob, p)" rule: reply_step.cases) auto
  ultimately show ?case
    using action [of m xs g "[]" ob g1 lib s] advance_act [OF g1(1)] Cons.prems(2) by (auto intro: run_step)
qed

text \<open>The goroutines that are done leave.\<close>

lemma run_exits:
  "m_pool m = replicate n Done \<Longrightarrow> strategy_run lib strat (s, m) p (replicate n LExit) (s, m\<lparr>m_pool := []\<rparr>) p"
proof (induction n arbitrary: m)
  case 0
  then have "m\<lparr>m_pool := []\<rparr> = m" by simp
  then show ?case by (simp add: run_end)
next
  case (Suc n)
  with Suc.IH [of "m\<lparr>m_pool := replicate n Done\<rparr>"] exit [of m "[]" "replicate n Done" lib s] show ?case
    by (auto intro: run_step)
qed

subsection \<open>The price of a request\<close>

lemma entry_priced:
  assumes "m_pool m = []" and "next_state s ev = Some d"
  shows "\<exists>cs. priced (d, enter_machine s d [] m) cs \<and> potential d k cs \<le> 10 * (2 * k + 5)"
proof -
  let ?new = "handler (r_name (m_release m)) (m_has_test m) d []"
  let ?cs = "case ?new of None \<Rightarrow> [] | Some g \<Rightarrow> [(9, 0, if d = StateMonitor then 1 else 0)]"
  have "pool_cost (m_pool (enter_machine s d [] m)) ?cs" "healthies ?cs = 0"
    "strategies ?cs = (if d = StateMonitor then 1 else 0)" "actions ?cs \<le> 10"
    using assms(1) handler_cost [of "r_name (m_release m)" "m_has_test m" d "[]"]
    by (auto simp: enter_machine_fields pool_cost_def cost_sums split: option.split)
  then have "priced (d, enter_machine s d [] m) ?cs" "potential d k ?cs \<le> 10 + 10 * (2 * k + 4)"
    by (cases d; simp add: priced_def potential_def one_strategy_def)+
  then show ?thesis by (intro exI [of _ ?cs]) simp
qed

subsection \<open>Properties\<close>

text \<open>
  C4: Every request comes to rest. From the entry into a state on a quiet machine, with
  the canary strategy in any state of its invariant, whatever the plugins and the checks
  answer and however the goroutines interleave: at most \<open>10 * (2 * canary_rank p + 5)\<close> steps
  are taken, at most 2070 of them for a new roll-out; as long as a goroutine is left
  there is a further step; and when none is left the release is idle or failed.
\<close>

theorem request_comes_to_rest:
  assumes "fsm_documented lib" and "m_pool m = []" and "next_state s ev = Some d" and "canary_inv p"
    and "strategy_run lib (canary_Execute env cand) (d, enter_machine s d [] m) p ls (s1, m1) p1"
  shows "length (filter work ls) \<le> 10 * (2 * canary_rank p + 5) \<and>
    (m_pool m1 \<noteq> [] \<longrightarrow> (\<exists>l c2 p2. work l \<and> sm_step lib (s1, m1) l c2 \<and> reply_step (canary_Execute env cand) p1 l p2)) \<and>
    (m_pool m1 = [] \<longrightarrow> s1 = StateIdle \<or> s1 = StateFail)"
proof -
  let ?c = "(d, enter_machine s d [] m)"
  obtain cs where "priced ?c cs" "potential d (canary_rank p) cs \<le> 10 * (2 * canary_rank p + 5)"
    using entry_priced [OF assms(2,3)] by blast
  with canary.run_pays [OF assms(1,5,4)] have "length (filter work ls) \<le> 10 * (2 * canary_rank p + 5)" by fastforce
  moreover have "driven ?c" by (rule driven_enter [OF assms(3)]) (simp add: assms(2))
  moreover have "resting d" using next_state_target [OF assms(3)] by (simp add: resting_def)
  ultimately show ?thesis
    using canary.run_keeps [OF assms(1,5,4)] canary.pool_steps [of m1 lib s1 env cand p1] driven_quiet [of s1 m1]
    by (auto simp: resting_def)
qed

text \<open>A request to configure a release whose mesh configuration cannot be set up.\<close>

theorem request_comes_to_rest_witness:
  "\<exists>ls m1. strategy_run reference_fsm (canary_Execute script_env ''api'')
       (StateConfigure, enter_machine StateStart StateConfigure [] (new_machine new_release)) (sample_canary 30) ls
       (StateFail, m1) (sample_canary 30) \<and> m_pool m1 = [] \<and> length (filter work ls) \<le> 10 * (2 * 30 + 5)"
proof -
  let ?strat = "canary_Execute script_env ''api''" and ?p = "sample_canary 30"
  let ?m = "enter_machine StateStart StateConfigure [] (new_machine new_release)" and ?e = "Some (GoErr ''mesh'')"
  let ?fail = "Fire EventFail [] Done"
  let ?hook = "OHook ''Configure release failed'' StateConfigure EventFail 0 100 ?e"
  have pool: "m_pool ?m = [] @ doConfigure (r_name new_release) # []"
    by (simp add: enter_machine_fields new_machine_def)
  let ?ls = "[LAct (Some (OCall ReleaserSetup ?e)), LAct (Some ?hook), LFire EventFail, LExit]"
  let ?q = "Webhooks ''Configure release failed'' StateConfigure EventFail 0 100 ?e ?fail"
  let ?m2 = "?m\<lparr>m_pool := [Done]\<rparr>" and ?m3 = "enter_machine StateConfigure StateFail [] (?m\<lparr>m_pool := [Done]\<rparr>)"
  have "act (doConfigure (r_name new_release)) (Some (OCall ReleaserSetup ?e)) ?q"
    by (simp add: doConfigure_def Let_def fail_with_def act.simps)
  from action [OF pool this]
  have s1: "sm_step reference_fsm (StateConfigure, ?m) (LAct (Some (OCall ReleaserSetup ?e))) (StateConfigure, ?m\<lparr>m_pool := [?q]\<rparr>)" by simp
  have s2: "sm_step reference_fsm (StateConfigure, ?m\<lparr>m_pool := [?q]\<rparr>) (LAct (Some ?hook)) (StateConfigure, ?m\<lparr>m_pool := [?fail]\<rparr>)"
    using action [of "?m\<lparr>m_pool := [?q]\<rparr>" "[]" ?q "[]" "Some ?hook" ?fail reference_fsm StateConfigure] by (simp add: act_Hook)
  have s3: "sm_step reference_fsm (StateConfigure, ?m\<lparr>m_pool := [?fail]\<rparr>) (LFire EventFail) (StateFail, ?m3)"
    using fire [of "?m\<lparr>m_pool := [?fail]\<rparr>" "[]" EventFail "[]" Done "[]" reference_fsm StateConfigure]
    by (simp add: Event_accepted [OF reference_fsm_documented])
  have s4: "sm_step reference_fsm (StateFail, ?m3) LExit (StateFail, ?m3\<lparr>m_pool := []\<rparr>)"
    using exit [of ?m3 "[]" "[]" reference_fsm StateFail] by (simp add: enter_machine_fields)
  have run: "strategy_run reference_fsm ?strat (StateConfigure, ?m) ?p ?ls (StateFail, ?m3\<lparr>m_pool := []\<rparr>) ?p"
    by (rule run_step run_end s1 s2 s3 s4 | simp)+
  have "canary_inv ?p" "canary_rank ?p = 30" by (simp_all add: script_simps canary_rank_def)
  from request_comes_to_rest [OF reference_fsm_documented _ _ this(1) run] this(2)
  have bound: "length (filter work ?ls) \<le> 10 * (2 * 30 + 5)" by (simp add: new_machine_def)
  show ?thesis by (rule exI [of _ ?ls], rule exI, intro conjI, rule run, simp, rule bound)
qed


definition passing_env :: "script canary_env" where
  "passing_env = script_env\<lparr>ce_check := (\<lambda>_ _ w. ((CheckSuccess, None), w))\<rparr>"


end
