(* ===== verification/Memory.thy ===== *)
theory Memory
  imports CRC_Prelude
begin

text \<open>
  Memory with slices and pointers, for code whose effect depends on what is shared: a list
  of arrays, an address being a position in it, so that allocation is an append and an
  address once in use stays in use. \<open>deep_copy\<close> is the contract of a function that copies a
  value with everything it refers to; slices of, and pointers to, values with such a
  function have one themselves.
\<close>

subsection \<open>Arrays, slices and pointers\<close>

text \<open>
  A slice is the array it lies in, its first position there and its length; a pointer is an
  array and a position. \<open>z\<close> is what allocated memory holds before it is written.
\<close>

type_synonym 'c memory = "'c list list"

datatype slice = NilSlice | Slice nat nat nat

type_synonym pointer = "(nat \<times> nat) option"

definition make_slice :: "'c \<Rightarrow> nat \<Rightarrow> 'c memory \<Rightarrow> slice \<times> 'c memory" where
  "make_slice z n h = (Slice (length h) 0 n, h @ [replicate n z])"

fun cells_of :: "'c memory \<Rightarrow> slice \<Rightarrow> 'c list" where
  "cells_of h NilSlice = []"
| "cells_of h (Slice a p n) = take n (drop p (h ! a))"

definition store_at :: "nat \<Rightarrow> nat \<Rightarrow> 'c list \<Rightarrow> 'c memory \<Rightarrow> 'c memory" where
  "store_at a p xs h = h[a := take p (h ! a) @ xs @ drop (p + length xs) (h ! a)]"

text \<open>\<open>copy(dst, src)\<close> moves as many elements as both have.\<close>

fun copy_slice :: "slice \<Rightarrow> slice \<Rightarrow> 'c memory \<Rightarrow> 'c memory" where
  "copy_slice (Slice a p n) (Slice b q m) h = store_at a p (take (min n m) (cells_of h (Slice b q m))) h"
| "copy_slice _ _ h = h"

text \<open>\<open>for i := range *in { (*in)[i].DeepCopyInto(&(*out)[i]) }\<close>, for the positions in a list.\<close>

fun copy_each :: "('c \<Rightarrow> 'c memory \<Rightarrow> 'c \<times> 'c memory) \<Rightarrow> slice \<Rightarrow> slice \<Rightarrow> nat list \<Rightarrow> 'c memory \<Rightarrow> 'c memory" where
  "copy_each into (Slice b q m) (Slice a p n) (i # is) h =
     (case into (h ! b ! (q + i)) h of (c, h1) \<Rightarrow>
        copy_each into (Slice b q m) (Slice a p n) is (store_at a (p + i) [c] h1))"
| "copy_each into _ _ _ h = h"

subsection \<open>The statements the generator writes\<close>

text \<open>A field that is a slice: copied element by element, or as a whole; a nil slice stays nil.\<close>

definition slice_each :: "'c \<Rightarrow> ('c \<Rightarrow> 'c memory \<Rightarrow> 'c \<times> 'c memory) \<Rightarrow> slice \<Rightarrow> 'c memory \<Rightarrow> slice \<times> 'c memory" where
  "slice_each z into s h =
     (case s of
        NilSlice \<Rightarrow> (NilSlice, h)
      | Slice a p n \<Rightarrow> (case make_slice z n h of (t, h1) \<Rightarrow> (t, copy_each into s t [0..<n] h1)))"

definition slice_copy :: "'c \<Rightarrow> slice \<Rightarrow> 'c memory \<Rightarrow> slice \<times> 'c memory" where
  "slice_copy z s h =
     (case s of
        NilSlice \<Rightarrow> (NilSlice, h)
      | Slice a p n \<Rightarrow> (case make_slice z n h of (t, h1) \<Rightarrow> (t, copy_slice t s h1)))"

text \<open>\<open>DeepCopy\<close> over a \<open>DeepCopyInto\<close>: \<open>nil\<close> for \<open>nil\<close>, otherwise a new variable and its address.\<close>

definition copy_pointer :: "'c \<Rightarrow> ('c \<Rightarrow> 'c memory \<Rightarrow> 'c \<times> 'c memory) \<Rightarrow> pointer \<Rightarrow> 'c memory \<Rightarrow> pointer \<times> 'c memory" where
  "copy_pointer z into p h =
     (case p of
        None \<Rightarrow> (None, h)
      | Some (a, i) \<Rightarrow>
          (let out = length h in
           case into (h ! a ! i) (h @ [[z]]) of (c, h1) \<Rightarrow> (Some (out, 0), h1[out := [c]])))"

subsection \<open>What is read and reached\<close>

definition agree :: "nat set \<Rightarrow> 'c memory \<Rightarrow> 'c memory \<Rightarrow> bool" where
  "agree A h h1 \<longleftrightarrow> (\<forall>a \<in> A. a < length h1 \<and> h1 ! a = h ! a)"

definition extends :: "'c memory \<Rightarrow> 'c memory \<Rightarrow> bool" where
  "extends h h1 \<longleftrightarrow> length h \<le> length h1 \<and> (\<forall>a < length h. h1 ! a = h ! a)"

definition slice_value :: "('c memory \<Rightarrow> 'c \<Rightarrow> 'v option) \<Rightarrow> 'c memory \<Rightarrow> slice \<Rightarrow> 'v list option option" where
  "slice_value value h s =
     (case s of
        NilSlice \<Rightarrow> Some None
      | Slice a p n \<Rightarrow>
          if a < length h \<and> p + n \<le> length (h ! a) then map_option Some (those (map (value h) (cells_of h s))) else None)"

definition slice_reach :: "('c memory \<Rightarrow> 'c \<Rightarrow> nat set) \<Rightarrow> 'c memory \<Rightarrow> slice \<Rightarrow> nat set" where
  "slice_reach reach h s = (case s of NilSlice \<Rightarrow> {} | Slice a p n \<Rightarrow> insert a (\<Union>c \<in> set (cells_of h s). reach h c))"

definition pointer_value :: "('c memory \<Rightarrow> 'c \<Rightarrow> 'v option) \<Rightarrow> 'c memory \<Rightarrow> pointer \<Rightarrow> 'v option option" where
  "pointer_value value h p =
     (case p of
        None \<Rightarrow> Some None
      | Some (a, i) \<Rightarrow> if a < length h \<and> i < length (h ! a) then map_option Some (value h (h ! a ! i)) else None)"

definition pointer_reach :: "('c memory \<Rightarrow> 'c \<Rightarrow> nat set) \<Rightarrow> 'c memory \<Rightarrow> pointer \<Rightarrow> nat set" where
  "pointer_reach reach h p = (case p of None \<Rightarrow> {} | Some (a, i) \<Rightarrow> insert a (reach h (h ! a ! i)))"

lemma extends_refl [simp]: "extends h h" by (simp add: extends_def)

lemma extends_trans: "extends h h1 \<Longrightarrow> extends h1 h2 \<Longrightarrow> extends h h2"
  by (auto simp: extends_def)

lemma extends_append [simp]: "extends h (h @ xs)" by (simp add: extends_def nth_append)

lemma extends_update: "extends h h1 \<Longrightarrow> length h \<le> a \<Longrightarrow> extends h (h1[a := xs])"
  by (simp add: extends_def)

lemma extends_store: "extends h h1 \<Longrightarrow> length h \<le> a \<Longrightarrow> extends h (store_at a p xs h1)"
  by (simp add: store_at_def extends_update)

lemma agree_extends: "extends h h1 \<Longrightarrow> A \<subseteq> {..<length h} \<Longrightarrow> agree A h h1"
  by (auto simp: agree_def extends_def)

lemma agree_update: "a \<notin> A \<Longrightarrow> A \<subseteq> {..<length h} \<Longrightarrow> agree A h (h[a := xs])"
  unfolding agree_def by (metis length_list_update lessThan_iff nth_list_update_neq subsetD)

lemma agree_mono: "agree A h h1 \<Longrightarrow> B \<subseteq> A \<Longrightarrow> agree B h h1"
  by (auto simp: agree_def)

lemma those_map: "those (map f xs) = Some ys \<longleftrightarrow> length ys = length xs \<and> (\<forall>i < length xs. f (xs ! i) = Some (ys ! i))"
proof (induction xs arbitrary: ys)
  case (Cons x xs)
  show ?case
    by (cases ys) (auto simp: Cons.IH nth_Cons' less_Suc_eq_0_disj split: option.splits)
qed auto

subsection \<open>The contract\<close>

text \<open>
  \<open>value\<close> is what a reader finds from a value on, following slices and pointers, if all of it
  is there; \<open>reach\<close> is the arrays it goes through. A deep copy reads the same, goes through
  arrays that were not in use before, and leaves those in use as they are.
\<close>

locale deep_copy =
  fixes into :: "'a \<Rightarrow> 'c memory \<Rightarrow> 'a \<times> 'c memory"
    and val :: "'c memory \<Rightarrow> 'a \<Rightarrow> 'v option"
    and reach :: "'c memory \<Rightarrow> 'a \<Rightarrow> nat set"
  assumes alive: "val h x = Some v \<Longrightarrow> reach h x \<subseteq> {..<length h}"
    and frame: "val h x = Some v \<Longrightarrow> agree (reach h x) h h1 \<Longrightarrow> val h1 x = Some v \<and> reach h1 x = reach h x"
    and copied: "val h x = Some v \<Longrightarrow> into x h = (y, h1) \<Longrightarrow>
      val h1 y = Some v \<and> reach h1 y \<inter> {..<length h} = {} \<and> extends h h1"
begin

lemma kept: "val h x = Some v \<Longrightarrow> extends h h1 \<Longrightarrow> val h1 x = Some v \<and> reach h1 x = reach h x"
  using frame agree_extends alive by metis

text \<open>Neither side sees what is written in the arrays of the other.\<close>

lemma independent:
  assumes "val h x = Some v" and "into x h = (y, h1)"
  shows "val h1 x = Some v \<and> val h1 y = Some v"
    and "agree ({..<length h1} - reach h1 y) h1 h2 \<Longrightarrow> val h2 x = Some v"
    and "agree ({..<length h1} - reach h1 x) h1 h2 \<Longrightarrow> val h2 y = Some v"
proof -
  from copied [OF assms] have y: "val h1 y = Some v" "reach h1 y \<inter> {..<length h} = {}" "extends h h1" by auto
  from kept [OF assms(1) y(3)] have x: "val h1 x = Some v" "reach h1 x = reach h x" by simp_all
  then show "val h1 x = Some v \<and> val h1 y = Some v" using y(1) by simp
  have "reach h1 x \<subseteq> {..<length h1}" "reach h1 y \<subseteq> {..<length h1}" "reach h1 x \<inter> reach h1 y = {}"
    using alive [OF x(1)] alive [OF y(1)] alive [OF assms(1)] x(2) y(2) by auto
  then have "reach h1 x \<subseteq> {..<length h1} - reach h1 y" "reach h1 y \<subseteq> {..<length h1} - reach h1 x" by auto
  then show "agree ({..<length h1} - reach h1 y) h1 h2 \<Longrightarrow> val h2 x = Some v"
    and "agree ({..<length h1} - reach h1 x) h1 h2 \<Longrightarrow> val h2 y = Some v"
    using frame [OF x(1)] frame [OF y(1)] agree_mono by blast+
qed

end

subsection \<open>Slices and pointers of cells\<close>

locale deep_copy_cells = deep_copy into val reach
  for into :: "'c \<Rightarrow> 'c memory \<Rightarrow> 'c \<times> 'c memory" and val :: "'c memory \<Rightarrow> 'c \<Rightarrow> 'v option" and reach +
  fixes z :: 'c
begin

text \<open>\<open>copied_to k\<close>: the first \<open>k\<close> elements of the new array \<open>d\<close> are copies.\<close>

definition copied_to :: "'c memory \<Rightarrow> nat \<Rightarrow> nat \<Rightarrow> 'v list \<Rightarrow> 'c memory \<Rightarrow> bool" where
  "copied_to h n k vs h1 \<longleftrightarrow>
     extends h h1 \<and> length h < length h1 \<and> length (h1 ! length h) = n \<and>
     (\<forall>j < k. val h1 (h1 ! length h ! j) = Some (vs ! j) \<and> reach h1 (h1 ! length h ! j) \<inter> {..length h} = {})"

lemma copied_step:
  assumes "copied_to h n k vs h1" and "k < n" and "val h c = Some (vs ! k)" and "into c h1 = (c1, h2)"
  shows "copied_to h n (Suc k) vs (store_at (length h) k [c1] h2)"
proof -
  let ?d = "length h" and ?h3 = "store_at (length h) k [c1] h2"
  from assms(1) have inv: "extends h h1" "?d < length h1" "length (h1 ! ?d) = n"
    "\<And>j. j < k \<Longrightarrow> val h1 (h1 ! ?d ! j) = Some (vs ! j) \<and> reach h1 (h1 ! ?d ! j) \<inter> {..?d} = {}"
    by (auto simp: copied_to_def)
  have "val h1 c = Some (vs ! k)" using kept [OF assms(3) inv(1)] by simp
  from copied [OF this assms(4)] have c1: "val h2 c1 = Some (vs ! k)" "reach h2 c1 \<inter> {..<length h1} = {}" "extends h1 h2" by auto
  then have h2: "extends h h2" "?d < length h2" "h2 ! ?d = h1 ! ?d" using inv(1,2) extends_trans by (auto simp: extends_def)
  have keep: "val ?h3 x = Some v \<and> reach ?h3 x = reach h2 x" if "val h2 x = Some v" "?d \<notin> reach h2 x" for x v
    using frame [OF that(1) agree_update [OF that(2) alive [OF that(1)]]] by (simp add: store_at_def)
  have arr: "?h3 ! ?d = (h1 ! ?d)[k := c1]"
    using h2(2,3) inv(3) upd_conv_take_nth_drop [of k "h1 ! ?d" c1] assms(2) by (simp add: store_at_def)
  have "val ?h3 (?h3 ! ?d ! j) = Some (vs ! j) \<and> reach ?h3 (?h3 ! ?d ! j) \<inter> {..?d} = {}" if "j < Suc k" for j
  proof (cases "j = k")
    case True
    have "{..?d} \<subseteq> {..<length h1}" using inv(2) by auto
    with c1(2) have "reach h2 c1 \<inter> {..?d} = {}" by blast
    with True keep [OF c1(1)] inv(3) assms(2) arr show ?thesis by auto
  next
    case False
    with that have "j < k" by simp
    from inv(4) [OF this] kept [OF _ c1(3), of "h1 ! ?d ! j" "vs ! j"]
    have "val h2 (h1 ! ?d ! j) = Some (vs ! j)" "reach h2 (h1 ! ?d ! j) \<inter> {..?d} = {}" by auto
    with keep [OF this(1)] show ?thesis using False arr by auto
  qed
  then show ?thesis
    using h2 inv(3) arr assms(2) by (simp add: copied_to_def extends_store) (simp add: store_at_def)
qed

lemma copied_all:
  assumes "copied_to h n k vs h1" and "k \<le> n" and "a < length h"
    and "\<And>i. i < n \<Longrightarrow> val h (h ! a ! (p + i)) = Some (vs ! i)"
  shows "copied_to h n n vs (copy_each into (Slice a p n) (Slice (length h) 0 n) [k..<n] h1)"
  using assms(1,2)
proof (induction "n - k" arbitrary: k h1)
  case 0
  then show ?case by simp
next
  case (Suc m)
  then have k: "k < n" "[k..<n] = k # [Suc k..<n]" by (auto simp: upt_conv_Cons)
  obtain c1 h2 where c: "into (h ! a ! (p + k)) h1 = (c1, h2)" by fastforce
  have "h1 ! a = h ! a" using Suc.prems(1) assms(3) by (simp add: copied_to_def extends_def)
  with k c Suc.hyps(1) [of "Suc k"] Suc.hyps(2) copied_step [OF Suc.prems(1) k(1) assms(4) [OF k(1)] c]
  show ?case by simp
qed

sublocale slices: deep_copy "slice_each z into" "slice_value val" "slice_reach reach"
proof
  fix h s v
  assume v: "slice_value val h s = Some v"
  have elements: "\<exists>w. val h c = Some w" if "c \<in> set (cells_of h s)" for c
    using v that by (cases s) (fastforce simp: slice_value_def those_map in_set_conv_nth split: if_splits)+
  show "slice_reach reach h s \<subseteq> {..<length h}"
    using v elements alive by (cases s) (fastforce simp: slice_reach_def slice_value_def split: if_splits)+
  fix h1
  assume a: "agree (slice_reach reach h s) h h1"
  have same: "val h1 c = val h c \<and> reach h1 c = reach h c" if "c \<in> set (cells_of h s)" for c
  proof -
    from elements [OF that] obtain w where w: "val h c = Some w" ..
    have "reach h c \<subseteq> slice_reach reach h s" using that by (cases s) (auto simp: slice_reach_def)
    from frame [OF w agree_mono [OF a this]] w show ?thesis by simp
  qed
  show "slice_value val h1 s = Some v \<and> slice_reach reach h1 s = slice_reach reach h s"
  proof (cases s)
    case (Slice b p n)
    with a have "b < length h1" "h1 ! b = h ! b" by (simp_all add: agree_def slice_reach_def)
    with Slice same have maps: "map (val h1) (cells_of h1 s) = map (val h) (cells_of h s)" "cells_of h1 s = cells_of h s" by simp_all
    moreover from this same have "slice_reach reach h1 s = slice_reach reach h s" by (simp add: Slice slice_reach_def)
    moreover from v have "b < length h" by (simp add: Slice slice_value_def split: if_splits)
    then have "slice_value val h1 s = slice_value val h s"
      using \<open>b < length h1\<close> \<open>h1 ! b = h ! b\<close> arg_cong [OF maps(1), of those] by (simp add: Slice slice_value_def del: cells_of.simps)
    ultimately show ?thesis using v by simp
  qed (use v in \<open>simp add: slice_value_def slice_reach_def\<close>)
next
  fix h s v t h1
  assume v: "slice_value val h s = Some v" and c: "slice_each z into s h = (t, h1)"
  show "slice_value val h1 t = Some v \<and> slice_reach reach h1 t \<inter> {..<length h} = {} \<and> extends h h1"
  proof (cases s)
    case (Slice a p n)
    with v obtain vs where vs: "v = Some vs" "a < length h" "p + n \<le> length (h ! a)"
      "those (map (val h) (take n (drop p (h ! a)))) = Some vs" by (auto simp: slice_value_def split: if_splits)
    then have i: "val h (h ! a ! (p + i)) = Some (vs ! i)" if "i < n" for i using that by (simp add: those_map)
    have "copied_to h n 0 vs (h @ [replicate n z])" by (simp add: copied_to_def)
    note all_copied = copied_all [OF this _ vs(2) i, simplified]
    from c have t: "t = Slice (length h) 0 n"
      and "h1 = copy_each into (Slice a p n) (Slice (length h) 0 n) [0..<n] (h @ [replicate n z])"
      by (auto simp: Slice slice_each_def make_slice_def)
    with all_copied have fin: "copied_to h n n vs h1" by simp
    then have "slice_value val h1 t = Some (Some vs)" using vs(3,4) t by (auto simp: copied_to_def slice_value_def those_map)
    moreover have "reach h1 c \<inter> {..<length h} = {}" if "c \<in> set (h1 ! length h)" for c
      using fin that by (fastforce simp: copied_to_def in_set_conv_nth)
    ultimately show ?thesis using fin t vs(1) by (auto simp: copied_to_def slice_reach_def)
  qed (use v c in \<open>simp add: slice_value_def slice_reach_def slice_each_def\<close>)
qed

sublocale pointers: deep_copy "copy_pointer z into" "pointer_value val" "pointer_reach reach"
proof
  fix h p v
  assume v: "pointer_value val h p = Some v"
  show "pointer_reach reach h p \<subseteq> {..<length h}"
    using v alive by (fastforce simp: pointer_value_def pointer_reach_def split: option.splits if_splits)
  fix h1
  assume agreed: "agree (pointer_reach reach h p) h h1"
  show "pointer_value val h1 p = Some v \<and> pointer_reach reach h1 p = pointer_reach reach h p"
  proof (cases p)
    case (Some ai)
    then obtain a i w where p: "p = Some (a, i)" "a < length h" "i < length (h ! a)" "val h (h ! a ! i) = Some w" "v = Some w"
      using v by (cases ai) (auto simp: pointer_value_def split: if_splits)
    with agreed have "h1 ! a = h ! a" "a < length h1" by (simp_all add: agree_def pointer_reach_def)
    moreover have "agree (reach h (h ! a ! i)) h h1"
      by (rule agree_mono [OF agreed]) (auto simp: p(1) pointer_reach_def)
    ultimately show ?thesis using frame [OF p(4)] p by (simp add: pointer_value_def pointer_reach_def)
  qed (use v in \<open>simp add: pointer_value_def pointer_reach_def\<close>)
next
  fix h p v q h1
  assume v: "pointer_value val h p = Some v" and c: "copy_pointer z into p h = (q, h1)"
  show "pointer_value val h1 q = Some v \<and> pointer_reach reach h1 q \<inter> {..<length h} = {} \<and> extends h h1"
  proof (cases p)
    case (Some ai)
    obtain a i where ai: "ai = (a, i)" by fastforce
    obtain x h2 where x: "into (h ! a ! i) (h @ [[z]]) = (x, h2)" by fastforce
    from v obtain w where w: "v = Some w" "val h (h ! a ! i) = Some w"
      by (auto simp: Some ai pointer_value_def split: if_splits)
    from c x have q: "q = Some (length h, 0)" "h1 = h2[length h := [x]]" by (simp_all add: Some ai copy_pointer_def Let_def)
    have "val (h @ [[z]]) (h ! a ! i) = Some w" using kept [OF w(2)] by simp
    from copied [OF this x] have x2: "val h2 x = Some w" "reach h2 x \<inter> {..length h} = {}" "extends (h @ [[z]]) h2"
      by (auto simp: lessThan_Suc_atMost)
    have "length h \<notin> reach h2 x" using x2(2) by auto
    from frame [OF x2(1) agree_update [OF this alive [OF x2(1)]]] have "val h1 x = Some w" "reach h1 x = reach h2 x"
      by (simp_all add: q)
    moreover have "length h < length h2" "extends h h1"
      using x2(3) extends_trans [OF extends_append x2(3)] by (auto simp: q extends_def)
    ultimately show ?thesis using x2(2) q w(1) by (auto simp: pointer_value_def pointer_reach_def)
  qed (use v c in \<open>simp add: pointer_value_def pointer_reach_def copy_pointer_def\<close>)
qed

lemmas slices_deep = slices.deep_copy_axioms

lemmas pointers_deep = pointers.deep_copy_axioms

end

subsection \<open>Structs\<close>

lemma deep_copy_plain: "deep_copy Pair (\<lambda>_ x. Some x) (\<lambda>_ _. {})"
  by unfold_locales (auto simp: agree_def)

text \<open>
  A struct whose \<open>DeepCopyInto\<close> copies it and then one field deeply, or two one after the
  other: \<open>get\<close> and \<open>put\<close> read and write the fields, \<open>mk\<close> is the struct with the value of a
  field in its place.
\<close>

definition option_pair :: "'a option \<Rightarrow> 'b option \<Rightarrow> ('a \<times> 'b) option" where
  "option_pair a b = (case (a, b) of (Some x, Some y) \<Rightarrow> Some (x, y) | _ \<Rightarrow> None)"

lemma option_pair_Some [simp]: "option_pair a b = Some (x, y) \<longleftrightarrow> a = Some x \<and> b = Some y"
  by (simp add: option_pair_def split: option.splits)

lemma deep_copy_field:
  assumes "deep_copy into val reach"
    and "\<And>x y. get (put y x) = y" and "\<And>x y. mk (put y x) = mk x"
  shows "deep_copy (\<lambda>x h. case into (get x) h of (y, h1) \<Rightarrow> (put y x, h1))
    (\<lambda>h x. map_option (mk x) (val h (get x))) (\<lambda>h x. reach h (get x))"
proof
  note d = deep_copy.alive [OF assms(1)] deep_copy.frame [OF assms(1)] deep_copy.copied [OF assms(1)]
  fix h x v assume "map_option (mk x) (val h (get x)) = Some v"
  then obtain w where w: "val h (get x) = Some w" "v = mk x w" by blast
  show "reach h (get x) \<subseteq> {..<length h}" by (rule d(1) [OF w(1)])
  show "map_option (mk x) (val h1 (get x)) = Some v \<and> reach h1 (get x) = reach h (get x)" if "agree (reach h (get x)) h h1" for h1
    using d(2) [OF w(1) that] w(2) by simp
  fix y h1 assume "(case into (get x) h of (y, h1) \<Rightarrow> (put y x, h1)) = (y, h1)"
  then obtain y1 where "into (get x) h = (y1, h1)" "y = put y1 x" by (auto split: prod.splits)
  with d(3) [OF w(1) this(1)] w(2) assms(2,3)
  show "map_option (mk y) (val h1 (get y)) = Some v \<and> reach h1 (get y) \<inter> {..<length h} = {} \<and> extends h h1" by simp
qed

lemma deep_copy_both:
  assumes "deep_copy into1 val1 reach1" and "deep_copy into2 val2 reach2"
  shows "deep_copy (\<lambda>(x, y) h. case into1 x h of (x1, h1) \<Rightarrow> case into2 y h1 of (y1, h2) \<Rightarrow> ((x1, y1), h2))
    (\<lambda>h (x, y). option_pair (val1 h x) (val2 h y)) (\<lambda>h (x, y). reach1 h x \<union> reach2 h y)"
    (is "deep_copy ?into ?val ?reach")
proof
  note d1 = deep_copy.alive [OF assms(1)] deep_copy.frame [OF assms(1)] deep_copy.copied [OF assms(1)] deep_copy.kept [OF assms(1)]
  note d2 = deep_copy.alive [OF assms(2)] deep_copy.frame [OF assms(2)] deep_copy.copied [OF assms(2)] deep_copy.kept [OF assms(2)]
  fix h p vw assume vw: "?val h p = Some vw"
  obtain x y v w where p: "p = (x, y)" "vw = (v, w)" by (cases p, cases vw) blast
  with vw have v: "val1 h x = Some v" and w: "val2 h y = Some w" by simp_all
  show "?reach h p \<subseteq> {..<length h}" using d1(1) [OF v] d2(1) [OF w] by (simp add: p)
  show "?val h1 p = Some vw \<and> ?reach h1 p = ?reach h p" if "agree (?reach h p) h h1" for h1
    using d1(2) [OF v agree_mono [OF that]] d2(2) [OF w agree_mono [OF that]] by (simp add: p)
  fix q h2 assume "?into p h = (q, h2)"
  then obtain x1 y1 h1 where c: "into1 x h = (x1, h1)" "into2 y h1 = (y1, h2)" and q: "q = (x1, y1)"
    by (auto simp: p split: prod.splits)
  from d1(3) [OF v c(1)] have x1: "val1 h1 x1 = Some v" "reach1 h1 x1 \<inter> {..<length h} = {}" "extends h h1" by auto
  from d2(4) [OF w x1(3)] d2(3) [OF _ c(2)]
  have y1: "val2 h2 y1 = Some w" "reach2 h2 y1 \<inter> {..<length h1} = {}" "extends h1 h2" by auto
  moreover have "val1 h2 x1 = Some v \<and> reach1 h2 x1 = reach1 h1 x1" by (rule d1(4) [OF x1(1) y1(3)])
  moreover have "{..<length h} \<subseteq> {..<length h1}" using x1(3) by (simp add: extends_def)
  ultimately show "?val h2 q = Some vw \<and> ?reach h2 q \<inter> {..<length h} = {} \<and> extends h h2"
    using x1(2) extends_trans [OF x1(3) y1(3)] by (auto simp: q p)
qed

text \<open>The values that lie in a cell: \<open>wrap\<close> makes the cell, \<open>unwrap\<close> reads it.\<close>

definition on_cell :: "('a \<Rightarrow> 'c) \<Rightarrow> ('c \<Rightarrow> 'a option) \<Rightarrow> ('a \<Rightarrow> 'c memory \<Rightarrow> 'a \<times> 'c memory) \<Rightarrow> 'c \<Rightarrow> 'c memory \<Rightarrow> 'c \<times> 'c memory" where
  "on_cell wrap unwrap into c h =
     (case unwrap c of None \<Rightarrow> (c, h) | Some x \<Rightarrow> (case into x h of (y, h1) \<Rightarrow> (wrap y, h1)))"

definition cell_value :: "('c \<Rightarrow> 'a option) \<Rightarrow> ('c memory \<Rightarrow> 'a \<Rightarrow> 'v option) \<Rightarrow> 'c memory \<Rightarrow> 'c \<Rightarrow> 'v option" where
  "cell_value unwrap val h c = Option.bind (unwrap c) (val h)"

definition cell_reach :: "('c \<Rightarrow> 'a option) \<Rightarrow> ('c memory \<Rightarrow> 'a \<Rightarrow> nat set) \<Rightarrow> 'c memory \<Rightarrow> 'c \<Rightarrow> nat set" where
  "cell_reach unwrap reach h c = (case unwrap c of None \<Rightarrow> {} | Some x \<Rightarrow> reach h x)"

lemma deep_copy_on_cell:
  assumes "deep_copy into val reach" and "\<And>x. unwrap (wrap x) = Some x"
  shows "deep_copy_cells (on_cell wrap unwrap into) (cell_value unwrap val) (cell_reach unwrap reach)"
proof (intro deep_copy_cells.intro, unfold_locales)
  note d = deep_copy.alive [OF assms(1)] deep_copy.frame [OF assms(1)] deep_copy.copied [OF assms(1)]
  fix h c v assume "cell_value unwrap val h c = Some v"
  then obtain x where x: "unwrap c = Some x" "val h x = Some v" by (auto simp: cell_value_def bind_eq_Some_conv)
  show "cell_reach unwrap reach h c \<subseteq> {..<length h}" using d(1) [OF x(2)] x(1) by (simp add: cell_reach_def)
  show "cell_value unwrap val h1 c = Some v \<and> cell_reach unwrap reach h1 c = cell_reach unwrap reach h c"
    if "agree (cell_reach unwrap reach h c) h h1" for h1
    using d(2) [OF x(2), of h1] that x(1) by (simp add: cell_value_def cell_reach_def)
  fix c1 h1 assume "on_cell wrap unwrap into c h = (c1, h1)"
  with x(1) obtain y where "into x h = (y, h1)" "c1 = wrap y" by (auto simp: on_cell_def split: prod.splits)
  with d(3) [OF x(2) this(1)]
  show "cell_value unwrap val h1 c1 = Some v \<and> cell_reach unwrap reach h1 c1 \<inter> {..<length h} = {} \<and> extends h h1"
    by (simp add: cell_value_def cell_reach_def assms(2))
qed

text \<open>A slice whose elements refer to nothing can be copied as a whole.\<close>

lemma deep_copy_slice_copy:
  assumes "\<And>x. unwrap (wrap x) = Some x"
  shows "deep_copy (slice_copy z) (slice_value (cell_value unwrap (\<lambda>_ x. Some x))) (slice_reach (cell_reach unwrap (\<lambda>_ _. {})))"
    (is "deep_copy _ ?val ?reach")
proof
  have cells: "deep_copy_cells (on_cell wrap unwrap Pair) (cell_value unwrap (\<lambda>_ x. Some x)) (cell_reach unwrap (\<lambda>_ _. {}))"
    by (rule deep_copy_on_cell [OF deep_copy_plain]) (rule assms)
  fix h s v assume v: "?val h s = Some v"
  show "?reach h s \<subseteq> {..<length h}" by (rule deep_copy.alive [OF deep_copy_cells.slices_deep [OF cells] v])
  show "?val h1 s = Some v \<and> ?reach h1 s = ?reach h s" if "agree (?reach h s) h h1" for h1
    by (rule deep_copy.frame [OF deep_copy_cells.slices_deep [OF cells] v that])
  fix t h1 assume c: "slice_copy z s h = (t, h1)"
  show "?val h1 t = Some v \<and> ?reach h1 t \<inter> {..<length h} = {} \<and> extends h h1"
  proof (cases s)
    case (Slice a p n)
    with v have a: "a < length h" "p + n \<le> length (h ! a)" by (auto simp: slice_value_def split: if_splits)
    with c have t: "t = Slice (length h) 0 n" "h1 = h @ [cells_of h s]"
      by (auto simp: Slice slice_copy_def make_slice_def store_at_def nth_append)
    have "cell_value unwrap (\<lambda>_ x. Some x) h1 = cell_value unwrap (\<lambda>_ x. Some x) h" by (simp add: fun_eq_iff cell_value_def)
    then show ?thesis using v t a by (auto simp: Slice slice_value_def slice_reach_def cell_reach_def split: option.splits)
  qed (use v c in \<open>simp add: slice_value_def slice_reach_def slice_copy_def\<close>)
qed

end
