(* ===== verification/DeepCopy.thy ===== *)
theory DeepCopy
  imports Memory
begin

text \<open>
  The deep copies of the release resources (\<open>zz_generated.deepcopy.go\<close> under
  \<open>pkg/controllers/kubernetes/api/v1\<close>, over the types of \<open>release_types.go\<close>). The client of
  the controller answers from a cache it shares with others and copies with these
  functions, so what the reconciler writes into a resource must not reach the cached one.
  Everywhere else the resources are the values of \<open>Reconciler\<close>.
\<close>

subsection \<open>The types\<close>

text \<open>
  \<open>'s\<close>, \<open>'q\<close>, \<open>'w\<close> and \<open>'i\<close> are the slices of status names, queries, webhooks and releases: a
  \<open>slice\<close> in memory, a list or nothing in a value. \<open>'t\<close>, \<open>'m\<close> and \<open>'l\<close> are the library's
  \<open>TypeMeta\<close>, \<open>ObjectMeta\<close> and \<open>ListMeta\<close>.
\<close>

record query_v1 =
  q1_name :: string
  q1_preset :: string
  q1_min :: int
  q1_max :: int
  q1_query :: string

record 's webhook_config_v1 =
  wc1_id :: string
  wc1_token :: string
  wc1_url :: string
  wc1_template :: string
  wc1_status :: 's

record 's webhook_v1 =
  wh1_name :: string
  wh1_plugin :: string
  wh1_config :: "'s webhook_config_v1"

record releaser_config_v1 =
  rec1_service :: string
  rec1_namespace :: string
  rec1_partition :: string

record releaser_v1 =
  rel1_plugin :: string
  rel1_config :: releaser_config_v1

record runtime_config_v1 =
  ruc1_deployment :: string

record runtime_v1 =
  run1_plugin :: string
  run1_config :: runtime_config_v1

record strategy_config_v1 =
  stc1_initial_delay :: string
  stc1_interval :: string
  stc1_initial_traffic :: int
  stc1_traffic_step :: int
  stc1_max_traffic :: int
  stc1_error_threshold :: int

record strategy_v1 =
  str1_plugin :: string
  str1_config :: strategy_config_v1

record 'q monitor_config_v1 =
  moc1_address :: string
  moc1_queries :: 'q

record 'q monitor_v1 =
  mon1_plugin :: string
  mon1_config :: "'q monitor_config_v1"

record test_config_v1 =
  tec1_path :: string
  tec1_method :: string
  tec1_payload :: string
  tec1_required :: int
  tec1_interval :: string
  tec1_timeout :: string

record test_v1 =
  tes1_plugin :: string
  tes1_config :: test_config_v1

record ('w, 'q) release_spec_v1 =
  spec1_webhooks :: 'w
  spec1_releaser :: releaser_v1
  spec1_runtime :: runtime_v1
  spec1_strategy :: strategy_v1
  spec1_monitor :: "'q monitor_v1"
  spec1_test :: test_v1

datatype release_status_v1 = ReleaseStatus

record ('t, 'm, 'w, 'q) release_v1 =
  rl1_type :: 't
  rl1_meta :: 'm
  rl1_spec :: "('w, 'q) release_spec_v1"
  rl1_status :: release_status_v1

record ('t, 'l, 'i) release_list_v1 =
  ll1_type :: 't
  ll1_meta :: 'l
  ll1_items :: 'i

text \<open>What a cell of an array holds; the cells of the library's own memory are \<open>'x\<close>.\<close>

datatype ('t, 'm, 'l, 'x) cell =
    CZero
  | COther 'x
  | CString string
  | CQuery query_v1
  | CWebhookConfig "slice webhook_config_v1"
  | CWebhook "slice webhook_v1"
  | CReleaserConfig releaser_config_v1
  | CReleaser releaser_v1
  | CRuntimeConfig runtime_config_v1
  | CRuntime runtime_v1
  | CStrategyConfig strategy_config_v1
  | CStrategy strategy_v1
  | CMonitorConfig "slice monitor_config_v1"
  | CMonitor "slice monitor_v1"
  | CTestConfig test_config_v1
  | CTest test_v1
  | CReleaseSpec "(slice, slice) release_spec_v1"
  | CReleaseStatus release_status_v1
  | CRelease "('t, 'm, slice, slice) release_v1"
  | CReleaseList "('t, 'l, slice) release_list_v1"

type_synonym ('t, 'm, 'l, 'x) mem = "('t, 'm, 'l, 'x) cell memory"

fun the_string :: "('t, 'm, 'l, 'x) cell \<Rightarrow> string option" where
  "the_string (CString x) = Some x"
| "the_string _ = None"

fun the_query :: "('t, 'm, 'l, 'x) cell \<Rightarrow> query_v1 option" where
  "the_query (CQuery x) = Some x"
| "the_query _ = None"

fun the_webhook_config :: "('t, 'm, 'l, 'x) cell \<Rightarrow> (slice webhook_config_v1) option" where
  "the_webhook_config (CWebhookConfig x) = Some x"
| "the_webhook_config _ = None"

fun the_webhook :: "('t, 'm, 'l, 'x) cell \<Rightarrow> (slice webhook_v1) option" where
  "the_webhook (CWebhook x) = Some x"
| "the_webhook _ = None"

fun the_releaser_config :: "('t, 'm, 'l, 'x) cell \<Rightarrow> releaser_config_v1 option" where
  "the_releaser_config (CReleaserConfig x) = Some x"
| "the_releaser_config _ = None"

fun the_releaser :: "('t, 'm, 'l, 'x) cell \<Rightarrow> releaser_v1 option" where
  "the_releaser (CReleaser x) = Some x"
| "the_releaser _ = None"

fun the_runtime_config :: "('t, 'm, 'l, 'x) cell \<Rightarrow> runtime_config_v1 option" where
  "the_runtime_config (CRuntimeConfig x) = Some x"
| "the_runtime_config _ = None"

fun the_runtime :: "('t, 'm, 'l, 'x) cell \<Rightarrow> runtime_v1 option" where
  "the_runtime (CRuntime x) = Some x"
| "the_runtime _ = None"

fun the_strategy_config :: "('t, 'm, 'l, 'x) cell \<Rightarrow> strategy_config_v1 option" where
  "the_strategy_config (CStrategyConfig x) = Some x"
| "the_strategy_config _ = None"

fun the_strategy :: "('t, 'm, 'l, 'x) cell \<Rightarrow> strategy_v1 option" where
  "the_strategy (CStrategy x) = Some x"
| "the_strategy _ = None"

fun the_monitor_config :: "('t, 'm, 'l, 'x) cell \<Rightarrow> (slice monitor_config_v1) option" where
  "the_monitor_config (CMonitorConfig x) = Some x"
| "the_monitor_config _ = None"

fun the_monitor :: "('t, 'm, 'l, 'x) cell \<Rightarrow> (slice monitor_v1) option" where
  "the_monitor (CMonitor x) = Some x"
| "the_monitor _ = None"

fun the_test_config :: "('t, 'm, 'l, 'x) cell \<Rightarrow> test_config_v1 option" where
  "the_test_config (CTestConfig x) = Some x"
| "the_test_config _ = None"

fun the_test :: "('t, 'm, 'l, 'x) cell \<Rightarrow> test_v1 option" where
  "the_test (CTest x) = Some x"
| "the_test _ = None"

fun the_release_spec :: "('t, 'm, 'l, 'x) cell \<Rightarrow> ((slice, slice) release_spec_v1) option" where
  "the_release_spec (CReleaseSpec x) = Some x"
| "the_release_spec _ = None"

fun the_release_status :: "('t, 'm, 'l, 'x) cell \<Rightarrow> release_status_v1 option" where
  "the_release_status (CReleaseStatus x) = Some x"
| "the_release_status _ = None"

fun the_release :: "('t, 'm, 'l, 'x) cell \<Rightarrow> (('t, 'm, slice, slice) release_v1) option" where
  "the_release (CRelease x) = Some x"
| "the_release _ = None"

fun the_release_list :: "('t, 'm, 'l, 'x) cell \<Rightarrow> (('t, 'l, slice) release_list_v1) option" where
  "the_release_list (CReleaseList x) = Some x"
| "the_release_list _ = None"

subsection \<open>The copies\<close>

text \<open>
  \<open>DeepCopyInto\<close> takes what the receiver points to and gives what is written through its
  argument: \<open>*out = *in\<close> and the fields that hold slices again. An assignment of a field that
  \<open>*out = *in\<close> has set is not repeated.
\<close>

definition Query_DeepCopyInto :: "query_v1 \<Rightarrow> ('t, 'm, 'l, 'x) mem \<Rightarrow> query_v1 \<times> ('t, 'm, 'l, 'x) mem" where
  "Query_DeepCopyInto x h = (x, h)"

definition WebhookConfig_DeepCopyInto :: "slice webhook_config_v1 \<Rightarrow> ('t, 'm, 'l, 'x) mem \<Rightarrow> slice webhook_config_v1 \<times> ('t, 'm, 'l, 'x) mem" where
  "WebhookConfig_DeepCopyInto x h = (case slice_copy CZero (wc1_status x) h of (s, h1) \<Rightarrow> (x\<lparr>wc1_status := s\<rparr>, h1))"

definition Webhook_DeepCopyInto :: "slice webhook_v1 \<Rightarrow> ('t, 'm, 'l, 'x) mem \<Rightarrow> slice webhook_v1 \<times> ('t, 'm, 'l, 'x) mem" where
  "Webhook_DeepCopyInto x h = (case WebhookConfig_DeepCopyInto (wh1_config x) h of (c, h1) \<Rightarrow> (x\<lparr>wh1_config := c\<rparr>, h1))"

definition ReleaserConfig_DeepCopyInto :: "releaser_config_v1 \<Rightarrow> ('t, 'm, 'l, 'x) mem \<Rightarrow> releaser_config_v1 \<times> ('t, 'm, 'l, 'x) mem" where
  "ReleaserConfig_DeepCopyInto x h = (x, h)"

definition Releaser_DeepCopyInto :: "releaser_v1 \<Rightarrow> ('t, 'm, 'l, 'x) mem \<Rightarrow> releaser_v1 \<times> ('t, 'm, 'l, 'x) mem" where
  "Releaser_DeepCopyInto x h = (x, h)"

definition RuntimeConfig_DeepCopyInto :: "runtime_config_v1 \<Rightarrow> ('t, 'm, 'l, 'x) mem \<Rightarrow> runtime_config_v1 \<times> ('t, 'm, 'l, 'x) mem" where
  "RuntimeConfig_DeepCopyInto x h = (x, h)"

definition Runtime_DeepCopyInto :: "runtime_v1 \<Rightarrow> ('t, 'm, 'l, 'x) mem \<Rightarrow> runtime_v1 \<times> ('t, 'm, 'l, 'x) mem" where
  "Runtime_DeepCopyInto x h = (x, h)"

definition StrategyConfig_DeepCopyInto :: "strategy_config_v1 \<Rightarrow> ('t, 'm, 'l, 'x) mem \<Rightarrow> strategy_config_v1 \<times> ('t, 'm, 'l, 'x) mem" where
  "StrategyConfig_DeepCopyInto x h = (x, h)"

definition Strategy_DeepCopyInto :: "strategy_v1 \<Rightarrow> ('t, 'm, 'l, 'x) mem \<Rightarrow> strategy_v1 \<times> ('t, 'm, 'l, 'x) mem" where
  "Strategy_DeepCopyInto x h = (x, h)"

definition MonitorConfig_DeepCopyInto :: "slice monitor_config_v1 \<Rightarrow> ('t, 'm, 'l, 'x) mem \<Rightarrow> slice monitor_config_v1 \<times> ('t, 'm, 'l, 'x) mem" where
  "MonitorConfig_DeepCopyInto x h = (case slice_copy CZero (moc1_queries x) h of (s, h1) \<Rightarrow> (x\<lparr>moc1_queries := s\<rparr>, h1))"

definition Monitor_DeepCopyInto :: "slice monitor_v1 \<Rightarrow> ('t, 'm, 'l, 'x) mem \<Rightarrow> slice monitor_v1 \<times> ('t, 'm, 'l, 'x) mem" where
  "Monitor_DeepCopyInto x h = (case MonitorConfig_DeepCopyInto (mon1_config x) h of (c, h1) \<Rightarrow> (x\<lparr>mon1_config := c\<rparr>, h1))"

definition TestConfig_DeepCopyInto :: "test_config_v1 \<Rightarrow> ('t, 'm, 'l, 'x) mem \<Rightarrow> test_config_v1 \<times> ('t, 'm, 'l, 'x) mem" where
  "TestConfig_DeepCopyInto x h = (x, h)"

definition Test_DeepCopyInto :: "test_v1 \<Rightarrow> ('t, 'm, 'l, 'x) mem \<Rightarrow> test_v1 \<times> ('t, 'm, 'l, 'x) mem" where
  "Test_DeepCopyInto x h = (x, h)"

definition ReleaseSpec_DeepCopyInto :: "(slice, slice) release_spec_v1 \<Rightarrow> ('t, 'm, 'l, 'x) mem \<Rightarrow> (slice, slice) release_spec_v1 \<times> ('t, 'm, 'l, 'x) mem" where
  "ReleaseSpec_DeepCopyInto x h = 
     (case slice_each CZero (on_cell CWebhook the_webhook Webhook_DeepCopyInto) (spec1_webhooks x) h of
        (ws, h1) \<Rightarrow>
          (case Monitor_DeepCopyInto (spec1_monitor x) h1 of
             (m, h2) \<Rightarrow> (x\<lparr>spec1_webhooks := ws, spec1_monitor := m\<rparr>, h2)))"

definition ReleaseStatus_DeepCopyInto :: "release_status_v1 \<Rightarrow> ('t, 'm, 'l, 'x) mem \<Rightarrow> release_status_v1 \<times> ('t, 'm, 'l, 'x) mem" where
  "ReleaseStatus_DeepCopyInto x h = (x, h)"

definition Release_DeepCopyInto :: "('m \<Rightarrow> ('t, 'm, 'l, 'x) mem \<Rightarrow> 'm \<times> ('t, 'm, 'l, 'x) mem) \<Rightarrow> ('t, 'm, slice, slice) release_v1 \<Rightarrow> ('t, 'm, 'l, 'x) mem \<Rightarrow> ('t, 'm, slice, slice) release_v1 \<times> ('t, 'm, 'l, 'x) mem" where
  "Release_DeepCopyInto om_into x h = 
     (case om_into (rl1_meta x) h of
        (m, h1) \<Rightarrow>
          (case ReleaseSpec_DeepCopyInto (rl1_spec x) h1 of
             (s, h2) \<Rightarrow> (x\<lparr>rl1_meta := m, rl1_spec := s\<rparr>, h2)))"

definition ReleaseList_DeepCopyInto :: "('m \<Rightarrow> ('t, 'm, 'l, 'x) mem \<Rightarrow> 'm \<times> ('t, 'm, 'l, 'x) mem) \<Rightarrow> 
    ('l \<Rightarrow> ('t, 'm, 'l, 'x) mem \<Rightarrow> 'l \<times> ('t, 'm, 'l, 'x) mem) \<Rightarrow> ('t, 'l, slice) release_list_v1 \<Rightarrow> ('t, 'm, 'l, 'x) mem \<Rightarrow> ('t, 'l, slice) release_list_v1 \<times> ('t, 'm, 'l, 'x) mem" where
  "ReleaseList_DeepCopyInto om_into lm_into x h = 
     (case lm_into (ll1_meta x) h of
        (m, h1) \<Rightarrow>
          (case slice_each CZero (on_cell CRelease the_release (Release_DeepCopyInto om_into)) (ll1_items x) h1 of
             (rs, h2) \<Rightarrow> (x\<lparr>ll1_meta := m, ll1_items := rs\<rparr>, h2)))"

text \<open>\<open>DeepCopy\<close>, of a pointer.\<close>

definition Query_DeepCopy :: "pointer \<Rightarrow> ('t, 'm, 'l, 'x) mem \<Rightarrow> pointer \<times> ('t, 'm, 'l, 'x) mem" where
  "Query_DeepCopy = copy_pointer CZero (on_cell CQuery the_query Query_DeepCopyInto)"

definition WebhookConfig_DeepCopy :: "pointer \<Rightarrow> ('t, 'm, 'l, 'x) mem \<Rightarrow> pointer \<times> ('t, 'm, 'l, 'x) mem" where
  "WebhookConfig_DeepCopy = copy_pointer CZero (on_cell CWebhookConfig the_webhook_config WebhookConfig_DeepCopyInto)"

definition Webhook_DeepCopy :: "pointer \<Rightarrow> ('t, 'm, 'l, 'x) mem \<Rightarrow> pointer \<times> ('t, 'm, 'l, 'x) mem" where
  "Webhook_DeepCopy = copy_pointer CZero (on_cell CWebhook the_webhook Webhook_DeepCopyInto)"

definition ReleaserConfig_DeepCopy :: "pointer \<Rightarrow> ('t, 'm, 'l, 'x) mem \<Rightarrow> pointer \<times> ('t, 'm, 'l, 'x) mem" where
  "ReleaserConfig_DeepCopy = copy_pointer CZero (on_cell CReleaserConfig the_releaser_config ReleaserConfig_DeepCopyInto)"

definition Releaser_DeepCopy :: "pointer \<Rightarrow> ('t, 'm, 'l, 'x) mem \<Rightarrow> pointer \<times> ('t, 'm, 'l, 'x) mem" where
  "Releaser_DeepCopy = copy_pointer CZero (on_cell CReleaser the_releaser Releaser_DeepCopyInto)"

definition RuntimeConfig_DeepCopy :: "pointer \<Rightarrow> ('t, 'm, 'l, 'x) mem \<Rightarrow> pointer \<times> ('t, 'm, 'l, 'x) mem" where
  "RuntimeConfig_DeepCopy = copy_pointer CZero (on_cell CRuntimeConfig the_runtime_config RuntimeConfig_DeepCopyInto)"

definition Runtime_DeepCopy :: "pointer \<Rightarrow> ('t, 'm, 'l, 'x) mem \<Rightarrow> pointer \<times> ('t, 'm, 'l, 'x) mem" where
  "Runtime_DeepCopy = copy_pointer CZero (on_cell CRuntime the_runtime Runtime_DeepCopyInto)"

definition StrategyConfig_DeepCopy :: "pointer \<Rightarrow> ('t, 'm, 'l, 'x) mem \<Rightarrow> pointer \<times> ('t, 'm, 'l, 'x) mem" where
  "StrategyConfig_DeepCopy = copy_pointer CZero (on_cell CStrategyConfig the_strategy_config StrategyConfig_DeepCopyInto)"

definition Strategy_DeepCopy :: "pointer \<Rightarrow> ('t, 'm, 'l, 'x) mem \<Rightarrow> pointer \<times> ('t, 'm, 'l, 'x) mem" where
  "Strategy_DeepCopy = copy_pointer CZero (on_cell CStrategy the_strategy Strategy_DeepCopyInto)"

definition MonitorConfig_DeepCopy :: "pointer \<Rightarrow> ('t, 'm, 'l, 'x) mem \<Rightarrow> pointer \<times> ('t, 'm, 'l, 'x) mem" where
  "MonitorConfig_DeepCopy = copy_pointer CZero (on_cell CMonitorConfig the_monitor_config MonitorConfig_DeepCopyInto)"

definition Monitor_DeepCopy :: "pointer \<Rightarrow> ('t, 'm, 'l, 'x) mem \<Rightarrow> pointer \<times> ('t, 'm, 'l, 'x) mem" where
  "Monitor_DeepCopy = copy_pointer CZero (on_cell CMonitor the_monitor Monitor_DeepCopyInto)"

definition TestConfig_DeepCopy :: "pointer \<Rightarrow> ('t, 'm, 'l, 'x) mem \<Rightarrow> pointer \<times> ('t, 'm, 'l, 'x) mem" where
  "TestConfig_DeepCopy = copy_pointer CZero (on_cell CTestConfig the_test_config TestConfig_DeepCopyInto)"

definition Test_DeepCopy :: "pointer \<Rightarrow> ('t, 'm, 'l, 'x) mem \<Rightarrow> pointer \<times> ('t, 'm, 'l, 'x) mem" where
  "Test_DeepCopy = copy_pointer CZero (on_cell CTest the_test Test_DeepCopyInto)"

definition ReleaseSpec_DeepCopy :: "pointer \<Rightarrow> ('t, 'm, 'l, 'x) mem \<Rightarrow> pointer \<times> ('t, 'm, 'l, 'x) mem" where
  "ReleaseSpec_DeepCopy = copy_pointer CZero (on_cell CReleaseSpec the_release_spec ReleaseSpec_DeepCopyInto)"

definition ReleaseStatus_DeepCopy :: "pointer \<Rightarrow> ('t, 'm, 'l, 'x) mem \<Rightarrow> pointer \<times> ('t, 'm, 'l, 'x) mem" where
  "ReleaseStatus_DeepCopy = copy_pointer CZero (on_cell CReleaseStatus the_release_status ReleaseStatus_DeepCopyInto)"

definition Release_DeepCopy :: "('m \<Rightarrow> ('t, 'm, 'l, 'x) mem \<Rightarrow> 'm \<times> ('t, 'm, 'l, 'x) mem) \<Rightarrow> pointer \<Rightarrow> ('t, 'm, 'l, 'x) mem \<Rightarrow> pointer \<times> ('t, 'm, 'l, 'x) mem" where
  "Release_DeepCopy om_into = copy_pointer CZero (on_cell CRelease the_release (Release_DeepCopyInto om_into))"

definition ReleaseList_DeepCopy :: "('m \<Rightarrow> ('t, 'm, 'l, 'x) mem \<Rightarrow> 'm \<times> ('t, 'm, 'l, 'x) mem) \<Rightarrow> 
    ('l \<Rightarrow> ('t, 'm, 'l, 'x) mem \<Rightarrow> 'l \<times> ('t, 'm, 'l, 'x) mem) \<Rightarrow> pointer \<Rightarrow> ('t, 'm, 'l, 'x) mem \<Rightarrow> pointer \<times> ('t, 'm, 'l, 'x) mem" where
  "ReleaseList_DeepCopy om_into lm_into = copy_pointer CZero (on_cell CReleaseList the_release_list (ReleaseList_DeepCopyInto om_into lm_into))"

text \<open>
  \<open>DeepCopyObject\<close> answers with a value of the interface \<open>runtime.Object\<close>, which is \<open>nil\<close> only
  when it has no type: a nil pointer put into it is not.
\<close>

datatype object = NilObject | ObjRelease pointer | ObjReleaseList pointer

definition Release_DeepCopyObject :: "('m \<Rightarrow> ('t, 'm, 'l, 'x) mem \<Rightarrow> 'm \<times> ('t, 'm, 'l, 'x) mem) \<Rightarrow> pointer \<Rightarrow> ('t, 'm, 'l, 'x) mem \<Rightarrow> object \<times> ('t, 'm, 'l, 'x) mem" where
  "Release_DeepCopyObject om_into p h =
     (case Release_DeepCopy om_into p h of (c, h1) \<Rightarrow> (if c \<noteq> None then ObjRelease c else NilObject, h1))"

definition ReleaseList_DeepCopyObject :: "('m \<Rightarrow> ('t, 'm, 'l, 'x) mem \<Rightarrow> 'm \<times> ('t, 'm, 'l, 'x) mem) \<Rightarrow> 
    ('l \<Rightarrow> ('t, 'm, 'l, 'x) mem \<Rightarrow> 'l \<times> ('t, 'm, 'l, 'x) mem) \<Rightarrow> pointer \<Rightarrow> ('t, 'm, 'l, 'x) mem \<Rightarrow> object \<times> ('t, 'm, 'l, 'x) mem" where
  "ReleaseList_DeepCopyObject om_into lm_into p h =
     (case ReleaseList_DeepCopy om_into lm_into p h of (c, h1) \<Rightarrow> (if c \<noteq> None then ObjReleaseList c else NilObject, h1))"

subsection \<open>What a resource is, whatever memory it lies in\<close>

abbreviation string_cell :: "('t, 'm, 'l, 'x) mem \<Rightarrow> ('t, 'm, 'l, 'x) cell \<Rightarrow> string option" where
  "string_cell \<equiv> cell_value the_string (\<lambda>_ x. Some x)"

abbreviation query_cell :: "('t, 'm, 'l, 'x) mem \<Rightarrow> ('t, 'm, 'l, 'x) cell \<Rightarrow> query_v1 option" where
  "query_cell \<equiv> cell_value the_query (\<lambda>_ x. Some x)"

type_synonym webhook_config_value = "string list option webhook_config_v1"
type_synonym webhook_value = "string list option webhook_v1"
type_synonym monitor_value = "query_v1 list option monitor_v1"
type_synonym spec_value = "(webhook_value list option, query_v1 list option) release_spec_v1"
type_synonym ('t, 'v) release_value = "('t, 'v, webhook_value list option, query_v1 list option) release_v1"
type_synonym ('t, 'v, 'u) release_list_value = "('t, 'u, ('t, 'v) release_value list option) release_list_v1"

definition with_status :: "'r webhook_config_v1 \<Rightarrow> 's \<Rightarrow> 's webhook_config_v1" where
  "with_status x s =
     \<lparr>wc1_id = wc1_id x, wc1_token = wc1_token x, wc1_url = wc1_url x, wc1_template = wc1_template x, wc1_status = s\<rparr>"

definition with_webhook_config :: "'r webhook_v1 \<Rightarrow> 's webhook_config_v1 \<Rightarrow> 's webhook_v1" where
  "with_webhook_config x c = \<lparr>wh1_name = wh1_name x, wh1_plugin = wh1_plugin x, wh1_config = c\<rparr>"

definition with_queries :: "'r monitor_config_v1 \<Rightarrow> 'q \<Rightarrow> 'q monitor_config_v1" where
  "with_queries x s = \<lparr>moc1_address = moc1_address x, moc1_queries = s\<rparr>"

definition with_monitor_config :: "'r monitor_v1 \<Rightarrow> 'q monitor_config_v1 \<Rightarrow> 'q monitor_v1" where
  "with_monitor_config x c = \<lparr>mon1_plugin = mon1_plugin x, mon1_config = c\<rparr>"

definition with_webhooks_monitor :: "('v, 'r) release_spec_v1 \<Rightarrow> 'w \<times> 'q monitor_v1 \<Rightarrow> ('w, 'q) release_spec_v1" where
  "with_webhooks_monitor x p =
     \<lparr>spec1_webhooks = fst p, spec1_releaser = spec1_releaser x, spec1_runtime = spec1_runtime x,
      spec1_strategy = spec1_strategy x, spec1_monitor = snd p, spec1_test = spec1_test x\<rparr>"

definition with_meta_spec :: "('t, 'm, 'v, 'r) release_v1 \<Rightarrow> 'n \<times> ('w, 'q) release_spec_v1 \<Rightarrow> ('t, 'n, 'w, 'q) release_v1" where
  "with_meta_spec x p = \<lparr>rl1_type = rl1_type x, rl1_meta = fst p, rl1_spec = snd p, rl1_status = rl1_status x\<rparr>"

definition with_meta_items :: "('t, 'l, 'i) release_list_v1 \<Rightarrow> 'k \<times> 'j \<Rightarrow> ('t, 'k, 'j) release_list_v1" where
  "with_meta_items x p = \<lparr>ll1_type = ll1_type x, ll1_meta = fst p, ll1_items = snd p\<rparr>"

lemmas with_defs =
  with_status_def with_webhook_config_def with_queries_def with_monitor_config_def with_webhooks_monitor_def with_meta_spec_def
  with_meta_items_def

definition webhook_config_value :: "('t, 'm, 'l, 'x) mem \<Rightarrow> slice webhook_config_v1 \<Rightarrow> (webhook_config_value) option" where
  "webhook_config_value h x = map_option (with_status x)
     (slice_value string_cell h (wc1_status x))"

definition webhook_config_reach :: "('t, 'm, 'l, 'x) mem \<Rightarrow> slice webhook_config_v1 \<Rightarrow> nat set" where
  "webhook_config_reach h x = slice_reach (cell_reach the_string (\<lambda>_ _. {})) h (wc1_status x)"

definition webhook_value :: "('t, 'm, 'l, 'x) mem \<Rightarrow> slice webhook_v1 \<Rightarrow> (webhook_value) option" where
  "webhook_value h x = map_option (with_webhook_config x)
     (webhook_config_value h (wh1_config x))"

definition webhook_reach :: "('t, 'm, 'l, 'x) mem \<Rightarrow> slice webhook_v1 \<Rightarrow> nat set" where
  "webhook_reach h x = webhook_config_reach h (wh1_config x)"

definition monitor_config_value :: "('t, 'm, 'l, 'x) mem \<Rightarrow> slice monitor_config_v1 \<Rightarrow> (query_v1 list option monitor_config_v1) option" where
  "monitor_config_value h x = map_option (with_queries x)
     (slice_value query_cell h (moc1_queries x))"

definition monitor_config_reach :: "('t, 'm, 'l, 'x) mem \<Rightarrow> slice monitor_config_v1 \<Rightarrow> nat set" where
  "monitor_config_reach h x = slice_reach (cell_reach the_query (\<lambda>_ _. {})) h (moc1_queries x)"

definition monitor_value :: "('t, 'm, 'l, 'x) mem \<Rightarrow> slice monitor_v1 \<Rightarrow> (monitor_value) option" where
  "monitor_value h x = map_option (with_monitor_config x)
     (monitor_config_value h (mon1_config x))"

definition monitor_reach :: "('t, 'm, 'l, 'x) mem \<Rightarrow> slice monitor_v1 \<Rightarrow> nat set" where
  "monitor_reach h x = monitor_config_reach h (mon1_config x)"

definition spec_value :: "('t, 'm, 'l, 'x) mem \<Rightarrow> (slice, slice) release_spec_v1 \<Rightarrow> (spec_value) option" where
  "spec_value h x = map_option (with_webhooks_monitor x)
     (option_pair (slice_value (cell_value the_webhook webhook_value) h (spec1_webhooks x)) (monitor_value h (spec1_monitor x)))"

definition spec_reach :: "('t, 'm, 'l, 'x) mem \<Rightarrow> (slice, slice) release_spec_v1 \<Rightarrow> nat set" where
  "spec_reach h x = slice_reach (cell_reach the_webhook webhook_reach) h (spec1_webhooks x) \<union> monitor_reach h (spec1_monitor x)"

definition release_value :: "(('t, 'm, 'l, 'x) mem \<Rightarrow> 'm \<Rightarrow> 'v option) \<Rightarrow> ('t, 'm, 'l, 'x) mem \<Rightarrow> ('t, 'm, slice, slice) release_v1 \<Rightarrow> ('t, 'v) release_value option" where
  "release_value om_value h x = map_option (with_meta_spec x) (option_pair (om_value h (rl1_meta x)) (spec_value h (rl1_spec x)))"

definition release_reach :: "(('t, 'm, 'l, 'x) mem \<Rightarrow> 'm \<Rightarrow> nat set) \<Rightarrow> ('t, 'm, 'l, 'x) mem \<Rightarrow> ('t, 'm, slice, slice) release_v1 \<Rightarrow> nat set" where
  "release_reach om_reach h x = om_reach h (rl1_meta x) \<union> spec_reach h (rl1_spec x)"

definition release_list_value :: "(('t, 'm, 'l, 'x) mem \<Rightarrow> 'm \<Rightarrow> 'v option) \<Rightarrow> 
    (('t, 'm, 'l, 'x) mem \<Rightarrow> 'l \<Rightarrow> 'u option) \<Rightarrow> ('t, 'm, 'l, 'x) mem \<Rightarrow> ('t, 'l, slice) release_list_v1 \<Rightarrow> ('t, 'v, 'u) release_list_value option" where
  "release_list_value om_value lm_value h x = map_option (with_meta_items x)
     (option_pair (lm_value h (ll1_meta x)) (slice_value (cell_value the_release (release_value om_value)) h (ll1_items x)))"

definition release_list_reach :: "(('t, 'm, 'l, 'x) mem \<Rightarrow> 'm \<Rightarrow> nat set) \<Rightarrow> 
    (('t, 'm, 'l, 'x) mem \<Rightarrow> 'l \<Rightarrow> nat set) \<Rightarrow> ('t, 'm, 'l, 'x) mem \<Rightarrow> ('t, 'l, slice) release_list_v1 \<Rightarrow> nat set" where
  "release_list_reach om_reach lm_reach h x =
     lm_reach h (ll1_meta x) \<union> slice_reach (cell_reach the_release (release_reach om_reach)) h (ll1_items x)"

subsection \<open>They are deep copies\<close>

lemma deep_copy_fields:
  assumes "deep_copy into1 val1 reach1" and "deep_copy into2 val2 reach2"
    and "\<And>x a b. get1 (put a b x) = a \<and> get2 (put a b x) = b" and "\<And>x a b. mk (put a b x) = mk x"
  shows "deep_copy (\<lambda>x h. case into1 (get1 x) h of (a, h1) \<Rightarrow> case into2 (get2 x) h1 of (b, h2) \<Rightarrow> (put a b x, h2))
    (\<lambda>h x. map_option (mk x) (option_pair (val1 h (get1 x)) (val2 h (get2 x)))) (\<lambda>h x. reach1 h (get1 x) \<union> reach2 h (get2 x))"
  using deep_copy_field [OF deep_copy_both [OF assms(1,2)], of "\<lambda>x. (get1 x, get2 x)" "\<lambda>(a, b). put a b" mk] assms(3,4)
  by (simp add: split_beta')

interpretation webhook_config: deep_copy WebhookConfig_DeepCopyInto webhook_config_value webhook_config_reach
  unfolding WebhookConfig_DeepCopyInto_def [abs_def] webhook_config_value_def [abs_def] webhook_config_reach_def [abs_def]
  by (rule deep_copy_field [OF deep_copy_slice_copy [where wrap = CString], where put = "\<lambda>s x. x\<lparr>wc1_status := s\<rparr>"])
    (simp_all add: with_defs fun_eq_iff)

interpretation webhook: deep_copy Webhook_DeepCopyInto webhook_value webhook_reach
  unfolding Webhook_DeepCopyInto_def [abs_def] webhook_value_def [abs_def] webhook_reach_def [abs_def]
  by (rule deep_copy_field [OF webhook_config.deep_copy_axioms, where put = "\<lambda>s x. x\<lparr>wh1_config := s\<rparr>"])
    (simp_all add: with_defs fun_eq_iff)

interpretation monitor_config: deep_copy MonitorConfig_DeepCopyInto monitor_config_value monitor_config_reach
  unfolding MonitorConfig_DeepCopyInto_def [abs_def] monitor_config_value_def [abs_def] monitor_config_reach_def [abs_def]
  by (rule deep_copy_field [OF deep_copy_slice_copy [where wrap = CQuery], where put = "\<lambda>s x. x\<lparr>moc1_queries := s\<rparr>"])
    (simp_all add: with_defs fun_eq_iff)

interpretation monitor: deep_copy Monitor_DeepCopyInto monitor_value monitor_reach
  unfolding Monitor_DeepCopyInto_def [abs_def] monitor_value_def [abs_def] monitor_reach_def [abs_def]
  by (rule deep_copy_field [OF monitor_config.deep_copy_axioms, where put = "\<lambda>s x. x\<lparr>mon1_config := s\<rparr>"])
    (simp_all add: with_defs fun_eq_iff)

interpretation webhooks: deep_copy_cells "on_cell CWebhook the_webhook Webhook_DeepCopyInto"
    "cell_value the_webhook webhook_value" "cell_reach the_webhook webhook_reach" CZero
  by (rule deep_copy_on_cell [OF webhook.deep_copy_axioms]) simp

interpretation spec: deep_copy ReleaseSpec_DeepCopyInto spec_value spec_reach
  unfolding ReleaseSpec_DeepCopyInto_def [abs_def] spec_value_def [abs_def] spec_reach_def [abs_def]
  by (rule deep_copy_fields [OF webhooks.slices_deep monitor.deep_copy_axioms,
        where put = "\<lambda>a b x. x\<lparr>spec1_webhooks := a, spec1_monitor := b\<rparr>"])
    (simp_all add: with_defs fun_eq_iff)

lemma release_deep_copy:
  assumes "deep_copy om_into om_value om_reach"
  shows "deep_copy (Release_DeepCopyInto om_into) (release_value om_value) (release_reach om_reach)"
  unfolding Release_DeepCopyInto_def [abs_def] release_value_def [abs_def] release_reach_def [abs_def]
  by (rule deep_copy_fields [OF assms spec.deep_copy_axioms, where put = "\<lambda>a b x. x\<lparr>rl1_meta := a, rl1_spec := b\<rparr>"])
    (simp_all add: with_defs fun_eq_iff)

lemma release_cells:
  assumes "deep_copy om_into om_value om_reach"
  shows "deep_copy_cells (on_cell CRelease the_release (Release_DeepCopyInto om_into))
    (cell_value the_release (release_value om_value)) (cell_reach the_release (release_reach om_reach))"
  by (rule deep_copy_on_cell [OF release_deep_copy [OF assms]]) simp

lemma release_list_deep_copy:
  assumes "deep_copy om_into om_value om_reach" and "deep_copy lm_into lm_value lm_reach"
  shows "deep_copy (ReleaseList_DeepCopyInto om_into lm_into) (release_list_value om_value lm_value)
    (release_list_reach om_reach lm_reach)"
  unfolding ReleaseList_DeepCopyInto_def [abs_def] release_list_value_def [abs_def] release_list_reach_def [abs_def]
  by (rule deep_copy_fields [OF assms(2) deep_copy_cells.slices_deep [OF release_cells [OF assms(1)]],
        where put = "\<lambda>a b x. x\<lparr>ll1_meta := a, ll1_items := b\<rparr>"])
    (simp_all add: with_defs fun_eq_iff)

subsection \<open>Properties\<close>

abbreviation release_at :: "(('t, 'm, 'l, 'x) mem \<Rightarrow> 'm \<Rightarrow> 'v option) \<Rightarrow> ('t, 'm, 'l, 'x) mem \<Rightarrow> pointer \<Rightarrow> ('t, 'v) release_value option option" where
  "release_at om_value \<equiv> pointer_value (cell_value the_release (release_value om_value))"

abbreviation release_arrays :: "(('t, 'm, 'l, 'x) mem \<Rightarrow> 'm \<Rightarrow> nat set) \<Rightarrow> ('t, 'm, 'l, 'x) mem \<Rightarrow> pointer \<Rightarrow> nat set" where
  "release_arrays om_reach \<equiv> pointer_reach (cell_reach the_release (release_reach om_reach))"

text \<open>
  C26: A resource handed out from the cache is a copy of its own: it is not nil and reads as
  the cached resource does; what is written into any array the copy uses is not seen in the
  cached resource, and what is written into an array of the cached one is not seen in the copy.
\<close>

theorem handed_out_resource_is_independent:
  assumes "deep_copy om_into om_value om_reach" and "release_at om_value h (Some p) = Some (Some v)"
    and "Release_DeepCopyObject om_into (Some p) h = (obj, h1)"
  shows "\<exists>q. obj = ObjRelease (Some q) \<and> release_at om_value h1 (Some q) = Some (Some v) \<and>
    (\<forall>h2. agree ({..<length h1} - release_arrays om_reach h1 (Some q)) h1 h2 \<longrightarrow> release_at om_value h2 (Some p) = Some (Some v)) \<and>
    (\<forall>h2. agree ({..<length h1} - release_arrays om_reach h1 (Some p)) h1 h2 \<longrightarrow> release_at om_value h2 (Some q) = Some (Some v))"
proof -
  obtain q where q: "Release_DeepCopy om_into (Some p) h = (Some q, h1)" "obj = ObjRelease (Some q)"
    using assms(3) by (cases p) (auto simp: Release_DeepCopyObject_def Release_DeepCopy_def copy_pointer_def Let_def split: prod.splits)
  note c = deep_copy.independent [OF deep_copy_cells.pointers_deep [OF release_cells [OF assms(1)]] assms(2)
      q(1) [unfolded Release_DeepCopy_def]]
  from c(1) c(2,3) q(2) show ?thesis by blast
qed

text \<open>An object's metadata with a name and the finalizers, and a release in memory that uses every kind of slice.\<close>

type_synonym demo_mem = "(unit, string \<times> slice, unit, unit) mem"

definition demo_into :: "string \<times> slice \<Rightarrow> demo_mem \<Rightarrow> (string \<times> slice) \<times> demo_mem" where
  "demo_into x h = (case slice_copy CZero (snd x) h of (s, h1) \<Rightarrow> ((fst x, s), h1))"

definition demo_value :: "demo_mem \<Rightarrow> string \<times> slice \<Rightarrow> (string \<times> string list option) option" where
  "demo_value h x = map_option (Pair (fst x)) (slice_value string_cell h (snd x))"

definition demo_reach :: "demo_mem \<Rightarrow> string \<times> slice \<Rightarrow> nat set" where
  "demo_reach h x = slice_reach (cell_reach the_string (\<lambda>_ _. {})) h (snd x)"

lemma demo_deep_copy: "deep_copy demo_into demo_value demo_reach"
  unfolding demo_into_def [abs_def] demo_value_def [abs_def] demo_reach_def [abs_def]
  by (rule deep_copy_field [OF deep_copy_slice_copy [where wrap = CString], where put = "\<lambda>s x. (fst x, s)"]) simp_all

definition demo_webhook :: "'s \<Rightarrow> 's webhook_v1" where
  "demo_webhook s =
     \<lparr>wh1_name = ''slack'', wh1_plugin = ''slack'', wh1_config =
       \<lparr>wc1_id = '''', wc1_token = '''', wc1_url = ''http://slack'', wc1_template = '''', wc1_status = s\<rparr>\<rparr>"

definition demo_query :: query_v1 where
  "demo_query = \<lparr>q1_name = ''request-success'', q1_preset = ''kubernetes-envoy-request-success'', q1_min = 99, q1_max = 0, q1_query = ''''\<rparr>"

definition demo_release :: "'m \<Rightarrow> 'w \<Rightarrow> 'q \<Rightarrow> (unit, 'm, 'w, 'q) release_v1" where
  "demo_release m ws qs =
     \<lparr>rl1_type = (), rl1_meta = m, rl1_spec =
       \<lparr>spec1_webhooks = ws,
        spec1_releaser = \<lparr>rel1_plugin = ''consul'', rel1_config = \<lparr>rec1_service = ''api'', rec1_namespace = '''', rec1_partition = ''''\<rparr>\<rparr>,
        spec1_runtime = \<lparr>run1_plugin = ''kubernetes'', run1_config = \<lparr>ruc1_deployment = ''api-(.*)''\<rparr>\<rparr>,
        spec1_strategy = \<lparr>str1_plugin = ''canary'', str1_config =
          \<lparr>stc1_initial_delay = '''', stc1_interval = ''30s'', stc1_initial_traffic = 10, stc1_traffic_step = 20,
           stc1_max_traffic = 100, stc1_error_threshold = 5\<rparr>\<rparr>,
        spec1_monitor = \<lparr>mon1_plugin = ''prometheus'', mon1_config = \<lparr>moc1_address = ''http://prometheus'', moc1_queries = qs\<rparr>\<rparr>,
        spec1_test = \<lparr>tes1_plugin = '''', tes1_config =
          \<lparr>tec1_path = '''', tec1_method = '''', tec1_payload = '''', tec1_required = 0, tec1_interval = '''', tec1_timeout = ''''\<rparr>\<rparr>\<rparr>,
      rl1_status = ReleaseStatus\<rparr>"

definition demo_cache :: demo_mem where
  "demo_cache =
     [[CString ''foreground''], [CString ''state_deploy'', CString ''state_fail''], [CWebhook (demo_webhook (Slice 1 0 2))],
      [CQuery demo_query], [CRelease (demo_release (''api'', Slice 0 0 1) (Slice 2 0 1) (Slice 3 0 1))]]"

definition demo_resource_value :: "string list \<Rightarrow> (unit, string \<times> string list option) release_value" where
  "demo_resource_value fs =
     demo_release (''api'', Some fs) (Some [demo_webhook (Some [''state_deploy'', ''state_fail''])]) (Some [demo_query])"

text \<open>Another finalizer is written over the one of the copy.\<close>

theorem handed_out_resource_is_independent_witness:
  "\<exists>obj h1 h2. Release_DeepCopyObject demo_into (Some (4, 0)) demo_cache = (obj, h1) \<and> obj = ObjRelease (Some (5, 0)) \<and>
     h2 = h1[6 := [CString ''release.finalizers'']] \<and>
     release_at demo_value h2 (Some (5, 0)) = Some (Some (demo_resource_value [''release.finalizers''])) \<and>
     release_at demo_value h2 (Some (4, 0)) = Some (Some (demo_resource_value [''foreground'']))"
proof -
  note evaluate = Release_DeepCopyObject_def Release_DeepCopy_def copy_pointer_def on_cell_def Release_DeepCopyInto_def
    demo_into_def slice_copy_def make_slice_def ReleaseSpec_DeepCopyInto_def slice_each_def Webhook_DeepCopyInto_def
    WebhookConfig_DeepCopyInto_def Monitor_DeepCopyInto_def MonitorConfig_DeepCopyInto_def store_at_def demo_cache_def
    demo_release_def demo_webhook_def numeral_eq_Suc
  note reads = pointer_value_def cell_value_def release_value_def demo_value_def slice_value_def spec_value_def webhook_value_def
    webhook_config_value_def monitor_value_def monitor_config_value_def with_defs option_pair_def demo_resource_value_def
  let ?h1 = "snd (Release_DeepCopyObject demo_into (Some (4, 0)) demo_cache)"
  have c: "Release_DeepCopyObject demo_into (Some (4, 0)) demo_cache = (ObjRelease (Some (5, 0)), ?h1)"
    by (simp add: evaluate Let_def)
  have v: "release_at demo_value demo_cache (Some (4, 0)) = Some (Some (demo_resource_value [''foreground'']))"
    by (simp add: evaluate reads)
  have "6 \<in> release_arrays demo_reach ?h1 (Some (5, 0))"
    by (simp add: evaluate Let_def pointer_reach_def cell_reach_def release_reach_def demo_reach_def slice_reach_def)
  then have "agree ({..<length ?h1} - release_arrays demo_reach ?h1 (Some (5, 0))) ?h1 (?h1[6 := [CString ''release.finalizers'']])"
    by (intro agree_update) auto
  with handed_out_resource_is_independent [OF demo_deep_copy v c]
  have "release_at demo_value (?h1[6 := [CString ''release.finalizers'']]) (Some (4, 0)) =
      Some (Some (demo_resource_value [''foreground'']))" by simp
  moreover have "release_at demo_value (?h1[6 := [CString ''release.finalizers'']]) (Some (5, 0)) =
      Some (Some (demo_resource_value [''release.finalizers'']))"
    by (simp add: evaluate reads Let_def)
  ultimately show ?thesis using c by blast
qed

end
