(* ===== verification/Clients.thy ===== *)
theory Clients
  imports Provider Config
begin

text \<open>
  How the clients come to be: \<open>NewKubernetes\<close>, \<open>NewConsul\<close> and \<open>NewNomad\<close> of \<open>pkg/clients\<close> over
  the constructors of the libraries, and what a provider in a given environment answers for
  the clients of a runtime. This gives the parameters \<open>pe_kubernetes\<close>, \<open>pe_nomad\<close> and
  \<open>pe_consul\<close> of \<open>Provider\<close> their values.
\<close>

subsection \<open>The constructors\<close>

text \<open>
  \<open>'c\<close> is a REST configuration, \<open>'k\<close> a clientset, \<open>'g\<close> the client of the release resources,
  \<open>'a\<close> and \<open>'n\<close> the API clients of Consul and Nomad.
\<close>

record ('c, 'k, 'g, 'a, 'n) client_libs =
  cl_in_cluster :: "go_error + 'c"
  cl_from_flags :: "string \<Rightarrow> go_error + 'c"
  cl_clientset :: "'c \<Rightarrow> go_error + 'k"
  cl_resources :: "'c \<Rightarrow> go_error + 'g"
  cl_consul :: "go_error + 'a"
  cl_nomad :: "go_error + 'n"

record ('k, 'g) kubernetes_impl =
  ki_clientset :: 'k
  ki_resources :: 'g
  ki_timeout :: int
  ki_interval :: int

record 'a consul_impl =
  ci_client :: 'a
  ci_options :: consul_options

record 'n nomad_impl =
  ni_client :: 'n
  ni_interval :: int
  ni_timeout :: int

definition kubernetes_config :: "('c, 'k, 'g, 'a, 'n) client_libs \<Rightarrow> string \<Rightarrow> go_error + 'c" where
  "kubernetes_config libs configPath =
     (if configPath = '''' then
        (case cl_in_cluster libs of
           Inl e \<Rightarrow> Inl (GoErr (''unable to create Kubernetes config from in cluster config, '' @
             ''please check the controller has the correct permissions''))
         | Inr c \<Rightarrow> Inr c)
      else
        (case cl_from_flags libs configPath of
           Inl e \<Rightarrow> Inl (wrap_err (''unable to build Kubernetes config using path: '' @ configPath @ '', error: '') e)
         | Inr c \<Rightarrow> Inr c))"

definition NewKubernetes ::
    "('c, 'k, 'g, 'a, 'n) client_libs \<Rightarrow> string \<Rightarrow> int \<Rightarrow> int \<Rightarrow> go_error + ('k, 'g) kubernetes_impl" where
  "NewKubernetes libs configPath timeout interval =
     (case kubernetes_config libs configPath of
        Inl e \<Rightarrow> Inl e
      | Inr c \<Rightarrow>
          (case cl_clientset libs c of
             Inl e \<Rightarrow> Inl (wrap_err ''unable to create Kubernetes client, error: '' e)
           | Inr cs \<Rightarrow>
               (case cl_resources libs c of
                  Inl e \<Rightarrow> Inl (wrap_err ''unable to create controller client, error: '' e)
                | Inr cc \<Rightarrow>
                    Inr \<lparr>ki_clientset = cs, ki_resources = cc, ki_timeout = timeout, ki_interval = interval\<rparr>)))"

definition NewConsul :: "('c, 'k, 'g, 'a, 'n) client_libs \<Rightarrow> consul_options option \<Rightarrow> go_error + 'a consul_impl" where
  "NewConsul libs options =
     (case cl_consul libs of
        Inl e \<Rightarrow> Inl e
      | Inr c \<Rightarrow>
          Inr \<lparr>ci_client = c,
               ci_options = (case options of None \<Rightarrow> \<lparr>co_namespace = '''', co_partition = ''''\<rparr> | Some opts \<Rightarrow> opts)\<rparr>)"

definition NewNomad :: "('c, 'k, 'g, 'a, 'n) client_libs \<Rightarrow> int \<Rightarrow> int \<Rightarrow> go_error + 'n nomad_impl" where
  "NewNomad libs interval timeout =
     (case cl_nomad libs of
        Inl e \<Rightarrow> Inl (wrap_err ''unable to create Nomad client: '' e)
      | Inr c \<Rightarrow> Inr \<lparr>ni_client = c, ni_interval = interval, ni_timeout = timeout\<rparr>)"

subsection \<open>The provider in an environment\<close>

text \<open>Times are nanoseconds.\<close>

definition retryTimeout :: int where "retryTimeout = 600 * 1000000000"

definition retryInterval :: int where "retryInterval = 1 * 1000000000"

fun left_option :: "'e + 'a \<Rightarrow> 'e option" where
  "left_option (Inl e) = Some e"
| "left_option (Inr x) = None"

definition provider_in :: "environ \<Rightarrow> ('c, 'k, 'g, 'a, 'n) client_libs \<Rightarrow> 'w provider_env \<Rightarrow> 'w provider_env" where
  "provider_in getenv libs env = env
     \<lparr>pe_kubernetes := left_option (NewKubernetes libs (getenv ''KUBECONFIG'') retryTimeout retryInterval),
      pe_nomad := left_option (NewNomad libs retryInterval retryTimeout),
      pe_consul := (\<lambda>opts. left_option (NewConsul libs (Some opts)))\<rparr>"

subsection \<open>Which runtime can be had\<close>

text \<open>
  A runtime client is there exactly when its runtime is known and the libraries give every
  part of it: for Kubernetes the configuration, from the file named by \<open>KUBECONFIG\<close> when
  there is one and from the pod otherwise, and both clients made with it.
\<close>

theorem runtime_clients_available:
  "(\<exists>rc. GetRuntimeClient (provider_in getenv libs env) runtime = Inr rc) \<longleftrightarrow>
     (runtime = ''kubernetes'' \<and>
      (\<exists>c cs cc. (if getenv ''KUBECONFIG'' = '''' then cl_in_cluster libs else cl_from_flags libs (getenv ''KUBECONFIG'')) = Inr c \<and>
         cl_clientset libs c = Inr cs \<and> cl_resources libs c = Inr cc)) \<or>
     (runtime = ''nomad'' \<and> (\<exists>n. cl_nomad libs = Inr n))"
  by (auto simp: GetRuntimeClient_def provider_in_def PluginRuntimeTypeKubernetes_def PluginRuntimeTypeNomad_def
      NewKubernetes_def kubernetes_config_def NewNomad_def split: sum.splits)

text \<open>
  Outside a cluster and without \<open>KUBECONFIG\<close> no machine is made for a Kubernetes release, and
  the reason the library gives does not reach the error.
\<close>

lemma runtime_without_config:
  assumes "cl_in_cluster libs = Inl e" and "getenv ''KUBECONFIG'' = ''''"
  shows "CreateRuntime (provider_in getenv libs env) ''kubernetes'' =
    Inl (GoErr (''unable to create runtime client: unable to create Kubernetes client: '' @
      ''unable to create Kubernetes config from in cluster config, please check the controller has the correct permissions''))"
  using assms by (simp add: CreateRuntime_def GetRuntimeClient_def provider_in_def PluginRuntimeTypeKubernetes_def
      NewKubernetes_def kubernetes_config_def wrap_err_def)

end
