(* ===== verification/PluginRun.thy ===== *)
theory PluginRun
  imports Rollout Kubernetes Releaser HttpTest
begin

text \<open>
  The state machine with its plugins: what a goroutine does when it calls the releaser, the
  runtime plugin, the strategy, the post deployment test and the webhooks, in one world they
  all act on. A step of this system is a step of the machine, with the replies the plugins
  give. \<open>ensures\<close> is what has to hold before a goroutine runs, for a given assertion to
  hold in the state it moves the machine to.
\<close>

subsection \<open>The plugins of a machine\<close>

text \<open>The plugins whose own state changes, and what the machine was made with.\<close>

record plugins =
  pl_runtime :: runtime_plugin
  pl_strategy :: canary

record 'w plugin_env =
  pn_releaser :: releaser
  pn_releaser_env :: "'w releaser_env"
  pn_runtime :: "'w runtime_env"
  pn_strategy :: "'w canary_env"
  pn_test :: http_test
  pn_test_env :: "'w http_env"
  pn_webhooks :: "(webhook_message \<Rightarrow> 'w \<Rightarrow> go_error option \<times> 'w) list"
  pn_sleep :: "int \<Rightarrow> 'w \<Rightarrow> 'w"
  pn_effect :: "effect \<Rightarrow> 'w \<Rightarrow> 'w"

definition stepDelay :: int where "stepDelay = 5 * 1000000000"

text \<open>A panic ends the process: the call has no reply.\<close>

fun ret_reply :: "ret \<times> 'w \<Rightarrow> (go_error option \<times> 'w) option" where
  "ret_reply (Ok, w) = Some (None, w)"
| "ret_reply (Err e, w) = Some (Some e, w)"
| "ret_reply (Panic, w) = None"

fun res_reply :: "'a res \<times> 'w \<Rightarrow> ('a \<times> 'w) option" where
  "res_reply (Returned r, w) = Some (r, w)"
| "res_reply (Panicked, w) = None"

fun subset_filter_of :: "'w runtime_env \<Rightarrow> subset_filter \<Rightarrow> string" where
  "subset_filter_of env PrimaryFilter = runtime_PrimarySubsetFilter env"
| "subset_filter_of env CandidateFilter = runtime_CandidateSubsetFilter env"

definition candidate_name :: "plugins \<Rightarrow> string" where
  "candidate_name pl = rs_candidate (runtime_BaseState (pl_runtime pl))"

fun do_call :: "'w plugin_env \<Rightarrow> plugin_call \<Rightarrow> plugins \<Rightarrow> 'w \<Rightarrow> (go_error option \<times> 'w) option" where
  "do_call env ReleaserSetup pl w =
     ret_reply (releaser_Setup (pn_releaser_env env) (pn_releaser env)
       (runtime_PrimarySubsetFilter (pn_runtime env)) (runtime_CandidateSubsetFilter (pn_runtime env)) w)"
| "do_call env (WaitUntilServiceHealthy flt) pl w =
     Some (releaser_WaitUntilServiceHealthy (pn_releaser_env env) (pn_releaser env) (subset_filter_of (pn_runtime env) flt) w)"
| "do_call env (Scale value) pl w = ret_reply (releaser_Scale (pn_releaser_env env) (pn_releaser env) value w)"
| "do_call env ReleaserDestroy pl w = ret_reply (releaser_Destroy (pn_releaser_env env) (pn_releaser env) w)"
| "do_call env RemoveCandidate pl w = res_reply (runtime_RemoveCandidate (pn_runtime env) (pl_runtime pl) w)"
| "do_call env RestoreOriginal pl w = res_reply (runtime_RestoreOriginal (pn_runtime env) (pl_runtime pl) w)"
| "do_call env RemovePrimary pl w = res_reply (runtime_RemovePrimary (pn_runtime env) (pl_runtime pl) w)"
| "do_call env TestExecute pl w = http_Execute (pn_test_env env) (pn_test env) (candidate_name pl) w"

fun do_status ::
    "'w plugin_env \<Rightarrow> status_call \<Rightarrow> plugins \<Rightarrow> 'w \<Rightarrow> ((runtime_status \<times> go_error option) \<times> plugins \<times> 'w) option" where
  "do_status env (InitPrimary name) pl w =
     (case runtime_InitPrimary (pn_runtime env) name (pl_runtime pl) w of
        (r, p1, w1) \<Rightarrow> map_option (\<lambda>(se, w2). (se, pl\<lparr>pl_runtime := p1\<rparr>, w2)) (res_reply (r, w1)))"
| "do_status env PromoteCandidate pl w =
     map_option (\<lambda>(se, w1). (se, pl, w1)) (res_reply (runtime_PromoteCandidate (pn_runtime env) (pl_runtime pl) w))"

definition do_strategy ::
    "'w plugin_env \<Rightarrow> plugins \<Rightarrow> 'w \<Rightarrow> (strategy_status \<times> int \<times> go_error option) \<times> plugins \<times> 'w" where
  "do_strategy env pl w =
     (case canary_Execute (pn_strategy env) (candidate_name pl) (pl_strategy pl) w of
        (r, p1, w1) \<Rightarrow> (r, pl\<lparr>pl_strategy := p1\<rparr>, w1))"

text \<open>One action of a goroutine of the release; an event is not one, and \<open>None\<close> is also a call that does not return.\<close>

fun perform :: "'w plugin_env \<Rightarrow> release \<Rightarrow> prog \<Rightarrow> plugins \<Rightarrow> 'w \<Rightarrow> (prog \<times> plugins \<times> 'w) option" where
  "perform env r (Sleep n k) pl w = Some (k, pl, pn_sleep env (int n * stepDelay) w)"
| "perform env r (Call c k) pl w = map_option (\<lambda>(e, w1). (k e, pl, w1)) (do_call env c pl w)"
| "perform env r (StatusCall c k) pl w = map_option (\<lambda>((s, e), pl1, w1). (k s e, pl1, w1)) (do_status env c pl w)"
| "perform env r (RunStrategy k) pl w = (case do_strategy env pl w of ((s, t, e), pl1, w1) \<Rightarrow> Some (k s t e, pl1, w1))"
| "perform env r (ReadTraffic k) pl w = Some (k (GetPrimaryTraffic (pl_strategy pl)) (GetCandidateTraffic (pl_strategy pl)), pl, w)"
| "perform env r (Webhooks title st ev p c err k) pl w =
     Some (k, pl, callWebhooks (pn_webhooks env) (webhook_message_of r title st ev p c err) w)"
| "perform env r (Fire ev args k) pl w = None"
| "perform env r Done pl w = None"

subsection \<open>Steps of the system\<close>

text \<open>An event, with what its callbacks do to the metrics and the data store.\<close>

definition fire_event ::
    "machine fsm_lib \<Rightarrow> 'w plugin_env \<Rightarrow> sm_event \<Rightarrow> int list \<Rightarrow> config \<Rightarrow> 'w \<Rightarrow> config \<times> 'w" where
  "fire_event lib env ev args c w =
     (let c1 = snd (Event lib ev args c)
      in (c1, fold (pn_effect env) (drop (length (m_effects (snd c))) (m_effects (snd c1))) w))"

type_synonym 'w system = "config \<times> plugins \<times> 'w"

inductive plugin_work :: "machine fsm_lib \<Rightarrow> 'w plugin_env \<Rightarrow> 'w system \<Rightarrow> 'w system \<Rightarrow> bool" for lib env where
  work_perform: "m_pool m = xs @ p # ys \<Longrightarrow> perform env (m_release m) p pl w = Some (q, pl1, w1) \<Longrightarrow>
     plugin_work lib env ((s, m), pl, w) ((s, m\<lparr>m_pool := xs @ q # ys\<rparr>), pl1, w1)"
| work_fire: "m_pool m = xs @ Fire ev args k # ys \<Longrightarrow> fire_event lib env ev args (s, m\<lparr>m_pool := xs @ k # ys\<rparr>) w = (c1, w1) \<Longrightarrow>
     plugin_work lib env ((s, m), pl, w) (c1, pl, w1)"
| work_exit: "m_pool m = xs @ Done # ys \<Longrightarrow> plugin_work lib env ((s, m), pl, w) ((s, m\<lparr>m_pool := xs @ ys\<rparr>), pl, w)"

text \<open>Time may pass between any two of them.\<close>

inductive plugin_step :: "machine fsm_lib \<Rightarrow> 'w plugin_env \<Rightarrow> 'w system \<Rightarrow> 'w system \<Rightarrow> bool" for lib env where
  step_work: "plugin_work lib env x y \<Longrightarrow> plugin_step lib env x y"
| step_tick: "m_clock m \<le> t \<Longrightarrow> plugin_step lib env ((s, m), pl, w) ((s, m\<lparr>m_clock := t\<rparr>), pl, w)"

definition plugin_run :: "machine fsm_lib \<Rightarrow> 'w plugin_env \<Rightarrow> 'w system \<Rightarrow> 'w system \<Rightarrow> bool" where
  "plugin_run lib env = (plugin_step lib env)\<^sup>*\<^sup>*"

text \<open>\<open>Configure\<close>, \<open>Deploy\<close> and \<open>Destroy\<close> from outside, and a run from one to the idle state.\<close>

definition request :: "machine fsm_lib \<Rightarrow> 'w plugin_env \<Rightarrow> sm_event \<Rightarrow> 'w system \<Rightarrow> 'w system" where
  "request lib env ev x = (case x of (c, pl, w) \<Rightarrow> (case fire_event lib env ev [] c w of (c1, w1) \<Rightarrow> (c1, pl, w1)))"

definition completes :: "machine fsm_lib \<Rightarrow> 'w plugin_env \<Rightarrow> sm_event \<Rightarrow> 'w system \<Rightarrow> 'w system \<Rightarrow> bool" where
  "completes lib env ev x y \<longleftrightarrow> next_state (fst (fst x)) ev \<noteq> None \<and>
     plugin_run lib env (request lib env ev x) y \<and> fst (fst y) = StateIdle"

text \<open>Without the plugins and the world, a step is one the machine can take by itself.\<close>

lemma perform_act: "perform env r p pl w = Some (q, pl1, w1) \<Longrightarrow> \<exists>ob. act p ob q"
  by (cases p) (auto intro: act.intros split: prod.splits)

lemma plugin_step_machine:
  assumes "plugin_step lib env (c, pl, w) (c1, pl1, w1)"
  shows "\<exists>l. sm_step lib c l c1 \<and> l \<noteq> LResume \<and> (\<forall>ev. l \<noteq> LApi ev)"
  using assms
proof (cases rule: plugin_step.cases)
  case step_work
  then show ?thesis
  proof (cases rule: plugin_work.cases)
    case (work_perform m xs p ys q s)
    from perform_act [OF work_perform(4)] obtain ob where "act p ob q" by blast
    from action [OF work_perform(3) this, of lib s] work_perform(1,2) show ?thesis by blast
  next
    case (work_fire m xs ev args k ys s)
    with fire [OF work_fire(3), of lib s] show ?thesis by (auto simp: fire_event_def Let_def)
  next
    case (work_exit m xs ys s)
    with exit [of m xs ys lib s] show ?thesis by blast
  qed
next
  case (step_tick m t s)
  with tick [of m t lib s] show ?thesis by blast
qed

subsection \<open>What a goroutine ensures\<close>

text \<open>
  Every event the goroutine fires moves the machine on, and unless that is to the failed
  state, it fires no other and the assertion of the state moved to holds.
\<close>

primrec ensures ::
    "'w plugin_env \<Rightarrow> (sm_state \<Rightarrow> plugins \<Rightarrow> 'w \<Rightarrow> bool) \<Rightarrow> sm_state \<Rightarrow> prog \<Rightarrow> plugins \<Rightarrow> 'w \<Rightarrow> bool" where
  "ensures env I s Done pl w = False"
| "ensures env I s (Sleep n k) pl w = ensures env I s k pl (pn_sleep env (int n * stepDelay) w)"
| "ensures env I s (Call c k) pl w = (\<forall>e w1. do_call env c pl w = Some (e, w1) \<longrightarrow> ensures env I s (k e) pl w1)"
| "ensures env I s (StatusCall c k) pl w =
     (\<forall>st e pl1 w1. do_status env c pl w = Some ((st, e), pl1, w1) \<longrightarrow> ensures env I s (k st e) pl1 w1)"
| "ensures env I s (RunStrategy k) pl w =
     (\<forall>st t e pl1 w1. do_strategy env pl w = ((st, t, e), pl1, w1) \<longrightarrow> ensures env I s (k st t e) pl1 w1)"
| "ensures env I s (ReadTraffic k) pl w = (\<forall>p c. ensures env I s (k p c) pl w)"
| "ensures env I s (Webhooks title st ev p c err k) pl w =
     (\<forall>msg. ensures env I s k pl (callWebhooks (pn_webhooks env) msg w))"
| "ensures env I s (Fire ev args k) pl w =
     (\<exists>d. next_state s ev = Some d \<and> (d = StateFail \<or> k = Done \<and> I d pl w))"

lemma ensures_fail_with [simp]:
  "s \<in> set active_states \<Longrightarrow> ensures env I s (fail_with title st p c err) pl w"
  by (auto simp: fail_with_def active_states_def)

lemma perform_ensures:
  "perform env r p pl w = Some (q, pl1, w1) \<Longrightarrow> ensures env I s p pl w \<Longrightarrow> ensures env I s q pl1 w1"
  by (cases p) (auto split: prod.splits)

lemma perform_fires_in: "perform env r p pl w = Some (q, pl1, w1) \<Longrightarrow> fires_in E p \<Longrightarrow> fires_in E q"
  using perform_act [of env r p pl w q pl1 w1] act_fires_in by blast

lemma cost_fires: "cost p n h r \<Longrightarrow> fires_in internal_events p"
proof (induction p arbitrary: n h r)
  case (Call c k)
  then show ?case by simp (metis rangeI)
next
  case (StatusCall c k)
  then show ?case by simp (metis rangeI)
next
  case (RunStrategy k)
  then show ?case by simp (metis rangeI)
next
  case (ReadTraffic k)
  then show ?case by simp (metis rangeI)
next
  case (Fire ev args k)
  then show ?case by (auto split: if_splits)
qed auto

lemma handler_fires: "handler name has_test s args = Some p \<Longrightarrow> fires_in internal_events p"
  using handler_cost cost_fires by blast

text \<open>All the goroutines are done, or all but one.\<close>

fun lone :: "(prog \<Rightarrow> bool) \<Rightarrow> prog list \<Rightarrow> bool" where
  "lone P [] = False"
| "lone P (p # ps) = (P p \<and> list_all (\<lambda>q. q = Done) ps \<or> p = Done \<and> lone P ps)"

abbreviation all_done :: "prog list \<Rightarrow> bool" where
  "all_done ps \<equiv> list_all (\<lambda>p. p = Done) ps"

lemma lone_append: "lone P (xs @ ys) \<longleftrightarrow> lone P xs \<and> all_done ys \<or> all_done xs \<and> lone P ys"
  by (induction xs) auto

definition on_track ::
    "'w plugin_env \<Rightarrow> (sm_state \<Rightarrow> plugins \<Rightarrow> 'w \<Rightarrow> bool) \<Rightarrow> 'w system \<Rightarrow> bool" where
  "on_track env I x \<longleftrightarrow>
     (case x of ((s, m), pl, w) \<Rightarrow>
        if s = StateFail then list_all (fires_in internal_events) (m_pool m)
        else if s \<in> set active_states
        then lone (\<lambda>p. ensures env I s p pl w \<and> fires_in internal_events p) (m_pool m)
        else s = StateIdle \<and> I s pl w \<and> all_done (m_pool m))"

text \<open>The assertions are about the plugins' world, not about the metrics and the stored releases.\<close>

locale plugin_rule =
  fixes lib :: "machine fsm_lib" and env :: "'w plugin_env" and I :: "sm_state \<Rightarrow> plugins \<Rightarrow> 'w \<Rightarrow> bool"
  assumes lib: "fsm_documented lib"
    and stable: "I s pl w \<Longrightarrow> I s pl (pn_effect env eff w)"
    and handled: "I s pl w \<Longrightarrow> handler name has_test s args = Some p \<Longrightarrow> ensures env I s p pl w"
begin

lemma stable_fold: "I s pl w \<Longrightarrow> I s pl (fold (pn_effect env) effs w)"
  by (induction effs arbitrary: w) (simp_all add: stable)

lemma entered:
  assumes "next_state s ev = Some d" and "d \<noteq> StateFail \<Longrightarrow> I d pl w \<and> all_done (m_pool m)"
    and "d = StateFail \<Longrightarrow> list_all (fires_in internal_events) (m_pool m)"
    and "fire_event lib env ev args (s, m) w = (c1, w1)"
  shows "on_track env I (c1, pl, w1)"
proof -
  from assms(4) have c1: "c1 = (d, enter_machine s d args m)" and w1: "\<exists>effs. w1 = fold (pn_effect env) effs w"
    by (auto simp: fire_event_def Event_accepted [OF lib assms(1)])
  let ?h = "handler (r_name (m_release m)) (m_has_test m) d args"
  show ?thesis
  proof (cases "d = StateFail")
    case True
    with assms(3) c1 show ?thesis by (simp add: on_track_def enter_machine_fields)
  next
    case False
    with assms(2) w1 have i: "I d pl w1" "all_done (m_pool m)" using stable_fold by blast+
    with False c1 handled [OF i(1)] handler_fires handler_active [of "r_name (m_release m)" "m_has_test m" d args]
      next_state_target [OF assms(1)] show ?thesis
      by (auto simp: on_track_def enter_machine_fields lone_append split: option.splits)
  qed
qed

lemma track_work:
  assumes "plugin_work lib env x y" and "on_track env I x"
  shows "on_track env I y"
  using assms(1)
proof (cases rule: plugin_work.cases)
  case (work_perform m xs p ys pl w q pl1 w1 s)
  have "p \<noteq> Done" using work_perform(4) by auto
  with assms(2) work_perform(1-3) perform_ensures [OF work_perform(4)] perform_fires_in [OF work_perform(4)] show ?thesis
    by (auto simp: on_track_def lone_append split: if_splits)
next
  case (work_fire m xs ev args k ys s w c1 w1 pl)
  let ?m = "m\<lparr>m_pool := xs @ k # ys\<rparr>"
  show ?thesis
  proof (cases "s = StateFail")
    case True
    with assms(2) work_fire(1,3) have f: "ev \<in> internal_events" "list_all (fires_in internal_events) (m_pool ?m)"
      by (auto simp: on_track_def)
    then have "next_state s ev = None" using True by (auto simp: internal_events_def)
    then obtain err where "Event lib ev args (s, ?m) = (Some err, s, ?m)" using Event_rejected [OF lib] by blast
    with work_fire True f(2) show ?thesis by (auto simp: on_track_def fire_event_def)
  next
    case False
    with assms(2) work_fire(1,3) have done': "all_done xs" "all_done ys"
      and ens: "ensures env I s (Fire ev args k) pl w" "fires_in internal_events k"
      by (auto simp: on_track_def lone_append split: if_splits)
    from ens obtain d where d: "next_state s ev = Some d" and I: "d = StateFail \<or> k = Done \<and> I d pl w" by auto
    have "list_all (fires_in internal_events) xs" "list_all (fires_in internal_events) ys"
      using done' by (auto simp: list_all_iff)
    with entered [OF d _ _ work_fire(4), of pl] I done' ens(2) work_fire(2) show ?thesis by auto
  qed
next
  case (work_exit m xs ys s pl w)
  with assms(2) show ?thesis by (auto simp: on_track_def lone_append split: if_splits)
qed

lemma track_step:
  assumes "plugin_step lib env x y" and "on_track env I x"
  shows "on_track env I y"
  using assms(1)
proof (cases rule: plugin_step.cases)
  case step_work
  from track_work [OF this assms(2)] show ?thesis .
next
  case (step_tick m t s pl w)
  with assms(2) show ?thesis by (auto simp: on_track_def split: if_splits)
qed

lemma run_on_track:
  assumes "plugin_run lib env x y" and "on_track env I x"
  shows "on_track env I y"
  using assms unfolding plugin_run_def by (induction rule: rtranclp_induct) (auto intro: track_step)

text \<open>
  The rule: on a machine whose goroutines are done, a request that completes does so in a
  world of which the assertion of the idle state holds, with all goroutines done again.
\<close>

lemma completed:
  assumes "completes lib env ev ((s, m), pl, w) ((s1, m1), pl1, w1)" and "all_done (m_pool m)"
    and "next_state s ev = Some d" and "d \<noteq> StateFail" and "I d pl w"
  shows "I StateIdle pl1 w1 \<and> all_done (m_pool m1)"
proof -
  obtain c2 w2 where r: "fire_event lib env ev [] (s, m) w = (c2, w2)" by (metis prod.exhaust)
  have "on_track env I (c2, pl, w2)" by (rule entered [OF assms(3) _ _ r]) (use assms in auto)
  moreover have "plugin_run lib env (c2, pl, w2) ((StateIdle, m1), pl1, w1)" and s1: "s1 = StateIdle"
    using assms(1) r by (auto simp: completes_def request_def)
  ultimately have "on_track env I ((StateIdle, m1), pl1, w1)" using run_on_track by blast
  then show ?thesis by (simp add: on_track_def active_states_def)
qed

end

end
