(* ===== verification/Isolation.thy ===== *)
theory Isolation
  imports PluginRun
begin

text \<open>
  What each plugin leaves alone: where the API of one platform does not touch what another
  keeps, the plugin on the first does not either. A view of the world is what one of them
  keeps; \<open>keeps\<close> says that an operation does not change it.
\<close>

subsection \<open>Operations that keep a view\<close>

definition keeps :: "('w \<Rightarrow> 'v) \<Rightarrow> ('w \<Rightarrow> 'a \<times> 'w) \<Rightarrow> bool" where
  "keeps view f \<longleftrightarrow> (\<forall>w. view (snd (f w)) = view w)"

lemma keepsI: "(\<And>w r w1. f w = (r, w1) \<Longrightarrow> view w1 = view w) \<Longrightarrow> keeps view f"
  by (simp add: keeps_def prod_eq_iff)

lemma keepsD: "keeps view f \<Longrightarrow> f w = (r, w1) \<Longrightarrow> view w1 = view w"
  unfolding keeps_def by (metis snd_conv)

lemma keeps_retry:
  assumes "retry_documented lib" and "keeps view f"
  shows "keeps view (lib t i f)"
  unfolding keeps_def
  using retry_documented_keeps [OF assms(1), of f "\<lambda>w. view w = v" for v] assms(2)
  by (auto simp: calls_keep_def keeps_def)

subsection \<open>The releaser and a view Consul does not touch\<close>

definition consul_keeps :: "('w \<Rightarrow> 'v) \<Rightarrow> 'w consul_api \<Rightarrow> bool" where
  "consul_keeps view api \<longleftrightarrow>
     (\<forall>k n sc. keeps view (ca_get api k n sc)) \<and> (\<forall>ce sc. keeps view (ca_set api ce sc)) \<and>
     (\<forall>k n sc. keeps view (ca_delete api k n sc)) \<and> (\<forall>c n f sc. keeps view (ca_health api c n f sc))"

lemma health_keeps:
  assumes "\<And>c n f sc. keeps view (ca_health api c n f sc)"
  shows "keeps view (CheckHealth api opt name flt)"
proof (rule keepsI)
  fix w r w1
  have 1: "view w1 = view w" if "check_instances api opt c name flt w = (r, w1)" for c w r w1
    using that by (auto simp: check_instances_def split: prod.splits option.splits if_splits dest: keepsD [OF assms])
  show "view w1 = view w" if "CheckHealth api opt name flt w = (r, w1)"
    using that by (auto simp: CheckHealth_def split: prod.splits option.splits dest!: 1)
qed

lemma releaser_wait_keeps:
  assumes "retry_documented (re_retry env)" and "\<And>c n f sc. keeps view (ca_health (re_api env) c n f sc)"
  shows "keeps view (releaser_WaitUntilServiceHealthy env p flt)"
  using keeps_retry [OF assms(1) health_keeps [OF assms(2)]] unfolding releaser_WaitUntilServiceHealthy_def .

lemma entry_keeps:
  assumes "consul_keeps view api"
  shows "fetch api opt k n w = (r, w1) \<Longrightarrow> view w1 = view w"
    and "fetch_existing api opt k n w = (x, w1) \<Longrightarrow> view w1 = view w"
    and "put_entry api opt ce w = (y, w1) \<Longrightarrow> view w1 = view w"
    and "drop_entry api opt k n w = (z, w1) \<Longrightarrow> view w1 = view w"
proof -
  have ops: "keeps view (ca_get api k n sc)" "keeps view (ca_set api ce sc)" "keeps view (ca_delete api k n sc)" for sc
    using assms unfolding consul_keeps_def by blast+
  show "fetch api opt k n w = (r, w1) \<Longrightarrow> view w1 = view w"
    "fetch_existing api opt k n w = (x, w1) \<Longrightarrow> view w1 = view w"
    "put_entry api opt ce w = (y, w1) \<Longrightarrow> view w1 = view w"
    "drop_entry api opt k n w = (z, w1) \<Longrightarrow> view w1 = view w"
    by (auto simp: fetch_def fetch_existing_def put_entry_def drop_entry_def
        split: prod.splits option.splits if_splits dest!: ops [THEN keepsD])
qed

lemma create_keeps:
  assumes "consul_keeps view api"
  shows "keeps view (CreateServiceDefaults api opt n)" and "keeps view (CreateServiceResolver api opt n pf cf)"
    and "keeps view (CreateServiceSplitter api opt n p c)" and "keeps view (CreateUpstreamRouter api opt n)"
    and "keeps view (CreateServiceIntention api opt n)"
  by (rule keepsI; auto simp: CreateServiceDefaults_def CreateServiceResolver_def CreateServiceSplitter_def
      CreateUpstreamRouter_def CreateServiceIntention_def append_routes_def Let_def
      split: prod.splits sum.splits option.splits config_entry.splits if_splits dest!: entry_keeps [OF assms])+

lemma delete_keeps:
  assumes "consul_keeps view api"
  shows "keeps view (DeleteServiceDefaults api opt n)" and "keeps view (DeleteServiceResolver api opt n)"
    and "keeps view (DeleteServiceSplitter api opt n)" and "keeps view (DeleteUpstreamRouter api opt n)"
    and "keeps view (DeleteServiceIntention api opt n)"
  by (rule keepsI; auto simp: DeleteServiceDefaults_def DeleteServiceResolver_def DeleteServiceSplitter_def
      DeleteUpstreamRouter_def DeleteServiceIntention_def
      split: prod.splits sum.splits option.splits list.splits config_entry.splits if_splits dest!: entry_keeps [OF assms])+

lemma and_then_keeps: "keeps view f \<Longrightarrow> keeps view g \<Longrightarrow> keeps view (and_then f g)"
  by (rule keepsI) (auto simp: and_then_def split: prod.splits ret.splits dest!: keepsD)

lemma releaser_keeps:
  assumes "consul_keeps view (re_api env)" and sleep: "\<And>d w. view (re_sleep env d w) = view w"
  shows "keeps view (releaser_Setup env p pf cf)" and "keeps view (releaser_Scale env p n)"
    and "keeps view (releaser_Destroy env p)"
proof -
  have paused: "keeps view (\<lambda>w. f (re_sleep env syncDelay w))" if "keeps view f" for f :: "'a \<Rightarrow> ret \<times> 'a"
    using that by (simp add: keeps_def sleep)
  show "keeps view (releaser_Scale env p n)"
    unfolding releaser_Scale_def Let_def by (rule create_keeps [OF assms(1)])
  show "keeps view (releaser_Setup env p pf cf)"
    unfolding releaser_Setup_def Let_def by (intro and_then_keeps paused create_keeps [OF assms(1)])
  show "keeps view (releaser_Destroy env p)"
    unfolding releaser_Destroy_def Let_def by (intro and_then_keeps paused delete_keeps [OF assms(1)])
qed

subsection \<open>The runtime plugin and a view Kubernetes does not touch\<close>

definition kube_keeps :: "('w \<Rightarrow> 'v) \<Rightarrow> 'w kube_api \<Rightarrow> bool" where
  "kube_keeps view api \<longleftrightarrow>
     (\<forall>ns. keeps view (ka_list api ns)) \<and> (\<forall>ns n. keeps view (ka_get api ns n)) \<and>
     (\<forall>ns d. keeps view (ka_create api ns d)) \<and> (\<forall>ns d. keeps view (ka_update api ns d)) \<and>
     (\<forall>ns n. keeps view (ka_delete api ns n))"

lemma kube_get_keeps:
  assumes "kube_keeps view (ke_api env)"
  shows "GetKubernetesDeployment env n ns w = (r, w1) \<Longrightarrow> view w1 = view w"
    and "GetKubernetesDeploymentWithSelector env sel ns w = (r, w1) \<Longrightarrow> view w1 = view w"
proof -
  have get: "view w1 = view w" if "ka_get (ke_api env) ns n w = (r, w1)" for ns n w r w1
    using assms that unfolding kube_keeps_def by (blast dest: keepsD)
  have items: "view w1 = view w" if "ka_list (ke_api env) ns w = (r, w1)" for ns w r w1
    using assms that unfolding kube_keeps_def by (blast dest: keepsD)
  have 1: "view w1 = view w" if "GetKubernetesDeployment env n ns w = (r, w1)" for n ns w r w1
    using that by (auto simp: GetKubernetesDeployment_def split: prod.splits option.splits kube_error.splits dest!: get)
  then show "GetKubernetesDeployment env n ns w = (r, w1) \<Longrightarrow> view w1 = view w" by blast
  show "GetKubernetesDeploymentWithSelector env sel ns w = (r, w1) \<Longrightarrow> view w1 = view w"
    by (auto simp: GetKubernetesDeploymentWithSelector_def split: prod.splits option.splits dest!: items 1)
qed

lemma from_kube_keeps: "from_kube (x, w) = (r, w1) \<Longrightarrow> w1 = w"
  by (auto simp: from_kube_def split: prod.splits option.splits res.splits)

lemma kube_deployment_keeps:
  assumes "kube_keeps view (ke_api env)"
  shows "keeps view (kube_GetDeployment env n ns)" and "keeps view (kube_GetDeploymentWithSelector env sel ns)"
proof (rule keepsI)
  fix w r w1
  assume "kube_GetDeployment env n ns w = (r, w1)"
  then show "view w1 = view w"
    using kube_get_keeps(1) [OF assms] unfolding kube_GetDeployment_def by (metis from_kube_keeps prod.exhaust)
next
  show "keeps view (kube_GetDeploymentWithSelector env sel ns)"
  proof (rule keepsI)
    fix w r w1
    assume "kube_GetDeploymentWithSelector env sel ns w = (r, w1)"
    then show "view w1 = view w"
      using kube_get_keeps(2) [OF assms] unfolding kube_GetDeploymentWithSelector_def by (metis from_kube_keeps prod.exhaust)
  qed
qed

lemma kube_upsert_keeps:
  assumes "kube_keeps view (ke_api env)"
  shows "UpsertKubernetesDeployment env d w = (r, w1) \<Longrightarrow> view w1 = view w"
proof -
  have writes: "ka_create (ke_api env) ns d w = (r, w1) \<Longrightarrow> view w1 = view w"
    "ka_update (ke_api env) ns d w = (r, w1) \<Longrightarrow> view w1 = view w" for ns d w r w1
    using assms unfolding kube_keeps_def by (blast dest: keepsD)+
  show "UpsertKubernetesDeployment env d w = (r, w1) \<Longrightarrow> view w1 = view w"
    by (auto simp: UpsertKubernetesDeployment_def bind_res_def Let_def split: prod.splits res.splits if_splits
        dest!: writes keepsD [OF kube_deployment_keeps(1) [OF assms]])
qed

lemma kube_healthy_keeps:
  assumes "kube_keeps view (ke_api env)" and "retry_documented (ke_retry env)"
  shows "GetHealthyKubernetesDeployment env n ns w = (r, w1) \<Longrightarrow> view w1 = view w"
proof -
  have "keeps (\<lambda>s. view (fst s)) (healthy_attempt env n ns)"
    by (rule keepsI)
      (auto simp: healthy_attempt_def split: prod.splits option.splits if_splits dest!: kube_get_keeps(1) [OF assms(1)])
  from keeps_retry [OF assms(2) this] have "view (fst s1) = view (fst s)"
    if "ke_retry env (ke_timeout env) (ke_interval env) (healthy_attempt env n ns) s = (e, s1)" for s e s1
    using that by (auto dest: keepsD)
  then show "GetHealthyKubernetesDeployment env n ns w = (r, w1) \<Longrightarrow> view w1 = view w"
    by (fastforce simp: GetHealthyKubernetesDeployment_def split: prod.splits if_splits)
qed

lemma kube_client_keeps:
  assumes "kube_keeps view (ke_api env)" and "retry_documented (ke_retry env)"
  shows "rt_get (kube_client env) n ns w = (g, w1) \<Longrightarrow> view w1 = view w"
    and "rt_get_selector (kube_client env) sel ns w = (g, w1) \<Longrightarrow> view w1 = view w"
    and "rt_update (kube_client env) d w = (r, w1) \<Longrightarrow> view w1 = view w"
    and "rt_clone (kube_client env) f d w = (r, w1) \<Longrightarrow> view w1 = view w"
    and "rt_delete (kube_client env) n ns w = (r, w1) \<Longrightarrow> view w1 = view w"
    and "rt_healthy (kube_client env) n ns w = (g, w1) \<Longrightarrow> view w1 = view w"
proof -
  have delete: "view w1 = view w" if "ka_delete (ke_api env) ns n w = (r, w1)" for ns n w r w1
    using assms(1) that unfolding kube_keeps_def by (blast dest: keepsD)
  note keep = kube_get_keeps [OF assms(1)] kube_upsert_keeps [OF assms(1)] kube_healthy_keeps [OF assms]
  show "rt_get (kube_client env) n ns w = (g, w1) \<Longrightarrow> view w1 = view w"
    "rt_get_selector (kube_client env) sel ns w = (g, w1) \<Longrightarrow> view w1 = view w"
    by (simp_all add: kube_client_def kube_deployment_keeps [OF assms(1), THEN keepsD])
  show "rt_update (kube_client env) d w = (r, w1) \<Longrightarrow> view w1 = view w"
    by (auto simp: kube_client_def kube_UpdateDeployment_def split: prod.splits option.splits dest!: keep)
  show "rt_clone (kube_client env) f d w = (r, w1) \<Longrightarrow> view w1 = view w"
    by (auto simp: kube_client_def kube_CloneDeployment_def split: prod.splits option.splits dest!: keep)
  show "rt_delete (kube_client env) n ns w = (r, w1) \<Longrightarrow> view w1 = view w"
    by (auto simp: kube_client_def kube_DeleteDeployment_def DeleteKubernetesDeployment_def
        split: prod.splits option.splits kube_error.splits dest!: delete)
  show "rt_healthy (kube_client env) n ns w = (g, w1) \<Longrightarrow> view w1 = view w"
    by (auto simp: kube_client_def kube_GetHealthyDeployment_def split: prod.splits option.splits res.splits dest!: keep)
qed

lemma saveState_keeps:
  assumes "\<And>d. keeps view (ss_upsert store d)"
  shows "view (runtime_saveState (on_kube ke store) p w) = view w"
  using assms by (simp add: runtime_saveState_def on_kube_def keeps_def)

lemma saved_keeps:
  assumes "\<And>d. keeps view (ss_upsert store d)" and "keeps view f"
  shows "keeps view (\<lambda>w. saving (on_kube ke store) p (f w))"
  using assms by (simp add: keeps_def saving_def saveState_keeps [unfolded keeps_def])

lemma runtime_keeps:
  assumes "kube_keeps view (ke_api ke)" and "retry_documented (ke_retry ke)" and store: "\<And>d. keeps view (ss_upsert store d)"
  shows "runtime_InitPrimary (on_kube ke store) name p w = (r, p1, w1) \<Longrightarrow> view w1 = view w"
    and "keeps view (runtime_PromoteCandidate (on_kube ke store) p)"
    and "keeps view (runtime_RemoveCandidate (on_kube ke store) p)"
    and "keeps view (runtime_RestoreOriginal (on_kube ke store) p)"
    and "keeps view (runtime_RemovePrimary (on_kube ke store) p)"
proof -
  note client = kube_client_keeps [OF assms(1,2)]
  have init: "view w1 = view w" if "InitPrimary_body (on_kube ke store) name p w = (r, p1, w1)" for w r w1
    using that by (auto simp: InitPrimary_body_def Let_def split: prod.splits res.splits option.splits dest!: client)
  show "runtime_InitPrimary (on_kube ke store) name p w = (r, p1, w1) \<Longrightarrow> view w1 = view w"
    by (auto simp: runtime_InitPrimary_def saveState_keeps [OF store] split: prod.splits dest!: init)
  have "keeps view (PromoteCandidate_body (on_kube ke store) p)"
    by (rule keepsI) (auto simp: PromoteCandidate_body_def Let_def bind_res_def
        split: prod.splits res.splits option.splits if_splits dest!: client)
  then show "keeps view (runtime_PromoteCandidate (on_kube ke store) p)"
    unfolding runtime_PromoteCandidate_def [abs_def] by (rule saved_keeps [OF store])
  have "keeps view (RemoveCandidate_body (on_kube ke store) p)"
    by (rule keepsI) (auto simp: RemoveCandidate_body_def bind_res_def
        split: prod.splits res.splits option.splits if_splits dest!: client)
  then show "keeps view (runtime_RemoveCandidate (on_kube ke store) p)"
    unfolding runtime_RemoveCandidate_def [abs_def] by (rule saved_keeps [OF store])
  have "keeps view (RestoreOriginal_body (on_kube ke store) p)"
    by (rule keepsI) (auto simp: RestoreOriginal_body_def Let_def bind_res_def
        split: prod.splits res.splits option.splits if_splits dest!: client)
  then show "keeps view (runtime_RestoreOriginal (on_kube ke store) p)"
    unfolding runtime_RestoreOriginal_def [abs_def] by (rule saved_keeps [OF store])
  have "keeps view (RemovePrimary_body (on_kube ke store) p)"
    by (rule keepsI) (auto simp: RemovePrimary_body_def bind_res_def
        split: prod.splits res.splits option.splits if_splits dest!: client)
  then show "keeps view (runtime_RemovePrimary (on_kube ke store) p)"
    unfolding runtime_RemovePrimary_def [abs_def] by (rule saved_keeps [OF store])
qed

subsection \<open>The plugins that only watch\<close>

definition canary_env_keeps :: "('w \<Rightarrow> 'v) \<Rightarrow> 'w canary_env \<Rightarrow> bool" where
  "canary_env_keeps view env \<longleftrightarrow>
     (\<forall>d w. view (ce_sleep env d w) = view w) \<and> (\<forall>c d. keeps view (ce_check env c d)) \<and>
     (\<forall>d. keeps view (ss_upsert (ce_store env) d))"

lemma canary_save_keeps: "canary_env_keeps view env \<Longrightarrow> view (canary_saveState env p w) = view w"
  by (simp add: canary_env_keeps_def canary_saveState_def keeps_def)

lemma canary_loop_keeps:
  "canary_loop env cand d p fc w = (r, p1, w1) \<Longrightarrow> canary_env_keeps view env \<Longrightarrow> view w1 = view w"
proof (induction env cand d p fc w rule: canary_loop.induct)
  case (1 env cand d p fc w)
  obtain res x w2 where c: "ce_check env cand d (ce_sleep env d w) = ((res, x), w2)" by (metis prod.collapse)
  have "keeps view (ce_check env cand d)" using 1(3) by (simp add: canary_env_keeps_def)
  from keepsD [OF this c] 1(3) have w2: "view w2 = view w" by (simp add: canary_env_keeps_def)
  note save = canary_save_keeps [OF 1(3)]
  show ?case
  proof (cases x)
    case None
    with 1(2) c w2 save show ?thesis
      by (auto simp: canary_loop.simps [of env cand d p fc w] canary_pass_def Let_def split: if_splits)
  next
    case (Some err)
    with 1 c w2 save show ?thesis
      by (cases "cc_error_threshold (c_config p) \<le> fc + 1")
        (simp_all add: canary_loop.simps [of env cand d p fc w] Let_def)
  qed
qed

lemma canary_keeps:
  assumes "canary_Execute env cand p w = (r, p1, w1)" and "canary_env_keeps view env"
  shows "view w1 = view w"
proof -
  have "view w1 = view w" if "canary_body env cand p w = (r, p1, w1)" for r p1 w1
    using that canary_loop_keeps [OF _ assms(2)] assms(2)
    by (auto simp: canary_body_def Let_def canary_env_keeps_def split: if_splits option.splits)
  with assms show ?thesis by (auto simp: canary_Execute_def canary_save_keeps split: prod.splits)
qed

text \<open>The strategy never reports the status it has while its checks fail.\<close>

lemma canary_handled: "canary_Execute env cand p w = ((st, t, e), p1, w1) \<Longrightarrow> st \<noteq> StrategyStatusFailing"
  by (auto simp: canary_Execute_def canary_body_def Let_def split: prod.splits if_splits option.splits dest!: canary_loop_result)

definition http_env_keeps :: "('w \<Rightarrow> 'v) \<Rightarrow> 'w http_env \<Rightarrow> bool" where
  "http_env_keeps view env \<longleftrightarrow>
     (\<forall>d w. view (he_sleep env d w) = view w) \<and> (\<forall>c d. keeps view (he_check env c d)) \<and> (\<forall>q. keeps view (he_do env q))"

lemma http_probe_keeps:
  assumes "http_probe env p cand w = (r, w1)" and "http_env_keeps view env"
  shows "view w1 = view w"
proof -
  have ops: "keeps view (he_check env c d)" "keeps view (he_do env q)" for c d q
    using assms(2) by (simp_all add: http_env_keeps_def)
  show ?thesis
    using assms(1) by (auto simp: http_probe_def Let_def split: option.splits prod.splits dest!: ops [THEN keepsD])
qed

lemma http_loop_keeps:
  assumes "http_loop env p cand interval expired count w = Some y" and "http_env_keeps view env"
  shows "view (snd y) = view w"
  using assms
proof (induction env p cand interval expired count w y rule: http_loop.raw_induct [rotated, consumes 1])
  case (1 loop env p cand interval expired count w y)
  obtain x w1 where pr: "http_probe env p cand w = (x, w1)" by fastforce
  from http_probe_keeps [OF this 1(3)] have "view w1 = view w" .
  with 1 pr show ?case
    by (cases x) (auto simp: Let_def http_env_keeps_def split: if_splits)
qed

lemma http_keeps:
  assumes "http_Execute env p cand w = Some (e, w1)" and "http_env_keeps view env"
  shows "view w1 = view w"
  using assms(1) http_loop_keeps [OF _ assms(2)]
  by (auto simp: http_Execute_def split: sum.splits)

lemma webhooks_keep:
  "(\<And>send m. send \<in> set sends \<Longrightarrow> keeps view (send m)) \<Longrightarrow> view (callWebhooks sends m w) = view w"
  by (induction sends arbitrary: w) (simp_all add: keeps_def)

subsection \<open>The plugins of a machine\<close>

text \<open>
  Two views of the world: the deployments of the cluster and the entries of the mesh. Neither
  platform touches what the other keeps, and nothing else touches either.
\<close>

definition plugins_apart ::
    "('w \<Rightarrow> kube_view) \<Rightarrow> ('w \<Rightarrow> mesh) \<Rightarrow> 'w kube_env \<Rightarrow> 'w state_store \<Rightarrow> 'w plugin_env \<Rightarrow> bool" where
  "plugins_apart kv cv ke store env \<longleftrightarrow>
     (let both = (\<lambda>w. (kv w, cv w)); re = pn_releaser_env env
      in consul_keeps kv (re_api re) \<and> kube_keeps cv (ke_api ke) \<and>
         (\<forall>c n f sc. keeps cv (ca_health (re_api re) c n f sc)) \<and>
         (\<forall>d. keeps both (ss_upsert store d)) \<and> (\<forall>d w. both (re_sleep re d w) = both w) \<and>
         canary_env_keeps both (pn_strategy env) \<and> http_env_keeps both (pn_test_env env) \<and>
         (\<forall>send m. send \<in> set (pn_webhooks env) \<longrightarrow> keeps both (send m)) \<and>
         (\<forall>d w. both (pn_sleep env d w) = both w) \<and> (\<forall>eff w. both (pn_effect env eff w) = both w))"

text \<open>What is documented of all that is not in the repository.\<close>

definition plugins_documented ::
    "('w \<Rightarrow> kube_view) \<Rightarrow> ('w \<Rightarrow> mesh) \<Rightarrow> 'w kube_env \<Rightarrow> 'w state_store \<Rightarrow> 'w plugin_env \<Rightarrow> bool" where
  "plugins_documented kv cv ke store env \<longleftrightarrow>
     kube_documented kv ke \<and> consul_documented cv (re_api (pn_releaser_env env)) \<and>
     retry_documented (re_retry (pn_releaser_env env)) \<and> pn_runtime env = on_kube ke store \<and>
     plugins_apart kv cv ke store env"

end
