(* ===== verification/Deployment.thy ===== *)
theory Deployment
  imports Isolation
begin

text \<open>
  A release end to end: what has become of the deployments and of the mesh when the machine
  is idle again after a request to configure, to deploy or to destroy. The assertion of each
  state the request leads through is given as a function of the state; that the goroutine of
  every state ensures the assertions of the next ones is read off the goroutine and the
  effects of its calls.
\<close>

subsection \<open>What the plugins bring about\<close>

text \<open>The entry that sends the given share of the traffic to the candidate.\<close>

definition traffic_split :: "releaser \<Rightarrow> int \<Rightarrow> config_entry" where
  "traffic_split p n =
     ServiceSplitterConfigEntry (new_head (rl_options p) (rb_service (rl_config p)))
       [\<lparr>sp_subset = primary_subset (rb_service (rl_config p)), sp_weight = 100 - n\<rparr>,
        \<lparr>sp_subset = candidate_subset (rb_service (rl_config p)), sp_weight = n\<rparr>]"

abbreviation split_key :: "releaser \<Rightarrow> entry_key" where
  "split_key p \<equiv> (ServiceSplitter, rb_service (rl_config p), scope_of (rl_options p))"

text \<open>The candidate scaled down, if there is one.\<close>

definition scaled_down :: "runtime_plugin \<Rightarrow> cluster \<Rightarrow> cluster" where
  "scaled_down p C = (if C (candidate_key p) = None then C else C(candidate_key p \<mapsto> 0))"

definition names_differ :: "runtime_plugin \<Rightarrow> bool" where
  "names_differ p \<longleftrightarrow> rs_candidate (rp_state p) \<noteq> rs_primary (rp_state p)"

text \<open>The primary runs what the candidate ran, which is scaled down.\<close>

definition replaced :: "runtime_plugin \<Rightarrow> cluster \<Rightarrow> cluster \<Rightarrow> bool" where
  "replaced p C C1 \<longleftrightarrow> (\<exists>i. C (candidate_key p) = Some i \<and> C1 = C(primary_key p \<mapsto> i, candidate_key p \<mapsto> 0))"

definition original_back :: "runtime_plugin \<Rightarrow> cluster \<Rightarrow> cluster" where
  "original_back p C =
     (case C (primary_key p) of None \<Rightarrow> C | Some i \<Rightarrow> C(candidate_key p \<mapsto> i, primary_key p := None))"

text \<open>What holds on entering the states a deployment leads through, from mesh \<open>V\<close> and cluster \<open>C\<close>.\<close>

fun deploying ::
    "'w plugin_env \<Rightarrow> ('w \<Rightarrow> kube_view) \<Rightarrow> ('w \<Rightarrow> mesh) \<Rightarrow> mesh \<Rightarrow> cluster \<Rightarrow> sm_state \<Rightarrow> plugins \<Rightarrow> 'w \<Rightarrow> bool" where
  "deploying env kv cv V C StateIdle pl w =
     (cv w = V(split_key (pn_releaser env) \<mapsto> traffic_split (pn_releaser env) 0) \<and>
      (names_differ (pl_runtime pl) \<longrightarrow>
         replaced (pl_runtime pl) C (cluster_of kv w) \<or> cluster_of kv w = scaled_down (pl_runtime pl) C))"
| "deploying env kv cv V C s pl w =
     (s \<in> {StateDeploy, StateMonitor, StateScale, StatePromote, StateRollback} \<and>
      cluster_of kv w = C \<and> (\<exists>y. cv w = V(split_key (pn_releaser env) := y)))"

fun configuring ::
    "'w plugin_env \<Rightarrow> ('w \<Rightarrow> kube_view) \<Rightarrow> ('w \<Rightarrow> mesh) \<Rightarrow> mesh \<Rightarrow> cluster \<Rightarrow> sm_state \<Rightarrow> plugins \<Rightarrow> 'w \<Rightarrow> bool" where
  "configuring env kv cv V C StateIdle pl w =
     (mesh_set_up (rl_options (pn_releaser env)) (rb_service (rl_config (pn_releaser env)))
        (runtime_PrimarySubsetFilter (pn_runtime env)) (runtime_CandidateSubsetFilter (pn_runtime env)) V (cv w) \<and>
      (names_differ (pl_runtime pl) \<longrightarrow> replaced (pl_runtime pl) C (cluster_of kv w) \<or> cluster_of kv w = C))"
| "configuring env kv cv V C s pl w =
     (s = StateConfigure \<and> cluster_of kv w = C \<and> cv w = V \<and>
      mesh_fresh (rl_options (pn_releaser env)) (rb_service (rl_config (pn_releaser env))) V)"

text \<open>\<open>V\<close> is the mesh before the release was configured, in which it left only its own entries.\<close>

fun destroying ::
    "'w plugin_env \<Rightarrow> ('w \<Rightarrow> kube_view) \<Rightarrow> ('w \<Rightarrow> mesh) \<Rightarrow> mesh \<Rightarrow> cluster \<Rightarrow> sm_state \<Rightarrow> plugins \<Rightarrow> 'w \<Rightarrow> bool" where
  "destroying env kv cv V C StateIdle pl w =
     (mesh_restored (rl_options (pn_releaser env)) V (cv w) \<and>
      (names_differ (pl_runtime pl) \<longrightarrow> cluster_of kv w = original_back (pl_runtime pl) C))"
| "destroying env kv cv V C s pl w =
     (s = StateDestroy \<and> cluster_of kv w = C \<and>
      mesh_fresh (rl_options (pn_releaser env)) (rb_service (rl_config (pn_releaser env))) V \<and>
      mesh_set_up (rl_options (pn_releaser env)) (rb_service (rl_config (pn_releaser env)))
        (runtime_PrimarySubsetFilter (pn_runtime env)) (runtime_CandidateSubsetFilter (pn_runtime env)) V (cv w))"

lemma on_kube_filters:
  "runtime_PrimarySubsetFilter (on_kube ke store) = kube_PrimarySubsetFilter"
  "runtime_CandidateSubsetFilter (on_kube ke store) = kube_CandidateSubsetFilter"
  by (simp_all add: runtime_PrimarySubsetFilter_def runtime_CandidateSubsetFilter_def kube_client_def)

lemma InitPrimary_names:
  "InitPrimary_body env name p w = (r, p1, w1) \<Longrightarrow> rs_primary (rp_state p1) = name @ ''-primary'' \<and> rp_config p1 = rp_config p"
  by (auto simp: InitPrimary_body_def Let_def split: prod.splits res.splits option.splits)

lemma InitPrimary_status:
  "InitPrimary_body env name p w = (Returned (st, None), p1, w1) \<Longrightarrow> st \<in> {RuntimeDeploymentUpdate, RuntimeDeploymentNoAction}"
  by (auto simp: InitPrimary_body_def Let_def split: prod.splits res.splits option.splits)

lemma PromoteCandidate_status:
  "PromoteCandidate_body env p w = (Returned (st, None), w1) \<Longrightarrow> st \<in> {RuntimeDeploymentUpdate, RuntimeDeploymentNotFound}"
  by (auto simp: PromoteCandidate_body_def Let_def bind_res_returned split: option.splits if_splits)

lemma ret_reply_none: "ret_reply r = Some (None, w1) \<longleftrightarrow> r = (Ok, w1)"
  by (cases r rule: ret_reply.cases) auto

lemma ret_reply_some: "ret_reply r = Some (e, w1) \<Longrightarrow> w1 = snd r"
  by (cases r rule: ret_reply.cases) auto

lemma res_reply_some: "res_reply r = Some (x, w1) \<longleftrightarrow> r = (Returned x, w1)"
  by (cases r rule: res_reply.cases) auto

lemma saving_returned: "saving env p r = (Returned x, w1) \<Longrightarrow> \<exists>w0. r = (Returned x, w0) \<and> w1 = runtime_saveState env p w0"
  by (auto simp: saving_def prod_eq_iff)

locale plugin_world =
  fixes lib :: "machine fsm_lib" and env :: "'w plugin_env" and kv :: "'w \<Rightarrow> kube_view" and cv :: "'w \<Rightarrow> mesh"
    and ke :: "'w kube_env" and store :: "'w state_store"
  assumes lib: "fsm_documented lib" and doc: "plugins_documented kv cv ke store env"
begin

lemma kube: "kube_documented kv ke" and consul: "consul_documented cv (re_api (pn_releaser_env env))"
  and retry: "retry_documented (re_retry (pn_releaser_env env))" and runtime: "pn_runtime env = on_kube ke store"
  and apart: "plugins_apart kv cv ke store env"
  using doc unfolding plugins_documented_def by blast+

lemma kube_retry: "retry_documented (ke_retry ke)"
  using kube unfolding kube_documented_def by blast

lemma both_apart:
  "consul_keeps kv (re_api (pn_releaser_env env))" "kube_keeps cv (ke_api ke)"
  "keeps cv (ca_health (re_api (pn_releaser_env env)) c n f sc)"
  "keeps kv (ss_upsert store d)" "keeps cv (ss_upsert store d)"
  "kv (re_sleep (pn_releaser_env env) t w) = kv w" "cv (re_sleep (pn_releaser_env env) t w) = cv w"
  "canary_env_keeps (\<lambda>w. (kv w, cv w)) (pn_strategy env)" "http_env_keeps (\<lambda>w. (kv w, cv w)) (pn_test_env env)"
  "send \<in> set (pn_webhooks env) \<Longrightarrow> keeps (\<lambda>w. (kv w, cv w)) (send m)"
  "kv (pn_sleep env t w) = kv w" "cv (pn_sleep env t w) = cv w"
  "kv (pn_effect env eff w) = kv w" "cv (pn_effect env eff w) = cv w"
  using apart unfolding plugins_apart_def Let_def keeps_def by (cases sc; auto)+

lemma hooks_keep [simp]: "kv (callWebhooks (pn_webhooks env) m w) = kv w" "cv (callWebhooks (pn_webhooks env) m w) = cv w"
  using webhooks_keep [of "pn_webhooks env" "\<lambda>w. (kv w, cv w)" m w] both_apart(10) by auto

lemmas others_keep [simp] = both_apart(11-14)

lemma saved [simp]: "kv (runtime_saveState (pn_runtime env) p w) = kv w"
  unfolding runtime by (rule saveState_keeps) (rule both_apart)

lemma wait_call:
  assumes "do_call env (WaitUntilServiceHealthy flt) pl w = Some (e, w1)"
  shows "kv w1 = kv w \<and> cv w1 = cv w"
proof -
  have "keeps kv (ca_health (re_api (pn_releaser_env env)) c n f sc)" for c n f sc
    using both_apart(1) unfolding consul_keeps_def by blast
  note wait = releaser_wait_keeps [OF retry this] releaser_wait_keeps [OF retry both_apart(3)]
  from assms show ?thesis by (auto dest: wait [THEN keepsD])
qed

lemma test_call: "do_call env TestExecute pl w = Some (e, w1) \<Longrightarrow> kv w1 = kv w \<and> cv w1 = cv w"
  using http_keeps [OF _ both_apart(9)] by auto

lemma strategy_run_call:
  "do_strategy env pl w = ((st, t, e), pl1, w1) \<Longrightarrow>
     kv w1 = kv w \<and> cv w1 = cv w \<and> st \<noteq> StrategyStatusFailing \<and> pl_runtime pl1 = pl_runtime pl"
  using canary_keeps [OF _ both_apart(8)] canary_handled by (fastforce simp: do_strategy_def split: prod.splits)

lemma scale_call:
  assumes "do_call env (Scale n) pl w = Some (None, w1)"
  shows "cluster_of kv w1 = cluster_of kv w \<and>
    cv w1 = (cv w)(split_key (pn_releaser env) \<mapsto> traffic_split (pn_releaser env) n)"
proof -
  from assms have s: "releaser_Scale (pn_releaser_env env) (pn_releaser env) n w = (Ok, w1)"
    by (simp add: ret_reply_none)
  have "kv w1 = kv w" using keepsD [OF releaser_keeps(2) s] both_apart by blast
  with put_entry_ok [OF consul] s show ?thesis
    by (auto simp: cluster_of_def releaser_Scale_def CreateServiceSplitter_def traffic_split_def new_head_def Let_def)
qed

lemma setup_call:
  assumes "do_call env ReleaserSetup pl w = Some (None, w1)"
    and "mesh_fresh (rl_options (pn_releaser env)) (rb_service (rl_config (pn_releaser env))) (cv w)"
  shows "cluster_of kv w1 = cluster_of kv w \<and>
    mesh_set_up (rl_options (pn_releaser env)) (rb_service (rl_config (pn_releaser env)))
      (runtime_PrimarySubsetFilter (pn_runtime env)) (runtime_CandidateSubsetFilter (pn_runtime env)) (cv w) (cv w1)"
proof -
  from assms(1) have s: "releaser_Setup (pn_releaser_env env) (pn_releaser env)
      (runtime_PrimarySubsetFilter (pn_runtime env)) (runtime_CandidateSubsetFilter (pn_runtime env)) w = (Ok, w1)"
    by (simp add: ret_reply_none)
  have "kv w1 = kv w" using keepsD [OF releaser_keeps(1) s] both_apart by blast
  with Setup_sets_up [OF consul both_apart(7) assms(2) s] show ?thesis by (simp add: cluster_of_def)
qed

lemma destroy_call:
  assumes "do_call env ReleaserDestroy pl w = Some (None, w1)"
    and "mesh_fresh (rl_options (pn_releaser env)) (rb_service (rl_config (pn_releaser env))) V"
    and "mesh_set_up (rl_options (pn_releaser env)) (rb_service (rl_config (pn_releaser env))) pf cf V (cv w)"
  shows "cluster_of kv w1 = cluster_of kv w \<and> mesh_restored (rl_options (pn_releaser env)) V (cv w1)"
proof -
  from assms(1) have s: "releaser_Destroy (pn_releaser_env env) (pn_releaser env) w = (Ok, w1)"
    by (simp add: ret_reply_none)
  have "kv w1 = kv w" using keepsD [OF releaser_keeps(3) s] both_apart by blast
  with Destroy_restores [OF consul both_apart(7) assms(2,3) s] show ?thesis by (simp add: cluster_of_def)
qed

lemma remove_call:
  assumes "do_call env RemoveCandidate pl w = Some (None, w1)"
  shows "cv w1 = cv w \<and> cluster_of kv w1 = scaled_down (pl_runtime pl) (cluster_of kv w)"
proof -
  from assms have r: "runtime_RemoveCandidate (pn_runtime env) (pl_runtime pl) w = (Returned None, w1)"
    by (simp add: res_reply_some)
  then obtain w2 where b: "RemoveCandidate_body (on_kube ke store) (pl_runtime pl) w = (Returned None, w2)"
    and w1: "w1 = runtime_saveState (pn_runtime env) (pl_runtime pl) w2"
    unfolding runtime_RemoveCandidate_def by (metis runtime saving_returned)
  have "cv w1 = cv w" using keepsD [OF runtime_keeps(3) r [unfolded runtime]] both_apart kube_retry by blast
  with kube_platform.RemoveCandidate_here [OF kube_platform.intro [OF kube] _ _ b] show ?thesis
    by (simp add: w1 cluster_of_def scaled_down_def Let_def split: if_splits)
qed

lemma restore_call:
  assumes "do_call env RestoreOriginal pl w = Some (None, w1)" and "names_differ (pl_runtime pl)"
  shows "cluster_of kv w1 = (case cluster_of kv w (primary_key (pl_runtime pl)) of
      None \<Rightarrow> cluster_of kv w | Some i \<Rightarrow> (cluster_of kv w)(candidate_key (pl_runtime pl) \<mapsto> i))"
proof -
  from assms(1) obtain w2 where b: "RestoreOriginal_body (on_kube ke store) (pl_runtime pl) w = (Returned None, w2)"
    and w1: "w1 = runtime_saveState (pn_runtime env) (pl_runtime pl) w2"
    by (simp add: res_reply_some runtime_RestoreOriginal_def) (metis runtime saving_returned)
  from kube_platform.RestoreOriginal_here [OF kube_platform.intro [OF kube] _ _ _ b] assms(2) show ?thesis
    by (simp add: w1 cluster_of_def names_differ_def split: option.splits)
qed

lemma remove_primary_call:
  assumes "do_call env RemovePrimary pl w = Some (None, w1)"
  shows "cluster_of kv w1 = (cluster_of kv w)(primary_key (pl_runtime pl) := None)"
proof -
  from assms(1) obtain w2 where b: "RemovePrimary_body (on_kube ke store) (pl_runtime pl) w = (Returned None, w2)"
    and w1: "w1 = runtime_saveState (pn_runtime env) (pl_runtime pl) w2"
    by (simp add: res_reply_some runtime_RemovePrimary_def) (metis runtime saving_returned)
  from kube_platform.RemovePrimary_here [OF kube_platform.intro [OF kube] _ _ b] show ?thesis
    by (simp add: w1 cluster_of_def)
qed

lemma runtime_calls_mesh:
  "do_call env RestoreOriginal pl w = Some (e, w1) \<Longrightarrow> cv w1 = cv w"
  "do_call env RemovePrimary pl w = Some (e, w1) \<Longrightarrow> cv w1 = cv w"
  using runtime_keeps(4,5) [OF both_apart(2) kube_retry both_apart(5)]
  by (auto simp: res_reply_some runtime dest: keepsD)

lemma init_call:
  assumes "do_status env (InitPrimary name) pl w = Some ((st, None), pl1, w1)"
  shows "cv w1 = cv w \<and> (if st = RuntimeDeploymentUpdate
    then \<exists>i. cluster_of kv w (candidate_key (pl_runtime pl1)) = Some i \<and>
      cluster_of kv w1 = (cluster_of kv w)(primary_key (pl_runtime pl1) \<mapsto> i)
    else cluster_of kv w1 = cluster_of kv w)"
proof -
  from assms obtain p1 where r: "runtime_InitPrimary (on_kube ke store) name (pl_runtime pl) w = (Returned (st, None), p1, w1)"
    and pl1: "pl1 = pl\<lparr>pl_runtime := p1\<rparr>"
    by (auto simp: res_reply_some runtime split: prod.splits)
  then obtain w2 where b: "InitPrimary_body (on_kube ke store) name (pl_runtime pl) w = (Returned (st, None), p1, w2)"
    and w1: "w1 = runtime_saveState (pn_runtime env) p1 w2"
    by (auto simp: runtime_InitPrimary_def runtime split: prod.splits)
  have cv: "cv w1 = cv w" by (rule runtime_keeps(1) [OF both_apart(2) kube_retry both_apart(5) r])
  show ?thesis
  proof (cases "st = RuntimeDeploymentUpdate")
    case True
    with b have "InitPrimary_body (on_kube ke store) name (pl_runtime pl) w = (Returned (RuntimeDeploymentUpdate, None), p1, w2)" by simp
    from kube_platform.InitPrimary_here [OF kube_platform.intro [OF kube] _ _ this] InitPrimary_names [OF b] cv True show ?thesis
      by (simp add: w1 pl1 cluster_of_def)
  next
    case False
    with InitPrimary_status [OF b] b
    have "InitPrimary_body (on_kube ke store) name (pl_runtime pl) w = (Returned (RuntimeDeploymentNoAction, None), p1, w2)" by auto
    from kube_platform.InitPrimary_nothing [OF kube_platform.intro [OF kube] _ _ this] False cv show ?thesis
      by (simp add: w1 cluster_of_def)
  qed
qed

lemma promote_call:
  assumes "do_status env PromoteCandidate pl w = Some ((st, None), pl1, w1)"
  shows "pl1 = pl \<and> cv w1 = cv w \<and> (names_differ (pl_runtime pl) \<longrightarrow> cluster_of kv w1 = cluster_of kv w \<or>
    (\<exists>i. cluster_of kv w (candidate_key (pl_runtime pl)) = Some i \<and>
      cluster_of kv w1 = (cluster_of kv w)(primary_key (pl_runtime pl) \<mapsto> i)))"
proof -
  from assms have r: "runtime_PromoteCandidate (on_kube ke store) (pl_runtime pl) w = (Returned (st, None), w1)" and pl1: "pl1 = pl"
    by (auto simp: res_reply_some runtime)
  then obtain w2 where b: "PromoteCandidate_body (on_kube ke store) (pl_runtime pl) w = (Returned (st, None), w2)"
    and w1: "w1 = runtime_saveState (pn_runtime env) (pl_runtime pl) w2"
    unfolding runtime_PromoteCandidate_def by (metis runtime saving_returned)
  have cv: "cv w1 = cv w" using keepsD [OF runtime_keeps(2) r] both_apart kube_retry by blast
  from PromoteCandidate_status [OF b] consider "st = RuntimeDeploymentUpdate" | "st = RuntimeDeploymentNotFound" by blast
  then show ?thesis
  proof cases
    case 1
    with b have "PromoteCandidate_body (on_kube ke store) (pl_runtime pl) w = (Returned (RuntimeDeploymentUpdate, None), w2)" by simp
    from kube_platform.PromoteCandidate_here(1) [OF kube_platform.intro [OF kube] _ _ _ this] cv pl1 show ?thesis
      by (simp add: w1 cluster_of_def names_differ_def)
  next
    case 2
    with b have "PromoteCandidate_body (on_kube ke store) (pl_runtime pl) w = (Returned (RuntimeDeploymentNotFound, None), w2)" by simp
    from kube_platform.PromoteCandidate_here(2) [OF kube_platform.intro [OF kube] _ _ this] cv pl1 show ?thesis
      by (simp add: w1 cluster_of_def)
  qed
qed

subsection \<open>Rules for the calls\<close>

text \<open>One for each call the goroutines make; an error may have left anything behind.\<close>

lemma cluster_same: "kv w1 = kv w \<Longrightarrow> cluster_of kv w1 = cluster_of kv w"
  by (simp add: cluster_of_def)

lemma pause_same: "cluster_of kv (pn_sleep env t w) = cluster_of kv w" "cv (pn_sleep env t w) = cv w"
  and hooks_same: "cluster_of kv (callWebhooks (pn_webhooks env) msg w) = cluster_of kv w" "cv (callWebhooks (pn_webhooks env) msg w) = cv w"
  by (simp_all add: cluster_of_def)

lemma sleep_rule:
  assumes "\<And>w1. cluster_of kv w1 = cluster_of kv w \<Longrightarrow> cv w1 = cv w \<Longrightarrow> ensures env I s k pl w1"
  shows "ensures env I s (Sleep n k) pl w"
  unfolding ensures.simps by (rule assms) (rule pause_same)+

lemma hooks_rule:
  assumes "\<And>w1. cluster_of kv w1 = cluster_of kv w \<Longrightarrow> cv w1 = cv w \<Longrightarrow> ensures env I s k pl w1"
  shows "ensures env I s (Webhooks title st ev p c err k) pl w"
  unfolding ensures.simps by (intro allI, rule assms) (rule hooks_same)+

lemma traffic_rule: "(\<And>p c. ensures env I s (k p c) pl w) \<Longrightarrow> ensures env I s (ReadTraffic k) pl w"
  by simp

lemma fail_rule: "s \<in> set active_states \<Longrightarrow> ensures env I s (fail_with title st p c err) pl w"
  by (rule ensures_fail_with)

lemma failed_rule: "s \<in> set active_states \<Longrightarrow> ensures env I s (Fire EventFail args k) pl w"
  by (auto simp: active_states_def)

lemma fire_rule: "next_state s ev = Some d \<Longrightarrow> I d pl w \<Longrightarrow> ensures env I s (Fire ev args Done) pl w"
  by simp

lemma if_rule:
  "(P \<Longrightarrow> ensures env I s k pl w) \<Longrightarrow> (\<not> P \<Longrightarrow> ensures env I s k1 pl w) \<Longrightarrow> ensures env I s (if P then k else k1) pl w"
  by simp

lemma call_rule:
  assumes "\<And>err w1. ensures env I s (f err) pl w1"
    and "\<And>w1. do_call env c pl w = Some (None, w1) \<Longrightarrow> ensures env I s k pl w1"
  shows "ensures env I s (Call c (\<lambda>e. case e of None \<Rightarrow> k | Some err \<Rightarrow> f err)) pl w"
proof -
  have "ensures env I s (case e of None \<Rightarrow> k | Some err \<Rightarrow> f err) pl w1" if "do_call env c pl w = Some (e, w1)" for e w1
    using that assms by (cases e) simp_all
  then show ?thesis by simp
qed

lemma status_rule:
  assumes "\<And>st err pl1 w1. ensures env I s (f st err) pl1 w1"
    and "\<And>st pl1 w1. do_status env c pl w = Some ((st, None), pl1, w1) \<Longrightarrow> ensures env I s (k st) pl1 w1"
  shows "ensures env I s (StatusCall c (\<lambda>st e. case e of None \<Rightarrow> k st | Some err \<Rightarrow> f st err)) pl w"
proof -
  have "ensures env I s (case e of None \<Rightarrow> k st | Some err \<Rightarrow> f st err) pl1 w1"
    if "do_status env c pl w = Some ((st, e), pl1, w1)" for st e pl1 w1
    using that assms by (cases e) simp_all
  then show ?thesis by simp
qed

lemma wait_rule:
  "(\<And>err w1. ensures env I s (f err) pl w1) \<Longrightarrow>
   (\<And>w1. cluster_of kv w1 = cluster_of kv w \<Longrightarrow> cv w1 = cv w \<Longrightarrow> ensures env I s k pl w1) \<Longrightarrow>
   ensures env I s (Call (WaitUntilServiceHealthy flt) (\<lambda>e. case e of None \<Rightarrow> k | Some err \<Rightarrow> f err)) pl w"
  by (rule call_rule) (use wait_call cluster_same in blast)+

lemma scale_rule:
  "(\<And>err w1. ensures env I s (f err) pl w1) \<Longrightarrow>
   (\<And>w1. cluster_of kv w1 = cluster_of kv w \<Longrightarrow>
      cv w1 = (cv w)(split_key (pn_releaser env) \<mapsto> traffic_split (pn_releaser env) n) \<Longrightarrow> ensures env I s k pl w1) \<Longrightarrow>
   ensures env I s (Call (Scale n) (\<lambda>e. case e of None \<Rightarrow> k | Some err \<Rightarrow> f err)) pl w"
  by (rule call_rule) (use scale_call in blast)+

lemma remove_rule:
  "(\<And>err w1. ensures env I s (f err) pl w1) \<Longrightarrow>
   (\<And>w1. cluster_of kv w1 = scaled_down (pl_runtime pl) (cluster_of kv w) \<Longrightarrow> cv w1 = cv w \<Longrightarrow> ensures env I s k pl w1) \<Longrightarrow>
   ensures env I s (Call RemoveCandidate (\<lambda>e. case e of None \<Rightarrow> k | Some err \<Rightarrow> f err)) pl w"
  by (rule call_rule) (use remove_call in blast)+

lemma init_rule:
  "(\<And>st err pl1 w1. ensures env I s (f st err) pl1 w1) \<Longrightarrow>
   (\<And>st pl1 w1. cv w1 = cv w \<Longrightarrow> (if st = RuntimeDeploymentUpdate
      then \<exists>i. cluster_of kv w (candidate_key (pl_runtime pl1)) = Some i \<and>
        cluster_of kv w1 = (cluster_of kv w)(primary_key (pl_runtime pl1) \<mapsto> i)
      else cluster_of kv w1 = cluster_of kv w) \<Longrightarrow> ensures env I s (k st) pl1 w1) \<Longrightarrow>
   ensures env I s (StatusCall (InitPrimary name) (\<lambda>st e. case e of None \<Rightarrow> k st | Some err \<Rightarrow> f st err)) pl w"
  by (rule status_rule) (use init_call in blast)+

lemma promote_rule:
  "(\<And>st err pl1 w1. ensures env I s (f st err) pl1 w1) \<Longrightarrow>
   (\<And>w1. cv w1 = cv w \<Longrightarrow> (names_differ (pl_runtime pl) \<longrightarrow> cluster_of kv w1 = cluster_of kv w \<or>
      (\<exists>i. cluster_of kv w (candidate_key (pl_runtime pl)) = Some i \<and>
        cluster_of kv w1 = (cluster_of kv w)(primary_key (pl_runtime pl) \<mapsto> i))) \<Longrightarrow> ensures env I s k pl w1) \<Longrightarrow>
   ensures env I s (StatusCall PromoteCandidate (\<lambda>st e. case e of None \<Rightarrow> k | Some err \<Rightarrow> f st err)) pl w"
  by (rule status_rule) (use promote_call in blast)+

lemmas rules = if_rule sleep_rule hooks_rule traffic_rule fail_rule failed_rule fire_rule
  wait_rule scale_rule remove_rule init_rule promote_rule

subsection \<open>What the goroutines ensure\<close>

lemma scaled_down_replaced:
  assumes "names_differ p" and "C (candidate_key p) = Some i"
  shows "replaced p C (scaled_down p (C(primary_key p \<mapsto> i)))"
  using assms by (auto simp: replaced_def scaled_down_def names_differ_def)

lemma deploy_ensures:
  assumes "deploying env kv cv V C StateDeploy pl w"
  shows "ensures env (deploying env kv cv V C) StateDeploy (doDeploy name) pl w"
  using assms unfolding doDeploy_def Let_def
  by (intro rules) (auto simp: active_states_def scaled_down_replaced)

lemma scale_ensures:
  assumes "deploying env kv cv V C StateScale pl w"
  shows "ensures env (deploying env kv cv V C) StateScale (doScale args) pl w"
  using assms unfolding doScale_def by (intro rules) (auto simp: active_states_def)

lemma promote_ensures:
  assumes "deploying env kv cv V C StatePromote pl w"
  shows "ensures env (deploying env kv cv V C) StatePromote doPromote pl w"
  using assms unfolding doPromote_def Let_def
  by (intro rules) (auto simp: active_states_def scaled_down_replaced)

lemma rollback_ensures:
  assumes "deploying env kv cv V C StateRollback pl w"
  shows "ensures env (deploying env kv cv V C) StateRollback doRollback pl w"
  using assms unfolding doRollback_def by (intro rules) (auto simp: active_states_def)

lemma test_rule:
  assumes "\<And>e w1. cluster_of kv w1 = cluster_of kv w \<Longrightarrow> cv w1 = cv w \<Longrightarrow> ensures env I s (k e) pl w1"
  shows "ensures env I s (Call TestExecute k) pl w"
  unfolding ensures.simps using assms test_call cluster_same by blast

lemma strategy_rule:
  assumes "\<And>st t e pl1 w1. cluster_of kv w1 = cluster_of kv w \<Longrightarrow> cv w1 = cv w \<Longrightarrow> st \<noteq> StrategyStatusFailing \<Longrightarrow>
    ensures env I s (k st t e) pl1 w1"
  shows "ensures env I s (RunStrategy k) pl w"
  unfolding ensures.simps using assms strategy_run_call cluster_same by blast

lemma monitor_switch_ensures:
  assumes "deploying env kv cv V C StateMonitor pl w" and "st \<noteq> StrategyStatusFailing"
  shows "ensures env (deploying env kv cv V C) StateMonitor (monitor_switch st t e) pl w"
  using assms by (cases st; simp add: monitor_switch_def) (intro allI; auto simp: hooks_same)

lemma monitor_ensures:
  assumes "deploying env kv cv V C StateMonitor pl w"
  shows "ensures env (deploying env kv cv V C) StateMonitor (doMonitor has_test) pl w"
proof -
  have strategy: "ensures env (deploying env kv cv V C) StateMonitor monitor_strategy pl w"
    if "deploying env kv cv V C StateMonitor pl w" for w
    unfolding monitor_strategy_def
  proof (rule strategy_rule)
    fix st t e pl1 w1
    assume "cluster_of kv w1 = cluster_of kv w" "cv w1 = cv w" "st \<noteq> StrategyStatusFailing"
    with that have "ensures env (deploying env kv cv V C) StateMonitor (monitor_switch st t e) pl1 w1" for e
      by (intro monitor_switch_ensures) simp_all
    then show "ensures env (deploying env kv cv V C) StateMonitor (case e of None \<Rightarrow> monitor_switch st t e
        | Some x \<Rightarrow> ReadTraffic (\<lambda>p c. Webhooks ''Monitoring deployment failed'' StateMonitor EventFail p c (Some x)
            (Fire EventFail [] (monitor_switch st t e)))) pl1 w1"
      by (cases e) simp_all
  qed
  show ?thesis
  proof (cases has_test)
    case True
    show ?thesis
      unfolding doMonitor_def if_P [OF True]
    proof (rule test_rule)
      fix e w1
      assume "cluster_of kv w1 = cluster_of kv w" "cv w1 = cv w"
      with assms have d: "deploying env kv cv V C StateMonitor pl w1" by simp
      with strategy [OF d] show "ensures env (deploying env kv cv V C) StateMonitor (case e of None \<Rightarrow> monitor_strategy
          | Some err \<Rightarrow> ReadTraffic (\<lambda>p c. Webhooks ''post deployment tests failed'' StateMonitor EventFail p c (Some err)
              (Fire EventUnhealthy [] Done))) pl w1"
        by (cases e) (auto simp: hooks_same)
    qed
  next
    case False
    with strategy [OF assms] show ?thesis by (simp add: doMonitor_def)
  qed
qed

lemma setup_rule:
  assumes "\<And>err w1. ensures env I s (f err) pl w1"
    and "mesh_fresh (rl_options (pn_releaser env)) (rb_service (rl_config (pn_releaser env))) (cv w)"
    and "\<And>w1. cluster_of kv w1 = cluster_of kv w \<Longrightarrow>
      mesh_set_up (rl_options (pn_releaser env)) (rb_service (rl_config (pn_releaser env)))
        (runtime_PrimarySubsetFilter (pn_runtime env)) (runtime_CandidateSubsetFilter (pn_runtime env)) (cv w) (cv w1) \<Longrightarrow>
      ensures env I s k pl w1"
  shows "ensures env I s (Call ReleaserSetup (\<lambda>e. case e of None \<Rightarrow> k | Some err \<Rightarrow> f err)) pl w"
  by (rule call_rule) (use assms setup_call in blast)+

lemma configure_ensures:
  assumes "configuring env kv cv V C StateConfigure pl w"
  shows "ensures env (configuring env kv cv V C) StateConfigure (doConfigure name) pl w"
  using assms unfolding doConfigure_def Let_def
  by (intro setup_rule rules) (auto simp: active_states_def scaled_down_replaced set_up_split)

lemma restore_rule:
  assumes "\<And>err w1. ensures env I s (f err) pl w1"
    and "\<And>w1. cv w1 = cv w \<Longrightarrow> (names_differ (pl_runtime pl) \<longrightarrow>
      cluster_of kv w1 = (case cluster_of kv w (primary_key (pl_runtime pl)) of
        None \<Rightarrow> cluster_of kv w | Some i \<Rightarrow> (cluster_of kv w)(candidate_key (pl_runtime pl) \<mapsto> i))) \<Longrightarrow> ensures env I s k pl w1"
  shows "ensures env I s (Call RestoreOriginal (\<lambda>e. case e of None \<Rightarrow> k | Some err \<Rightarrow> f err)) pl w"
  by (rule call_rule) (use assms restore_call runtime_calls_mesh(1) in blast)+

lemma remove_primary_rule:
  assumes "\<And>err w1. ensures env I s (f err) pl w1"
    and "\<And>w1. cv w1 = cv w \<Longrightarrow> cluster_of kv w1 = (cluster_of kv w)(primary_key (pl_runtime pl) := None) \<Longrightarrow> ensures env I s k pl w1"
  shows "ensures env I s (Call RemovePrimary (\<lambda>e. case e of None \<Rightarrow> k | Some err \<Rightarrow> f err)) pl w"
  by (rule call_rule) (use assms remove_primary_call runtime_calls_mesh(2) in blast)+

lemma teardown_rule:
  assumes "\<And>err w1. ensures env I s (f err) pl w1"
    and "mesh_fresh (rl_options (pn_releaser env)) (rb_service (rl_config (pn_releaser env))) V"
    and "mesh_set_up (rl_options (pn_releaser env)) (rb_service (rl_config (pn_releaser env)))
      (runtime_PrimarySubsetFilter (pn_runtime env)) (runtime_CandidateSubsetFilter (pn_runtime env)) V (cv w)"
    and "\<And>w1. cluster_of kv w1 = cluster_of kv w \<Longrightarrow> mesh_restored (rl_options (pn_releaser env)) V (cv w1) \<Longrightarrow> ensures env I s k pl w1"
  shows "ensures env I s (Call ReleaserDestroy (\<lambda>e. case e of None \<Rightarrow> k | Some err \<Rightarrow> f err)) pl w"
  by (rule call_rule) (use assms destroy_call in blast)+

lemma original_back_steps:
  "(case C k of None \<Rightarrow> C | Some i \<Rightarrow> C(j \<mapsto> i))(k := None) = (case C k of None \<Rightarrow> C | Some i \<Rightarrow> C(j \<mapsto> i, k := None))"
  for C :: cluster
  by (auto split: option.split)

lemma destroy_ensures:
  assumes "destroying env kv cv V C StateDestroy pl w"
  shows "ensures env (destroying env kv cv V C) StateDestroy doDestroy pl w"
  using assms unfolding doDestroy_def Let_def
  by (intro restore_rule remove_primary_rule teardown_rule [where V = V] rules)
    (auto simp: active_states_def set_up_split original_back_def original_back_steps)

lemma assertions_stable:
  "deploying env kv cv V C s pl (pn_effect env eff w) = deploying env kv cv V C s pl w"
  "configuring env kv cv V C s pl (pn_effect env eff w) = configuring env kv cv V C s pl w"
  "destroying env kv cv V C s pl (pn_effect env eff w) = destroying env kv cv V C s pl w"
  by (cases s; simp add: cluster_of_def)+

end

sublocale plugin_world \<subseteq> deploy: plugin_rule lib env "deploying env kv cv V C" for V C
proof
  show "fsm_documented lib" by (rule lib)
  show "deploying env kv cv V C s pl (pn_effect env eff w)" if "deploying env kv cv V C s pl w" for s pl w eff
    using that by (simp add: assertions_stable)
  show "ensures env (deploying env kv cv V C) s p pl w"
    if "deploying env kv cv V C s pl w" "handler name has_test s args = Some p" for s pl w name has_test args p
  proof -
    have "s \<in> {StateDeploy, StateMonitor, StateScale, StatePromote, StateRollback, StateIdle}"
      using that(1) by (cases s) auto
    with that show ?thesis
      using deploy_ensures monitor_ensures scale_ensures promote_ensures rollback_ensures
      by (auto simp del: deploying.simps)
  qed
qed

sublocale plugin_world \<subseteq> configure: plugin_rule lib env "configuring env kv cv V C" for V C
proof
  show "configuring env kv cv V C s pl (pn_effect env eff w)" if "configuring env kv cv V C s pl w" for s pl w eff
    using that by (simp add: assertions_stable)
  show "ensures env (configuring env kv cv V C) s p pl w"
    if "configuring env kv cv V C s pl w" "handler name has_test s args = Some p" for s pl w name has_test args p
    using that configure_ensures by (cases s) auto
qed (rule lib)

sublocale plugin_world \<subseteq> destroy: plugin_rule lib env "destroying env kv cv V C" for V C
proof
  show "destroying env kv cv V C s pl (pn_effect env eff w)" if "destroying env kv cv V C s pl w" for s pl w eff
    using that by (simp add: assertions_stable)
  show "ensures env (destroying env kv cv V C) s p pl w"
    if "destroying env kv cv V C s pl w" "handler name has_test s args = Some p" for s pl w name has_test args p
    using that destroy_ensures by (cases s) auto
qed (rule lib)

subsection \<open>A release from its configuration to its destruction\<close>

text \<open>
  A life of a release: it is configured, and any number of deployments complete. Between two
  requests the deployments may change as their owner likes, and so may what the plugins hold,
  as when the admission check sets the name of the candidate; the mesh does not change.
\<close>

inductive lifetime :: "machine fsm_lib \<Rightarrow> 'w plugin_env \<Rightarrow> ('w \<Rightarrow> mesh) \<Rightarrow> 'w system \<Rightarrow> 'w system \<Rightarrow> bool"
  for lib env cv where
  configured: "completes lib env EventConfigure x y \<Longrightarrow> lifetime lib env cv x y"
| deployed: "lifetime lib env cv x (c, pl, w) \<Longrightarrow> cv w1 = cv w \<Longrightarrow> completes lib env EventDeploy (c, pl1, w1) y \<Longrightarrow>
    lifetime lib env cv x y"

context plugin_world
begin

lemma deployed_world:
  assumes "completes lib env EventDeploy ((s, m), pl, w) ((s1, m1), pl1, w1)" and "all_done (m_pool m)"
  shows "deploying env kv cv (cv w) (cluster_of kv w) StateIdle pl1 w1 \<and> all_done (m_pool m1)"
proof (rule deploy.completed [OF assms])
  show "next_state s EventDeploy = Some StateDeploy" using assms(1) by (auto simp: completes_def split: if_splits)
  have "cv w = (cv w)(k := cv w k)" for k by simp
  then show "deploying env kv cv (cv w) (cluster_of kv w) StateDeploy pl w" by (simp del: fun_upd_triv) blast
qed simp

lemma configured_world:
  assumes "completes lib env EventConfigure ((s, m), pl, w) ((s1, m1), pl1, w1)" and "all_done (m_pool m)"
    and "mesh_fresh (rl_options (pn_releaser env)) (rb_service (rl_config (pn_releaser env))) (cv w)"
  shows "configuring env kv cv (cv w) (cluster_of kv w) StateIdle pl1 w1 \<and> all_done (m_pool m1)"
proof (rule configure.completed [OF assms(1,2)])
  show "next_state s EventConfigure = Some StateConfigure" using assms(1) by (auto simp: completes_def split: if_splits)
  show "configuring env kv cv (cv w) (cluster_of kv w) StateConfigure pl w" using assms(3) by simp
qed simp

lemma destroyed_world:
  assumes "completes lib env EventDestroy ((s, m), pl, w) ((s1, m1), pl1, w1)" and "all_done (m_pool m)"
    and "mesh_fresh (rl_options (pn_releaser env)) (rb_service (rl_config (pn_releaser env))) V"
    and "mesh_set_up (rl_options (pn_releaser env)) (rb_service (rl_config (pn_releaser env)))
      (runtime_PrimarySubsetFilter (pn_runtime env)) (runtime_CandidateSubsetFilter (pn_runtime env)) V (cv w)"
  shows "destroying env kv cv V (cluster_of kv w) StateIdle pl1 w1 \<and> all_done (m_pool m1)"
proof (rule destroy.completed [OF assms(1,2)])
  show "next_state s EventDestroy = Some StateDestroy" using assms(1) by (auto simp: completes_def split: if_splits)
  show "destroying env kv cv V (cluster_of kv w) StateDestroy pl w" using assms(3,4) by simp
qed simp

lemma lifetime_set_up:
  assumes "lifetime lib env cv x y"
  shows "all_done (m_pool (snd (fst x))) \<Longrightarrow>
    mesh_fresh (rl_options (pn_releaser env)) (rb_service (rl_config (pn_releaser env))) (cv (snd (snd x))) \<Longrightarrow>
    mesh_set_up (rl_options (pn_releaser env)) (rb_service (rl_config (pn_releaser env)))
      (runtime_PrimarySubsetFilter (pn_runtime env)) (runtime_CandidateSubsetFilter (pn_runtime env)) (cv (snd (snd x))) (cv (snd (snd y))) \<and>
    all_done (m_pool (snd (fst y)))"
  using assms
proof (induction rule: lifetime.induct)
  case (configured x y)
  obtain s m pl w s1 m1 pl1 w1 where "x = ((s, m), pl, w)" "y = ((s1, m1), pl1, w1)" by (metis prod.exhaust)
  with configured_world [of s m pl w s1 m1 pl1 w1] configured show ?case by simp
next
  case (deployed x c pl w w1 pl1 y)
  obtain s m s1 m1 pl2 w2 where "c = (s, m)" "y = ((s1, m1), pl2, w2)" by (metis prod.exhaust)
  with deployed_world [of s m pl1 w1 s1 m1 pl2 w2] deployed show ?case by (simp add: set_up_split del: fun_upd_apply)
qed

end

end
