(* ===== verification/Lifecycle.thy ===== *)
theory Lifecycle
  imports Deployment
begin

text \<open>
  The properties of a release end to end, with a system to run them on: a cluster and a mesh
  side by side in one world, each with the reference API of its platform.
\<close>

subsection \<open>A cluster beside a mesh\<close>

type_synonym ref_system = "ref_cluster \<times> ref_world"

definition on_first :: "('a \<Rightarrow> 'r \<times> 'a) \<Rightarrow> 'a \<times> 'b \<Rightarrow> 'r \<times> 'a \<times> 'b" where
  "on_first f w = (case f (fst w) of (r, a) \<Rightarrow> (r, a, snd w))"

definition on_second :: "('b \<Rightarrow> 'r \<times> 'b) \<Rightarrow> 'a \<times> 'b \<Rightarrow> 'r \<times> 'a \<times> 'b" where
  "on_second f w = (case f (snd w) of (r, b) \<Rightarrow> (r, fst w, b))"

lemma on_first_iff: "on_first f w = (r, w1) \<longleftrightarrow> f (fst w) = (r, fst w1) \<and> snd w1 = snd w"
  by (cases w1) (auto simp: on_first_def split: prod.splits)

lemma on_second_iff: "on_second f w = (r, w1) \<longleftrightarrow> f (snd w) = (r, snd w1) \<and> fst w1 = fst w"
  by (cases w1) (auto simp: on_second_def split: prod.splits)

lemma on_first_keeps: "keeps (\<lambda>w. v (snd w)) (on_first f)"
  and on_second_keeps: "keeps (\<lambda>w. u (fst w)) (on_second g)"
  by (auto intro: keepsI simp: on_first_iff on_second_iff)

definition system_kube :: "ref_system kube_env" where
  "system_kube =
     \<lparr>ke_api = \<lparr>ka_list = (\<lambda>ns. on_first (ka_list reference_kube_api ns)),
        ka_get = (\<lambda>ns n. on_first (ka_get reference_kube_api ns n)),
        ka_create = (\<lambda>ns d. on_first (ka_create reference_kube_api ns d)),
        ka_update = (\<lambda>ns d. on_first (ka_update reference_kube_api ns d)),
        ka_delete = (\<lambda>ns n. on_first (ka_delete reference_kube_api ns n)),
        ka_create_release = (\<lambda>r w. (None, w)), ka_delete_release = (\<lambda>n ns w. (None, w))\<rparr>,
      ke_timeout = 0, ke_interval = 1, ke_compile = (\<lambda>p. Some (\<lambda>s. s @ ''$'' = p)),
      ke_retry = reference_retry, ke_is_timeout = (\<lambda>_. True)\<rparr>"

definition system_consul :: "ref_system consul_api" where
  "system_consul =
     \<lparr>ca_get = (\<lambda>k n sc. on_second (ca_get reference_consul k n sc)),
      ca_set = (\<lambda>ce sc. on_second (ca_set reference_consul ce sc)),
      ca_delete = (\<lambda>k n sc. on_second (ca_delete reference_consul k n sc)),
      ca_health = (\<lambda>c n f sc. on_second (ca_health reference_consul c n f sc)),
      ca_kv_put = (\<lambda>p d ksc wsc. on_second (ca_kv_put reference_consul p d ksc wsc)),
      ca_kv_get = (\<lambda>p sc. on_second (ca_kv_get reference_consul p sc)),
      ca_kv_delete_tree = (\<lambda>p sc. on_second (ca_kv_delete_tree reference_consul p sc)),
      ca_kv_keys = (\<lambda>p sc. on_second (ca_kv_keys reference_consul p sc))\<rparr>"

definition system_store :: "ref_system state_store" where
  "system_store = \<lparr>ss_upsert = (\<lambda>d w. (None, w)), ss_get = (\<lambda>w. ((Empty, Some PluginStateNotFound), w))\<rparr>"

text \<open>Checks pass, tests are not made, nobody listens to the webhooks.\<close>

definition system_env :: "ref_system plugin_env" where
  "system_env =
     \<lparr>pn_releaser = ref_releaser,
      pn_releaser_env = \<lparr>re_api = system_consul, re_sleep = (\<lambda>_ w. w), re_retry = reference_retry\<rparr>,
      pn_runtime = on_kube system_kube system_store,
      pn_strategy = \<lparr>ce_parse = (\<lambda>_. Some 1), ce_sleep = (\<lambda>_ w. w), ce_check = (\<lambda>_ _ w. ((CheckSuccess, None), w)),
        ce_store = system_store\<rparr>,
      pn_test = http_New '''' '''' '''',
      pn_test_env = \<lparr>he_parse = (\<lambda>_. Inr 1), he_upstreams = '''', he_build = (\<lambda>_ _ _. None), he_do = (\<lambda>_ w. (None, w)),
        he_check = (\<lambda>_ _ w. ((CheckSuccess, None), w)), he_sleep = (\<lambda>_ w. w), he_expired = (\<lambda>_ _ _. False)\<rparr>,
      pn_webhooks = [], pn_sleep = (\<lambda>_ w. w), pn_effect = (\<lambda>_ w. w)\<rparr>"

definition system_deployments :: "ref_system \<Rightarrow> kube_view" where
  "system_deployments w = ref_kube_view (fst w)"

definition system_mesh :: "ref_system \<Rightarrow> mesh" where
  "system_mesh w = ref_entries (snd w)"

lemma system_kube_documented: "kube_documented system_deployments system_kube"
proof -
  have ref: "kube_reads_documented ref_kube_view reference_kube_api" "kube_writes_documented ref_kube_view reference_kube_api"
    "ref_kube_view w (n, ns) = Some d \<Longrightarrow> kd_name d = n \<and> kd_namespace d = ns \<and> kd_replicas d \<noteq> None" for w n ns d
    using reference_kube_documented unfolding kube_documented_def by (auto simp: reference_kube_def)
  have "kube_reads_documented system_deployments (ke_api system_kube)"
    using ref(1) unfolding kube_reads_documented_def system_deployments_def
    by (auto simp: system_kube_def on_first_iff)
  moreover have "kube_writes_documented system_deployments (ke_api system_kube)"
    using ref(2) unfolding kube_writes_documented_def system_deployments_def
    by (auto simp: system_kube_def on_first_iff)
  ultimately show ?thesis
    using ref(3) by (auto simp: kube_documented_def system_deployments_def reference_retry_documented system_kube_def)
qed

lemma system_consul_documented: "consul_documented system_mesh system_consul"
  by (auto simp: consul_documented_def system_mesh_def system_consul_def on_second_iff reference_consul_def ref_entries_def
      fun_eq_iff not_found_def has_prefix_def split: option.splits if_splits)

lemma system_documented: "plugins_documented system_deployments system_mesh system_kube system_store system_env"
proof -
  have "consul_keeps system_deployments system_consul" "kube_keeps system_mesh (ke_api system_kube)"
    "keeps system_mesh (ca_health system_consul c n f sc)" for c n f sc
    unfolding consul_keeps_def kube_keeps_def system_deployments_def [abs_def] system_mesh_def [abs_def]
    by (auto simp: system_consul_def system_kube_def on_first_keeps on_second_keeps)
      (auto simp: keeps_def on_second_def reference_consul_def)
  then show ?thesis
    using system_kube_documented system_consul_documented
    by (simp add: plugins_documented_def plugins_apart_def system_env_def reference_retry_documented Let_def keeps_def
        canary_env_keeps_def http_env_keeps_def system_store_def)
qed

interpretation ref_system: plugin_world reference_fsm system_env system_deployments system_mesh system_kube system_store
  by unfold_locales (rule reference_fsm_documented, rule system_documented)

subsection \<open>Running a goroutine\<close>

text \<open>At most \<open>n\<close> actions of one goroutine, up to an event or its end.\<close>

fun perform_all :: "'w plugin_env \<Rightarrow> release \<Rightarrow> nat \<Rightarrow> prog \<Rightarrow> plugins \<Rightarrow> 'w \<Rightarrow> prog \<times> plugins \<times> 'w" where
  "perform_all env r 0 p pl w = (p, pl, w)"
| "perform_all env r (Suc n) p pl w =
     (case perform env r p pl w of None \<Rightarrow> (p, pl, w) | Some (q, pl1, w1) \<Rightarrow> perform_all env r n q pl1 w1)"

lemma perform_all_run:
  "perform_all env (m_release m) n p pl w = (q, pl1, w1) \<Longrightarrow> m_pool m = xs @ [p] \<Longrightarrow>
   plugin_run lib env ((s, m), pl, w) ((s, m\<lparr>m_pool := xs @ [q]\<rparr>), pl1, w1)"
proof (induction n arbitrary: m p pl w)
  case 0
  then have "m\<lparr>m_pool := xs @ [q]\<rparr> = m" "pl1 = pl" "w1 = w" by simp_all
  then show ?case by (simp only: plugin_run_def rtranclp.rtrancl_refl)
next
  case (Suc n)
  show ?case
  proof (cases "perform env (m_release m) p pl w")
    case None
    with Suc.prems have "m\<lparr>m_pool := xs @ [q]\<rparr> = m" "pl1 = pl" "w1 = w" by simp_all
    then show ?thesis by (simp only: plugin_run_def rtranclp.rtrancl_refl)
  next
    case (Some x)
    then obtain p1 pl2 w2 where x: "perform env (m_release m) p pl w = Some (p1, pl2, w2)" by (cases x) auto
    with Suc.prems Suc.IH [of "m\<lparr>m_pool := xs @ [p1]\<rparr>" p1 pl2 w2]
    have "plugin_run lib env ((s, m\<lparr>m_pool := xs @ [p1]\<rparr>), pl2, w2) ((s, m\<lparr>m_pool := xs @ [q]\<rparr>), pl1, w1)" by simp
    moreover have "plugin_step lib env ((s, m), pl, w) ((s, m\<lparr>m_pool := xs @ [p1]\<rparr>), pl2, w2)"
      using step_work [OF work_perform [of m xs p "[]" env pl w p1 pl2 w2 lib s]] Suc.prems(2) x by simp
    ultimately show ?thesis unfolding plugin_run_def by (rule converse_rtranclp_into_rtranclp [rotated])
  qed
qed

lemma fire_event_quiet:
  assumes "fsm_documented lib" and "\<And>eff w. pn_effect env eff w = w" and "next_state s ev = Some d"
  shows "fire_event lib env ev args (s, m) w = ((d, enter_machine s d args m), w)"
proof -
  have "fold (pn_effect env) effs w = w" for effs by (induction effs) (simp_all add: assms(2))
  then show ?thesis by (simp add: fire_event_def Event_accepted [OF assms(1,3)])
qed

text \<open>
  From one state to the next until the machine is idle, through at most \<open>k\<close> states with at
  most \<open>n\<close> actions each: the plugins and the world then.
\<close>

fun drive ::
    "'w plugin_env \<Rightarrow> string \<Rightarrow> bool \<Rightarrow> nat \<Rightarrow> nat \<Rightarrow> sm_state \<Rightarrow> prog \<Rightarrow> plugins \<Rightarrow> 'w \<Rightarrow> (plugins \<times> 'w) option" where
  "drive env name has_test n 0 s p pl w = None"
| "drive env name has_test n (Suc k) s p pl w =
     (case perform_all env new_release n p pl w of
        (Fire ev args q, pl1, w1) \<Rightarrow>
          (case next_state s ev of
             Some d \<Rightarrow>
               if q \<noteq> Done then None
               else if d = StateIdle then Some (pl1, w1)
               else (case handler name has_test d args of
                       Some p1 \<Rightarrow> drive env name has_test n k d p1 pl1 w1
                     | None \<Rightarrow> None)
           | None \<Rightarrow> None)
      | _ \<Rightarrow> None)"

text \<open>Without webhooks nothing depends on what the release is called in the messages.\<close>

lemma perform_all_release:
  assumes "pn_webhooks env = []"
  shows "perform_all env r n p pl w = perform_all env r1 n p pl w"
proof (induction n arbitrary: p pl w)
  case (Suc n)
  have "perform env r p pl w = perform env r1 p pl w" by (cases p) (simp_all add: assms)
  with Suc show ?case by (simp split: option.split)
qed simp

lemma drive_run:
  assumes lib: "fsm_documented lib" and quiet: "\<And>eff w. pn_effect env eff w = w" "pn_webhooks env = []"
  shows "drive env name has_test n k s p pl w = Some (pl1, w1) \<Longrightarrow> m_pool m = xs @ [p] \<Longrightarrow> all_done xs \<Longrightarrow>
    r_name (m_release m) = name \<Longrightarrow> m_has_test m = has_test \<Longrightarrow>
    \<exists>m1. plugin_run lib env ((s, m), pl, w) ((StateIdle, m1), pl1, w1) \<and> all_done (m_pool m1) \<and>
      r_name (m_release m1) = name \<and> m_has_test m1 = has_test"
proof (induction k arbitrary: s p pl w m xs)
  case (Suc k)
  from Suc.prems(1) obtain ev args pl2 w2 d where
    run: "perform_all env new_release n p pl w = (Fire ev args Done, pl2, w2)" and d: "next_state s ev = Some d"
    and more: "d = StateIdle \<and> pl2 = pl1 \<and> w2 = w1 \<or>
      (\<exists>q. handler name has_test d args = Some q \<and> drive env name has_test n k d q pl2 w2 = Some (pl1, w1))"
    by (auto split: prod.splits prog.splits option.splits if_splits)
  let ?m = "m\<lparr>m_pool := xs @ [Done]\<rparr>" and ?f = "m\<lparr>m_pool := xs @ [Fire ev args Done]\<rparr>"
  let ?m2 = "enter_machine s d args ?m"
  have "perform_all env (m_release m) n p pl w = (Fire ev args Done, pl2, w2)"
    using run perform_all_release [OF quiet(2)] by metis
  from perform_all_run [OF this Suc.prems(2)]
  have "plugin_run lib env ((s, m), pl, w) ((s, ?f), pl2, w2)" .
  moreover have "plugin_step lib env ((s, ?f), pl2, w2) ((d, ?m2), pl2, w2)"
    using step_work [OF work_fire [of ?f xs ev args Done "[]" lib env s w2 "(d, ?m2)" w2 pl2]] fire_event_quiet [OF lib quiet(1) d, of args ?m w2] by simp
  ultimately have here: "plugin_run lib env ((s, m), pl, w) ((d, ?m2), pl2, w2)"
    unfolding plugin_run_def by (rule rtranclp.rtrancl_into_rtrancl)
  have same: "r_name (m_release ?m2) = name" "m_has_test ?m2 = has_test"
    using Suc.prems(4,5) by (simp_all add: enter_machine_fields)
  from more show ?case
  proof
    assume "d = StateIdle \<and> pl2 = pl1 \<and> w2 = w1"
    with here same Suc.prems(3) show ?thesis by (intro exI [of _ ?m2]) (simp add: enter_machine_fields)
  next
    assume "\<exists>q. handler name has_test d args = Some q \<and> drive env name has_test n k d q pl2 w2 = Some (pl1, w1)"
    then obtain q where q: "handler name has_test d args = Some q" "drive env name has_test n k d q pl2 w2 = Some (pl1, w1)" by blast
    have "m_pool ?m2 = (xs @ [Done]) @ [q]" using q(1) Suc.prems(4,5) by (simp add: enter_machine_fields)
    from Suc.IH [OF q(2) this _ same] Suc.prems(3) here show ?thesis
      unfolding plugin_run_def by (fastforce intro: rtranclp_trans)
  qed
qed simp

lemma drive_completes:
  assumes lib: "fsm_documented lib" and quiet: "\<And>eff w. pn_effect env eff w = w" "pn_webhooks env = []"
    and "next_state s ev = Some d" and "handler (r_name (m_release m)) (m_has_test m) d [] = Some p"
    and "drive env (r_name (m_release m)) (m_has_test m) n k d p pl w = Some (pl1, w1)" and "all_done (m_pool m)"
  obtains m1 where "completes lib env ev ((s, m), pl, w) ((StateIdle, m1), pl1, w1)" and "all_done (m_pool m1)"
    and "r_name (m_release m1) = r_name (m_release m)" and "m_has_test m1 = m_has_test m"
proof -
  have "m_pool (enter_machine s d [] m) = m_pool m @ [p]" using assms(5) by (simp add: enter_machine_fields)
  from drive_run [OF lib quiet assms(6) this assms(7)]
  obtain m1 where "plugin_run lib env ((d, enter_machine s d [] m), pl, w) ((StateIdle, m1), pl1, w1)" "all_done (m_pool m1)"
    "r_name (m_release m1) = r_name (m_release m)" "m_has_test m1 = m_has_test m"
    by (auto simp: enter_machine_fields)
  with that [of m1] show thesis
    by (simp add: completes_def request_def fire_event_quiet [OF lib quiet(1) assms(4)] assms(4))
qed

subsection \<open>Operations of the system, evaluated\<close>

definition web_release :: release where
  "web_release = new_release\<lparr>r_name := ''web''\<rparr>"

definition web_plugins :: plugins where
  "web_plugins =
     \<lparr>pl_runtime = \<lparr>rp_config = \<lparr>rc_selector = ''api'', rc_namespace = ''default''\<rparr>,
        rp_state = \<lparr>rs_candidate = '''', rs_primary = ''''\<rparr>\<rparr>,
      pl_strategy = sample_canary (-1)\<rparr>"

definition web_system :: ref_system where
  "web_system = ([((''api'', ''default''), kube_object ''api'' (Some 3))], Map.empty, [])"

lemma system_put: "put_entry system_consul opt ce (cl, m, kvs) =
    (Ok, (cl, m((kind_of ce, eh_name (head_of ce), scope_of opt) \<mapsto> ce), kvs))"
  by (simp add: put_entry_def system_consul_def on_second_def reference_consul_def)

lemma system_drop: "drop_entry system_consul opt k n (cl, m, kvs) = (Ok, (cl, m((k, n, scope_of opt) := None), kvs))"
  by (simp add: drop_entry_def system_consul_def on_second_def reference_consul_def)

lemma system_fetch: "fetch system_consul opt k n w = (Inr (ref_entries (snd w) (k, n, scope_of opt)), w)"
  by (cases w) (simp add: fetch_def system_consul_def on_second_def reference_consul_def not_found_def has_prefix_def split: option.split)

lemma system_fetch_existing:
  "ref_entries (snd w) (k, n, scope_of opt) = Some ce \<Longrightarrow> fetch_existing system_consul opt k n w = (Inr ce, w)"
  by (cases w) (simp add: fetch_existing_def system_consul_def on_second_def reference_consul_def)

lemma system_healthy: "CheckHealth system_consul opt n flt w = (None, w)"
  by (cases w) (simp add: CheckHealth_def check_instances_def system_consul_def on_second_def reference_consul_def)

lemma system_wait: "releaser_WaitUntilServiceHealthy (pn_releaser_env system_env) p flt w = (None, w)"
  by (simp add: releaser_WaitUntilServiceHealthy_def system_env_def reference_retry_def ref_retry_first system_healthy)

lemma system_api:
  "ka_get (ke_api system_kube) ns n w = (case ref_kube_view (fst w) (n, ns) of
     None \<Rightarrow> (kube_object '''' None, Some (KubeNotFound ''not found'')) | Some d \<Rightarrow> (d, None), w)"
  "ka_list (ke_api system_kube) ns w = ((map snd (filter (\<lambda>x. snd (fst x) = ns) (fst w)), None), w)"
  "ka_create (ke_api system_kube) ns d w = (case ref_store_deployment ns d (fst w) of (e, c) \<Rightarrow> (e, c, snd w))"
  "ka_update (ke_api system_kube) ns d w = (case ref_store_deployment ns d (fst w) of (e, c) \<Rightarrow> (e, c, snd w))"
  "ka_delete (ke_api system_kube) ns n w = (case ref_kube_view (fst w) (n, ns) of
     None \<Rightarrow> (Some (KubeNotFound ''not found''), w) | Some d \<Rightarrow> (None, filter (\<lambda>x. fst x \<noteq> (n, ns)) (fst w), snd w))"
  "ke_compile system_kube = (\<lambda>p. Some (\<lambda>s. s @ ''$'' = p))"
  by (cases w; simp add: system_kube_def on_first_def reference_kube_api_def split: option.split)+

lemma system_deployed:
  assumes "ref_kube_view (fst w) (n, ns) \<noteq> None" and "kd_available (the (ref_kube_view (fst w) (n, ns))) = 1"
    and "kd_unavailable (the (ref_kube_view (fst w) (n, ns))) = 0"
  shows "GetHealthyKubernetesDeployment system_kube n ns w = ((ref_kube_view (fst w) (n, ns), None), w)"
proof -
  have "healthy_attempt system_kube n ns (w, None, None) = (None, (w, ref_kube_view (fst w) (n, ns), None))"
    using assms by (auto simp: healthy_attempt_def GetKubernetesDeployment_def system_api)
  moreover have "ke_retry system_kube = reference_retry" "ke_timeout system_kube = 0" "ke_interval system_kube = 1"
    by (simp_all add: system_kube_def)
  ultimately show ?thesis
    by (simp add: GetHealthyKubernetesDeployment_def reference_retry_def ref_retry_first)
qed

lemma system_save: "runtime_saveState (on_kube system_kube system_store) p w = w"
  by (simp add: runtime_saveState_def on_kube_def system_store_def)

lemmas system_simps = system_api system_deployed system_save saving_def bind_res_def kube_client_def
  kube_GetDeployment_def GetKubernetesDeployment_def kube_GetDeploymentWithSelector_def GetKubernetesDeploymentWithSelector_def
  kube_UpdateDeployment_def kube_CloneDeployment_def UpsertKubernetesDeployment_def kube_DeleteDeployment_def
  DeleteKubernetesDeployment_def kube_GetHealthyDeployment_def from_kube_def to_deployment_def ref_store_deployment_def
  ref_kube_view_def kube_object_def primary_from_def written_through_def without_version_def with_version_def
  anchor_end_def has_suffix_def to_int32_def Let_def

lemmas operation_simps = runtime_InitPrimary_def InitPrimary_body_def runtime_RemoveCandidate_def RemoveCandidate_body_def
  runtime_RestoreOriginal_def RestoreOriginal_body_def runtime_RemovePrimary_def RemovePrimary_body_def
  runtime_PromoteCandidate_def PromoteCandidate_body_def

lemma system_env_parts:
  "pn_releaser system_env = ref_releaser" "re_api (pn_releaser_env system_env) = system_consul"
  "re_sleep (pn_releaser_env system_env) d w = w" "pn_runtime system_env = on_kube system_kube system_store"
  "pn_webhooks system_env = []" "pn_sleep system_env t w = w" "pn_effect system_env eff w = w"
  by (simp_all add: system_env_def)

lemma system_strategy:
  "canary_loop (pn_strategy system_env) cand d p fc w = canary_pass (pn_strategy system_env) p w"
  "canary_saveState (pn_strategy system_env) p w = w" "ce_parse (pn_strategy system_env) t = Some 1"
  "ce_sleep (pn_strategy system_env) d w = w"
  by (simp_all add: canary_loop.simps canary_saveState_def system_env_def system_store_def)

lemmas strategy_simps = do_strategy_def canary_Execute_def canary_body_def canary_pass_def system_strategy
  sample_canary_def sample_config_def

lemmas mesh_simps = ref_releaser_def ref_options_def scope_of_def and_then_def system_put system_drop system_fetch system_fetch_existing
  releaser_Setup_def releaser_Scale_def releaser_Destroy_def
  CreateServiceDefaults_def CreateServiceResolver_def CreateUpstreamRouter_def CreateServiceIntention_def
  CreateServiceSplitter_def append_routes_def DeleteServiceSplitter_def DeleteUpstreamRouter_def
  DeleteServiceResolver_def DeleteServiceIntention_def DeleteServiceDefaults_def new_head_def created_here_def
  meta_get_def crc_route_def ControllerServiceName_def UpstreamRouterName_def

definition promoting_plugins :: plugins where
  "promoting_plugins =
     \<lparr>pl_runtime = ref_plugin, pl_strategy = (sample_canary (-1))\<lparr>c_config := sample_config\<lparr>cc_max_traffic := 20\<rparr>\<rparr>\<rparr>"

definition promoting_system :: ref_system where
  "promoting_system =
     ([((''api'', ''default''), kube_object ''api'' (Some 3)), ((''web-primary'', ''default''), kube_object ''web-primary'' (Some 2))],
      Map.empty, [])"

lemma promotion_run:
  "\<exists>pl1 w1. drive system_env ''web'' False 9 5 StateDeploy (doDeploy ''web'') promoting_plugins promoting_system = Some (pl1, w1) \<and>
     names_differ (pl_runtime pl1) \<and> cluster_of system_deployments w1 (''web-primary'', ''default'') = Some 3"
  by (simp add: eval_nat_numeral doDeploy_def doMonitor_def monitor_strategy_def monitor_switch_def doScale_def doPromote_def
      strategy_simps promoting_plugins_def promoting_system_def ref_plugin_def system_env_parts system_wait operation_simps
      system_simps mesh_simps names_differ_def cluster_of_def instances_of_def system_deployments_def)

lemma life_run:
  "\<exists>pl1 w1 pl2 w2. drive system_env ''web'' False 9 1 StateConfigure (doConfigure ''web'') web_plugins web_system = Some (pl1, w1) \<and>
     drive system_env ''web'' False 9 1 StateDestroy doDestroy pl1 w1 = Some (pl2, w2) \<and>
     names_differ (pl_runtime pl2) \<and> cluster_of system_deployments w2 (''api'', ''default'') = Some 3"
  by (simp add: eval_nat_numeral doConfigure_def doDestroy_def web_plugins_def web_system_def system_env_parts system_wait
      operation_simps system_simps mesh_simps names_differ_def cluster_of_def instances_of_def system_deployments_def)

subsection \<open>Properties\<close>



text \<open>
  C3: A destroyed release leaves nothing behind. Configured on a mesh that knows nothing of
  the service, deployed any number of times and destroyed, each request completed, the mesh is
  as it was before, but for the defaults all releases share; and the destruction has put the
  original deployment back, with as many instances as the primary had, in place of the primary.
\<close>

theorem release_leaves_no_trace:
  assumes "fsm_documented lib" and "plugins_documented kv cv ke store env" and "all_done (m_pool m)"
    and "mesh_fresh (rl_options (pn_releaser env)) (rb_service (rl_config (pn_releaser env))) (cv w)"
    and "lifetime lib env cv ((s, m), pl, w) (c1, pl1, w1)" and "cv w2 = cv w1"
    and "completes lib env EventDestroy (c1, pl2, w2) (c3, pl3, w3)" and "names_differ (pl_runtime pl3)"
  shows "mesh_restored (rl_options (pn_releaser env)) (cv w) (cv w3) \<and>
    cluster_of kv w3 = original_back (pl_runtime pl3) (cluster_of kv w2)"
proof -
  note world = plugin_world.intro [OF assms(1,2)]
  obtain s1 m1 s3 m3 where c: "c1 = (s1, m1)" "c3 = (s3, m3)" by (metis prod.exhaust)
  from plugin_world.lifetime_set_up [OF world assms(5)] assms(3,4,6) c
  have up: "mesh_set_up (rl_options (pn_releaser env)) (rb_service (rl_config (pn_releaser env)))
      (runtime_PrimarySubsetFilter (pn_runtime env)) (runtime_CandidateSubsetFilter (pn_runtime env)) (cv w) (cv w2)"
    "all_done (m_pool m1)"
    by simp_all
  from plugin_world.destroyed_world [OF world assms(7) [unfolded c] up(2) assms(4) up(1)] assms(8) show ?thesis by simp
qed

theorem release_leaves_no_trace_witness:
  "\<exists>m1 pl1 w1 m2 pl2 w2.
     completes reference_fsm system_env EventConfigure ((StateStart, new_machine web_release), web_plugins, web_system) ((StateIdle, m1), pl1, w1) \<and>
     completes reference_fsm system_env EventDestroy ((StateIdle, m1), pl1, w1) ((StateIdle, m2), pl2, w2) \<and>
     mesh_restored ref_options Map.empty (system_mesh w2) \<and> cluster_of system_deployments w2 (''api'', ''default'') = Some 3"
proof -
  obtain pl1 w1 pl2 w2 where
    run: "drive system_env ''web'' False 9 1 StateConfigure (doConfigure ''web'') web_plugins web_system = Some (pl1, w1)"
      "drive system_env ''web'' False 9 1 StateDestroy doDestroy pl1 w1 = Some (pl2, w2)"
    and w2: "names_differ (pl_runtime pl2)" "cluster_of system_deployments w2 (''api'', ''default'') = Some 3"
    using life_run by blast
  obtain m1 where m1: "completes reference_fsm system_env EventConfigure ((StateStart, new_machine web_release), web_plugins, web_system)
      ((StateIdle, m1), pl1, w1)" "all_done (m_pool m1)" "r_name (m_release m1) = ''web''" "m_has_test m1 = False"
    by (rule drive_completes [OF reference_fsm_documented system_env_parts(7,5), of StateStart EventConfigure StateConfigure
        "new_machine web_release" "doConfigure ''web''" 9 1 web_plugins web_system pl1 w1])
      (use run(1) in \<open>simp_all add: new_machine_def web_release_def new_release_def\<close>)
  obtain m2 where m2: "completes reference_fsm system_env EventDestroy ((StateIdle, m1), pl1, w1) ((StateIdle, m2), pl2, w2)"
    by (rule drive_completes [OF reference_fsm_documented system_env_parts(7,5), of StateIdle EventDestroy StateDestroy
        m1 doDestroy 9 1 pl1 w1 pl2 w2])
      (use run(2) m1(2-4) in simp_all)
  have "mesh_restored (rl_options (pn_releaser system_env)) (system_mesh web_system) (system_mesh w2) \<and>
      cluster_of system_deployments w2 = original_back (pl_runtime pl2) (cluster_of system_deployments w1)"
  proof (rule release_leaves_no_trace [OF reference_fsm_documented system_documented _ _ configured [OF m1(1)] refl m2 w2(1)])
    show "all_done (m_pool (new_machine web_release))" by (simp add: new_machine_def)
    show "mesh_fresh (rl_options (pn_releaser system_env)) (rb_service (rl_config (pn_releaser system_env))) (system_mesh web_system)"
      by (simp add: mesh_fresh_def system_env_parts ref_releaser_def web_system_def system_mesh_def
          ControllerServiceName_def UpstreamRouterName_def)
  qed
  moreover have "system_mesh web_system = Map.empty" by (simp add: system_mesh_def web_system_def fun_eq_iff)
  ultimately show ?thesis
    using m1(1) m2 w2(2)
    by (intro exI [of _ m1] exI [of _ pl1] exI [of _ w1] exI [of _ m2] exI [of _ pl2] exI [of _ w2])
      (simp add: system_env_parts ref_releaser_def)
qed

end
