(* ===== verification/Completion.thy ===== *)
theory Completion
  imports Lifecycle
begin

text \<open>
  The machine with its plugins comes to rest: a step of the system is a step of the machine
  and of the strategy, for which \<open>Rollout\<close> has a potential, and where there is no further step
  a goroutine waits for a call that does not return.
\<close>

subsection \<open>The strategy as the machine runs it\<close>

text \<open>The name of the candidate is the one of the moment, so it is part of what the strategy runs in.\<close>

definition strategy_in ::
    "'w canary_env \<Rightarrow> canary \<Rightarrow> string \<times> 'w \<Rightarrow> (strategy_status \<times> int \<times> go_error option) \<times> canary \<times> string \<times> 'w" where
  "strategy_in env p cw = (case canary_Execute env (fst cw) p (snd cw) of (r, p1, w1) \<Rightarrow> (r, p1, fst cw, w1))"

lemma strategy_in_run:
  "strategy_in env p (cand, w) = (r, p1, cw) \<longleftrightarrow> (\<exists>w1. canary_Execute env cand p w = (r, p1, w1) \<and> cw = (cand, w1))"
  by (auto simp: strategy_in_def split: prod.splits)

interpretation machine_strategy: strategy_contract "strategy_in env" canary_inv canary_rank
  for env :: "'w canary_env"
proof unfold_locales
  fix p p1 :: canary and cw cw1 :: "string \<times> 'w" and r st t e err
  have run: "\<exists>cand w w1. canary_Execute env cand p w = (r, p1, w1)" if "strategy_in env p cw = (r, p1, cw1)" for r
    using that by (cases cw) (auto simp: strategy_in_run)
  show "canary_inv p \<Longrightarrow> strategy_in env p cw = (r, p1, cw1) \<Longrightarrow> canary_inv p1"
    by (drule run) (auto dest: canary.exec_inv)
  show "canary_inv p \<Longrightarrow> strategy_in env p cw = ((st, t, Some err), p1, cw1) \<Longrightarrow> st = StrategyStatusFailed"
    by (drule run) (auto dest: canary.exec_error)
  show "canary_inv p \<Longrightarrow> strategy_in env p cw = ((st, t, None), p1, cw1) \<Longrightarrow>
      st \<in> {StrategyStatusSuccess, StrategyStatusComplete, StrategyStatusFailed}"
    by (drule run) (auto dest: canary.exec_status)
  show "canary_inv p \<Longrightarrow> strategy_in env p cw = ((StrategyStatusSuccess, t, e), p1, cw1) \<Longrightarrow> 1 \<le> t \<and> t \<le> 100"
    by (drule run) (auto dest: canary.exec_traffic)
  show "canary_inv p \<Longrightarrow> strategy_in env p cw = ((StrategyStatusSuccess, t, e), p1, cw1) \<Longrightarrow> canary_rank p1 < canary_rank p"
    by (drule run) (auto dest: canary.exec_rank)
qed

subsection \<open>Steps of the system as steps of machine and strategy\<close>

lemma perform_reply:
  assumes "perform env r p pl w = Some (q, pl1, w1)"
  shows "\<exists>ob. act p ob q \<and> reply_step (strategy_in (pn_strategy env)) (pl_strategy pl) (LAct ob) (pl_strategy pl1)"
proof (cases p)
  case (RunStrategy k)
  with assms obtain st t e where s: "do_strategy env pl w = ((st, t, e), pl1, w1)" "q = k st t e"
    by (auto split: prod.splits)
  then have "strategy_in (pn_strategy env) (pl_strategy pl) (candidate_name pl, w) =
      ((st, t, e), pl_strategy pl1, candidate_name pl, w1)"
    by (auto simp: do_strategy_def strategy_in_def split: prod.splits)
  with s(2) RunStrategy show ?thesis
    by (intro exI [of _ "Some (OStrategy st t e)"]) (auto intro: act.intros)
next
  case (StatusCall c k)
  with assms obtain st e where "do_status env c pl w = Some ((st, e), pl1, w1)" "q = k st e" by auto
  then have "pl_strategy pl1 = pl_strategy pl" by (cases c) (auto split: prod.splits)
  with StatusCall \<open>q = k st e\<close> show ?thesis
    by (intro exI [of _ "Some (OStatus c st e)"]) (auto intro: act.intros)
next
  case (Call c k)
  with assms obtain e where "pl1 = pl" "q = k e" by auto
  with Call show ?thesis by (intro exI [of _ "Some (OCall c e)"]) (auto intro: act.intros)
next
  case (Sleep n k)
  with assms show ?thesis by (intro exI [of _ "Some (OSleep n)"]) (auto intro: act.intros)
next
  case (ReadTraffic k)
  with assms show ?thesis by (intro exI [of _ None]) (auto intro: act.intros)
next
  case (Webhooks title st ev p c err k)
  with assms show ?thesis by (intro exI [of _ "Some (OHook title st ev p c err)"]) (auto intro: act.intros)
qed (use assms in simp_all)

lemma work_machine:
  assumes "plugin_work lib env (c, pl, w) (c1, pl1, w1)"
  shows "\<exists>l. work l \<and> sm_step lib c l c1 \<and> reply_step (strategy_in (pn_strategy env)) (pl_strategy pl) l (pl_strategy pl1)"
  using assms
proof (cases rule: plugin_work.cases)
  case (work_perform m xs p ys q s)
  from perform_reply [OF work_perform(4)] obtain ob where ob: "act p ob q"
    "reply_step (strategy_in (pn_strategy env)) (pl_strategy pl) (LAct ob) (pl_strategy pl1)" by blast
  with action [OF work_perform(3) ob(1), of lib s] work_perform(1,2) show ?thesis
    by (intro exI [of _ "LAct ob"]) (simp add: work_def)
next
  case (work_fire m xs ev args k ys s)
  from fire [of m xs ev args k ys lib s] work_fire show ?thesis
    by (intro exI [of _ "LFire ev"]) (auto simp: work_def fire_event_def Let_def)
next
  case (work_exit m xs ys s)
  with exit [of m xs ys lib s] show ?thesis by (intro exI [of _ LExit]) (simp add: work_def)
qed

text \<open>Runs with the number of their actions.\<close>

inductive plugin_steps :: "machine fsm_lib \<Rightarrow> 'w plugin_env \<Rightarrow> nat \<Rightarrow> 'w system \<Rightarrow> 'w system \<Rightarrow> bool" for lib env where
  steps_none: "plugin_steps lib env 0 x x"
| steps_work: "plugin_steps lib env n x y \<Longrightarrow> plugin_work lib env y z \<Longrightarrow> plugin_steps lib env (Suc n) x z"
| steps_tick: "plugin_steps lib env n x ((s, m), pl, w) \<Longrightarrow> m_clock m \<le> t \<Longrightarrow>
    plugin_steps lib env n x ((s, m\<lparr>m_clock := t\<rparr>), pl, w)"

lemma plugin_run_steps: "plugin_run lib env x y \<longleftrightarrow> (\<exists>n. plugin_steps lib env n x y)"
proof
  assume "plugin_run lib env x y"
  then show "\<exists>n. plugin_steps lib env n x y"
    unfolding plugin_run_def
  proof (induction rule: rtranclp_induct)
    case (step y z)
    from step.hyps(2) step.IH show ?case
      by (cases rule: plugin_step.cases) (blast intro: plugin_steps.intros)+
  qed (blast intro: steps_none)
next
  assume "\<exists>n. plugin_steps lib env n x y"
  then obtain n where "plugin_steps lib env n x y" by blast
  then show "plugin_run lib env x y"
    unfolding plugin_run_def
    by (induction rule: plugin_steps.induct) (blast intro: rtranclp.rtrancl_into_rtrancl plugin_step.intros)+
qed

text \<open>What is kept and what is used up on the way.\<close>

definition paid :: "machine fsm_lib \<Rightarrow> nat \<Rightarrow> nat \<Rightarrow> 'w system \<Rightarrow> bool" where
  "paid lib b n x \<longleftrightarrow>
     (case x of (c, pl, w) \<Rightarrow> canary_inv (pl_strategy pl) \<and> driven c \<and> resting (fst c) \<and>
        (\<exists>cs. priced c cs \<and> potential (fst c) (canary_rank (pl_strategy pl)) cs + n \<le> b))"

lemma step_paid:
  assumes lib: "fsm_documented lib" and "paid lib b n (c, pl, w)" and "sm_step lib c l c1"
    and "reply_step (strategy_in env) (pl_strategy pl) l (pl_strategy pl1)"
  shows "paid lib b (n + (if work l then 1 else 0)) (c1, pl1, w1)"
proof -
  from assms(2) obtain cs where i: "canary_inv (pl_strategy pl)" and d: "driven c" and r: "resting (fst c)"
    and cs: "priced c cs" "potential (fst c) (canary_rank (pl_strategy pl)) cs + n \<le> b"
    by (auto simp: paid_def)
  from machine_strategy.step_pays [OF lib i cs(1) assms(3,4)] obtain ds where "canary_inv (pl_strategy pl1)" "priced c1 ds"
    "potential (fst c1) (canary_rank (pl_strategy pl1)) ds + (if work l then 1 else 0) \<le> potential (fst c) (canary_rank (pl_strategy pl)) cs"
    by blast
  moreover have "driven c1"
    using machine_strategy.reply_serial [OF i assms(4)] by (blast intro: driven_step [OF lib d _ assms(3)])
  moreover have "resting (fst c1)" by (rule machine_strategy.step_resting [OF lib assms(3,4) r])
  ultimately show ?thesis using cs(2) by (fastforce simp: paid_def)
qed

lemma steps_paid:
  assumes lib: "fsm_documented lib"
  shows "plugin_steps lib env n x y \<Longrightarrow> paid lib b 0 x \<Longrightarrow> paid lib b n y"
proof (induction rule: plugin_steps.induct)
  case (steps_work n x y z)
  obtain c pl w c1 pl1 w1 where yz: "y = (c, pl, w)" "z = (c1, pl1, w1)" by (metis prod.exhaust)
  from work_machine [OF steps_work.hyps(2) [unfolded yz]] obtain l where "work l" "sm_step lib c l c1"
    "reply_step (strategy_in (pn_strategy env)) (pl_strategy pl) l (pl_strategy pl1)" by blast
  with step_paid [OF lib, of b n c pl w l c1 _ pl1 w1] steps_work.IH [OF steps_work.prems] yz show ?case by simp
next
  case (steps_tick n x s m pl w t)
  from step_paid [OF lib steps_tick.IH [OF steps_tick.prems] tick [OF steps_tick.hyps(2)], where ?pl1.0 = pl and ?w1.0 = w]
  show ?case by (simp add: work_def)
qed

subsection \<open>Where a run can stop\<close>

text \<open>A call of a plugin that panics or does not return.\<close>

fun no_reply :: "'w plugin_env \<Rightarrow> prog \<Rightarrow> plugins \<Rightarrow> 'w \<Rightarrow> bool" where
  "no_reply env (Call c k) pl w = (do_call env c pl w = None)"
| "no_reply env (StatusCall c k) pl w = (do_status env c pl w = None)"
| "no_reply env _ pl w = False"

lemma works_on:
  assumes "m_pool m = p # ps" and "\<not> no_reply env p pl w"
  shows "\<exists>z. plugin_work lib env ((s, m), pl, w) z"
proof -
  have pool: "m_pool m = [] @ p # ps" using assms(1) by simp
  consider "p = Done" | ev args k where "p = Fire ev args k" | "perform env (m_release m) p pl w \<noteq> None"
    using assms(2) by (cases p) (auto split: prod.splits)
  then show ?thesis
  proof cases
    case 1
    with pool work_exit [of m "[]" ps lib env s pl w] show ?thesis by auto
  next
    case (2 ev args k)
    obtain c1 w1 where "fire_event lib env ev args (s, m\<lparr>m_pool := [] @ k # ps\<rparr>) w = (c1, w1)" by (metis prod.exhaust)
    from work_fire [OF pool [unfolded 2] this, of pl] show ?thesis by (rule exI)
  next
    case 3
    then obtain q pl1 w1 where "perform env (m_release m) p pl w = Some (q, pl1, w1)" by auto
    from work_perform [OF pool this, of lib s] show ?thesis by blast
  qed
qed

subsection \<open>Properties\<close>

text \<open>
  C5: With its plugins behind it, the machine comes to rest after every request. From an
  accepted request on a quiet machine, with the canary strategy in any state of its
  invariant, at most \<open>10 * (2 * canary_rank p + 5)\<close> actions are taken; and at any moment either
  a further one can be taken, or a plugin call of a goroutine panics or does not return, or
  no goroutine is left and the release is idle or failed.
\<close>

theorem system_comes_to_rest:
  assumes "fsm_documented lib" and "m_pool m = []" and "next_state s ev = Some d" and "canary_inv (pl_strategy pl)"
    and "plugin_steps lib env n (request lib env ev ((s, m), pl, w)) ((s1, m1), pl1, w1)"
  shows "n \<le> 10 * (2 * canary_rank (pl_strategy pl) + 5) \<and>
    ((\<exists>z. plugin_work lib env ((s1, m1), pl1, w1) z) \<or> (\<exists>p \<in> set (m_pool m1). no_reply env p pl1 w1) \<or>
     m_pool m1 = [] \<and> (s1 = StateIdle \<or> s1 = StateFail))"
proof -
  let ?b = "10 * (2 * canary_rank (pl_strategy pl) + 5)" and ?c = "(d, enter_machine s d [] m)"
  obtain w2 where req: "request lib env ev ((s, m), pl, w) = (?c, pl, w2)"
    by (simp add: request_def fire_event_def Event_accepted [OF assms(1,3)])
  obtain cs where "priced ?c cs" "potential d (canary_rank (pl_strategy pl)) cs \<le> ?b"
    using entry_priced [OF assms(2,3)] by blast
  moreover have "driven ?c" by (rule driven_enter [OF assms(3)]) (simp add: assms(2))
  moreover have "resting d" using next_state_target [OF assms(3)] by (simp add: resting_def)
  ultimately have "paid lib ?b 0 (?c, pl, w2)" using assms(4) by (auto simp: paid_def)
  from steps_paid [OF assms(1) assms(5) [unfolded req] this]
  have "n \<le> ?b" and end': "driven (s1, m1)" "resting s1" by (auto simp: paid_def)
  moreover have "m_pool m1 = [] \<Longrightarrow> s1 = StateIdle \<or> s1 = StateFail"
    using driven_quiet [OF end'(1)] end'(2) by (auto simp: resting_def)
  moreover have "m_pool m1 = p # ps \<Longrightarrow> no_reply env p pl1 w1 \<or> (\<exists>z. plugin_work lib env ((s1, m1), pl1, w1) z)" for p ps
    using works_on [of m1 p ps env pl1 w1 lib s1] by blast
  ultimately show ?thesis by (cases "m_pool m1") auto
qed

theorem system_comes_to_rest_witness:
  "\<exists>n m1 pl1 w1. plugin_steps reference_fsm system_env n
       (request reference_fsm system_env EventDeploy ((StateIdle, new_machine web_release), promoting_plugins, promoting_system))
       ((StateIdle, m1), pl1, w1) \<and> n \<le> 10 * (2 * canary_rank (pl_strategy promoting_plugins) + 5)"
proof -
  obtain pl1 w1 where run: "drive system_env ''web'' False 9 5 StateDeploy (doDeploy ''web'') promoting_plugins promoting_system = Some (pl1, w1)"
    using promotion_run by blast
  obtain m1 where m1: "completes reference_fsm system_env EventDeploy ((StateIdle, new_machine web_release), promoting_plugins, promoting_system)
      ((StateIdle, m1), pl1, w1)"
    by (rule drive_completes [OF reference_fsm_documented system_env_parts(7,5), of StateIdle EventDeploy StateDeploy
        "new_machine web_release" "doDeploy ''web''" 9 5 promoting_plugins promoting_system pl1 w1])
      (use run in \<open>simp_all add: new_machine_def web_release_def new_release_def\<close>)
  then obtain n where n: "plugin_steps reference_fsm system_env n
      (request reference_fsm system_env EventDeploy ((StateIdle, new_machine web_release), promoting_plugins, promoting_system))
      ((StateIdle, m1), pl1, w1)"
    by (auto simp: completes_def plugin_run_steps)
  have "canary_inv (pl_strategy promoting_plugins)"
    by (simp add: promoting_plugins_def sample_canary_def sample_config_def canary_inv_def canary_config_ok_def)
  from system_comes_to_rest [OF reference_fsm_documented _ _ this n, of StateDeploy] n show ?thesis
    by (intro exI [of _ n] exI [of _ m1] exI [of _ pl1] exI [of _ w1]) (simp add: new_machine_def)
qed

end
