(* ===== verification/Spec2Isabelle.thy ===== *)
theory Spec2Isabelle
  imports Canary Interleaving WorkerSpecs ConsulClient Storage Releaser Runtime Kubernetes Nomad
    Monitor Hooks HttpTest Provider Admission ReleaseApi Reconciler Startup Server Routes Rollout
    DeepCopy Clients Lifecycle Completion
begin

text \<open>
  A verification development of the Consul release controller: a server that rolls out a
  new version of a deployment (the candidate) beside the running one (the primary), moves
  traffic between them through the configuration of the Consul service mesh, watches the
  metrics of the candidate, and promotes it or rolls it back.

  Parts of the program, and the theories that model them (files under \<open>src/\<close>):

    \<^item> \<open>CRC_Prelude\<close>, \<open>Json\<close>: Go errors and panics as values, string functions, numerals, and
      the part of \<open>encoding/json\<close> in use. A byte slice is what the decoder sees in it. A nil
      slice and an empty one are one value.
    \<^item> \<open>Models\<close>: \<open>pkg/models/release.go\<close>. A release with its history of states; its JSON form.
    \<^item> \<open>Interfaces\<close>: \<open>pkg/plugins/interfaces\<close>. Status values, messages, deployments; plugins as
      records of functions over a world; contracts of the stores; validator and retry library.
    \<^item> \<open>Workers\<close>, \<open>StateMachine\<close>, \<open>Interleaving\<close>, \<open>WorkerSpecs\<close>:
      \<open>pkg/plugins/statemachine/statemachine.go\<close>. Every goroutine is a program (a tree of the
      calls it makes, over their results); the machine is the event table and the callbacks
      over the \<open>fsm\<close> library; the goroutines of a release run interleaved, as a step relation
      with its reachable states; the programs refine the plans the documentation gives. \<open>Rollout\<close>
      runs the machine together with a strategy, from a request until it rests.
    \<^item> \<open>PluginRun\<close>, \<open>Isolation\<close>, \<open>Deployment\<close>, \<open>Lifecycle\<close>, \<open>Completion\<close>: the same file with the plugins
      behind it. The machine, its goroutines, the releaser, the runtime plugin on Kubernetes, the
      canary strategy, the post deployment test and the webhooks act on one world; its steps are
      steps of the machine, with the replies the plugins give. \<open>ensures\<close> computes what a goroutine
      needs to find for the assertion of the next state to hold, \<open>plugin_rule\<close> lifts it to runs.
    \<^item> \<open>Canary\<close>, \<open>Monitor\<close>, \<open>HttpTest\<close>, \<open>Hooks\<close>: the strategy, the Prometheus monitor, the post
      deployment test and the webhooks (\<open>pkg/plugins/canary\<close>, \<open>prometheus\<close>, \<open>httptest\<close>, \<open>slack\<close>,
      \<open>discord\<close>, \<open>pkg/clients/prometheus.go\<close>).
    \<^item> \<open>ConsulClient\<close>, \<open>Releaser\<close>, \<open>Storage\<close>: \<open>pkg/clients/consul.go\<close> (configuration entries, health,
      key-value store), \<open>pkg/plugins/consul\<close> (the releaser and the stores of releases and of
      plugin states), \<open>pkg/plugins/memory/inmem.go\<close>.
    \<^item> \<open>Runtime\<close>, \<open>Kubernetes\<close>, \<open>Nomad\<close>: \<open>pkg/plugins/runtime/plugin.go\<close> over the contract of a
      runtime client, and the two clients \<open>pkg/clients/kubernetes.go\<close> and \<open>nomad.go\<close>. The
      Kubernetes client meets the contract; the Nomad one does not, and properties say why.
    \<^item> \<open>Provider\<close>: \<open>pkg/plugins/provider.go\<close> and \<open>New\<close> of the state machine. Which plugins a
      release gets; the map of machines by release key.
    \<^item> \<open>Admission\<close>: \<open>pkg/controllers/admission.go\<close> and its callers, the Kubernetes webhook and the
      Nomad event loop. \<open>ReleaseApi\<close>: \<open>pkg/api/handlers/release.go\<close>. \<open>Reconciler\<close>: the
      controller of the release resources and their conversion
      (\<open>pkg/controllers/kubernetes/controllers\<close>, \<open>api/v1/convert.go\<close>). \<open>Startup\<close>: \<open>rehydrateReleases\<close>
      of \<open>pkg/server/release.go\<close> over the Consul store.
    \<^item> \<open>Goroutines\<close>, \<open>Server\<close>: the process around all this (\<open>cmd/main.go\<close>, \<open>pkg/server/release.go\<close>,
      \<open>pkg/api/server.go\<close>, \<open>pkg/plugins/prometheus/metrics.go\<close>, \<open>controller.go\<close> and \<open>nomad.go\<close>
      under \<open>pkg/controllers\<close>). What starts and stops is a pool of goroutines over unbuffered
      channels and the fields they share. \<open>Config\<close>: \<open>pkg/config/config.go\<close>, the settings read
      from the environment. \<open>Clients\<close>: the constructors of \<open>pkg/clients\<close>. \<open>Routes\<close>: the routes \<open>pkg/api/server.go\<close> registers, down to the
      handlers of \<open>ReleaseApi\<close>.
    \<^item> \<open>Memory\<close>, \<open>DeepCopy\<close>: the release resources in memory, with their slices, and the deep
      copies of \<open>zz_generated.deepcopy.go\<close>, through which the cache of the client hands them out.

  How they interact. The controllers and the API get the machine of a release from the
  provider and fire the three external events at it; a machine starts goroutines on entering
  a state, which call the plugins and fire further events; every state entered is recorded
  in the release and written to the store. Plugins keep their state in the store too. Each
  of these uses is a locale over the operations the user calls, interpreted on the model of
  the provider: \<open>state_store_contract\<close>, \<open>release_store_contract\<close>, the runtime client of
  \<open>Runtime\<close>, \<open>webhook_contract\<close>, and \<open>provider_contract\<close> with \<open>controller\<close>. \<open>plugin_world\<close> is the machine with its plugins, for
  which \<open>plugin_rule\<close> holds with the assertions of each request. \<open>deep_copy\<close> is the
  contract of a function that copies a value with all it refers to: slices of, and pointers
  to, values with such a function have one again.

  Code that is not in the repository is a parameter, with what its documentation says of it
  as a named hypothesis, shown to hold for a concrete instance: the Consul API
  (\<open>consul_documented\<close>, \<open>kv_documented\<close>), the Kubernetes API (\<open>kube_documented\<close>), the Nomad
  API, the state machine library (\<open>fsm_documented\<close>), retrying (\<open>retry_documented\<close>), the
  validator (\<open>validator_documented\<close>), that what one platform keeps is touched by no other
  (\<open>plugins_apart\<close>, shown for a cluster beside a mesh), the HTTP router, servers and listeners, clocks (\<open>clock_documented\<close>), regular expressions,
  templates and durations. The world \<open>'w\<close> is what they act on; a panic of the process is a
  value of its own.

  What the groups of lemmas show:

    \<^item> a machine always has a goroutine that will move it on or waits in a rest state, its
      state is the last one of the history, at most fifty states are kept;
    \<^item> left alone it comes to rest, whatever the plugins answer, and where they all answer
      well a deployment is promoted; with the plugins of the code it stops before that only
      where a call of one panics or does not return;
    \<^item> end to end, a completed deployment is all or nothing, for the deployments and for the
      traffic, and a release that was configured, deployed and destroyed leaves the mesh as it
      was and the original deployment in place;
    \<^item> traffic leaves the side to be removed before it is removed; every goroutine follows its
      documented plan, error paths included;
    \<^item> the traffic of the canary stays in bounds, grows by steps, ends, and grows only on checks
      that passed; failures below the threshold are survived;
    \<^item> creating and deleting mesh configuration are inverse and leave foreign entries alone;
    \<^item> releases and plugin states read back what was written, through JSON and the store;
    \<^item> the primary runs what the candidate ran, a destroyed release leaves the original;
    \<^item> a busy release is protected from new deployments and updates, an inactive one starts a
      new machine, a removed one is removed only when its machine is idle;
    \<^item> a part that fails while the process runs ends it with the code one, a shutdown gets
      past the API server, a request reaches the handler its method and path name;
    \<^item> a resource from the cache reads as the cached one and shares no memory with it;
    \<^item> a number of properties state defects: what the code does where a comment, the
      documentation or the purpose says otherwise.

  Bounds and fuel. Loops that end for a reason of their own are total functions (the canary
  loop by its error threshold). Loops that wait for the outside are \<open>partial_function\<close>s
  with an option result, and their return is proved from a clock: the post deployment test,
  and the wait for a destroyed release, which ends after at most 150 sleeps of two seconds,
  its timeout being five minutes. No fuel is used. The
  machine rests after at most \<open>10 * (2 * n + 5)\<close> steps, \<open>n\<close> the executions after which the
  strategy ends by its contract: a goroutine takes at most as many steps as its program is
  deep, and a state starts one goroutine. Go's \<open>int\<close> is 64 bits wide: where a number
  enters through JSON it is range-checked (\<open>int64\<close>), the traffic values of a validated configuration are small, and
  Nomad's job versions are 64-bit words.

  Not modelled: logging (\<open>hclog\<close>, the adapter of \<open>kubernetes/controller.go\<close>) and the null metrics,
  which do nothing; the registration of the types with the library's scheme; mocks and the
  functional tests, which are no part of the controller. In \<open>Server\<close> the
  calls of a part into its libraries end with an error or without one; what a panic inside
  a part does is left out there.
  Goroutines of one release are interleaved in \<open>Interleaving\<close>; a handler of the API or of a
  controller is one sequence of calls, during which the rest of the process stands still
  except where the code sleeps. In \<open>Lifecycle\<close> nobody else changes the deployments or the mesh
  while a request is under way, a call that panics or does not return ends the run, and nothing
  is said of a request that ends in the failed state. That several holders of a release share it through a pointer
  is modelled where the code depends on it, not in general.
\<close>

subsection \<open>A roll-out moves on the measured values only\<close>

text \<open>Where the loop of the strategy ends well, one of its checks reported no error.\<close>

lemma canary_loop_progress:
  "canary_loop env cand d p fc w = ((st, t, e), p1, w1) \<Longrightarrow> st \<in> {StrategyStatusSuccess, StrategyStatusComplete} \<Longrightarrow>
   \<exists>v v1 res. ce_check env cand d v = ((res, None), v1)"
proof (induction env cand d p fc w rule: canary_loop.induct)
  case (1 env cand d p fc w)
  obtain res x w2 where c: "ce_check env cand d (ce_sleep env d w) = ((res, x), w2)" by (metis prod.collapse)
  show ?case
  proof (cases x)
    case None
    with c show ?thesis by blast
  next
    case (Some err)
    with 1 c show ?thesis
      by (cases "cc_error_threshold (c_config p) \<le> fc + 1")
        (simp_all add: canary_loop.simps [of env cand d p fc w] Let_def)
  qed
qed


definition measured_canary :: "unit canary_env" where
  "measured_canary =
     \<lparr>ce_parse = (\<lambda>_. Some 30000000000), ce_sleep = (\<lambda>_ w. w),
      ce_check = monitor_Check (ref_monitor [Number (199 / 2)]) sample_monitor,
      ce_store = \<lparr>ss_upsert = (\<lambda>_ w. (None, w)), ss_get = (\<lambda>w. ((Empty, Some PluginStateNotFound), w))\<rparr>\<rparr>"


end
